(* ===== verification/Prelude.thy ===== *)
theory Prelude
  imports Main "HOL-Library.Word" "HOL-Library.State_Monad"
begin

text \<open>
  What every driver model shares: machine integer types, the kernel's error numbers, and the
  way a driver talks to the code around it.

  A driver's function is a value of \<open>('s, 'a) state\<close>: it reads and writes a state \<open>'s\<close>
  and returns an \<open>'a\<close>. The state of a driver is a record \<open>io\<close> with two parts, the driver's
  own data (\<open>io_dev\<close>) and the list of the calls it has made into the kernel or the hardware so far
  (\<open>io_trace\<close>, oldest first). What such a call answers is not code of this repository: it is an
  argument of the model, a function of the calls made before it and of the call itself, so a
  theorem that holds for every such function holds for every behaviour of the surroundings,
  one that changes over time included.
\<close>

unbundle bit_operations_syntax

section \<open>Machine integers and error numbers\<close>

type_synonym u8 = "8 word"
type_synonym u16 = "16 word"
type_synonym u32 = "32 word"
type_synonym u64 = "64 word"

abbreviation EIO :: int where "EIO \<equiv> 5"
abbreviation EAGAIN :: int where "EAGAIN \<equiv> 11"
abbreviation ENOMEM :: int where "ENOMEM \<equiv> 12"
abbreviation EBUSY :: int where "EBUSY \<equiv> 16"
abbreviation EEXIST :: int where "EEXIST \<equiv> 17"
abbreviation ENODEV :: int where "ENODEV \<equiv> 19"
abbreviation EINVAL :: int where "EINVAL \<equiv> 22"
abbreviation ETIMEDOUT :: int where "ETIMEDOUT \<equiv> 110"
abbreviation EALREADY :: int where "EALREADY \<equiv> 114"
abbreviation EPROBE_DEFER :: int where "EPROBE_DEFER \<equiv> 517"
abbreviation ENOTSUPP :: int where "ENOTSUPP \<equiv> 524"

text \<open>\<open>BIT(n)\<close> on 32 bits, and the value a masked register update leaves.\<close>

definition BIT :: "nat \<Rightarrow> u32" where
  "BIT n = push_bit n 1"

definition masked :: "'w::len word \<Rightarrow> 'w word \<Rightarrow> 'w word \<Rightarrow> 'w word" where
  "masked m val old = (old AND NOT m) OR (val AND m)"

section \<open>State, calls and weakest preconditions\<close>

record ('e, 'd) io =
  io_trace :: "'e list"
  io_dev :: 'd

named_theorems wp_simps \<open>weakest preconditions of the monad's operations\<close>

abbreviation ret :: "'a \<Rightarrow> ('s, 'a) state" where
  "ret \<equiv> State_Monad.return"

text \<open>A call with an answer, a call whose answer is not used, and access to the driver's data.\<close>

definition call :: "('e list \<Rightarrow> 'e \<Rightarrow> 'r) \<Rightarrow> 'e \<Rightarrow> (('e, 'd) io, 'r) state" where
  "call answer e = State (\<lambda>s. (answer (io_trace s) e, s\<lparr>io_trace := io_trace s @ [e]\<rparr>))"

definition emit :: "'e \<Rightarrow> (('e, 'd) io, unit) state" where
  "emit e = State (\<lambda>s. ((), s\<lparr>io_trace := io_trace s @ [e]\<rparr>))"

definition gets :: "('d \<Rightarrow> 'a) \<Rightarrow> (('e, 'd) io, 'a) state" where
  "gets f = State (\<lambda>s. (f (io_dev s), s))"

definition modify :: "('d \<Rightarrow> 'd) \<Rightarrow> (('e, 'd) io, unit) state" where
  "modify f = State (\<lambda>s. ((), s\<lparr>io_dev := f (io_dev s)\<rparr>))"

definition whenM :: "bool \<Rightarrow> ('s, unit) state \<Rightarrow> ('s, unit) state" where
  "whenM b m = (if b then m else ret ())"

fun iterM :: "('a \<Rightarrow> ('s, unit) state) \<Rightarrow> 'a list \<Rightarrow> ('s, unit) state" where
  "iterM f [] = ret ()"
| "iterM f (x # xs) = State_Monad.bind (f x) (\<lambda>_. iterM f xs)"

text \<open>
  \<open>wp m Q s\<close>: running \<open>m\<close> from \<open>s\<close> ends with a result and a state that satisfy \<open>Q\<close>. Every
  operation is total, so this is total correctness.
\<close>

definition wp :: "('s, 'a) state \<Rightarrow> ('a \<Rightarrow> 's \<Rightarrow> bool) \<Rightarrow> 's \<Rightarrow> bool" where
  "wp m Q s = (case run_state m s of (a, s') \<Rightarrow> Q a s')"

lemma run_state_call [simp]:
  "run_state (call answer e) s = (answer (io_trace s) e, s\<lparr>io_trace := io_trace s @ [e]\<rparr>)"
  by (simp add: call_def)

lemma run_state_emit [simp]:
  "run_state (emit e) s = ((), s\<lparr>io_trace := io_trace s @ [e]\<rparr>)"
  by (simp add: emit_def)

lemma run_state_gets [simp]: "run_state (gets f) s = (f (io_dev s), s)"
  by (simp add: gets_def)

lemma run_state_modify [simp]:
  "run_state (modify f) s = ((), s\<lparr>io_dev := f (io_dev s)\<rparr>)"
  by (simp add: modify_def)

lemma wp_return [wp_simps]: "wp (ret x) Q = Q x"
  by (simp add: wp_def fun_eq_iff)

lemma wp_bind [wp_simps]: "wp (State_Monad.bind m f) Q = wp m (\<lambda>a. wp (f a) Q)"
  by (simp add: wp_def fun_eq_iff split: prod.splits)

lemma wp_call [wp_simps]:
  "wp (call answer e) Q s = Q (answer (io_trace s) e) (s\<lparr>io_trace := io_trace s @ [e]\<rparr>)"
  by (simp add: wp_def)

lemma wp_emit [wp_simps]: "wp (emit e) Q s = Q () (s\<lparr>io_trace := io_trace s @ [e]\<rparr>)"
  by (simp add: wp_def)

lemma wp_gets [wp_simps]: "wp (gets f) Q s = Q (f (io_dev s)) s"
  by (simp add: wp_def)

lemma wp_modify [wp_simps]: "wp (modify f) Q s = Q () (s\<lparr>io_dev := f (io_dev s)\<rparr>)"
  by (simp add: wp_def)

lemma wp_if [wp_simps]: "wp (if b then m else n) Q s = (if b then wp m Q s else wp n Q s)"
  by simp

lemma wp_whenM [wp_simps]: "wp (whenM b m) Q s = (if b then wp m Q s else Q () s)"
  by (simp add: whenM_def wp_simps)

lemma wp_mono: "wp m Q s \<Longrightarrow> (\<And>a s'. Q a s' \<Longrightarrow> R a s') \<Longrightarrow> wp m R s"
  by (auto simp: wp_def split: prod.splits)

lemma wp_conj: "wp m Q s \<Longrightarrow> wp m R s \<Longrightarrow> wp m (\<lambda>a s'. Q a s' \<and> R a s') s"
  by (auto simp: wp_def split: prod.splits)

lemma wp_run: "wp m Q s \<Longrightarrow> run_state m s = (a, s') \<Longrightarrow> Q a s'"
  by (simp add: wp_def)

lemma wp_runE:
  assumes "wp m Q s"
  obtains a s' where "run_state m s = (a, s')" "Q a s'"
  using assms by (cases "run_state m s") (auto simp: wp_def)

lemma wp_bindI: "wp m (\<lambda>a. wp (f a) Q) s \<Longrightarrow> wp (State_Monad.bind m f) Q s"
  by (simp add: wp_simps)

lemma wp_iterM:
  assumes "Inv s" and "\<And>x s. x \<in> set xs \<Longrightarrow> Inv s \<Longrightarrow> wp (f x) (\<lambda>_. Inv) s"
  shows "wp (iterM f xs) (\<lambda>_. Inv) s"
  using assms
proof (induction xs arbitrary: s)
  case Nil
  then show ?case by (simp add: wp_simps)
next
  case (Cons x xs)
  have "wp (f x) (\<lambda>_. Inv) s" using Cons.prems by simp
  then have "wp (f x) (\<lambda>_. wp (iterM f xs) (\<lambda>_. Inv)) s"
    by (rule wp_mono) (use Cons in auto)
  then show ?case by (simp add: wp_simps)
qed

lemma wp_iterM_emit:
  "wp (iterM (\<lambda>x. emit (f x)) xs) Q s = Q () (s\<lparr>io_trace := io_trace s @ map f xs\<rparr>)"
  by (induction xs arbitrary: s) (simp_all add: wp_simps)

text \<open>\<open>kept G m\<close>: running \<open>m\<close> keeps \<open>G\<close>, whatever it returns.\<close>

definition kept :: "('s \<Rightarrow> bool) \<Rightarrow> ('s, 'a) state \<Rightarrow> bool" where
  "kept G m \<longleftrightarrow> (\<forall>s. G s \<longrightarrow> wp m (\<lambda>_. G) s)"

named_theorems kept_rules \<open>rules that show an operation keeps a predicate\<close>

lemma keptI: "(\<And>s. G s \<Longrightarrow> wp m (\<lambda>_. G) s) \<Longrightarrow> kept G m"
  by (simp add: kept_def)

lemma keptD: "kept G m \<Longrightarrow> G s \<Longrightarrow> wp m (\<lambda>_. G) s"
  by (simp add: kept_def)

lemma kept_wp: "kept G m \<Longrightarrow> G s \<Longrightarrow> (\<And>a t. G t \<Longrightarrow> Q a t) \<Longrightarrow> wp m Q s"
  by (rule wp_mono [OF keptD])

lemma kept_return [kept_rules]: "kept G (ret x)"
  by (simp add: kept_def wp_simps)

lemma kept_bind [kept_rules]:
  assumes "kept G m" "\<And>a. kept G (f a)"
  shows "kept G (State_Monad.bind m f)"
proof (rule keptI)
  fix s
  assume "G s"
  then show "wp (State_Monad.bind m f) (\<lambda>_. G) s"
    unfolding wp_bind by (rule wp_mono [OF keptD [OF assms(1)]]) (rule keptD [OF assms(2)])
qed

lemma kept_if [kept_rules]: "(b \<Longrightarrow> kept G m) \<Longrightarrow> (\<not> b \<Longrightarrow> kept G n) \<Longrightarrow> kept G (if b then m else n)"
  by simp

lemma kept_whenM [kept_rules]: "(b \<Longrightarrow> kept G m) \<Longrightarrow> kept G (whenM b m)"
  by (simp add: whenM_def kept_return)

lemma kept_option [kept_rules]:
  "(p = None \<Longrightarrow> kept G m) \<Longrightarrow> (\<And>x. p = Some x \<Longrightarrow> kept G (f x)) \<Longrightarrow>
     kept G (case p of None \<Rightarrow> m | Some x \<Rightarrow> f x)"
  by (cases p) auto

lemma kept_iterM: "(\<And>x. x \<in> set xs \<Longrightarrow> kept G (f x)) \<Longrightarrow> kept G (iterM f xs)"
  by (induction xs) (auto intro: kept_return kept_bind)

section \<open>Words\<close>

lemma masked_zero [simp]: "masked 0 v r = r"
  by (simp add: masked_def)

lemma masked_full [simp]: "masked (NOT 0) v r = v"
  by (simp add: masked_def)

lemma masked_idem: "masked m v (masked m v r) = masked m v r"
  unfolding masked_def by (rule bit_eqI) (auto simp: bit_simps)

lemma masked_bit:
  "bit (masked m v r) n = (if bit m n then bit v n else bit r n)"
  by (auto simp: masked_def bit_simps dest: bit_imp_le_length)

lemma masked_and_mask: "masked m v r AND m = v AND m"
  by (rule bit_eqI) (auto simp: bit_simps masked_bit)

lemma u32_less: "unat (w :: u32) < 4294967296"
  by (rule unsigned_less [where 'a = nat, THEN less_le_trans]) simp

lemma u16_less: "unat (w :: u16) < 65536"
  by (rule unsigned_less [where 'a = nat, THEN less_le_trans]) simp

lemma u8_less: "unat (w :: u8) < 256"
  by (rule unsigned_less [where 'a = nat, THEN less_le_trans]) simp

lemma replicate_2: "replicate 2 x = [x, x]"
  by (simp add: numeral_2_eq_2)

end
