(* ===== verification/Touch_Config.thy ===== *)
theory Touch_Config
  imports Prelude
begin

text \<open>
  The configuration of the touch screen, \<^verbatim>\<open>drivers/touch/include/linux/input/max1187x.h\<close>: how the driver
  reads it from the device tree and what it checks. The device tree is an argument; the node of the
  phone's own tree is \<open>sirius_node\<close>.
\<close>

section \<open>Configuration\<close>

abbreviation ENXIO :: int where "ENXIO \<equiv> 6"

definition MXM_LCD_X_MIN :: u32 where "MXM_LCD_X_MIN = 480"
definition MXM_LCD_Y_MIN :: u32 where "MXM_LCD_Y_MIN = 240"
definition MXM_LCD_SIZE_MAX :: u32 where "MXM_LCD_SIZE_MAX = 0x7FFF"
definition MXM_NUM_SENSOR_MAX :: u32 where "MXM_NUM_SENSOR_MAX = 40"

text \<open>The fields \<^verbatim>\<open>button_code0\<close> to \<^verbatim>\<open>button_code3\<close> are a list of four.\<close>

record max1187x_pdata =
  tp_vdd_supply_name :: string
  tp_gpio_tirq :: u32
  tp_gpio_reset :: u32
  tp_reset_l2h :: u32
  tp_enable_resume_por :: u32
  tp_defaults_allow :: u32
  tp_default_config_id :: u32
  tp_default_chip_id :: u32
  tp_fw_name :: string
  tp_i2c_words :: u32
  tp_coordinate_settings :: u32
  tp_panel_margin_xl :: u32
  tp_lcd_x :: u32
  tp_panel_margin_xh :: u32
  tp_panel_margin_yl :: u32
  tp_lcd_y :: u32
  tp_panel_margin_yh :: u32
  tp_num_sensor_x :: u32
  tp_num_sensor_y :: u32
  tp_button_code :: "u32 list"
  tp_pressure_enabled :: u32
  tp_size_enabled :: u32
  tp_orientation_enabled :: u32
  tp_glove_enabled :: u32
  tp_report_pen_as_finger :: u32
  tp_wakeup_gesture_support :: u32
  tp_wakeup_gesture_timeout :: u32

definition validate_pdata :: "max1187x_pdata option \<Rightarrow> int" where
  "validate_pdata p =
     (case p of
        None \<Rightarrow> - ENXIO
      | Some pd \<Rightarrow>
          if tp_gpio_tirq pd = 0 then - ENXIO
          else if tp_lcd_x pd < MXM_LCD_X_MIN \<or> tp_lcd_x pd > MXM_LCD_SIZE_MAX then - ENXIO
          else if tp_lcd_y pd < MXM_LCD_Y_MIN \<or> tp_lcd_y pd > MXM_LCD_SIZE_MAX then - ENXIO
          else if tp_num_sensor_x pd = 0 \<or> tp_num_sensor_x pd > MXM_NUM_SENSOR_MAX then - ENXIO
          else if tp_num_sensor_y pd = 0 \<or> tp_num_sensor_y pd > MXM_NUM_SENSOR_MAX then - ENXIO
          else 0)"

section \<open>The device tree\<close>

text \<open>What the device tree's accessors answer: the value of a property, if it is there, and the number
  of a GPIO or a negative error.\<close>

record dt_node =
  dn_string :: "string \<Rightarrow> string option"
  dn_u32 :: "string \<Rightarrow> u32 option"
  dn_gpio :: "string \<Rightarrow> int"

definition pdata_zero :: max1187x_pdata where
  "pdata_zero = \<lparr>tp_vdd_supply_name = [], tp_gpio_tirq = 0, tp_gpio_reset = 0, tp_reset_l2h = 0,
     tp_enable_resume_por = 0, tp_defaults_allow = 0, tp_default_config_id = 0,
     tp_default_chip_id = 0, tp_fw_name = [], tp_i2c_words = 0, tp_coordinate_settings = 0,
     tp_panel_margin_xl = 0, tp_lcd_x = 0, tp_panel_margin_xh = 0, tp_panel_margin_yl = 0,
     tp_lcd_y = 0, tp_panel_margin_yh = 0, tp_num_sensor_x = 0, tp_num_sensor_y = 0,
     tp_button_code = [0, 0, 0, 0], tp_pressure_enabled = 0, tp_size_enabled = 0,
     tp_orientation_enabled = 0, tp_glove_enabled = 0, tp_report_pen_as_finger = 0,
     tp_wakeup_gesture_support = 0, tp_wakeup_gesture_timeout = 0\<rparr>"

text \<open>A property that must be there, and one that keeps the field as it is when missing.\<close>

definition required :: "'v option \<Rightarrow> ('v \<Rightarrow> 'p \<Rightarrow> 'p) \<Rightarrow> 'p \<Rightarrow> 'p option" where
  "required v upd pd = map_option (\<lambda>x. upd x pd) v"

definition optional :: "'v option \<Rightarrow> ('v \<Rightarrow> 'p \<Rightarrow> 'p) \<Rightarrow> 'p \<Rightarrow> 'p" where
  "optional v upd pd = (case v of None \<Rightarrow> pd | Some x \<Rightarrow> upd x pd)"

definition parse_chip :: "dt_node \<Rightarrow> max1187x_pdata \<Rightarrow> max1187x_pdata option" where
  "parse_chip n pd = do {
     pd \<leftarrow> required (dn_string n ''touch_vdd-supply_name'') (\<lambda>v. tp_vdd_supply_name_update (\<lambda>_. v)) pd;
     let pd = pd\<lparr>tp_gpio_tirq := word_of_int (dn_gpio n ''tirq-gpio'')\<rparr>;
     let pd = pd\<lparr>tp_gpio_reset := word_of_int (dn_gpio n ''reset-gpio'')\<rparr>;
     let pd = optional (dn_u32 n ''reset_l2h'') (\<lambda>v. tp_reset_l2h_update (\<lambda>_. v)) pd;
     let pd = optional (dn_u32 n ''enable_resume_por'') (\<lambda>v. tp_enable_resume_por_update (\<lambda>_. v)) pd;
     pd \<leftarrow> required (dn_u32 n ''defaults_allow'') (\<lambda>v. tp_defaults_allow_update (\<lambda>_. v)) pd;
     pd \<leftarrow> required (dn_u32 n ''default_config_id'') (\<lambda>v. tp_default_config_id_update (\<lambda>_. v)) pd;
     pd \<leftarrow> required (dn_u32 n ''default_chip_id'') (\<lambda>v. tp_default_chip_id_update (\<lambda>_. v)) pd;
     required (dn_string n ''fw_name'') (\<lambda>v. tp_fw_name_update (\<lambda>_. v)) pd
   }"

definition parse_panel :: "dt_node \<Rightarrow> max1187x_pdata \<Rightarrow> max1187x_pdata option" where
  "parse_panel n pd = do {
     pd \<leftarrow> required (dn_u32 n ''i2c_words'') (\<lambda>v. tp_i2c_words_update (\<lambda>_. v)) pd;
     pd \<leftarrow> required (dn_u32 n ''coordinate_settings'') (\<lambda>v. tp_coordinate_settings_update (\<lambda>_. v)) pd;
     pd \<leftarrow> required (dn_u32 n ''panel_margin_xl'') (\<lambda>v. tp_panel_margin_xl_update (\<lambda>_. v)) pd;
     pd \<leftarrow> required (dn_u32 n ''lcd_x'') (\<lambda>v. tp_lcd_x_update (\<lambda>_. v)) pd;
     pd \<leftarrow> required (dn_u32 n ''panel_margin_xh'') (\<lambda>v. tp_panel_margin_xh_update (\<lambda>_. v)) pd;
     pd \<leftarrow> required (dn_u32 n ''panel_margin_yl'') (\<lambda>v. tp_panel_margin_yl_update (\<lambda>_. v)) pd;
     pd \<leftarrow> required (dn_u32 n ''lcd_y'') (\<lambda>v. tp_lcd_y_update (\<lambda>_. v)) pd;
     pd \<leftarrow> required (dn_u32 n ''panel_margin_yh'') (\<lambda>v. tp_panel_margin_yh_update (\<lambda>_. v)) pd;
     pd \<leftarrow> required (dn_u32 n ''num_sensor_x'') (\<lambda>v. tp_num_sensor_x_update (\<lambda>_. v)) pd;
     required (dn_u32 n ''num_sensor_y'') (\<lambda>v. tp_num_sensor_y_update (\<lambda>_. v)) pd
   }"

definition parse_reports :: "dt_node \<Rightarrow> max1187x_pdata \<Rightarrow> max1187x_pdata option" where
  "parse_reports n pd = do {
     pd \<leftarrow> required (dn_u32 n ''button_code0'') (\<lambda>v. tp_button_code_update (\<lambda>l. l[0 := v])) pd;
     pd \<leftarrow> required (dn_u32 n ''button_code1'') (\<lambda>v. tp_button_code_update (\<lambda>l. l[1 := v])) pd;
     pd \<leftarrow> required (dn_u32 n ''button_code2'') (\<lambda>v. tp_button_code_update (\<lambda>l. l[2 := v])) pd;
     pd \<leftarrow> required (dn_u32 n ''button_code3'') (\<lambda>v. tp_button_code_update (\<lambda>l. l[3 := v])) pd;
     pd \<leftarrow> required (dn_u32 n ''touch_pressure_enabled'') (\<lambda>v. tp_pressure_enabled_update (\<lambda>_. v)) pd;
     pd \<leftarrow> required (dn_u32 n ''touch_size_enabled'') (\<lambda>v. tp_size_enabled_update (\<lambda>_. v)) pd;
     pd \<leftarrow> required (dn_u32 n ''touch_orientation_enabled'') (\<lambda>v. tp_orientation_enabled_update (\<lambda>_. v)) pd;
     let pd = optional (dn_u32 n ''glove_enabled'') (\<lambda>v. tp_glove_enabled_update (\<lambda>_. v)) pd;
     let pd = optional (dn_u32 n ''report_pen_as_finger'') (\<lambda>v. tp_report_pen_as_finger_update (\<lambda>_. v)) pd;
     let pd = optional (dn_u32 n ''wakeup_gesture_support'') (\<lambda>v. tp_wakeup_gesture_support_update (\<lambda>_. v)) pd;
     let pd = optional (dn_u32 n ''wakeup_gesture_timeout'') (\<lambda>v. tp_wakeup_gesture_timeout_update (\<lambda>_. v)) pd;
     Some pd
   }"

text \<open>Without a node, without memory, or with a missing property there is no configuration.\<close>

definition max1187x_get_platdata_dt :: "dt_node option \<Rightarrow> bool \<Rightarrow> max1187x_pdata option" where
  "max1187x_get_platdata_dt devnode alloc =
     (case devnode of
        None \<Rightarrow> None
      | Some n \<Rightarrow>
          if \<not> alloc then None
          else do {
            pd \<leftarrow> parse_chip n pdata_zero;
            pd \<leftarrow> parse_panel n pd;
            parse_reports n pd
          })"

text \<open>The node of the phone's device tree. The kernel numbers the GPIOs of the first controller from \<open>base\<close>.\<close>

definition sirius_node :: "int \<Rightarrow> dt_node" where
  "sirius_node base = \<lparr>
     dn_string = map_of [(''touch_vdd-supply_name'', ''vdd''),
       (''fw_name'', ''touch_chip_id_0x%02x_config_id_0x%%04x.bin'')],
     dn_u32 = map_of [(''reset_l2h'', 1), (''enable_resume_por'', 1), (''defaults_allow'', 0),
       (''default_config_id'', 0), (''default_chip_id'', 0), (''i2c_words'', 128),
       (''coordinate_settings'', 0x4), (''lcd_x'', 1080), (''lcd_y'', 1920),
       (''num_sensor_x'', 20), (''num_sensor_y'', 34), (''panel_margin_xl'', 0),
       (''panel_margin_xh'', 0), (''panel_margin_yl'', 0), (''panel_margin_yh'', 0),
       (''button_code0'', 0), (''button_code1'', 0), (''button_code2'', 0),
       (''button_code3'', 0), (''touch_pressure_enabled'', 1),
       (''touch_size_enabled'', 0), (''touch_orientation_enabled'', 0),
       (''glove_enabled'', 0), (''report_pen_as_finger'', 1),
       (''wakeup_gesture_support'', 1), (''wakeup_gesture_timeout'', 2000)],
     dn_gpio = (\<lambda>n. if n = ''tirq-gpio'' then base + 86 else if n = ''reset-gpio'' then base + 85 else - 2)\<rparr>"

section \<open>What is read\<close>

definition or_zero :: "'v::zero option \<Rightarrow> 'v" where
  "or_zero v = (case v of None \<Rightarrow> 0 | Some x \<Rightarrow> x)"

lemma optional_fields:
  "tp_reset_l2h pd = 0 \<Longrightarrow> optional v (\<lambda>v. tp_reset_l2h_update (\<lambda>_. v)) pd = pd\<lparr>tp_reset_l2h := or_zero v\<rparr>"
  "tp_enable_resume_por pd = 0 \<Longrightarrow> optional v (\<lambda>v. tp_enable_resume_por_update (\<lambda>_. v)) pd = pd\<lparr>tp_enable_resume_por := or_zero v\<rparr>"
  "tp_glove_enabled pd = 0 \<Longrightarrow> optional v (\<lambda>v. tp_glove_enabled_update (\<lambda>_. v)) pd = pd\<lparr>tp_glove_enabled := or_zero v\<rparr>"
  "tp_report_pen_as_finger pd = 0 \<Longrightarrow> optional v (\<lambda>v. tp_report_pen_as_finger_update (\<lambda>_. v)) pd = pd\<lparr>tp_report_pen_as_finger := or_zero v\<rparr>"
  "tp_wakeup_gesture_support pd = 0 \<Longrightarrow> optional v (\<lambda>v. tp_wakeup_gesture_support_update (\<lambda>_. v)) pd = pd\<lparr>tp_wakeup_gesture_support := or_zero v\<rparr>"
  "tp_wakeup_gesture_timeout pd = 0 \<Longrightarrow> optional v (\<lambda>v. tp_wakeup_gesture_timeout_update (\<lambda>_. v)) pd = pd\<lparr>tp_wakeup_gesture_timeout := or_zero v\<rparr>"
  by (cases v; simp add: optional_def or_zero_def)+

definition required_numbers :: "string list" where
  "required_numbers = [''defaults_allow'', ''default_config_id'', ''default_chip_id'', ''i2c_words'',
     ''coordinate_settings'', ''panel_margin_xl'', ''lcd_x'', ''panel_margin_xh'', ''panel_margin_yl'',
     ''lcd_y'', ''panel_margin_yh'', ''num_sensor_x'', ''num_sensor_y'', ''button_code0'',
     ''button_code1'', ''button_code2'', ''button_code3'', ''touch_pressure_enabled'',
     ''touch_size_enabled'', ''touch_orientation_enabled'']"

definition pdata_of :: "dt_node \<Rightarrow> max1187x_pdata" where
  "pdata_of n = (let v = (\<lambda>k. or_zero (dn_u32 n k)) in
     \<lparr>tp_vdd_supply_name = the (dn_string n ''touch_vdd-supply_name''),
      tp_gpio_tirq = word_of_int (dn_gpio n ''tirq-gpio''),
      tp_gpio_reset = word_of_int (dn_gpio n ''reset-gpio''), tp_reset_l2h = v ''reset_l2h'',
      tp_enable_resume_por = v ''enable_resume_por'', tp_defaults_allow = v ''defaults_allow'',
      tp_default_config_id = v ''default_config_id'', tp_default_chip_id = v ''default_chip_id'',
      tp_fw_name = the (dn_string n ''fw_name''), tp_i2c_words = v ''i2c_words'',
      tp_coordinate_settings = v ''coordinate_settings'', tp_panel_margin_xl = v ''panel_margin_xl'',
      tp_lcd_x = v ''lcd_x'', tp_panel_margin_xh = v ''panel_margin_xh'',
      tp_panel_margin_yl = v ''panel_margin_yl'', tp_lcd_y = v ''lcd_y'',
      tp_panel_margin_yh = v ''panel_margin_yh'', tp_num_sensor_x = v ''num_sensor_x'',
      tp_num_sensor_y = v ''num_sensor_y'',
      tp_button_code = [v ''button_code0'', v ''button_code1'', v ''button_code2'', v ''button_code3''],
      tp_pressure_enabled = v ''touch_pressure_enabled'', tp_size_enabled = v ''touch_size_enabled'',
      tp_orientation_enabled = v ''touch_orientation_enabled'', tp_glove_enabled = v ''glove_enabled'',
      tp_report_pen_as_finger = v ''report_pen_as_finger'',
      tp_wakeup_gesture_support = v ''wakeup_gesture_support'',
      tp_wakeup_gesture_timeout = v ''wakeup_gesture_timeout''\<rparr>)"

lemma required_None: "required v upd pd = None \<longleftrightarrow> v = None"
  by (simp add: required_def)

lemma parse_None:
  "parse_chip n pd = None \<longleftrightarrow> \<not> (dn_string n ''touch_vdd-supply_name'' \<noteq> None \<and> dn_string n ''fw_name'' \<noteq> None
     \<and> list_all (\<lambda>k. dn_u32 n k \<noteq> None) (take 3 required_numbers))"
  "parse_panel n pd = None \<longleftrightarrow> \<not> list_all (\<lambda>k. dn_u32 n k \<noteq> None) (take 10 (drop 3 required_numbers))"
  "parse_reports n pd = None \<longleftrightarrow> \<not> list_all (\<lambda>k. dn_u32 n k \<noteq> None) (drop 13 required_numbers)"
  by (simp_all add: parse_chip_def parse_panel_def parse_reports_def Let_def bind_eq_None_conv required_None disj_ac
      required_numbers_def)

lemma config_read:
  "max1187x_get_platdata_dt (Some n) alloc =
     (if alloc \<and> dn_string n ''touch_vdd-supply_name'' \<noteq> None \<and> dn_string n ''fw_name'' \<noteq> None
         \<and> list_all (\<lambda>k. dn_u32 n k \<noteq> None) required_numbers
      then Some (pdata_of n) else None)"
proof (cases "dn_string n ''touch_vdd-supply_name'' \<noteq> None \<and> dn_string n ''fw_name'' \<noteq> None
         \<and> list_all (\<lambda>k. dn_u32 n k \<noteq> None) required_numbers")
  case True
  then obtain a b where strings: "dn_string n ''touch_vdd-supply_name'' = Some a"
      "dn_string n ''fw_name'' = Some b"
    by auto
  define f where "f k = or_zero (dn_u32 n k)" for k
  have "\<forall>k \<in> set required_numbers. dn_u32 n k = Some (f k)"
    using True by (auto simp: list_all_iff f_def or_zero_def split: option.split)
  note numbers = this [unfolded required_numbers_def, simplified]
  show ?thesis
    using True
    by (simp add: max1187x_get_platdata_dt_def parse_chip_def parse_panel_def parse_reports_def Let_def
        strings numbers required_def optional_fields pdata_zero_def)
      (simp add: pdata_of_def Let_def strings numbers or_zero_def)
next
  case False
  then show ?thesis
    by (auto simp: max1187x_get_platdata_dt_def bind_eq_None_conv parse_None required_numbers_def)
qed

text \<open>
  The configuration is read completely or not at all. From a device tree node the driver gets a
  configuration exactly when the two names and the twenty required numbers are there; each field then has
  the value of its property, a missing optional property leaves 0.
\<close>

theorem touch_config_complete:
  "max1187x_get_platdata_dt (Some n) alloc =
     (if alloc \<and> dn_string n ''touch_vdd-supply_name'' \<noteq> None \<and> dn_string n ''fw_name'' \<noteq> None
         \<and> list_all (\<lambda>k. dn_u32 n k \<noteq> None) required_numbers
      then Some (pdata_of n) else None)"
  by (rule config_read)

text \<open>The configuration of the phone, with GPIOs numbered from 0.\<close>

definition sirius_pdata :: max1187x_pdata where
  "sirius_pdata = pdata_of (sirius_node 0)"

lemma sirius_pdata:
  "sirius_pdata = \<lparr>tp_vdd_supply_name = ''vdd'', tp_gpio_tirq = 86, tp_gpio_reset = 85,
     tp_reset_l2h = 1, tp_enable_resume_por = 1, tp_defaults_allow = 0, tp_default_config_id = 0,
     tp_default_chip_id = 0, tp_fw_name = ''touch_chip_id_0x%02x_config_id_0x%%04x.bin'',
     tp_i2c_words = 128, tp_coordinate_settings = 4, tp_panel_margin_xl = 0, tp_lcd_x = 1080,
     tp_panel_margin_xh = 0, tp_panel_margin_yl = 0, tp_lcd_y = 1920, tp_panel_margin_yh = 0,
     tp_num_sensor_x = 20, tp_num_sensor_y = 34, tp_button_code = [0, 0, 0, 0],
     tp_pressure_enabled = 1, tp_size_enabled = 0, tp_orientation_enabled = 0,
     tp_glove_enabled = 0, tp_report_pen_as_finger = 1, tp_wakeup_gesture_support = 1,
     tp_wakeup_gesture_timeout = 2000\<rparr>"
  by (simp add: sirius_pdata_def pdata_of_def sirius_node_def or_zero_def)

lemma sirius_config: "max1187x_get_platdata_dt (Some (sirius_node 0)) True = Some sirius_pdata"
  using config_read [of "sirius_node 0" True]
  by (simp add: sirius_pdata_def sirius_node_def required_numbers_def)

lemma sirius_valid: "validate_pdata (Some sirius_pdata) = 0"
  by (simp add: validate_pdata_def sirius_pdata MXM_LCD_X_MIN_def MXM_LCD_Y_MIN_def
      MXM_LCD_SIZE_MAX_def MXM_NUM_SENSOR_MAX_def)

text \<open>A GPIO that the device tree does not give passes the check: its error, negative, is a number not 0.\<close>

lemma missing_gpio_accepted:
  "validate_pdata (Some (pdata_of ((sirius_node 0)\<lparr>dn_gpio := (\<lambda>_. - 2)\<rparr>))) = 0"
  by (simp add: validate_pdata_def pdata_of_def sirius_node_def or_zero_def MXM_LCD_X_MIN_def
      MXM_LCD_Y_MIN_def MXM_LCD_SIZE_MAX_def MXM_NUM_SENSOR_MAX_def)

end
