(* ===== verification/Touch_Dev.thy ===== *)
theory Touch_Dev
  imports Touch_Config
begin

text \<open>
  \<^verbatim>\<open>drivers/touch/max1187x.c\<close>, the touch screen: the driver's data, its environment, and the transfers
  on the I2C bus: packets of reports (\<open>read_mtp_report\<close>) and commands (\<open>send_mtp_command\<close>). The
  buffers are lists of bytes, as the bus fills them on this little endian machine; a write or a read
  outside of a buffer sets the fault flag. A transfer that the bus answers with \<open>-EAGAIN\<close>
  is repeated; how often is the environment's choice (\<open>me_again\<close>).
\<close>

section \<open>Constants\<close>

definition MXM_CMD_LEN_PACKET_MAX :: nat where "MXM_CMD_LEN_PACKET_MAX = 9"
definition MXM_CMD_LEN_MAX :: nat where "MXM_CMD_LEN_MAX = 15 * MXM_CMD_LEN_PACKET_MAX"
definition MXM_CMD_LEN_PACKET_MIN :: nat where "MXM_CMD_LEN_PACKET_MIN = 2"
definition MXM_CMD_ID_AND_SIZE_LEN :: nat where "MXM_CMD_ID_AND_SIZE_LEN = 2"
definition MXM_CMD_ADD_AND_HDR_LEN :: nat where "MXM_CMD_ADD_AND_HDR_LEN = 2"
definition MXM_RPT_LEN_PACKET_MAX :: nat where "MXM_RPT_LEN_PACKET_MAX = 245"
definition MXM_RPT_LEN_MAX :: nat where "MXM_RPT_LEN_MAX = 1000"
definition MXM_RPT_PKT_HDR_LEN :: nat where "MXM_RPT_PKT_HDR_LEN = 1"
definition MXM_RPT_MAX_WORDS_PER_PKT :: nat where "MXM_RPT_MAX_WORDS_PER_PKT = 0xF4"
definition MXM_ONE_PACKET_RPT :: u16 where "MXM_ONE_PACKET_RPT = 0x11"
definition MXM_TOUCH_REPORT_MODE_EXT :: u16 where "MXM_TOUCH_REPORT_MODE_EXT = 0x02"
definition MXM_BYTES_LEN_IN_WORDS :: nat where "MXM_BYTES_LEN_IN_WORDS = 2"

definition MXM_CMD_START_ADDR :: u16 where "MXM_CMD_START_ADDR = 0x0000"
definition MXM_RPT_START_ADDR :: u16 where "MXM_RPT_START_ADDR = 0x000A"
definition MXM_ZERO_SIZE_CMD :: u16 where "MXM_ZERO_SIZE_CMD = 0x0000"
definition MXM_ONE_SIZE_CMD :: u16 where "MXM_ONE_SIZE_CMD = 0x0001"
definition MXM_CMD_ID_GET_CFG_INF :: u16 where "MXM_CMD_ID_GET_CFG_INF = 0x0002"
definition MXM_CMD_ID_SET_TOUCH_RPT_MODE :: u16 where "MXM_CMD_ID_SET_TOUCH_RPT_MODE = 0x0018"
definition MXM_CMD_ID_SET_POWER_MODE :: u16 where "MXM_CMD_ID_SET_POWER_MODE = 0x0020"
definition MXM_CMD_ID_GET_FW_VERSION :: u16 where "MXM_CMD_ID_GET_FW_VERSION = 0x0040"
definition MXM_CMD_ID_SET_GLOVE_MODE :: u16 where "MXM_CMD_ID_SET_GLOVE_MODE = 0x0083"
definition MXM_CMD_ID_RESET_SYSTEM :: u16 where "MXM_CMD_ID_RESET_SYSTEM = 0x00E9"
definition MXM_ACTIVE_MODE :: u16 where "MXM_ACTIVE_MODE = 0x0002"
definition MXM_DRIVE_MODE :: u16 where "MXM_DRIVE_MODE = 0x0004"
definition MXM_SENSE_MODE :: u16 where "MXM_SENSE_MODE = 0x0005"

abbreviation ERESTARTSYS :: int where "ERESTARTSYS \<equiv> 512"

definition BYTEH :: "u16 \<Rightarrow> u16" where "BYTEH a = drop_bit 8 a"
definition BYTEL :: "u16 \<Rightarrow> u16" where "BYTEL a = a AND 0xFF"
definition HI_NIBBLE :: "u16 \<Rightarrow> u16" where "HI_NIBBLE a = drop_bit 4 (a AND 0xF0)"
definition LO_NIBBLE :: "u16 \<Rightarrow> u16" where "LO_NIBBLE a = a AND 0x0F"

lemma unat_low:
  "unat (x AND 0xFF) = unat x mod 256" "unat (x AND 0xF) = unat x mod 16" for x :: u16
  using take_bit_eq_mask [of 8 x] take_bit_eq_mask [of 4 x] unsigned_take_bit_eq [of 8 x]
    unsigned_take_bit_eq [of 4 x]
  by (simp_all add: mask_eq_exp_minus_1 take_bit_eq_mod)

section \<open>Data\<close>

datatype mt_axis = Tracking_id | Tool_type | Position_x | Position_y | Pressure | Orientation
  | Touch_major | Touch_minor

text \<open>Calls into the kernel: bus, input core, waits, GPIOs, the regulator, and the interrupt.\<close>

datatype mx_ev =
    Mx_send "u8 list"
  | Mx_recv nat
  | Mx_key u32 bool
  | Mx_abs mt_axis int
  | Mx_mt_sync
  | Mx_sync
  | Mx_usleep nat nat
  | Mx_msleep nat
  | Mx_down_timeout
  | Mx_down_interruptible
  | Mx_wait_report u16
  | Mx_gpio_output u32 bool
  | Mx_set_load nat
  | Mx_may_wakeup
  | Mx_irq_enable bool
  | Mx_irq_wake bool
  | Mx_request_firmware string
  | Mx_release_firmware
  | Mx_functionality
  | Mx_alloc
  | Mx_free
  | Mx_regulator_get
  | Mx_regulator_put
  | Mx_regulator_voltage nat nat
  | Mx_regulator_enable bool
  | Mx_regulator_is_enabled
  | Mx_gpio_request u32
  | Mx_gpio_input u32
  | Mx_gpio_free u32
  | Mx_input_alloc
  | Mx_input_free
  | Mx_input_range mt_axis int int
  | Mx_input_key u32
  | Mx_input_register
  | Mx_input_unregister
  | Mx_request_irq
  | Mx_free_irq
  | Mx_create_file nat
  | Mx_remove_file nat
  | Mx_create_bin
  | Mx_remove_bin
  | Mx_create_link
  | Mx_remove_link

text \<open>The pointer to the regulator, and what the driver holds of the kernel.\<close>

datatype vreg = Vreg_null | Vreg_err int | Vreg_ok

datatype mx_res = R_ts | R_vreg | R_vreg_enabled | R_tirq | R_reset | R_input | R_irq | R_file nat | R_bin | R_link

record report_reader =
  rr_report_id :: u16
  rr_reports_passed :: u16
  rr_sem :: nat
  rr_status :: int

text \<open>
  The driver's data. \<open>tt_rb_buf\<close> and \<open>tt_rb_len\<close> are the buffer of the caller that waits for a report and the
  length in it, which the data points to; \<open>tt_seq_combined\<close> is the static variable of
  \<^verbatim>\<open>combine_multipacketreport\<close>; \<open>tt_users\<close> says whether the input device is open. A semaphore is its count.
  The kernel's and the chip's side of the interrupt are \<open>tt_irq_depth\<close>, how often it is disabled,
  \<open>tt_irq_pending\<close>, an edge that came while it was, and \<open>tt_line_low\<close>, the level of the line; \<open>tt_held\<close> is what
  the driver has acquired and not given back.
  \<open>tt_stuck\<close>: the interrupt's thread waits for a semaphore that nobody released.
\<close>

record touch =
  tt_pdata :: max1187x_pdata
  tt_users :: bool
  tt_is_suspended :: bool
  tt_pm_suspended :: bool
  tt_irq_on_suspend :: bool
  tt_chip_id :: u16
  tt_config_id :: u16
  tt_report_sem :: nat
  tt_reset_sem :: nat
  tt_readers :: "report_reader list"
  tt_outstanding :: u8
  tt_cmd_buf :: "u8 list"
  tt_sema_rbcmd :: nat
  tt_rb_waiting :: bool
  tt_rb_received :: bool
  tt_rb_report_id :: u16
  tt_rb_buf :: "u8 list"
  tt_rb_len :: u16
  tt_rx_report :: "u8 list"
  tt_rx_report_len :: u16
  tt_rx_packet :: "u8 list"
  tt_irq_count :: u32
  tt_framecounter :: u16
  tt_list_finger_ids :: u16
  tt_curr_finger_ids :: u16
  tt_fw_update_mode :: u8
  tt_sysfs_created :: u8
  tt_is_raw_mode :: bool
  tt_buttons :: "bool list"
  tt_seq_combined :: u16
  tt_irq_depth :: nat
  tt_irq_pending :: bool
  tt_line_low :: bool
  tt_vreg :: vreg
  tt_held :: "mx_res list"
  tt_fault :: bool
  tt_stuck :: bool

text \<open>\<open>me_again\<close>: how often a transfer is answered with \<open>-EAGAIN\<close> before it ends with \<open>me_ret\<close>;
  \<open>me_byte\<close> are the bytes received, and those of a buffer that was not initialised; \<open>me_irqs\<close> is how often the
  chip pulls its line low while the driver waits, \<open>me_line\<close> whether the line is low after a report was read or the
  chip was reset.\<close>

record mx_env =
  me_again :: "mx_ev list \<Rightarrow> mx_ev \<Rightarrow> nat"
  me_ret :: "mx_ev list \<Rightarrow> mx_ev \<Rightarrow> int"
  me_byte :: "mx_ev list \<Rightarrow> nat \<Rightarrow> u8"
  me_irqs :: "mx_ev list \<Rightarrow> nat"
  me_line :: "mx_ev list \<Rightarrow> bool"

type_synonym mx_io = "(mx_ev, touch) io"
type_synonym 'a mxm = "(mx_io, 'a) state"

definition fault :: "unit mxm" where
  "fault = modify (\<lambda>ts. ts\<lparr>tt_fault := True\<rparr>)"

lemma wp_state_fun [wp_simps]: "wp (State (\<lambda>s. (f s, s))) Q s = Q (f s) s"
  by (simp add: wp_def)

section \<open>Transfers\<close>

definition word_bytes :: "u16 \<Rightarrow> u8 list" where
  "word_bytes v = [ucast v, ucast (drop_bit 8 v)]"

definition words_bytes :: "u16 list \<Rightarrow> u8 list" where
  "words_bytes ws = concat (map word_bytes ws)"

text \<open>The \<open>k\<close>-th word of a buffer.\<close>

definition word_at :: "u8 list \<Rightarrow> nat \<Rightarrow> u16" where
  "word_at b k = ucast (b ! (2 * k)) OR push_bit 8 (ucast (b ! (2 * k + 1)))"

text \<open>Bytes written at an offset.\<close>

definition put_bytes :: "nat \<Rightarrow> u8 list \<Rightarrow> u8 list \<Rightarrow> u8 list" where
  "put_bytes off xs b = take off b @ xs @ drop (off + length xs) b"

definition i2c_transfer :: "mx_env \<Rightarrow> mx_ev \<Rightarrow> int mxm" where
  "i2c_transfer env e = do {
     n \<leftarrow> State (\<lambda>s. (me_again env (io_trace s) e, s));
     iterM (\<lambda>_. emit e) [0..<n];
     call (me_ret env) e
   }"

text \<open>The result and the bytes received. The functions return what they were told through their 16 bit
  argument \<^verbatim>\<open>len\<close>.\<close>

definition i2c_master_recv :: "mx_env \<Rightarrow> nat \<Rightarrow> (int \<times> u8 list) mxm" where
  "i2c_master_recv env len = do {
     r \<leftarrow> i2c_transfer env (Mx_recv len);
     bytes \<leftarrow> State (\<lambda>s. (map (me_byte env (io_trace s)) [0..<nat r], s));
     ret (r, bytes)
   }"

definition len16 :: "int \<Rightarrow> int" where
  "len16 r = uint (word_of_int r :: u16)"

definition i2c_tx_bytes :: "mx_env \<Rightarrow> u8 list \<Rightarrow> int mxm" where
  "i2c_tx_bytes env bytes = do {
     r \<leftarrow> i2c_transfer env (Mx_send bytes);
     ret (if r < 0 then r else len16 r)
   }"

definition i2c_rx_bytes :: "mx_env \<Rightarrow> nat \<Rightarrow> (int \<times> u8 list) mxm" where
  "i2c_rx_bytes env len = do {
     rb \<leftarrow> i2c_master_recv env len;
     ret (if fst rb < 0 then fst rb else len16 (fst rb), snd rb)
   }"

definition i2c_tx_words :: "mx_env \<Rightarrow> u16 list \<Rightarrow> int mxm" where
  "i2c_tx_words env ws = do {
     r \<leftarrow> i2c_transfer env (Mx_send (words_bytes ws));
     if r < 0 then ret r
     else if odd r then ret (- EIO)
     else ret (len16 (r div 2))
   }"

text \<open>Words received into the packet buffer from word \<open>off\<close> on; the bus writes what it received, also
  when the count is odd and the result an error.\<close>

definition i2c_rx_words :: "mx_env \<Rightarrow> nat \<Rightarrow> nat \<Rightarrow> int mxm" where
  "i2c_rx_words env off len = do {
     rb \<leftarrow> i2c_master_recv env (len * MXM_BYTES_LEN_IN_WORDS);
     ts \<leftarrow> gets id;
     whenM (2 * off + length (snd rb) > length (tt_rx_packet ts)) fault;
     modify (\<lambda>ts. ts\<lparr>tt_rx_packet := put_bytes (2 * off) (snd rb) (tt_rx_packet ts)\<rparr>);
     let r = fst rb;
     if r < 0 then ret r
     else if odd r then ret (- EIO)
     else ret (len16 (r div 2))
   }"

definition packet_word :: "nat \<Rightarrow> u16 mxm" where
  "packet_word k = gets (\<lambda>ts. word_at (tt_rx_packet ts) k)"

text \<open>The field is converted to 16 bits where it is used.\<close>

definition i2c_words :: "touch \<Rightarrow> nat" where
  "i2c_words ts = unat (ucast (tp_i2c_words (tt_pdata ts)) :: u16)"

definition read_packet :: "mx_env \<Rightarrow> int mxm" where
  "read_packet env = do {
     rx \<leftarrow> i2c_rx_words env 0 MXM_RPT_PKT_HDR_LEN;
     h \<leftarrow> packet_word 0;
     if rx \<noteq> int MXM_RPT_PKT_HDR_LEN \<or> unat (BYTEL h) > MXM_RPT_LEN_PACKET_MAX then ret (- EIO)
     else do {
       ts \<leftarrow> gets id;
       let words = unat (BYTEL h) + MXM_RPT_PKT_HDR_LEN;
       let words = (if words > i2c_words ts then i2c_words ts else words);
       tx \<leftarrow> i2c_tx_words env [MXM_RPT_START_ADDR];
       if tx \<noteq> 1 then ret (- EIO)
       else do {
         rx \<leftarrow> i2c_rx_words env 0 words;
         ret (if rx \<noteq> int words then - EIO else 0)
       }
     }
   }"

definition read_raw_packet :: "mx_env \<Rightarrow> int mxm" where
  "read_raw_packet env = do {
     ts \<leftarrow> gets id;
     rx \<leftarrow> i2c_rx_words env 0 (i2c_words ts);
     h \<leftarrow> packet_word 0;
     if rx \<noteq> int (i2c_words ts) \<or> unat (BYTEL h) > MXM_RPT_LEN_PACKET_MAX then ret (- EIO)
     else do {
       let words = unat (BYTEL h) + MXM_RPT_PKT_HDR_LEN;
       let more = words > i2c_words ts;
       let remainder = (if more then words - i2c_words ts else words);
       let offset = (if more then i2c_words ts else 0);
       let address = (if more then MXM_RPT_START_ADDR + of_nat (i2c_words ts) else MXM_RPT_START_ADDR);
       tx \<leftarrow> i2c_tx_words env [address];
       if tx \<noteq> 1 then ret (- EIO)
       else do {
         rx \<leftarrow> i2c_rx_words env offset remainder;
         ret (if rx \<noteq> int remainder then - EIO else 0)
       }
     }
   }"

definition read_mtp_report :: "mx_env \<Rightarrow> int mxm" where
  "read_mtp_report env = do {
     tx \<leftarrow> i2c_tx_words env [MXM_RPT_START_ADDR];
     if tx \<noteq> 1 then ret (- EIO)
     else do {
       raw \<leftarrow> gets tt_is_raw_mode;
       if \<not> raw then read_packet env else read_raw_packet env
     }
   }"

section \<open>Commands\<close>

definition cmd_word :: "touch \<Rightarrow> nat \<Rightarrow> u16" where
  "cmd_word ts k = word_at (tt_cmd_buf ts) k"

text \<open>The packets from the \<open>i\<close>-th on, of which \<open>n\<close> are left; \<open>len\<close> words of the command are left, too.\<close>

fun send_packets :: "mx_env \<Rightarrow> nat \<Rightarrow> nat \<Rightarrow> nat \<Rightarrow> nat \<Rightarrow> int mxm" where
  "send_packets env packets i len 0 = ret 0"
| "send_packets env packets i len (Suc n) = do {
     ts \<leftarrow> gets id;
     let size = (if i = packets - 1 then len else MXM_CMD_LEN_PACKET_MAX);
     let hdr = push_bit 12 (of_nat packets) OR push_bit 8 (of_nat (i + 1)) OR of_nat size;
     tx \<leftarrow> i2c_tx_words env (MXM_CMD_START_ADDR # hdr
             # map (\<lambda>k. cmd_word ts (i * MXM_CMD_LEN_PACKET_MAX + k)) [0..<size]);
     if tx \<noteq> int (size + MXM_CMD_ADD_AND_HDR_LEN) then ret (- EIO)
     else send_packets env packets (i + 1) (len - MXM_CMD_LEN_PACKET_MAX) n
   }"

definition send_mtp_command :: "mx_env \<Rightarrow> nat \<Rightarrow> int mxm" where
  "send_mtp_command env len = do {
     ts \<leftarrow> gets id;
     if len < MXM_CMD_LEN_PACKET_MIN \<or> len > MXM_CMD_LEN_MAX
        \<or> unat (cmd_word ts 1) + MXM_CMD_ID_AND_SIZE_LEN \<noteq> len
     then ret (- EINVAL)
     else do {
       let packets = len div MXM_CMD_LEN_PACKET_MAX
                       + (if len mod MXM_CMD_LEN_PACKET_MAX \<noteq> 0 then 1 else 0);
       send_packets env packets 0 len packets
     }
   }"

definition cmd_send_locked :: "mx_env \<Rightarrow> u16 list \<Rightarrow> int mxm" where
  "cmd_send_locked env ws = do {
     ts \<leftarrow> gets id;
     whenM (length (words_bytes ws) > length (tt_cmd_buf ts)) fault;
     modify (\<lambda>ts. ts\<lparr>tt_cmd_buf := put_bytes 0 (words_bytes ws) (tt_cmd_buf ts)\<rparr>);
     r \<leftarrow> send_mtp_command env (length ws);
     ts \<leftarrow> gets id;
     whenM (cmd_word ts 0 = MXM_CMD_ID_SET_TOUCH_RPT_MODE)
       (modify (\<lambda>ts. ts\<lparr>tt_is_raw_mode := (cmd_word ts 2 = 0)\<rparr>));
     whenM (cmd_word ts 0 = MXM_CMD_ID_SET_POWER_MODE \<and>
            (cmd_word ts 2 = MXM_DRIVE_MODE \<or> cmd_word ts 2 = MXM_SENSE_MODE))
       (modify (\<lambda>ts. ts\<lparr>tt_is_raw_mode := True\<rparr>));
     ret r
   }"

definition max1187x_set_glove_locked :: "mx_env \<Rightarrow> u32 \<Rightarrow> int mxm" where
  "max1187x_set_glove_locked env enable =
     cmd_send_locked env [MXM_CMD_ID_SET_GLOVE_MODE, MXM_ONE_SIZE_CMD, ucast enable]"

text \<open>\<^verbatim>\<open>command_store\<close>: words of four hexadecimal digits each, read by the kernel's \<^verbatim>\<open>sscanf\<close> (\<open>scan\<close>), into
  a buffer for \<^verbatim>\<open>MXM_CMD_LEN_MAX\<close> words on the stack. The result of the loop is the words read, or
  none when a word does not scan.\<close>

fun scan_words :: "(string \<Rightarrow> u16 option) \<Rightarrow> nat \<Rightarrow> string \<Rightarrow> (u16 list \<times> bool) option" where
  "scan_words scan i (a # b # c # d # cs) =
     (case scan [a, b, c, d] of
        None \<Rightarrow> None
      | Some w \<Rightarrow>
          (case scan_words scan (Suc i) cs of
             None \<Rightarrow> None
           | Some (ws, bad) \<Rightarrow> Some (w # ws, bad \<or> MXM_CMD_LEN_MAX \<le> i)))"
| "scan_words scan i _ = Some ([], False)"

definition command_store :: "mx_env \<Rightarrow> (string \<Rightarrow> u16 option) \<Rightarrow> string \<Rightarrow> int mxm" where
  "command_store env scan buf =
     (let count = length buf - 1 in
      if count mod 4 \<noteq> 0 then ret (- EINVAL)
      else case scan_words scan 0 (take count buf) of
          None \<Rightarrow> ret (- EINVAL)
        | Some (ws, bad) \<Rightarrow> do {
            whenM bad fault;
            _ \<leftarrow> cmd_send_locked env ws;
                   ret (int (length buf))
          })"

definition reinit_chip_settings :: "mx_env \<Rightarrow> unit mxm" where
  "reinit_chip_settings env = do {
     _ \<leftarrow> cmd_send_locked env [MXM_CMD_ID_SET_POWER_MODE, MXM_ONE_SIZE_CMD, MXM_ACTIVE_MODE];
     _ \<leftarrow> cmd_send_locked env
            [MXM_CMD_ID_SET_TOUCH_RPT_MODE, MXM_ONE_SIZE_CMD, MXM_TOUCH_REPORT_MODE_EXT];
     ts \<leftarrow> gets id;
     _ \<leftarrow> max1187x_set_glove_locked env (tp_glove_enabled (tt_pdata ts));
     ret ()
   }"

section \<open>A sample device\<close>

text \<open>A driver at rest with the configuration of the phone, for concrete runs.\<close>

definition w_packet :: "u8 list" where
  "w_packet = replicate 492 0"

definition no_reader :: report_reader where
  "no_reader = \<lparr>rr_report_id = 0, rr_reports_passed = 0, rr_sem = 0, rr_status = 0\<rparr>"

text \<open>The data as the probe leaves it: zero but for the semaphores.\<close>

definition touch_init :: "max1187x_pdata \<Rightarrow> touch" where
  "touch_init pd = \<lparr>tt_pdata = pd, tt_users = False, tt_is_suspended = False, tt_pm_suspended = False,
     tt_irq_on_suspend = False, tt_chip_id = 0, tt_config_id = 0, tt_report_sem = 1, tt_reset_sem = 1,
     tt_readers = replicate 5 no_reader, tt_outstanding = 0, tt_cmd_buf = replicate 270 0,
     tt_sema_rbcmd = 1, tt_rb_waiting = False, tt_rb_received = False, tt_rb_report_id = 0,
     tt_rb_buf = [], tt_rb_len = 0, tt_rx_report = replicate 2000 0, tt_rx_report_len = 0,
     tt_rx_packet = w_packet, tt_irq_count = 0, tt_framecounter = 0, tt_list_finger_ids = 0,
     tt_curr_finger_ids = 0, tt_fw_update_mode = 0, tt_sysfs_created = 0, tt_is_raw_mode = False,
     tt_buttons = [False, False, False, False], tt_seq_combined = 0,
     tt_irq_depth = 0, tt_irq_pending = False, tt_line_low = False,
     tt_vreg = Vreg_null, tt_held = [], tt_fault = False, tt_stuck = False\<rparr>"

definition w_touch :: touch where
  "w_touch = (touch_init sirius_pdata)\<lparr>tt_users := True, tt_list_finger_ids := 2\<rparr>"

definition w_mx_io :: mx_io where
  "w_mx_io = \<lparr>io_trace = [], io_dev = w_touch\<rparr>"

lemma w_mx_io_fields:
  "io_trace w_mx_io = []" "tt_pdata (io_dev w_mx_io) = sirius_pdata" "tt_users (io_dev w_mx_io)"
  "tt_rx_packet (io_dev w_mx_io) = w_packet" "tt_list_finger_ids (io_dev w_mx_io) = 2"
  by (simp_all add: w_mx_io_def w_touch_def touch_init_def)

end
