(* ===== verification/Touch_Wire.thy ===== *)
theory Touch_Wire
  imports Touch_Dev
begin

text \<open>
  The touch screen's driver on the wire. A command is cut into packets of at most nine words,
  each with the address, and a header that holds the number of packets, its own number and its size.
  \<open>chip_receive\<close> puts such packets together again; what it gets from the driver is the command. A packet that is
  read stays within the buffer for packets.
\<close>

section \<open>Bytes and words\<close>

lemma word_at_append [simp]:
  "length b = 2 \<Longrightarrow> word_at (b @ c) (Suc k) = word_at c k"
  by (simp add: word_at_def nth_append)

lemma length_words_bytes [simp]: "length (words_bytes ws) = 2 * length ws"
  by (induction ws) (simp_all add: words_bytes_def word_bytes_def)

lemma words_bytes_Cons: "words_bytes (w # ws) = word_bytes w @ words_bytes ws"
  by (simp add: words_bytes_def)

lemma word_at_words_bytes: "k < length ws \<Longrightarrow> word_at (words_bytes ws @ c) k = ws ! k"
proof (induction ws arbitrary: k)
  case Nil
  then show ?case by simp
next
  case (Cons w ws)
  show ?case
  proof (cases k)
    case 0
    have "ucast (ucast w :: u8) OR push_bit 8 (ucast (ucast (drop_bit 8 w) :: u8)) = w"
      by (rule bit_word_eqI) (auto simp: bit_simps)
    then show ?thesis using 0 by (simp add: words_bytes_Cons word_at_def word_bytes_def)
  next
    case (Suc j)
    then show ?thesis
      using Cons word_at_append [of "word_bytes w" "words_bytes ws @ c" j]
      by (simp add: words_bytes_Cons word_bytes_def)
  qed
qed

definition bytes_words :: "u8 list \<Rightarrow> u16 list" where
  "bytes_words b = map (word_at b) [0..<length b div 2]"

lemma bytes_words_bytes [simp]: "bytes_words (words_bytes ws) = ws"
  using word_at_words_bytes [of _ ws "[]"] by (auto simp: bytes_words_def intro!: nth_equalityI)

section \<open>Packets\<close>

text \<open>What the other side makes of the packets: \<open>n\<close> are expected, of which the next is number \<open>i\<close>.\<close>

fun chip_receive :: "nat \<Rightarrow> nat \<Rightarrow> u8 list list \<Rightarrow> u16 list option" where
  "chip_receive n i [] = (if i = n + 1 then Some [] else None)"
| "chip_receive n i (p # ps) =
     (case bytes_words p of
        addr # hdr # ws \<Rightarrow>
          if addr = MXM_CMD_START_ADDR \<and> unat (drop_bit 12 hdr) = n \<and> unat (drop_bit 8 hdr AND 0xF) = i
             \<and> unat (hdr AND 0xFF) = length ws
          then map_option ((@) ws) (chip_receive n (i + 1) ps) else None
      | _ \<Rightarrow> None)"

definition packet_count :: "nat \<Rightarrow> nat" where
  "packet_count len = len div 9 + (if len mod 9 \<noteq> 0 then 1 else 0)"

definition packet_header :: "nat \<Rightarrow> nat \<Rightarrow> nat \<Rightarrow> u16" where
  "packet_header n i k = push_bit 12 (of_nat n) OR push_bit 8 (of_nat (i + 1)) OR of_nat k"

definition packet :: "u16 list \<Rightarrow> nat \<Rightarrow> u8 list" where
  "packet ws i = (let part = take 9 (drop (9 * i) ws) in
     words_bytes (MXM_CMD_START_ADDR # packet_header (packet_count (length ws)) i (length part) # part))"

lemma push_or_add: "a < 2 ^ k \<Longrightarrow> push_bit k n OR a = 2 ^ k * n + (a :: nat)"
proof -
  assume a: "a < 2 ^ k"
  have "\<not> bit a j" if "k \<le> j" for j
  proof -
    have "a < 2 ^ j" using a that power_increasing [of k j "2 :: nat"] by linarith
    then show ?thesis by (simp add: bit_iff_odd)
  qed
  then have "push_bit k n AND a = 0"
    by (intro bit_eqI) (auto simp: bit_simps)
  then show ?thesis by (simp add: disjunctive_add_eq_or push_bit_eq_mult mult.commute)
qed

lemma packet_header_unat:
  assumes "n \<le> 15" "i < 15" "k \<le> 9"
  shows "unat (packet_header n i k) = 4096 * n + 256 * (i + 1) + k"
proof -
  have "unat (push_bit 12 (of_nat n) :: u16) = push_bit 12 n"
    "unat (push_bit 8 (of_nat (i + 1)) :: u16) = push_bit 8 (i + 1)" "unat (of_nat k :: u16) = k"
    using assms by (simp_all add: push_bit_eq_mult unat_word_ariths unat_of_nat)
  then have "unat (packet_header n i k) = push_bit 12 n OR (push_bit 8 (i + 1) OR k)"
    by (simp only: packet_header_def unsigned_or_eq or.assoc)
  also have "push_bit 8 (i + 1) OR k = 256 * (i + 1) + k"
    using assms push_or_add [of k 8 "i + 1"] by simp
  also have "push_bit 12 n OR (256 * (i + 1) + k) = 4096 * n + (256 * (i + 1) + k)"
    using assms push_or_add [of "256 * (i + 1) + k" 12 n] by simp
  finally show ?thesis by simp
qed

lemma nat_drop_bit: "drop_bit k (n :: nat) = n div 2 ^ k"
  by (rule drop_bit_eq_div)

lemma header_div:
  assumes "k < 256" "j < 16"
  shows "(4096 * n + 256 * j + k) div 4096 = (n :: nat)"
    "(4096 * n + 256 * j + k) div 256 mod 16 = j" "(4096 * n + 256 * j + k) mod 256 = k"
proof -
  have 1: "4096 * n + 256 * j + k = k + 256 * (16 * n + j)" by simp
  have 2: "(4096 * n + 256 * j + k) div 256 = 16 * n + j"
    unfolding 1 mod_mult_self2 using assms by simp
  show "(4096 * n + 256 * j + k) div 256 mod 16 = j" unfolding 2 using assms by simp
  show "(4096 * n + 256 * j + k) mod 256 = k" unfolding 1 mod_mult_self2 using assms by simp
  show "(4096 * n + 256 * j + k) div 4096 = n" using assms by simp
qed

lemma packet_header_fields:
  assumes "n \<le> 15" "i < 15" "k \<le> 9"
  shows "unat (drop_bit 12 (packet_header n i k)) = n"
    "unat (drop_bit 8 (packet_header n i k) AND 0xF) = i + 1"
    "unat (packet_header n i k AND 0xFF) = k"
proof -
  show "unat (drop_bit 12 (packet_header n i k)) = n"
    "unat (drop_bit 8 (packet_header n i k) AND 0xF) = i + 1"
    "unat (packet_header n i k AND 0xFF) = k"
    unfolding unat_low unat_drop_bit_eq packet_header_unat [OF assms] nat_drop_bit
    using assms header_div [of k "i + 1" n] by simp_all
qed

section \<open>Sending\<close>

lemma wp_i2c_transfer:
  assumes "\<And>n. Q (me_ret env (io_trace s @ replicate n e) e) (s\<lparr>io_trace := io_trace s @ replicate (Suc n) e\<rparr>)"
  shows "wp (i2c_transfer env e) Q s"
proof -
  have "wp (iterM (\<lambda>_. emit e) [0..<n]) R t = R () (t\<lparr>io_trace := io_trace t @ replicate n e\<rparr>)"
    for n R and t :: mx_io
    using wp_iterM_emit [of "\<lambda>_. e" "[0..<n]" R t] by (simp add: map_replicate_const)
  then show ?thesis
    using assms by (simp add: i2c_transfer_def wp_simps replicate_append_same)
qed

definition holds :: "u16 list \<Rightarrow> touch \<Rightarrow> bool" where
  "holds ws ts \<longleftrightarrow> (\<exists>c. tt_cmd_buf ts = words_bytes ws @ c)"

lemma holds_word: "holds ws ts \<Longrightarrow> k < length ws \<Longrightarrow> cmd_word ts k = ws ! k"
  by (auto simp: holds_def cmd_word_def word_at_words_bytes)

lemma packet_size:
  "i < packet_count len \<Longrightarrow> (if i = packet_count len - 1 then len - 9 * i else 9) = min 9 (len - 9 * i)"
  unfolding packet_count_def by (auto simp: min_def split: if_splits; presburger)

lemma packet_count_le: "len \<le> 135 \<Longrightarrow> packet_count len \<le> 15"
  unfolding packet_count_def by presburger

lemma packet_cmd_words:
  assumes "holds ws ts" "k = min 9 (length ws - 9 * i)"
  shows "map (\<lambda>j. cmd_word ts (i * 9 + j)) [0..<k] = take 9 (drop (9 * i) ws)"
  using assms by (auto intro!: nth_equalityI simp: holds_word mult.commute)

lemma packet_neq:
  assumes "length ws \<le> 135" "Suc i < packet_count (length ws)"
  shows "packet ws i \<noteq> packet ws (Suc i)"
proof
  assume "packet ws i = packet ws (Suc i)"
  then have "bytes_words (packet ws i) ! 1 = bytes_words (packet ws (Suc i)) ! 1" by simp
  then have eq: "packet_header (packet_count (length ws)) i (length (take 9 (drop (9 * i) ws)))
      = packet_header (packet_count (length ws)) (Suc i) (length (take 9 (drop (9 * Suc i) ws)))"
    by (simp add: packet_def Let_def)
  show False
    using packet_header_fields(2) [of "packet_count (length ws)" i "length (take 9 (drop (9 * i) ws))"]
      packet_header_fields(2) [of "packet_count (length ws)" "Suc i" "length (take 9 (drop (9 * Suc i) ws))"]
      packet_count_le [OF assms(1)] assms(2) eq
    by simp
qed

lemma remdups_adj_repeat:
  "ys = [] \<or> hd ys \<noteq> x \<Longrightarrow> remdups_adj (replicate (Suc n) x @ ys) = x # remdups_adj ys"
  by (induction n; cases ys) auto

lemma send_packets_sends:
  assumes "holds ws (io_dev s)" "length ws \<le> 135" "i + n = packet_count (length ws)"
    "len = length ws - 9 * i"
  shows "wp (send_packets env (packet_count (length ws)) i len n)
    (\<lambda>r s'. io_dev s' = io_dev s \<and> (\<exists>sent j. io_trace s' = io_trace s @ sent \<and> j \<le> i + n \<and>
       remdups_adj sent = map (\<lambda>k. Mx_send (packet ws k)) [i..<j] \<and>
       (if r = 0 then j = i + n else r = - EIO))) s"
  using assms
proof (induction n arbitrary: i len s)
  case 0
  then show ?case by (auto simp: wp_simps)
next
  case (Suc n)
  let ?c = "packet_count (length ws)"
  define k where "k = min 9 (length ws - 9 * i)"
  have size: "(if i = ?c - 1 then len else 9) = k"
    unfolding k_def Suc.prems(4) by (rule packet_size) (use Suc.prems(3) in simp)
  have bytes: "words_bytes (MXM_CMD_START_ADDR
      # (push_bit 12 (of_nat ?c) OR push_bit 8 (of_nat (i + 1)) OR of_nat k)
      # map (\<lambda>j. cmd_word (io_dev s) (i * 9 + j)) [0..<k]) = packet ws i"
    unfolding packet_cmd_words [OF Suc.prems(1) k_def]
    by (simp add: packet_def packet_header_def k_def Let_def min.commute)
  define Q :: "int \<Rightarrow> mx_io \<Rightarrow> bool" where "Q = (\<lambda>r s'. io_dev s' = io_dev s \<and> (\<exists>sent j. io_trace s' = io_trace s @ sent \<and>
       j \<le> i + Suc n \<and> remdups_adj sent = map (\<lambda>k. Mx_send (packet ws k)) [i..<j] \<and>
       (if r = 0 then j = i + Suc n else r = - EIO)))"
  define t where "t m = s\<lparr>io_trace := io_trace s @ replicate (Suc m) (Mx_send (packet ws i))\<rparr>" for m
  have stopped: "Q (- EIO) (t m)" for m
    using remdups_adj_repeat [of "[]" "Mx_send (packet ws i)" m]
    by (auto simp: t_def Q_def intro!: exI [of _ "Suc i"])
  have more: "wp (send_packets env ?c (i + 1) (len - 9) n) Q (t m)" for m
  proof (rule wp_mono [OF Suc.IH])
    show "holds ws (io_dev (t m))" "length ws \<le> 135" "i + 1 + n = ?c" "len - 9 = length ws - 9 * (i + 1)"
      using Suc.prems by (simp_all add: t_def)
  next
    fix r :: int and s' :: mx_io
    assume "io_dev s' = io_dev (t m) \<and> (\<exists>sent j. io_trace s' = io_trace (t m) @ sent \<and> j \<le> i + 1 + n \<and>
       remdups_adj sent = map (\<lambda>k. Mx_send (packet ws k)) [i + 1..<j] \<and>
       (if r = 0 then j = i + 1 + n else r = - EIO))"
    then obtain sent j where got: "io_dev s' = io_dev (t m)" "io_trace s' = io_trace (t m) @ sent"
      "j \<le> i + 1 + n" "remdups_adj sent = map (\<lambda>k. Mx_send (packet ws k)) [i + 1..<j]"
      "if r = 0 then j = i + 1 + n else r = - EIO"
      by blast
    then have s': "io_dev s' = io_dev s" "j \<le> i + Suc n"
      "io_trace s' = io_trace s @ replicate (Suc m) (Mx_send (packet ws i)) @ sent"
      "remdups_adj sent = map (\<lambda>k. Mx_send (packet ws k)) [Suc i..<j]"
      "if r = 0 then j = i + Suc n else r = - EIO"
      by (simp_all add: t_def)
    have "sent = [] \<or> hd sent \<noteq> Mx_send (packet ws i)"
    proof (cases "sent = []")
      case False
      then have "hd sent = Mx_send (packet ws (Suc i))" "Suc i < j"
        using s'(4) by (metis hd_map hd_upt hd_remdups_adj list.map_disc_iff remdups_adj_Nil_iff upt_eq_Nil_conv not_le_imp_less)+
      then show ?thesis
        using packet_neq [of ws i] s'(2) Suc.prems by simp
    qed simp
    then have "remdups_adj (replicate (Suc m) (Mx_send (packet ws i)) @ sent)
        = map (\<lambda>k. Mx_send (packet ws k)) (i # [Suc i..<j])"
      using s'(4) by (simp only: remdups_adj_repeat list.map)
    also have "i # [Suc i..<j] = [i..<max j (Suc i)]"
      by (auto simp: upt_conv_Cons max_def)
    finally show "Q r s'"
      unfolding Q_def using s'(1,2,3,5)
      by (intro conjI exI [of _ "replicate (Suc m) (Mx_send (packet ws i)) @ sent"] exI [of _ "max j (Suc i)"])
        (auto simp: max_def simp del: replicate_Suc split: if_splits)
  qed
  show ?case
    unfolding Q_def [symmetric]
    by (simp only: send_packets.simps Let_def wp_bind wp_gets id_apply MXM_CMD_LEN_PACKET_MAX_def
        MXM_CMD_ADD_AND_HDR_LEN_def size bytes i2c_tx_words_def)
      (rule wp_i2c_transfer, auto simp: wp_simps more [unfolded t_def, simplified] stopped [unfolded t_def, simplified])
qed

lemma packet_received:
  assumes "length ws \<le> 135" "i < packet_count (length ws)" "n = packet_count (length ws)"
  shows "chip_receive n (Suc i) (packet ws i # ps) =
    map_option ((@) (take 9 (drop (9 * i) ws))) (chip_receive n (Suc (Suc i)) ps)"
proof -
  define part where "part = take 9 (drop (9 * i) ws)"
  have "length part \<le> 9" "i < 15" "n \<le> 15"
    using packet_count_le [OF assms(1)] assms by (simp_all add: part_def)
  note h = packet_header_fields [OF this(3,2,1)]
  have "bytes_words (packet ws i) = MXM_CMD_START_ADDR # packet_header n i (length part) # part"
    by (simp add: packet_def assms(3) part_def Let_def)
  then show ?thesis using h by (simp add: part_def [symmetric])
qed

lemma packets_received:
  assumes "length ws \<le> 135" "n = packet_count (length ws)" "i \<le> n"
  shows "chip_receive n (Suc i) (map (packet ws) [i..<n]) = Some (drop (9 * i) ws)"
  using assms(3)
proof (induction "n - i" arbitrary: i)
  case 0
  then have "i = n" by simp
  moreover have "length ws \<le> 9 * n" unfolding assms(2) packet_count_def by presburger
  ultimately show ?case by simp
next
  case (Suc k)
  then have i: "i < n" by simp
  then have "chip_receive n (Suc (Suc i)) (map (packet ws) [Suc i..<n]) = Some (drop (9 * Suc i) ws)"
    using Suc.hyps(1) [of "Suc i"] Suc.hyps(2) by simp
  moreover have "take 9 (drop (9 * i) ws) @ drop (9 * Suc i) ws = drop (9 * i) ws"
    using append_take_drop_id [of 9 "drop (9 * i) ws"] by (simp add: drop_drop add.commute)
  ultimately show ?case
    using i packet_received [OF assms(1) _ assms(2), of i] assms(2)
    by (simp add: upt_conv_Cons del: chip_receive.simps)
qed

definition command_ok :: "u16 list \<Rightarrow> bool" where
  "command_ok ws \<longleftrightarrow> 2 \<le> length ws \<and> length ws \<le> 135 \<and> unat (ws ! 1) + 2 = length ws"

definition sent_well :: "u16 list \<Rightarrow> int \<Rightarrow> mx_ev list \<Rightarrow> bool" where
  "sent_well ws r sent \<longleftrightarrow>
     (if command_ok ws
      then (if r = 0 then \<exists>ps. remdups_adj sent = map Mx_send ps \<and> chip_receive (length ps) 1 ps = Some ws
            else r = - EIO)
      else r = - EINVAL \<and> sent = [])"

lemma mtp_command_sends:
  assumes "holds ws (io_dev s)"
  shows "wp (send_mtp_command env (length ws))
    (\<lambda>r s'. io_dev s' = io_dev s \<and> (\<exists>sent. io_trace s' = io_trace s @ sent \<and> sent_well ws r sent)) s"
proof (cases "command_ok ws")
  case True
  let ?n = "packet_count (length ws)"
  have len: "length ws \<le> 135" using True by (simp add: command_ok_def)
  have run: "wp (send_mtp_command env (length ws)) Q s = wp (send_packets env ?n 0 (length ws) ?n) Q s" for Q
    using True holds_word [OF assms]
    by (simp add: send_mtp_command_def wp_simps command_ok_def packet_count_def Let_def
        MXM_CMD_LEN_PACKET_MIN_def MXM_CMD_LEN_MAX_def MXM_CMD_LEN_PACKET_MAX_def MXM_CMD_ID_AND_SIZE_LEN_def)
  show ?thesis
    unfolding run
  proof (rule wp_mono [OF send_packets_sends [OF assms len]])
    fix r :: int and s' :: mx_io
    assume "io_dev s' = io_dev s \<and> (\<exists>sent j. io_trace s' = io_trace s @ sent \<and> j \<le> 0 + ?n \<and>
       remdups_adj sent = map (\<lambda>k. Mx_send (packet ws k)) [0..<j] \<and> (if r = 0 then j = 0 + ?n else r = - EIO))"
    moreover have "chip_receive ?n 1 (map (packet ws) [0..<?n]) = Some ws"
      using packets_received [OF len refl, of 0] by simp
    ultimately show "io_dev s' = io_dev s \<and> (\<exists>sent. io_trace s' = io_trace s @ sent \<and> sent_well ws r sent)"
      using True by (auto simp: sent_well_def intro!: exI [of _ "map (packet ws) [0..<?n]"])
  qed simp_all
next
  case False
  then show ?thesis
    using holds_word [OF assms, of 1]
    by (auto simp: send_mtp_command_def wp_simps sent_well_def command_ok_def MXM_CMD_LEN_PACKET_MIN_def
        MXM_CMD_LEN_MAX_def MXM_CMD_ID_AND_SIZE_LEN_def MXM_CMD_LEN_PACKET_MAX_def simp del: One_nat_def)
qed

text \<open>
  C7: A command arrives as it was given. When the driver accepts a command and reports success, the packets
  it put on the bus, repetitions that the bus asked for aside, are such that a receiver which checks the
  address, the number of packets, each packet's number and its size gets exactly the command; a command whose
  length field is wrong or that is too long is refused without a transfer; every other failure is an I/O error.
\<close>

theorem touch_command_roundtrip:
  "wp (cmd_send_locked env ws)
     (\<lambda>r s'. \<exists>sent. io_trace s' = io_trace s @ sent \<and> sent_well ws r sent) s"
proof -
  have wrap: "wp (cmd_send_locked env ws) (\<lambda>r t. \<exists>sent. io_trace t = io_trace s @ sent \<and> sent_well ws r sent) s"
    if run: "\<And>s'. holds ws (io_dev s') \<Longrightarrow> io_trace s' = io_trace s \<Longrightarrow>
      wp (send_mtp_command env (length ws)) (\<lambda>r t. \<exists>sent. io_trace t = io_trace s @ sent \<and> sent_well ws r sent) s'"
    unfolding cmd_send_locked_def fault_def wp_bind wp_gets wp_whenM wp_modify
    by (auto simp: wp_simps holds_def put_bytes_def intro!: wp_mono [OF run])
  show ?thesis
    by (rule wrap, rule wp_mono [OF mtp_command_sends]) auto
qed

section \<open>Packets read\<close>

text \<open>The buffer for packets has its size, and the configuration and the fault flag are those of the start.\<close>

definition packet_frame :: "touch \<Rightarrow> mx_io \<Rightarrow> bool" where
  "packet_frame ts s \<longleftrightarrow> length (tt_rx_packet (io_dev s)) = 492 \<and> tt_fault (io_dev s) = tt_fault ts
     \<and> tt_pdata (io_dev s) = tt_pdata ts"

lemma packet_frame_trace [simp]: "packet_frame ts (s\<lparr>io_trace := tr\<rparr>) = packet_frame ts s"
  by (simp add: packet_frame_def)

lemma length_put_bytes [simp]: "off + length xs \<le> length b \<Longrightarrow> length (put_bytes off xs b) = length b"
  by (simp add: put_bytes_def)

lemma kept_tx_words: "kept (packet_frame ts) (i2c_tx_words env ws)"
  by (rule keptI) (auto simp: i2c_tx_words_def wp_simps intro!: wp_i2c_transfer)

lemma kept_rx_words:
  assumes "\<And>tr n. me_ret env tr (Mx_recv n) \<le> int n" "off + len \<le> 246"
  shows "kept (packet_frame ts) (i2c_rx_words env off len)"
proof (rule keptI)
  fix s
  assume s: "packet_frame ts s"
  have "nat (me_ret env tr (Mx_recv (len * 2))) + 2 * off \<le> 492" for tr
    using assms(1) [of tr "len * 2"] assms(2) by linarith
  moreover have "off \<le> 246" using assms(2) by simp
  ultimately show "wp (i2c_rx_words env off len) (\<lambda>_. packet_frame ts) s"
    using s
    by (auto simp: i2c_rx_words_def i2c_master_recv_def MXM_BYTES_LEN_IN_WORDS_def wp_simps fault_def
        packet_frame_def not_less add.commute intro!: wp_i2c_transfer)
qed

lemma packet_frame_words: "packet_frame ts s \<Longrightarrow> i2c_words (io_dev s) = i2c_words ts"
  by (simp add: packet_frame_def i2c_words_def)

lemma packet_frame_read:
  assumes "\<And>tr n. me_ret env tr (Mx_recv n) \<le> int n" "i2c_words ts \<le> 246"
  shows "kept (packet_frame ts) (read_mtp_report env)"
proof -
  note rx = kept_rx_words [OF assms(1)]
  have touch: "wp (read_packet env) (\<lambda>_. packet_frame ts) s" if "packet_frame ts s" for s
    unfolding read_packet_def packet_word_def Let_def wp_simps
    by (rule kept_wp [OF rx that])
      (use assms(2) in \<open>auto simp: MXM_RPT_PKT_HDR_LEN_def packet_frame_words wp_simps
        intro!: kept_wp [OF kept_tx_words] kept_wp [OF rx]\<close>)
  have raw: "wp (read_raw_packet env) (\<lambda>_. packet_frame ts) s" if "packet_frame ts s" for s
    unfolding read_raw_packet_def packet_word_def Let_def wp_simps
    by (rule kept_wp [OF rx that])
      (use assms(2) packet_frame_words [OF that] in \<open>auto simp: MXM_RPT_PKT_HDR_LEN_def
        MXM_RPT_LEN_PACKET_MAX_def packet_frame_words wp_simps intro!: kept_wp [OF kept_tx_words] kept_wp [OF rx]\<close>)
  show ?thesis
    by (rule keptI)
      (auto simp: read_mtp_report_def wp_simps intro!: kept_wp [OF kept_tx_words] touch raw)
qed

text \<open>
  C39: Reading a packet stays within the packet buffer of 246 words, in the touch and in the raw mode, if the device
  tree allows transfers of at most that many words and the bus never delivers more bytes than were asked
  for.
\<close>

theorem touch_packet_bounds:
  assumes "length (tt_rx_packet (io_dev s)) = 492" "i2c_words (io_dev s) \<le> 246"
    and "\<And>tr n. me_ret env tr (Mx_recv n) \<le> int n"
  shows "wp (read_mtp_report env) (\<lambda>_ t. tt_fault (io_dev t) = tt_fault (io_dev s)
    \<and> length (tt_rx_packet (io_dev t)) = 492) s"
proof -
  have "packet_frame (io_dev s) s" using assms(1) by (simp add: packet_frame_def)
  from keptD [OF packet_frame_read [OF assms(3,2)] this] show ?thesis
    by (rule wp_mono) (simp add: packet_frame_def)
qed

definition w_full_bus :: mx_env where
  "w_full_bus = \<lparr>me_again = (\<lambda>_ _. 0),
     me_ret = (\<lambda>_ e. case e of Mx_send b \<Rightarrow> int (length b) | Mx_recv n \<Rightarrow> int n | _ \<Rightarrow> 0),
     me_byte = (\<lambda>_ _. 0xFF), me_irqs = (\<lambda>_. 0), me_line = (\<lambda>_. False)\<rparr>"

theorem touch_packet_bounds_witness:
  "wp (read_mtp_report w_full_bus) (\<lambda>_ t. tt_fault (io_dev t) = tt_fault (io_dev w_mx_io)
    \<and> length (tt_rx_packet (io_dev t)) = 492) w_mx_io"
  by (rule touch_packet_bounds)
    (simp_all add: w_full_bus_def w_mx_io_def w_touch_def touch_init_def w_packet_def i2c_words_def sirius_pdata)

end
