(* ===== verification/Touch_Input.thy ===== *)
theory Touch_Input
  imports Complex_Main Touch_Dev
begin

text \<open>
  What the touch screen's driver makes of a report: buttons, fingers that touch, fingers that
  are lifted, and the reset that the chip reports. \<open>max1187x_sqrt\<close> is the driver's integer
  square root.
\<close>

section \<open>Constants\<close>

definition MXM_TOUCH_COUNT_MAX :: nat where "MXM_TOUCH_COUNT_MAX = 10"
definition MXM_PRESSURE_Z_MIN_TO_SQRT :: u32 where "MXM_PRESSURE_Z_MIN_TO_SQRT = 2"
definition MXM_PRESSURE_SQRT_MAX :: u16 where "MXM_PRESSURE_SQRT_MAX = 181"
definition MXM_REVERSE_X :: u32 where "MXM_REVERSE_X = 0x0001"
definition MXM_REVERSE_Y :: u32 where "MXM_REVERSE_Y = 0x0002"
definition MXM_SWAP_XY :: u32 where "MXM_SWAP_XY = 0x0004"
definition MXM_RPT_ID_SYS_STATUS :: u16 where "MXM_RPT_ID_SYS_STATUS = 0x01A0"
definition MXM_RPT_ID_TOUCH_RAW_IMAGE :: u16 where "MXM_RPT_ID_TOUCH_RAW_IMAGE = 0x0800"
definition MXM_RPT_ID_EXT_TOUCH_INFO :: u16 where "MXM_RPT_ID_EXT_TOUCH_INFO = 0x0802"
definition MXM_STATUS_EXT_RESET :: u16 where "MXM_STATUS_EXT_RESET = 0x0010"
definition MXM_STATUS_SOFT_RESET :: u16 where "MXM_STATUS_SOFT_RESET = 0x0040"
definition MXM_TOOL_PEN :: u16 where "MXM_TOOL_PEN = 0x01"
definition MXM_TOOL_FINGER :: u16 where "MXM_TOOL_FINGER = 0x02"
definition MXM_TOOL_GLOVE :: u16 where "MXM_TOOL_GLOVE = 0x03"

definition MT_TOOL_FINGER :: int where "MT_TOOL_FINGER = 0"
definition MT_TOOL_PEN :: int where "MT_TOOL_PEN = 1"

section \<open>Square root\<close>

function sqrt_loop :: "u32 \<Rightarrow> u16 \<Rightarrow> u16 \<Rightarrow> u16" where
  "sqrt_loop num m guess =
     (if m = 0 then guess
      else let g = guess XOR m;
               g = (if num < ucast g * ucast g then g XOR m else g)
           in sqrt_loop num (drop_bit 1 m) g)"
  by auto
termination
proof (relation "measure (\<lambda>(num, m, guess). unat m)")
  fix num :: u32 and m guess g g' :: u16
  assume "m \<noteq> 0"
  then have "0 < unat m" by (simp add: unat_gt_0)
  then have "unat (drop_bit 1 m) < unat m"
    unfolding unat_drop_bit_eq drop_bit_eq_div [of 1 "unat m"] by simp
  then show "((num, drop_bit 1 m, g'), num, m, guess) \<in> measure (\<lambda>(num, m, guess). unat m)"
    by simp
qed simp

declare sqrt_loop.simps [simp del]

text \<open>The product of two 16 bit numbers is taken modulo 2 to the 32.\<close>

definition max1187x_sqrt :: "u32 \<Rightarrow> u16" where
  "max1187x_sqrt num =
     (if num < MXM_PRESSURE_Z_MIN_TO_SQRT then ucast num
      else let guess = sqrt_loop num 0x8000 0 in
        if guess \<noteq> 0xFFFF
        then (let prod = ucast guess * ucast guess :: u32 in
              if num - prod > prod + 2 * ucast guess + 1 - num then guess + 1 else guess)
        else guess)"

text \<open>The loop keeps a guess whose square is not above the number, and narrows it by a bit at a time.\<close>

lemma xor_free_bit: "2 ^ Suc k dvd G \<Longrightarrow> G XOR 2 ^ k = G + (2 ^ k :: nat)"
proof -
  assume "2 ^ Suc k dvd G"
  then have "take_bit (Suc k) G = 0" by (simp add: take_bit_eq_0_iff)
  then have "\<not> bit (take_bit (Suc k) G) k" by simp
  then have "\<not> bit G k" by (simp add: bit_take_bit_iff)
  then have "G AND 2 ^ k = 0" by (intro bit_eqI) (auto simp: bit_simps)
  then show ?thesis by (simp add: disjunctive_add_eq_xor)
qed

lemma unat_square: "unat (ucast g * ucast g :: u32) = (unat (g :: u16))\<^sup>2"
proof -
  have "unat g * unat g < 4294967296" "unat g mod 4294967296 = unat g"
    using u16_less [of g] power_strict_mono [of "unat g" 65536 2] by (simp_all add: power2_eq_square)
  then show ?thesis
    by (simp add: unat_word_ariths unsigned_ucast_eq power2_eq_square take_bit_eq_mod)
qed

lemma sqrt_loop_correct:
  assumes "2 ^ k dvd unat g" "unat g + 2 ^ k \<le> 2 ^ 16" "(unat g)\<^sup>2 \<le> unat num"
    "unat num < (unat g + 2 ^ k)\<^sup>2" "k \<le> 16"
  shows "(unat (sqrt_loop num (if k = 0 then 0 else 2 ^ (k - 1)) g))\<^sup>2 \<le> unat num \<and>
    unat num < (unat (sqrt_loop num (if k = 0 then 0 else 2 ^ (k - 1)) g) + 1)\<^sup>2"
  using assms
proof (induction k arbitrary: g)
  case 0
  then show ?case by (simp add: sqrt_loop.simps)
next
  case (Suc k)
  have k: "k < 16" using Suc.prems by simp
  have "(2 :: nat) ^ k < 2 ^ 16" using k by (intro power_strict_increasing) simp_all
  then have "unat (of_nat (2 ^ k) :: u16) = 2 ^ k"
    using k by (simp only: unsigned_of_nat) (simp add: take_bit_nat_eq_self)
  then have m: "unat (2 ^ k :: u16) = 2 ^ k" by simp
  have sum: "unat (g XOR 2 ^ k) = unat g + 2 ^ k"
    using xor_free_bit [OF Suc.prems(1)] by (simp add: unsigned_xor_eq m)
  have m0: "(2 ^ k :: u16) \<noteq> 0" using m by (metis power_not_zero unsigned_0 zero_neq_numeral)
  have half: "drop_bit 1 (2 ^ k :: u16) = (if k = 0 then 0 else 2 ^ (k - 1))"
    using k by (cases k; intro bit_word_eqI) (auto simp: bit_simps)
  have pow: "2 ^ k dvd unat g" using Suc.prems(1) by (rule power_le_dvd) simp
  have less: "num < ucast (g XOR 2 ^ k) * ucast (g XOR 2 ^ k) \<longleftrightarrow> unat num < (unat g + 2 ^ k)\<^sup>2"
    by (simp add: word_less_nat_alt unat_square sum)
  define h where "h = (if unat num < (unat g + 2 ^ k)\<^sup>2 then g else g XOR 2 ^ k)"
  have twice: "(g XOR 2 ^ k) XOR 2 ^ k = g" by (simp add: xor.assoc)
  have "sqrt_loop num (2 ^ k) g = sqrt_loop num (drop_bit 1 (2 ^ k)) h"
    by (subst sqrt_loop.simps) (auto simp only: Let_def less h_def twice m0 if_True if_False split: if_split)
  moreover have "2 ^ k dvd unat h \<and> unat h + 2 ^ k \<le> 2 ^ 16 \<and> (unat h)\<^sup>2 \<le> unat num \<and>
      unat num < (unat h + 2 ^ k)\<^sup>2"
    using Suc.prems pow sum by (auto simp: h_def mult_2 add.assoc)
  ultimately show ?case using Suc.IH [of h] k unfolding half by simp
qed

lemma sqrt_floor:
  fixes num :: u32
  shows "(unat (sqrt_loop num 0x8000 0))\<^sup>2 \<le> unat num \<and> unat num < (unat (sqrt_loop num 0x8000 0) + 1)\<^sup>2"
  using sqrt_loop_correct [of 16 0 num] u32_less [of num] by simp

lemma round_nat:
  fixes G N R :: nat
  assumes "G * G \<le> N" "N < (G + 1) * (G + 1)"
    "R = (if N - G * G > G * G + 2 * G + 1 - N then G + 1 else G)"
  shows "(R = 0 \<or> R * (R - 1) < N) \<and> N \<le> R * (R + 1)"
proof -
  define Q where "Q = G * G"
  have n: "Q \<le> N" "N < Q + 2 * G + 1" using assms(1,2) by (simp_all add: Q_def)
  have "G = 0 \<or> G * (G - 1) = Q - G \<and> G \<le> Q" by (cases G) (simp_all add: Q_def)
  moreover have "(G + 1) * G = Q + G" "G * (G + 1) = Q + G" "(G + 1) * (G + 2) = Q + 3 * G + 2"
    by (simp_all add: Q_def)
  ultimately show ?thesis using assms(3) n by (auto simp: Q_def [symmetric])
qed

text \<open>The last step: one more when the square is nearer.\<close>

lemma sqrt_rounds:
  fixes num :: u32
  shows "(unat (max1187x_sqrt num) = 0 \<or>
      unat (max1187x_sqrt num) * (unat (max1187x_sqrt num) - 1) < unat num) \<and>
    (unat (max1187x_sqrt num) = 65535 \<or>
      unat num \<le> unat (max1187x_sqrt num) * (unat (max1187x_sqrt num) + 1))"
proof (cases "num < 2")
  case True
  then have "unat num < 2" by (simp add: word_less_nat_alt)
  then have "unat num = 0 \<or> unat num = 1" by linarith
  moreover have "unat (ucast num :: u16) = unat num"
    using \<open>unat num < 2\<close> by (simp add: unsigned_ucast_eq take_bit_nat_eq_self)
  ultimately show ?thesis
    using True by (auto simp: max1187x_sqrt_def MXM_PRESSURE_Z_MIN_TO_SQRT_def)
next
  case False
  define g where "g = sqrt_loop num 0x8000 0"
  define G where "G = unat g"
  define N where "N = unat num"
  have floor: "G * G \<le> N" "N < (G + 1) * (G + 1)"
    using sqrt_floor [of num] by (simp_all add: g_def G_def N_def power2_eq_square)
  show ?thesis
  proof (cases "g = 0xFFFF")
    case True
    then show ?thesis
      using False floor by (simp add: max1187x_sqrt_def MXM_PRESSURE_Z_MIN_TO_SQRT_def g_def [symmetric]
          G_def N_def)
  next
    case nmax: False
    have G: "G < 65535"
    proof -
      have "G \<noteq> 65535" using nmax by (auto simp: G_def word_unat_eq_iff)
      then show ?thesis using u16_less [of g] by (simp add: G_def)
    qed
    let ?p = "ucast g * ucast g :: u32"
    have p: "unat ?p = G * G" by (simp add: unat_square G_def power2_eq_square)
    have small: "G * G + 2 * G + 1 < 4294967296"
    proof -
      have "(G + 1) * (G + 1) \<le> 65535 * 65535" using G by (intro mult_le_mono) simp_all
      then show ?thesis by simp
    qed
    have u: "unat (ucast g :: u32) = G"
      using G by (simp add: unsigned_ucast_eq take_bit_nat_eq_self G_def)
    have q: "unat (?p + 2 * ucast g + 1) = G * G + 2 * G + 1"
      using small p u by (simp add: unat_word_ariths)
    have a: "unat (num - ?p) = N - G * G"
      using floor p by (simp add: unat_sub_if' N_def)
    have b: "unat (?p + 2 * ucast g + 1 - num) = G * G + 2 * G + 1 - N"
      using floor q by (simp add: unat_sub_if' N_def)
    have "max1187x_sqrt num = (if N - G * G > G * G + 2 * G + 1 - N then g + 1 else g)"
      using False nmax a b by (simp add: max1187x_sqrt_def MXM_PRESSURE_Z_MIN_TO_SQRT_def g_def [symmetric]
          word_less_nat_alt Let_def)
    moreover have "unat (g + 1) = G + 1" using G by (simp add: G_def unat_word_ariths)
    ultimately have "unat (max1187x_sqrt num) = (if N - G * G > G * G + 2 * G + 1 - N then G + 1 else G)"
      by (simp add: G_def)
    from round_nat [OF floor this] show ?thesis by (simp add: N_def)
  qed
qed

section \<open>Reports of touches\<close>

record touch_report_header =
  th_header :: u16
  th_report_id :: u16
  th_report_size :: u16
  th_touch_count :: nat
  th_buttons :: "bool list"
  th_framecounter :: u16

definition report_header :: "u8 list \<Rightarrow> touch_report_header" where
  "report_header b = \<lparr>th_header = word_at b 0, th_report_id = word_at b 1,
     th_report_size = word_at b 2, th_touch_count = unat (word_at b 3 AND 0xF),
     th_buttons = map (\<lambda>i. bit (word_at b 4) i) [0..<4], th_framecounter = word_at b 5\<rparr>"

record touch_ext =
  te_finger_id :: nat
  te_tool_type :: u16
  te_x :: u16
  te_y :: u16
  te_z :: u16
  te_xpixel :: "8 word"
  te_ypixel :: "8 word"

text \<open>The header takes 6 words and each touch 12.\<close>

definition report_ext :: "u8 list \<Rightarrow> nat \<Rightarrow> touch_ext" where
  "report_ext b i = (let k = 6 + 12 * i in
     \<lparr>te_finger_id = unat (word_at b k AND 0xF), te_tool_type = drop_bit 8 (word_at b k) AND 0xF,
      te_x = word_at b (k + 1) AND 0xFFF, te_y = word_at b (k + 2) AND 0xFFF,
      te_z = word_at b (k + 3), te_xpixel = ucast (word_at b (k + 6)),
      te_ypixel = ucast (drop_bit 8 (word_at b (k + 6)))\<rparr>)"

definition report_button :: "nat \<Rightarrow> bool \<Rightarrow> unit mxm" where
  "report_button i now = do {
     ts \<leftarrow> gets id;
     whenM (now \<noteq> tt_buttons ts ! i) (do {
       emit (Mx_key (tp_button_code (tt_pdata ts) ! i) now);
       emit Mx_sync;
       modify (\<lambda>ts. ts\<lparr>tt_buttons := (tt_buttons ts)[i := now]\<rparr>)
     })
   }"

definition report_buttons :: "touch_report_header \<Rightarrow> unit mxm" where
  "report_buttons h = do {
     ts \<leftarrow> gets id;
     if \<not> tt_users ts then ret ()
     else do {
       report_button 0 (th_buttons h ! 0);
       report_button 1 (th_buttons h ! 1);
       report_button 2 (th_buttons h ! 2);
       report_button 3 (th_buttons h ! 3)
     }
   }"

text \<open>A finger's place on the screen: the axes swapped and reversed as the panel is mounted, in the width
  of the code's variables.\<close>

definition place :: "max1187x_pdata \<Rightarrow> touch_ext \<Rightarrow> u16 \<times> u16 \<times> 8 word \<times> 8 word" where
  "place pd e =
     (let (x, y, xp, yp) =
            (if tp_coordinate_settings pd AND MXM_SWAP_XY \<noteq> 0
             then (te_y e, te_x e, te_ypixel e, te_xpixel e)
             else (te_x e, te_y e, te_xpixel e, te_ypixel e));
          (x, xp) =
            (if tp_coordinate_settings pd AND MXM_REVERSE_X \<noteq> 0
             then (ucast (tp_panel_margin_xl pd + tp_lcd_x pd + tp_panel_margin_xh pd - 1 - ucast x), - xp)
             else (x, xp));
          (y, yp) =
            (if tp_coordinate_settings pd AND MXM_REVERSE_Y \<noteq> 0
             then (ucast (tp_panel_margin_yl pd + tp_lcd_y pd + tp_panel_margin_yh pd - 1 - ucast y), - yp)
             else (y, yp))
      in (x, y, xp, yp))"

definition touch_pressure :: "u16 \<Rightarrow> u16" where
  "touch_pressure z =
     (let z = drop_bit 2 MXM_PRESSURE_SQRT_MAX + max1187x_sqrt (ucast z) in
      if z > MXM_PRESSURE_SQRT_MAX then MXM_PRESSURE_SQRT_MAX else z)"

text \<open>The extent of a touch on an axis, on 16 signed bits.\<close>

definition touch_size :: "8 word \<Rightarrow> u32 \<Rightarrow> u16" where
  "touch_size pixel cell =
     (let size = scast pixel * (ucast cell :: u16) in if size <s 0 then - size else size)"

definition report_abs :: "bool \<Rightarrow> mt_axis \<Rightarrow> int \<Rightarrow> unit mxm" where
  "report_abs b a v = whenM b (emit (Mx_abs a v))"

lemma run_whenM: "run_state (whenM b m) s = (if b then run_state m s else ((), s))"
  by (simp add: whenM_def)

lemma run_report_abs:
  "run_state (report_abs b a v) s =
     ((), s\<lparr>io_trace := io_trace s @ (if b then [Mx_abs a v] else [])\<rparr>)"
  by (simp add: report_abs_def run_whenM)

definition report_down :: "touch_ext \<Rightarrow> unit mxm" where
  "report_down e = do {
     ts \<leftarrow> gets id;
     let pd = tt_pdata ts;
     whenM (tp_num_sensor_x pd = 0 \<or> tp_num_sensor_y pd = 0) fault;
     let xcell = tp_lcd_x pd div tp_num_sensor_x pd;
     let ycell = tp_lcd_y pd div tp_num_sensor_y pd;
     let (x, y, xp, yp) = place pd e;
     let z = touch_pressure (te_z e);
     let xsize = touch_size xp xcell;
     let ysize = touch_size yp ycell;
     let wide = ysize <s xsize;
     if te_tool_type e = MXM_TOOL_GLOVE \<and> tp_glove_enabled pd = 0
     then ret ()
     else do {
       let z = (if te_tool_type e = MXM_TOOL_GLOVE then z + MXM_PRESSURE_SQRT_MAX + 1 else z);
       let tool = (if te_tool_type e = MXM_TOOL_PEN \<and> tp_report_pen_as_finger pd = 0
                   then MT_TOOL_PEN else MT_TOOL_FINGER);
       modify (\<lambda>ts. ts\<lparr>tt_curr_finger_ids := tt_curr_finger_ids ts OR push_bit (te_finger_id e) 1\<rparr>);
       whenM (tt_users ts) (do {
         report_abs True Tracking_id (int (te_finger_id e));
         report_abs True Tool_type tool;
         report_abs True Position_x (uint x);
         report_abs True Position_y (uint y);
         report_abs (tp_pressure_enabled pd \<noteq> 0) Pressure (uint z);
         report_abs (tp_orientation_enabled pd \<noteq> 0) Orientation (if wide then 0 else 90);
         report_abs (tp_size_enabled pd \<noteq> 0) Touch_major (sint (if wide then xsize else ysize));
         report_abs (tp_size_enabled pd \<noteq> 0) Touch_minor (sint (if wide then ysize else xsize));
         emit Mx_mt_sync
       })
     }
   }"

definition report_up :: "nat \<Rightarrow> unit mxm" where
  "report_up i = do {
     ts \<leftarrow> gets id;
     if \<not> bit (tt_list_finger_ids ts) i then ret ()
     else do {
       whenM (tt_users ts) (emit Mx_mt_sync);
       modify (\<lambda>ts. ts\<lparr>tt_list_finger_ids := unset_bit i (tt_list_finger_ids ts)\<rparr>)
     }
   }"

definition invalidate_all_fingers :: "unit mxm" where
  "invalidate_all_fingers = do {
     ts \<leftarrow> gets id;
     whenM (tt_users ts) (do { emit Mx_mt_sync; emit Mx_sync });
     modify (\<lambda>ts. ts\<lparr>tt_list_finger_ids := 0\<rparr>)
   }"

definition lift_finger :: "nat \<Rightarrow> unit mxm" where
  "lift_finger i = do {
     ts \<leftarrow> gets id;
     whenM (\<not> bit (tt_curr_finger_ids ts) i) (report_up i)
   }"

text \<open>The touches of a report, whose count is in bounds and not zero.\<close>

definition process_touches :: "nat \<Rightarrow> unit mxm" where
  "process_touches n = do {
     modify (\<lambda>ts. ts\<lparr>tt_curr_finger_ids := 0\<rparr>);
     b \<leftarrow> gets tt_rx_packet;
     iterM (\<lambda>i. report_down (report_ext b i)) [0..<n];
     iterM lift_finger [0..<MXM_TOUCH_COUNT_MAX];
     ts \<leftarrow> gets id;
     whenM (tt_users ts) (emit Mx_sync);
     modify (\<lambda>ts. ts\<lparr>tt_list_finger_ids := tt_curr_finger_ids ts\<rparr>)
   }"

definition process_touch_report :: "touch_report_header \<Rightarrow> unit mxm" where
  "process_touch_report h = do {
     ts \<leftarrow> gets id;
     if tt_framecounter ts = th_framecounter h then ret ()
     else do {
       modify (\<lambda>ts. ts\<lparr>tt_framecounter := th_framecounter h\<rparr>);
       report_buttons h;
       if th_touch_count h > MXM_TOUCH_COUNT_MAX then ret ()
       else if th_touch_count h = 0 then invalidate_all_fingers
       else process_touches (th_touch_count h)
     }
   }"

definition process_report :: "mx_env \<Rightarrow> unit mxm" where
  "process_report env = do {
     b \<leftarrow> gets tt_rx_packet;
     let h = report_header b;
     if BYTEH (th_header h) \<noteq> MXM_ONE_PACKET_RPT then ret ()
     else if th_report_id h = MXM_RPT_ID_SYS_STATUS then do {
       let v = word_at b 3;
       whenM (v AND MXM_STATUS_EXT_RESET \<noteq> 0 \<or> v AND MXM_STATUS_SOFT_RESET \<noteq> 0) (do {
         reinit_chip_settings env;
         whenM (v AND MXM_STATUS_EXT_RESET \<noteq> 0)
           (modify (\<lambda>ts. ts\<lparr>tt_reset_sem := tt_reset_sem ts + 1\<rparr>))
       })
     }
     else if th_report_id h \<noteq> MXM_RPT_ID_EXT_TOUCH_INFO then ret ()
     else process_touch_report h
   }"

section \<open>Properties\<close>

text \<open>
  C37: \<^verbatim>\<open>max1187x_sqrt\<close> gives the integer that is nearest to the square root, for every argument whose
  nearest integer fits 16 bits.
\<close>

theorem touch_sqrt_nearest:
  assumes "unat num \<le> 65535 * 65536"
  shows "\<bar>real (unat (max1187x_sqrt num)) - sqrt (real (unat num))\<bar> < 1 / 2"
proof -
  define r where "r = unat (max1187x_sqrt num)"
  define N where "N = unat num"
  have lo: "r = 0 \<or> r * (r - 1) < N" and hi: "N \<le> r * (r + 1)"
    using sqrt_rounds [of num] assms by (auto simp: r_def N_def)
  have "(real r - 1 / 2)\<^sup>2 < real N \<or> r = 0"
  proof (cases r)
    case (Suc k)
    then have "r * k + 1 \<le> N" using lo by auto
    then have "real (r * k + 1) \<le> real N" by (simp only: of_nat_le_iff)
    then have "real r * real k + 1 \<le> real N" by simp
    then show ?thesis using Suc by (simp add: power2_eq_square algebra_simps)
  qed simp
  moreover have "real N < (real r + 1 / 2)\<^sup>2"
  proof -
    have "real N \<le> real (r * (r + 1))" using hi by (simp only: of_nat_le_iff)
    then have "real N \<le> real r * (real r + 1)" by (simp add: algebra_simps)
    then show ?thesis by (simp add: power2_eq_square algebra_simps)
  qed
  ultimately have up: "sqrt (real N) < real r + 1 / 2" and low: "r = 0 \<or> real r - 1 / 2 < sqrt (real N)"
    by (auto intro: real_less_lsqrt real_less_rsqrt)
  moreover have "0 \<le> sqrt (real N)" by simp
  ultimately have "real r - sqrt (real N) < 1 / 2" "sqrt (real N) - real r < 1 / 2" by linarith+
  then have "\<bar>real r - sqrt (real N)\<bar> < 1 / 2" by linarith
  then show ?thesis by (simp add: r_def N_def)
qed

theorem touch_sqrt_nearest_witness:
  "\<bar>real (unat (max1187x_sqrt 1000)) - sqrt 1000\<bar> < 1 / 2"
  using touch_sqrt_nearest [of 1000] by simp

lemma sqrt_le_256: "unat (max1187x_sqrt (ucast (z :: u16))) \<le> 256"
proof (rule ccontr)
  define r where "r = unat (max1187x_sqrt (ucast z))"
  assume "\<not> ?thesis"
  then have r: "257 \<le> r" by (simp add: r_def)
  then have "257 * 256 \<le> r * (r - 1)" by (intro mult_le_mono) simp_all
  moreover have "r * (r - 1) < unat (ucast z :: u32)"
    using sqrt_rounds [of "ucast z"] r by (auto simp: r_def)
  moreover have "unat (ucast z :: u32) < 65536"
    using u16_less [of z] by (simp add: unsigned_ucast_eq take_bit_nat_eq_self)
  ultimately show False by simp
qed

lemma touch_pressure_range: "45 \<le> uint (touch_pressure z)" "uint (touch_pressure z) \<le> 181"
proof -
  have "unat (45 + max1187x_sqrt (ucast z)) = 45 + unat (max1187x_sqrt (ucast z))"
    using sqrt_le_256 [of z] by (simp add: unat_word_ariths)
  then have "45 \<le> unat (touch_pressure z) \<and> unat (touch_pressure z) \<le> 181"
    unfolding touch_pressure_def MXM_PRESSURE_SQRT_MAX_def Let_def
    by (simp add: word_less_nat_alt split: if_split)
  moreover have "uint (touch_pressure z) = int (unat (touch_pressure z))" by simp
  ultimately show "45 \<le> uint (touch_pressure z)" "uint (touch_pressure z) \<le> 181" by linarith+
qed

text \<open>A touch that the driver passes on: not that of a glove when gloves are disabled.\<close>

definition touch_counts :: "max1187x_pdata \<Rightarrow> touch_ext \<Rightarrow> bool" where
  "touch_counts pd e \<longleftrightarrow> \<not> (te_tool_type e = MXM_TOOL_GLOVE \<and> tp_glove_enabled pd = 0)"

definition down_pressure :: "touch_ext \<Rightarrow> u16" where
  "down_pressure e = (if te_tool_type e = MXM_TOOL_GLOVE
     then touch_pressure (te_z e) + MXM_PRESSURE_SQRT_MAX + 1 else touch_pressure (te_z e))"

definition down_events :: "max1187x_pdata \<Rightarrow> touch_ext \<Rightarrow> mx_ev list" where
  "down_events pd e =
     (let (x, y, xp, yp) = place pd e;
          xsize = touch_size xp (tp_lcd_x pd div tp_num_sensor_x pd);
          ysize = touch_size yp (tp_lcd_y pd div tp_num_sensor_y pd);
          wide = ysize <s xsize
      in [Mx_abs Tracking_id (int (te_finger_id e)),
          Mx_abs Tool_type (if te_tool_type e = MXM_TOOL_PEN \<and> tp_report_pen_as_finger pd = 0
                            then MT_TOOL_PEN else MT_TOOL_FINGER),
          Mx_abs Position_x (uint x), Mx_abs Position_y (uint y)]
         @ (if tp_pressure_enabled pd \<noteq> 0 then [Mx_abs Pressure (uint (down_pressure e))] else [])
         @ (if tp_orientation_enabled pd \<noteq> 0 then [Mx_abs Orientation (if wide then 0 else 90)] else [])
         @ (if tp_size_enabled pd \<noteq> 0
            then [Mx_abs Touch_major (sint (if wide then xsize else ysize)),
                  Mx_abs Touch_minor (sint (if wide then ysize else xsize))] else [])
         @ [Mx_mt_sync])"

lemma report_down_run:
  assumes "tp_num_sensor_x (tt_pdata (io_dev s)) \<noteq> 0" "tp_num_sensor_y (tt_pdata (io_dev s)) \<noteq> 0"
  shows "run_state (report_down e) s =
    (if touch_counts (tt_pdata (io_dev s)) e
     then ((), s\<lparr>io_trace := io_trace s
              @ (if tt_users (io_dev s) then down_events (tt_pdata (io_dev s)) e else []),
            io_dev := (io_dev s)\<lparr>tt_curr_finger_ids := tt_curr_finger_ids (io_dev s)
              OR push_bit (te_finger_id e) 1\<rparr>\<rparr>)
     else ((), s))"
proof -
  obtain x y xp yp where p: "place (tt_pdata (io_dev s)) e = (x, y, xp, yp)"
    by (cases "place (tt_pdata (io_dev s)) e") auto
  show ?thesis
    using assms
    by (auto simp: report_down_def p touch_counts_def down_events_def down_pressure_def
        run_report_abs run_whenM Let_def)
qed

lemma sensors_counted:
  assumes "validate_pdata (Some pd) = 0"
  shows "tp_num_sensor_x pd \<noteq> 0" "tp_num_sensor_y pd \<noteq> 0"
  using assms by (auto simp: validate_pdata_def split: if_splits)

lemma downs_run:
  assumes "validate_pdata (Some (tt_pdata (io_dev s))) = 0"
  shows "run_state (iterM (\<lambda>i. report_down (f i)) ns) s =
    (let es = filter (touch_counts (tt_pdata (io_dev s))) (map f ns) in
     ((), s\<lparr>io_trace := io_trace s
              @ (if tt_users (io_dev s) then concat (map (down_events (tt_pdata (io_dev s))) es) else []),
            io_dev := (io_dev s)\<lparr>tt_curr_finger_ids :=
              fold (\<lambda>e c. c OR push_bit (te_finger_id e) 1) es (tt_curr_finger_ids (io_dev s))\<rparr>\<rparr>))"
  using assms
proof (induction ns arbitrary: s)
  case Nil
  then show ?case by (simp add: Let_def)
next
  case (Cons n ns)
  note run = report_down_run [OF sensors_counted [OF Cons.prems], of "f n"]
  show ?case using Cons.prems by (auto simp: run Cons.IH Let_def)
qed

lemma lifts_run:
  assumes "distinct ns"
  shows "\<exists>l. run_state (iterM lift_finger ns) s =
    ((), s\<lparr>io_trace := io_trace s @ (if tt_users (io_dev s)
             then replicate (length (filter (\<lambda>i. bit (tt_list_finger_ids (io_dev s)) i
                    \<and> \<not> bit (tt_curr_finger_ids (io_dev s)) i) ns)) Mx_mt_sync else []),
           io_dev := (io_dev s)\<lparr>tt_list_finger_ids := l\<rparr>\<rparr>)"
  using assms
proof (induction ns arbitrary: s)
  case Nil
  then show ?case by (intro exI [of _ "tt_list_finger_ids (io_dev s)"]) simp
next
  case (Cons n ns)
  define t where "t = snd (run_state (lift_finger n) s)"
  have t: "run_state (lift_finger n) s = ((), t)" by (simp add: t_def prod_eq_iff)
  have lift: "t = (if bit (tt_list_finger_ids (io_dev s)) n \<and> \<not> bit (tt_curr_finger_ids (io_dev s)) n
      then s\<lparr>io_trace := io_trace s @ (if tt_users (io_dev s) then [Mx_mt_sync] else []),
             io_dev := (io_dev s)\<lparr>tt_list_finger_ids := unset_bit n (tt_list_finger_ids (io_dev s))\<rparr>\<rparr>
      else s)"
    by (simp add: t_def lift_finger_def report_up_def run_whenM)
  obtain l where IH: "run_state (iterM lift_finger ns) t =
      ((), t\<lparr>io_trace := io_trace t @ (if tt_users (io_dev t)
             then replicate (length (filter (\<lambda>i. bit (tt_list_finger_ids (io_dev t)) i
                    \<and> \<not> bit (tt_curr_finger_ids (io_dev t)) i) ns)) Mx_mt_sync else []),
           io_dev := (io_dev t)\<lparr>tt_list_finger_ids := l\<rparr>\<rparr>)"
    using Cons.IH [of t] Cons.prems by auto
  have same: "filter (\<lambda>i. bit (tt_list_finger_ids (io_dev t)) i \<and> \<not> bit (tt_curr_finger_ids (io_dev t)) i) ns
      = filter (\<lambda>i. bit (tt_list_finger_ids (io_dev s)) i \<and> \<not> bit (tt_curr_finger_ids (io_dev s)) i) ns"
    using Cons.prems by (intro filter_cong) (auto simp: lift bit_unset_bit_iff)
  show ?case
    using IH unfolding same by (intro exI [of _ l]) (auto simp: t lift)
qed

lemma fold_ids_bit:
  "i < 16 \<Longrightarrow> bit (fold (\<lambda>e c. c OR push_bit (te_finger_id e) 1) es (c :: u16)) i \<longleftrightarrow>
     bit c i \<or> i \<in> te_finger_id ` set es"
  by (induction es arbitrary: c) (auto simp: bit_simps)

text \<open>
  C36: A report of touches is passed on as it is. With a report of at most ten touches, the driver tells the
  input core of each touch in the report's order (leaving out those of gloves when gloves are
  disabled), then of one lift for every finger from 0 to 9 that was down and is not in the report, and closes
  the frame; the fingers it remembers as down are the report's.
\<close>

theorem touch_fingers_follow_report:
  assumes "validate_pdata (Some (tt_pdata (io_dev s))) = 0" "tt_users (io_dev s)"
    and touches: "es = filter (touch_counts (tt_pdata (io_dev s)))
      (map (report_ext (tt_rx_packet (io_dev s))) [0..<n])"
  shows "wp (process_touches n) (\<lambda>_ s'.
      (\<forall>i. i < 16 \<longrightarrow> bit (tt_list_finger_ids (io_dev s')) i = (i \<in> te_finger_id ` set es)) \<and>
      io_trace s' = io_trace s @ concat (map (down_events (tt_pdata (io_dev s))) es)
        @ replicate (card {i. i < 10 \<and> bit (tt_list_finger_ids (io_dev s)) i \<and> i \<notin> te_finger_id ` set es})
            Mx_mt_sync
        @ [Mx_sync]) s"
proof -
  define t where "t = s\<lparr>io_dev := (io_dev s)\<lparr>tt_curr_finger_ids := 0\<rparr>\<rparr>"
  have es: "filter (touch_counts (tt_pdata (io_dev t))) (map (report_ext (tt_rx_packet (io_dev t))) [0..<n])
      = es"
    by (simp add: t_def touches)
  define c where "c = fold (\<lambda>e c. c OR push_bit (te_finger_id e) 1) es (0 :: u16)"
  define u where "u = t\<lparr>io_trace := io_trace s @ concat (map (down_events (tt_pdata (io_dev s))) es),
    io_dev := (io_dev t)\<lparr>tt_curr_finger_ids := c\<rparr>\<rparr>"
  have down: "run_state (iterM (\<lambda>i. report_down (report_ext (tt_rx_packet (io_dev t)) i)) [0..<n]) t = ((), u)"
    using downs_run [of t "report_ext (tt_rx_packet (io_dev t))" "[0..<n]"] assms(1,2)
    by (simp add: es Let_def u_def c_def) (simp add: t_def)
  have bits: "bit c i \<longleftrightarrow> i \<in> te_finger_id ` set es" if "i < 16" for i
    using fold_ids_bit [OF that, of es 0] by (simp add: c_def)
  obtain l where lift: "run_state (iterM lift_finger [0..<10]) u =
      ((), u\<lparr>io_trace := io_trace u
         @ replicate (length (filter (\<lambda>i. bit (tt_list_finger_ids (io_dev s)) i \<and> \<not> bit c i) [0..<10])) Mx_mt_sync,
           io_dev := (io_dev u)\<lparr>tt_list_finger_ids := l\<rparr>\<rparr>)"
    using lifts_run [of "[0..<10]" u] assms(2) by (auto simp: u_def t_def)
  have "length (filter (\<lambda>i. bit (tt_list_finger_ids (io_dev s)) i \<and> \<not> bit c i) [0..<10])
      = card {i. i < 10 \<and> bit (tt_list_finger_ids (io_dev s)) i \<and> i \<notin> te_finger_id ` set es}"
    by (subst distinct_card [symmetric])
      (auto intro!: arg_cong [where f = card] simp: bits simp del: upt_rec_numeral)
  then show ?thesis
    using down lift assms(2) bits
    by (simp add: process_touches_def wp_def MXM_TOUCH_COUNT_MAX_def t_def [symmetric] run_whenM)
      (simp add: u_def t_def)
qed

text \<open>One finger (0) touches where another (1) was.\<close>

lemma w_ext: "report_ext w_packet 0 = \<lparr>te_finger_id = 0, te_tool_type = 0, te_x = 0,
    te_y = 0, te_z = 0, te_xpixel = 0, te_ypixel = 0\<rparr>"
  by (simp add: report_ext_def word_at_def Let_def w_packet_def)

theorem touch_fingers_follow_report_witness:
  "wp (process_touches 1) (\<lambda>_ s'. bit (tt_list_finger_ids (io_dev s')) 0
     \<and> \<not> bit (tt_list_finger_ids (io_dev s')) 1
     \<and> io_trace s' = down_events sirius_pdata (report_ext w_packet 0) @ [Mx_mt_sync, Mx_sync]) w_mx_io"
proof -
  let ?e = "report_ext w_packet 0"
  have c: "touch_counts sirius_pdata ?e"
    unfolding w_ext by (simp add: touch_counts_def MXM_TOOL_GLOVE_def)
  have id: "te_finger_id ?e = 0" unfolding w_ext by simp
  have "bit (2 :: u16) i \<longleftrightarrow> i = 1" for i
    using bit_exp_iff [where 'a = u16, of 1 i] by auto
  then have "{i :: nat. i < 10 \<and> bit (2 :: u16) i \<and> i \<notin> te_finger_id ` set [?e]}
      = {i. i < 10 \<and> i = 1 \<and> i \<notin> te_finger_id ` set [?e]}"
    by (simp only:)
  also have "\<dots> = {1}" by (auto simp: id)
  finally have lifted: "{i :: nat. i < 10 \<and> bit (2 :: u16) i \<and> i \<notin> te_finger_id ` set [?e]} = {1}" .
  have es: "[?e] = filter (touch_counts (tt_pdata (io_dev w_mx_io)))
      (map (report_ext (tt_rx_packet (io_dev w_mx_io))) [0..<1])"
    by (simp add: w_mx_io_fields c)
  have v: "validate_pdata (Some (tt_pdata (io_dev w_mx_io))) = 0"
    by (simp add: w_mx_io_fields sirius_valid)
  show ?thesis
    by (rule wp_mono [OF touch_fingers_follow_report [OF v w_mx_io_fields(3) es],
        unfolded w_mx_io_fields lifted]) (simp add: id)
qed

end
