(* ===== verification/Touch_Report.thy ===== *)
theory Touch_Report
  imports Touch_Input
begin

text \<open>
  Reports on their way from the packet buffer to those who wait for them: packets are combined
  (\<open>combine_multipacketreport\<close>), the caller of a command gets the answer (\<open>process_rbcmd\<close>), and up to five
  readers of the \<^verbatim>\<open>report\<close> file are woken (\<open>propagate_report\<close>, \<open>get_report\<close>, \<open>release_report\<close>). These functions
  only change the driver's data, under its \<^verbatim>\<open>report_mutex\<close>; \<open>report_step\<close> is the interleaving of the interrupt's
  thread with the readers.
\<close>

section \<open>Combining packets\<close>

definition copy_words :: "nat \<Rightarrow> u8 list \<Rightarrow> nat \<Rightarrow> u8 list \<Rightarrow> nat \<Rightarrow> u8 list" where
  "copy_words n src so dst to = put_bytes (2 * to) (take (2 * n) (drop (2 * so) src)) dst"

definition copy_fits :: "nat \<Rightarrow> u8 list \<Rightarrow> nat \<Rightarrow> u8 list \<Rightarrow> nat \<Rightarrow> bool" where
  "copy_fits n src so dst to \<longleftrightarrow> 2 * (so + n) \<le> length src \<and> 2 * (to + n) \<le> length dst"

text \<open>Words of the packet copied into the report.\<close>

definition to_report :: "nat \<Rightarrow> nat \<Rightarrow> nat \<Rightarrow> touch \<Rightarrow> touch" where
  "to_report n so to ts =
     ts\<lparr>tt_rx_report := copy_words n (tt_rx_packet ts) so (tt_rx_report ts) to,
        tt_fault := tt_fault ts \<or> \<not> copy_fits n (tt_rx_packet ts) so (tt_rx_report ts) to\<rparr>"

definition combine_multipacketreport :: "touch \<Rightarrow> int \<times> touch" where
  "combine_multipacketreport ts =
     (let b = tt_rx_packet ts; seq = BYTEH (word_at b 0); k = unat (BYTEL (word_at b 0)) in
      if seq = MXM_ONE_PACKET_RPT
      then (0, (to_report (k + 1) 0 0 ts)\<lparr>tt_rx_report_len := of_nat k, tt_seq_combined := 1\<rparr>)
      else let total = HI_NIBBLE seq; this = LO_NIBBLE seq in
        if this = 1
        then if word_at b 1 = MXM_RPT_ID_TOUCH_RAW_IMAGE
             then (- EAGAIN, (to_report (k + 1) 0 0 ts)\<lparr>tt_rx_report_len := word_at b 2 + 2, tt_seq_combined := 1\<rparr>)
             else (- EIO, ts)
        else if uint this = uint (tt_seq_combined ts) + 1
        then (if total = this then 0 else - EIO,
              to_report k 1 ((unat this - 1) * MXM_RPT_MAX_WORDS_PER_PKT + 1)
                (ts\<lparr>tt_seq_combined := tt_seq_combined ts + 1\<rparr>))
        else (- EIO, ts))"

definition process_rbcmd :: "touch \<Rightarrow> touch" where
  "process_rbcmd ts =
     (if \<not> tt_rb_waiting ts then ts
      else if tt_rb_report_id ts \<noteq> word_at (tt_rx_report ts) 1 then ts
      else if tt_rx_report_len ts > tt_rb_len ts then ts
      else let n = unat (tt_rx_report_len ts) + 1 in
        ts\<lparr>tt_rb_received := True,
           tt_rb_buf := copy_words n (tt_rx_report ts) 0 (tt_rb_buf ts) 0,
           tt_fault := tt_fault ts \<or> \<not> copy_fits n (tt_rx_report ts) 0 (tt_rb_buf ts) 0,
           tt_rb_len := tt_rx_report_len ts\<rparr>)"

section \<open>Readers\<close>

definition wake_reader :: "int \<Rightarrow> nat \<Rightarrow> touch \<Rightarrow> touch" where
  "wake_reader status i ts =
     (let r = tt_readers ts ! i; id = word_at (tt_rx_report ts) 1 in
      if status = 0
      then if rr_report_id r = 0xFFFF \<or> (id \<noteq> 0 \<and> rr_report_id r = id)
           then ts\<lparr>tt_readers := (tt_readers ts)[i := r\<lparr>rr_sem := rr_sem r + 1,
                     rr_reports_passed := rr_reports_passed r + 1\<rparr>],
                   tt_outstanding := tt_outstanding ts + 1\<rparr>
           else ts
      else if rr_report_id r \<noteq> 0
           then ts\<lparr>tt_readers := (tt_readers ts)[i := r\<lparr>rr_status := status, rr_sem := rr_sem r + 1\<rparr>]\<rparr>
           else ts)"

definition MXM_REPORT_READERS_MAX :: nat where "MXM_REPORT_READERS_MAX = 5"

definition up_report_sem :: "touch \<Rightarrow> touch" where
  "up_report_sem ts = ts\<lparr>tt_report_sem := tt_report_sem ts + 1\<rparr>"

definition deliver :: "int \<Rightarrow> touch \<Rightarrow> touch" where
  "deliver status ts =
     (let ts = fold (wake_reader status) [0..<MXM_REPORT_READERS_MAX] (process_rbcmd ts)
      in if tt_outstanding ts = 0 then up_report_sem ts else ts)"

text \<open>The part of \<^verbatim>\<open>propagate_report\<close> under the mutex; \<open>report\<close> says whether there is one.\<close>

definition propagate_locked :: "int \<Rightarrow> bool \<Rightarrow> touch \<Rightarrow> touch" where
  "propagate_locked status report ts =
     (if report
      then (let (r, ts) = combine_multipacketreport ts in if r \<noteq> 0 then up_report_sem ts else deliver status ts)
      else deliver status ts)"

text \<open>The whole function, for a thread that finds the semaphore free; none when it has to wait.\<close>

definition propagate_report :: "int \<Rightarrow> bool \<Rightarrow> touch \<Rightarrow> touch option" where
  "propagate_report status report ts =
     (case tt_report_sem ts of
        0 \<Rightarrow> None
      | Suc n \<Rightarrow> Some (propagate_locked status report (ts\<lparr>tt_report_sem := n\<rparr>)))"

definition free_reader :: "touch \<Rightarrow> nat option" where
  "free_reader ts = List.find (\<lambda>i. rr_report_id (tt_readers ts ! i) = 0) [0..<MXM_REPORT_READERS_MAX]"

text \<open>\<^verbatim>\<open>get_report\<close> before it waits: a free place is taken, with its semaphore down.\<close>

definition get_report_begin :: "u16 \<Rightarrow> touch \<Rightarrow> (int + nat) \<times> touch" where
  "get_report_begin rid ts =
     (case free_reader ts of
        None \<Rightarrow> (Inl (- EBUSY), ts)
      | Some i \<Rightarrow> (Inr i, ts\<lparr>tt_readers := (tt_readers ts)[i :=
          \<lparr>rr_report_id = rid, rr_reports_passed = 0, rr_sem = 0, rr_status = 0\<rparr>]\<rparr>))"

text \<open>\<^verbatim>\<open>get_report\<close> after its wait ended with \<open>ret\<close>.\<close>

definition release_report :: "touch \<Rightarrow> touch" where
  "release_report ts =
     (let ts = ts\<lparr>tt_outstanding := tt_outstanding ts - 1\<rparr>
      in if tt_outstanding ts = 0 then up_report_sem ts else ts)"

definition get_report_end :: "int \<Rightarrow> nat \<Rightarrow> touch \<Rightarrow> int \<times> touch" where
  "get_report_end r i ts =
     (let ts = (if r \<noteq> 0 \<and> 0 < rr_reports_passed (tt_readers ts ! i) then release_report ts else ts);
          rd = tt_readers ts ! i
      in (if rr_status rd = 0 then r else rr_status rd,
          ts\<lparr>tt_readers := (tt_readers ts)[i := rd\<lparr>rr_report_id := 0\<rparr>]\<rparr>))"

text \<open>\<^verbatim>\<open>report_read\<close> once it has a report, for a buffer of \<open>count\<close> bytes: the result, whether it gives the report
  back, and what it writes, the string's end included.\<close>

definition hex_digit :: "nat \<Rightarrow> char" where
  "hex_digit d = ''0123456789ABCDEF'' ! d"

definition hex_word :: "u16 \<Rightarrow> string" where
  "hex_word v = (let n = unat v in
     [hex_digit (n div 4096 mod 16), hex_digit (n div 256 mod 16), hex_digit (n div 16 mod 16),
      hex_digit (n mod 16)])"

definition report_read_locked :: "nat \<Rightarrow> touch \<Rightarrow> int \<times> bool \<times> string" where
  "report_read_locked count ts =
     (let payload = unat (tt_rx_report_len ts); need = 4 * payload + 2 in
      if count < need then (- EIO, False, [])
      else (int need, True,
            concat (map (\<lambda>i. hex_word (word_at (tt_rx_report ts) i)) [1..<payload + 1])
              @ '','' @ [char_of (10 :: nat), char_of (0 :: nat)]))"

section \<open>Bounds of the combined report\<close>






end
