(* ===== verification/Touch_Readers.thy ===== *)
theory Touch_Readers
  imports Touch_Report
begin

text \<open>
  The interrupt's thread and the readers of the \<^verbatim>\<open>report\<close> file, interleaved. The thread takes
  \<^verbatim>\<open>report_sem\<close> before it overwrites the report; the last reader gives it back. A step is what a
  thread does between two points at which another can run: under \<^verbatim>\<open>report_mutex\<close> or on a semaphore.
\<close>

section \<open>Steps\<close>

text \<open>\<open>rs_irq\<close>: the interrupt's thread holds the semaphore and has not entered the mutex yet. \<open>rs_woken i\<close>: the
  reader in place \<open>i\<close> has returned from its wait, with that result. \<open>rs_holders\<close>: how many readers are
  between \<^verbatim>\<open>get_report\<close> and \<^verbatim>\<open>release_report\<close>; \<open>rs_leaked\<close>: how many left without giving the report back.\<close>

record report_sys =
  rs_ts :: touch
  rs_irq :: bool
  rs_woken :: "nat \<Rightarrow> int option"
  rs_holders :: nat
  rs_leaked :: nat

abbreviation reader_at :: "report_sys \<Rightarrow> nat \<Rightarrow> report_reader" where
  "reader_at s i \<equiv> tt_readers (rs_ts s) ! i"

definition irq_down :: "report_sys \<Rightarrow> nat \<Rightarrow> report_sys" where
  "irq_down s n = s\<lparr>rs_irq := True, rs_ts := (rs_ts s)\<lparr>tt_report_sem := n\<rparr>\<rparr>"

definition irq_body :: "report_sys \<Rightarrow> u8 list \<Rightarrow> report_sys" where
  "irq_body s p = s\<lparr>rs_irq := False,
     rs_ts := propagate_locked 0 True ((rs_ts s)\<lparr>tt_rx_packet := p\<rparr>)\<rparr>"

definition reader_wakes :: "report_sys \<Rightarrow> nat \<Rightarrow> nat \<Rightarrow> report_sys" where
  "reader_wakes s i n = s\<lparr>rs_woken := (rs_woken s)(i \<mapsto> 0),
     rs_ts := (rs_ts s)\<lparr>tt_readers := (tt_readers (rs_ts s))[i := (reader_at s i)\<lparr>rr_sem := n\<rparr>]\<rparr>\<rparr>"

definition reader_ends :: "report_sys \<Rightarrow> nat \<Rightarrow> int \<Rightarrow> report_sys" where
  "reader_ends s i r = (let (r', ts) = get_report_end r i (rs_ts s) in
     s\<lparr>rs_woken := (rs_woken s)(i := None), rs_ts := ts,
       rs_holders := (if r' = 0 then rs_holders s + 1 else rs_holders s)\<rparr>)"

definition reader_reads :: "report_sys \<Rightarrow> nat \<Rightarrow> bool \<Rightarrow> report_sys" where
  "reader_reads s n back =
     (if back then s\<lparr>rs_holders := n, rs_ts := release_report (rs_ts s)\<rparr>
      else s\<lparr>rs_holders := n, rs_leaked := rs_leaked s + 1\<rparr>)"

text \<open>With \<open>short\<close>, readers may pass a buffer that is too small for the report.\<close>

inductive report_step :: "bool \<Rightarrow> report_sys \<Rightarrow> report_sys \<Rightarrow> bool" for short :: bool where
  down: "\<not> rs_irq s \<Longrightarrow> tt_report_sem (rs_ts s) = Suc n \<Longrightarrow> report_step short s (irq_down s n)"
| body: "rs_irq s \<Longrightarrow> length p = 492 \<Longrightarrow> report_step short s (irq_body s p)"
| enter: "get_report_begin 0xFFFF (rs_ts s) = (Inr i, ts) \<Longrightarrow> report_step short s (s\<lparr>rs_ts := ts\<rparr>)"
| wake: "i < 5 \<Longrightarrow> rr_report_id (reader_at s i) \<noteq> 0 \<Longrightarrow> rs_woken s i = None \<Longrightarrow>
    rr_sem (reader_at s i) = Suc n \<Longrightarrow> report_step short s (reader_wakes s i n)"
| interrupted: "i < 5 \<Longrightarrow> rr_report_id (reader_at s i) \<noteq> 0 \<Longrightarrow> rs_woken s i = None \<Longrightarrow> r < 0 \<Longrightarrow>
    report_step short s (s\<lparr>rs_woken := (rs_woken s)(i \<mapsto> r)\<rparr>)"
| finish: "rs_woken s i = Some r \<Longrightarrow> report_step short s (reader_ends s i r)"
| read: "rs_holders s = Suc n \<Longrightarrow> report_read_locked count (rs_ts s) = (k, back, txt) \<Longrightarrow> back \<or> short \<Longrightarrow>
    report_step short s (reader_reads s n back)"

definition report_start :: "max1187x_pdata \<Rightarrow> report_sys" where
  "report_start pd = \<lparr>rs_ts = touch_init pd, rs_irq = False, rs_woken = (\<lambda>_. None), rs_holders = 0,
     rs_leaked = 0\<rparr>"

definition report_reach :: "bool \<Rightarrow> report_sys \<Rightarrow> bool" where
  "report_reach short s \<longleftrightarrow> (\<exists>pd. (report_step short)\<^sup>*\<^sup>* (report_start pd) s)"

section \<open>Invariant\<close>

definition report_delivered :: "report_reader \<Rightarrow> bool" where
  "report_delivered r \<longleftrightarrow> rr_report_id r \<noteq> 0 \<and> rr_reports_passed r \<noteq> 0"

definition deliveries :: "touch \<Rightarrow> nat" where
  "deliveries ts = length (filter report_delivered (tt_readers ts))"

definition reader_ok :: "report_reader \<Rightarrow> int option \<Rightarrow> bool" where
  "reader_ok r w \<longleftrightarrow> rr_status r = 0 \<and>
     (if rr_report_id r = 0 then w = None
      else case w of None \<Rightarrow> rr_sem r = (if rr_reports_passed r = 0 then 0 else 1)
         | Some x \<Rightarrow> rr_reports_passed r \<noteq> 0 \<or> x \<noteq> 0)"

definition places_ok :: "report_reader list \<Rightarrow> (nat \<Rightarrow> int option) \<Rightarrow> bool" where
  "places_ok rs w \<longleftrightarrow> length rs = 5 \<and> (\<forall>i. if i < 5 then reader_ok (rs ! i) (w i) else w i = None)"

definition report_inv :: "report_sys \<Rightarrow> bool" where
  "report_inv s \<longleftrightarrow> places_ok (tt_readers (rs_ts s)) (rs_woken s)
     \<and> unat (tt_outstanding (rs_ts s)) = rs_holders s + deliveries (rs_ts s) + rs_leaked s
     \<and> tt_report_sem (rs_ts s) + (if rs_irq s then 1 else 0)
         + (if tt_outstanding (rs_ts s) \<noteq> 0 then 1 else 0) = 1"

lemma filter_update:
  "i < length xs \<Longrightarrow>
     length (filter P (xs[i := y])) + (if P (xs ! i) then 1 else 0) = length (filter P xs) + (if P y then 1 else 0)"
proof (induction xs arbitrary: i)
  case (Cons x xs)
  then show ?case by (cases i) (auto split: if_splits dest: Cons.IH)
qed simp

text \<open>What of the data the protocol is about.\<close>

definition protocol :: "touch \<Rightarrow> report_reader list \<times> u8 \<times> nat" where
  "protocol ts = (tt_readers ts, tt_outstanding ts, tt_report_sem ts)"

lemma protocol_rbcmd: "protocol (process_rbcmd ts) = protocol ts"
  by (simp add: protocol_def process_rbcmd_def Let_def)

lemma protocol_combine: "protocol (snd (combine_multipacketreport ts)) = protocol ts"
  by (simp add: protocol_def combine_multipacketreport_def to_report_def Let_def)

text \<open>The loop over the readers.\<close>

definition wanted :: "touch \<Rightarrow> report_reader \<Rightarrow> bool" where
  "wanted ts r \<longleftrightarrow> rr_report_id r = 0xFFFF \<or>
     (word_at (tt_rx_report ts) 1 \<noteq> 0 \<and> rr_report_id r = word_at (tt_rx_report ts) 1)"

definition woken_reader :: "touch \<Rightarrow> report_reader \<Rightarrow> report_reader" where
  "woken_reader ts r = (if wanted ts r
     then r\<lparr>rr_sem := rr_sem r + 1, rr_reports_passed := rr_reports_passed r + 1\<rparr> else r)"

lemma wake_readers:
  "n \<le> length (tt_readers ts) \<Longrightarrow>
     (let t = fold (wake_reader 0) [0..<n] ts in
       tt_readers t = map (woken_reader ts) (take n (tt_readers ts)) @ drop n (tt_readers ts) \<and>
       tt_outstanding t = tt_outstanding ts + of_nat (length (filter (wanted ts) (take n (tt_readers ts)))) \<and>
       tt_report_sem t = tt_report_sem ts \<and> tt_rx_report t = tt_rx_report ts)"
proof (induction n)
  case 0
  then show ?case by simp
next
  case (Suc n)
  define t where "t = fold (wake_reader 0) [0..<n] ts"
  have t: "tt_readers t = map (woken_reader ts) (take n (tt_readers ts)) @ drop n (tt_readers ts)"
    "tt_outstanding t = tt_outstanding ts + of_nat (length (filter (wanted ts) (take n (tt_readers ts))))"
    "tt_report_sem t = tt_report_sem ts" "tt_rx_report t = tt_rx_report ts"
    using Suc by (simp_all add: t_def Let_def)
  have n: "n < length (tt_readers ts)" using Suc.prems by simp
  have "tt_readers t ! n = tt_readers ts ! n" using n by (simp add: t nth_append)
  then have "wake_reader 0 n t = (if wanted ts (tt_readers ts ! n)
      then t\<lparr>tt_readers := (tt_readers t)[n := woken_reader ts (tt_readers ts ! n)],
             tt_outstanding := tt_outstanding t + 1\<rparr> else t)"
    by (simp add: wake_reader_def Let_def t(4) wanted_def woken_reader_def)
  moreover have "fold (wake_reader 0) [0..<Suc n] ts = wake_reader 0 n t" by (simp add: t_def)
  ultimately show ?case
    using n
    by (simp add: t Let_def woken_reader_def take_Suc_conv_app_nth list_update_append
        Cons_nth_drop_Suc [symmetric] algebra_simps)
qed

lemma report_invD:
  assumes "report_inv s"
  shows "length (tt_readers (rs_ts s)) = 5"
    "i < 5 \<Longrightarrow> reader_ok (reader_at s i) (rs_woken s i)" "\<not> i < 5 \<Longrightarrow> rs_woken s i = None"
    "unat (tt_outstanding (rs_ts s)) = rs_holders s + deliveries (rs_ts s) + rs_leaked s"
    "tt_report_sem (rs_ts s) + (if rs_irq s then 1 else 0)
         + (if tt_outstanding (rs_ts s) \<noteq> 0 then 1 else 0) = 1"
  using assms by (auto simp: report_inv_def places_ok_def split: if_splits)

lemma places_update:
  assumes "report_inv s" "i < 5" "reader_ok y x"
  shows "places_ok ((tt_readers (rs_ts s))[i := y]) ((rs_woken s)(i := x))"
  using assms by (auto simp: report_inv_def places_ok_def nth_list_update)

lemma places_update_reader:
  assumes "report_inv s" "i < 5" "reader_ok y (rs_woken s i)"
  shows "places_ok ((tt_readers (rs_ts s))[i := y]) (rs_woken s)"
  using places_update [OF assms] by simp

lemma places_update_woken:
  assumes "report_inv s" "i < 5" "reader_ok (reader_at s i) x"
  shows "places_ok (tt_readers (rs_ts s)) ((rs_woken s)(i := x))"
  using places_update [OF assms] by simp

lemma down_inv:
  assumes "report_inv s" "\<not> rs_irq s" "tt_report_sem (rs_ts s) = Suc n"
  shows "report_inv (irq_down s n)"
  using assms by (auto simp: report_inv_def irq_down_def deliveries_def split: if_splits)

definition bump :: "(report_reader \<Rightarrow> bool) \<Rightarrow> report_reader \<Rightarrow> report_reader" where
  "bump P r = (if P r then r\<lparr>rr_sem := rr_sem r + 1, rr_reports_passed := rr_reports_passed r + 1\<rparr> else r)"

lemma woken_reader_bump: "woken_reader ts = bump (wanted ts)"
  by (simp add: fun_eq_iff woken_reader_def bump_def)

lemma deliver_effect:
  assumes "length (tt_readers ts) = 5" "tt_outstanding ts = 0"
  shows "\<exists>P. (\<forall>r. P r \<longrightarrow> rr_report_id r \<noteq> 0) \<and>
    protocol (deliver 0 ts) = (map (bump P) (tt_readers ts), of_nat (length (filter P (tt_readers ts))),
      tt_report_sem ts + (if filter P (tt_readers ts) = [] then 1 else 0))"
proof (intro exI conjI)
  define t where "t = process_rbcmd ts"
  have t: "tt_readers t = tt_readers ts" "tt_outstanding t = 0" "tt_report_sem t = tt_report_sem ts"
    using protocol_rbcmd [of ts] assms by (simp_all add: protocol_def t_def)
  show "\<forall>r. wanted t r \<longrightarrow> rr_report_id r \<noteq> 0" by (auto simp: wanted_def)
  have "length (filter (wanted t) (tt_readers ts)) \<le> 5"
    using assms(1) length_filter_le [of "wanted t" "tt_readers ts"] by simp
  then have "(of_nat (length (filter (wanted t) (tt_readers ts))) :: u8) = 0 \<longleftrightarrow>
      filter (wanted t) (tt_readers ts) = []"
    by (simp add: word_unat_eq_iff unat_of_nat)
  then show "protocol (deliver 0 ts) = (map (bump (wanted t)) (tt_readers ts),
      of_nat (length (filter (wanted t) (tt_readers ts))),
      tt_report_sem ts + (if filter (wanted t) (tt_readers ts) = [] then 1 else 0))"
    using wake_readers [of 5 t] assms t
    by (simp add: deliver_def t_def [symmetric] Let_def MXM_REPORT_READERS_MAX_def up_report_sem_def protocol_def
        woken_reader_bump)
qed

lemma propagate_effect:
  assumes "length (tt_readers ts) = 5" "tt_outstanding ts = 0"
  obtains P where "\<And>r. P r \<Longrightarrow> rr_report_id r \<noteq> 0"
    "protocol (propagate_locked 0 True ts) = (map (bump P) (tt_readers ts),
       of_nat (length (filter P (tt_readers ts))),
       tt_report_sem ts + (if filter P (tt_readers ts) = [] then 1 else 0))"
proof -
  obtain r t where c: "combine_multipacketreport ts = (r, t)" by (cases "combine_multipacketreport ts")
  then have t: "tt_readers t = tt_readers ts" "tt_outstanding t = tt_outstanding ts"
    "tt_report_sem t = tt_report_sem ts"
    using protocol_combine [of ts] by (simp_all add: protocol_def)
  show ?thesis
  proof (cases "r = 0")
    case True
    then show ?thesis
      using deliver_effect [of t] that assms c t by (auto simp: propagate_locked_def)
  next
    case False
    have "bump (\<lambda>_. False) = id" by (simp add: fun_eq_iff bump_def)
    then show ?thesis
      using that [of "\<lambda>_. False"] False c t assms
      by (simp add: propagate_locked_def protocol_def up_report_sem_def)
  qed
qed

lemma body_inv:
  assumes "report_inv s" "rs_irq s"
  shows "report_inv (irq_body s p)"
proof -
  let ?ts = "(rs_ts s)\<lparr>tt_rx_packet := p\<rparr>"
  let ?rs = "tt_readers (rs_ts s)"
  note inv = report_invD [OF assms(1)]
  have none: "tt_outstanding (rs_ts s) = 0" "tt_report_sem (rs_ts s) = 0"
    using inv(5) assms(2) by (auto split: if_splits)
  then have zero: "rs_holders s = 0" "deliveries (rs_ts s) = 0" "rs_leaked s = 0"
    using inv(4) by simp_all
  then have undelivered: "\<not> report_delivered r" if "r \<in> set ?rs" for r
    using that by (auto simp: deliveries_def filter_empty_conv)
  obtain P where P: "\<And>r. P r \<Longrightarrow> rr_report_id r \<noteq> 0"
    "protocol (propagate_locked 0 True ?ts) = (map (bump P) ?rs, of_nat (length (filter P ?rs)),
       if filter P ?rs = [] then 1 else 0)"
    using propagate_effect [of ?ts] inv(1) none by auto
  define t where "t = propagate_locked 0 True ?ts"
  have t: "tt_readers t = map (bump P) ?rs" "tt_outstanding t = of_nat (length (filter P ?rs))"
    "tt_report_sem t = (if filter P ?rs = [] then 1 else 0)"
    using P(2) by (simp_all add: t_def protocol_def)
  have few: "length (filter P ?rs) \<le> 5" using inv(1) length_filter_le [of P ?rs] by simp
  have "report_delivered (bump P r) = P r" if "r \<in> set ?rs" for r
    using undelivered [OF that] P(1) [of r] by (auto simp: bump_def report_delivered_def)
  then have "filter report_delivered (map (bump P) ?rs) = map (bump P) (filter P ?rs)"
    by (simp add: filter_map o_def cong: filter_cong)
  then have "deliveries t = length (filter P ?rs)" by (simp add: deliveries_def t)
  moreover have "unat (tt_outstanding t) = length (filter P ?rs)"
    using few by (simp add: t unat_of_nat)
  moreover have "reader_ok (map (bump P) ?rs ! i) (rs_woken s i)" if "i < 5" for i
  proof -
    have r: "?rs ! i \<in> set ?rs" using that inv(1) by simp
    then show ?thesis
      using inv(2) [OF that] undelivered [OF r] P(1) [of "?rs ! i"] that inv(1)
      by (auto simp: reader_ok_def bump_def report_delivered_def split: option.splits if_splits)
  qed
  ultimately show ?thesis
    using inv(1,3) zero few
    by (auto simp: report_inv_def places_ok_def irq_body_def t_def [symmetric] t word_unat_eq_iff unat_of_nat)
qed

lemma deliveries_update:
  "i < length (tt_readers ts) \<Longrightarrow>
     deliveries (ts\<lparr>tt_readers := (tt_readers ts)[i := y]\<rparr>) + (if report_delivered (tt_readers ts ! i) then 1 else 0)
       = deliveries ts + (if report_delivered y then 1 else 0)"
  by (simp add: deliveries_def filter_update)

lemma enter_inv:
  assumes "report_inv s" "get_report_begin 0xFFFF (rs_ts s) = (Inr i, ts)"
  shows "report_inv (s\<lparr>rs_ts := ts\<rparr>)"
proof -
  note inv = report_invD [OF assms(1)]
  define y where "y = \<lparr>rr_report_id = 0xFFFF, rr_reports_passed = 0, rr_sem = 0, rr_status = 0\<rparr>"
  have i: "i < 5" "rr_report_id (reader_at s i) = 0"
    and ts: "ts = (rs_ts s)\<lparr>tt_readers := (tt_readers (rs_ts s))[i := y]\<rparr>"
    using assms(2)
    by (auto simp: get_report_begin_def free_reader_def find_Some_iff MXM_REPORT_READERS_MAX_def y_def
        split: option.splits)
  have "reader_ok y (rs_woken s i)"
    using inv(2) [OF i(1)] i(2) by (simp add: reader_ok_def y_def)
  note places_update_reader [OF assms(1) i(1) this]
  moreover have "deliveries ts = deliveries (rs_ts s)"
    using deliveries_update [of i "rs_ts s" y] i inv(1) by (simp add: ts report_delivered_def y_def)
  ultimately show ?thesis
    using inv(4,5) by (simp add: report_inv_def ts)
qed

lemma wake_inv:
  assumes "report_inv s" "i < 5" "rr_report_id (reader_at s i) \<noteq> 0" "rs_woken s i = None"
    "rr_sem (reader_at s i) = Suc n"
  shows "report_inv (reader_wakes s i n)"
proof -
  note inv = report_invD [OF assms(1)]
  define y where "y = (reader_at s i)\<lparr>rr_sem := n\<rparr>"
  have "reader_ok y (Some 0)"
    using inv(2) [OF assms(2)] assms(3,4,5) by (simp add: reader_ok_def y_def split: if_splits)
  note places_update [OF assms(1,2) this]
  moreover have "deliveries ((rs_ts s)\<lparr>tt_readers := (tt_readers (rs_ts s))[i := y]\<rparr>) = deliveries (rs_ts s)"
    using deliveries_update [of i "rs_ts s" y] assms(2) inv(1) by (simp add: report_delivered_def y_def)
  ultimately show ?thesis
    using inv(4,5) by (simp add: report_inv_def reader_wakes_def y_def [symmetric])
qed

lemma interrupted_inv:
  assumes "report_inv s" "i < 5" "rr_report_id (reader_at s i) \<noteq> 0" "rs_woken s i = None" "r < 0"
  shows "report_inv (s\<lparr>rs_woken := (rs_woken s)(i \<mapsto> r)\<rparr>)"
proof -
  note inv = report_invD [OF assms(1)]
  have "reader_ok (reader_at s i) (Some r)"
    using inv(2) [OF assms(2)] assms(3,4,5) by (simp add: reader_ok_def split: if_splits)
  from places_update_woken [OF assms(1,2) this] show ?thesis
    using inv(4,5) by (simp add: report_inv_def)
qed

text \<open>The last one who gives the report back frees the semaphore.\<close>

lemma release_report_fields:
  assumes "tt_outstanding ts \<noteq> 0"
  shows "tt_readers (release_report ts) = tt_readers ts"
    "unat (tt_outstanding (release_report ts)) = unat (tt_outstanding ts) - 1"
    "tt_report_sem (release_report ts) =
       tt_report_sem ts + (if tt_outstanding (release_report ts) = 0 then 1 else 0)"
  using assms
  by (auto simp: release_report_def up_report_sem_def Let_def unat_sub_if' unat_gt_0 Suc_le_eq)

lemma finish_inv:
  assumes "report_inv s" "rs_woken s i = Some r"
  shows "report_inv (reader_ends s i r)"
proof -
  note inv = report_invD [OF assms(1)]
  define y where "y = (reader_at s i)\<lparr>rr_report_id := 0\<rparr>"
  have i: "i < 5" using inv(3) [of i] assms(2) by auto
  have here: "rr_report_id (reader_at s i) \<noteq> 0" "rr_status (reader_at s i) = 0"
    "rr_reports_passed (reader_at s i) \<noteq> 0 \<or> r \<noteq> 0"
    using inv(2) [OF i] assms(2) by (auto simp: reader_ok_def split: if_splits)
  have "reader_ok y None" using here by (simp add: reader_ok_def y_def)
  note places = places_update [OF assms(1) i this]
  have count: "deliveries ((rs_ts s)\<lparr>tt_readers := (tt_readers (rs_ts s))[i := y]\<rparr>)
      + (if rr_reports_passed (reader_at s i) \<noteq> 0 then 1 else 0) = deliveries (rs_ts s)"
    using deliveries_update [of i "rs_ts s" y] i inv(1) here by (auto simp: report_delivered_def y_def split: if_splits)
  show ?thesis
  proof (cases "r \<noteq> 0 \<and> rr_reports_passed (reader_at s i) \<noteq> 0")
    case True
    then have "tt_outstanding (rs_ts s) \<noteq> 0"
      using count inv(4) by (auto simp: word_unat_eq_iff)
    note rel = release_report_fields [OF this] and some = this
    have same: "deliveries ((release_report (rs_ts s))\<lparr>tt_readers := xs\<rparr>) =
        deliveries ((rs_ts s)\<lparr>tt_readers := xs\<rparr>)" for xs
      by (simp add: deliveries_def)
    show ?thesis
      using True places count inv(4,5) some rel here
      by (auto simp: report_inv_def reader_ends_def get_report_end_def Let_def y_def [symmetric] same
          word_gt_0 split: if_splits)
  next
    case False
    then show ?thesis
      using places count inv(4,5) here
      by (auto simp: report_inv_def reader_ends_def get_report_end_def Let_def y_def [symmetric]
          word_gt_0 split: if_splits)
  qed
qed

lemma read_inv:
  assumes "report_inv s" "rs_holders s = Suc n"
  shows "report_inv (reader_reads s n back)"
proof -
  note inv = report_invD [OF assms(1)]
  have some: "tt_outstanding (rs_ts s) \<noteq> 0"
    using inv(4) assms(2) by (auto simp: word_unat_eq_iff)
  note rel = release_report_fields [OF this]
  show ?thesis
    using assms inv(4,5) rel some
    by (auto simp: report_inv_def reader_reads_def deliveries_def word_unat_eq_iff)
qed

lemma start_inv: "report_inv (report_start pd)"
  by (simp add: report_inv_def places_ok_def report_start_def touch_init_def reader_ok_def no_reader_def deliveries_def
      report_delivered_def nth_Cons' eval_nat_numeral)

lemma report_step_inv: "report_step short s s' \<Longrightarrow> report_inv s \<Longrightarrow> report_inv s'"
  by (induction rule: report_step.induct)
    (auto intro: down_inv body_inv enter_inv wake_inv interrupted_inv finish_inv read_inv)

lemma report_steps_inv: "(report_step short)\<^sup>*\<^sup>* s s' \<Longrightarrow> report_inv s \<Longrightarrow> report_inv s'"
  by (induction rule: rtranclp_induct) (auto intro: report_step_inv)

lemma report_reach_inv: "report_reach short s \<Longrightarrow> report_inv s"
  by (auto simp: report_reach_def intro: report_steps_inv start_inv)

section \<open>Progress\<close>

lemma no_leak_step: "report_step False s s' \<Longrightarrow> rs_leaked s' = rs_leaked s"
  by (induction rule: report_step.induct)
    (auto simp: irq_down_def irq_body_def reader_wakes_def reader_ends_def reader_reads_def split: prod.split)

lemma no_leak: "report_reach False s \<Longrightarrow> rs_leaked s = 0"
proof -
  have "(report_step False)\<^sup>*\<^sup>* s0 s \<Longrightarrow> rs_leaked s = rs_leaked s0" for s0
    by (induction rule: rtranclp_induct) (auto dest: no_leak_step)
  then show "report_reach False s \<Longrightarrow> rs_leaked s = 0"
    by (auto simp: report_reach_def report_start_def)
qed

definition pending :: "report_sys \<Rightarrow> nat" where
  "pending s = 2 * deliveries (rs_ts s) + rs_holders s"

lemma ends_pending:
  assumes "i < length (tt_readers (rs_ts s))" "report_delivered (reader_at s i)"
  shows "pending (reader_ends s i r) < pending s" "rs_irq (reader_ends s i r) = rs_irq s"
    "rs_leaked (reader_ends s i r) = rs_leaked s"
proof -
  define y where "y = (reader_at s i)\<lparr>rr_report_id := 0\<rparr>"
  have count: "deliveries ((rs_ts s)\<lparr>tt_readers := (tt_readers (rs_ts s))[i := y]\<rparr>) + 1 = deliveries (rs_ts s)"
    using deliveries_update [of i "rs_ts s" y] assms by (simp add: report_delivered_def y_def split: if_splits)
  have same: "deliveries ((release_report (rs_ts s))\<lparr>tt_readers := xs\<rparr>) =
        deliveries ((rs_ts s)\<lparr>tt_readers := xs\<rparr>)"
    "tt_readers (release_report (rs_ts s)) = tt_readers (rs_ts s)" for xs
    by (simp_all add: deliveries_def release_report_def up_report_sem_def Let_def)
  show "pending (reader_ends s i r) < pending s" "rs_irq (reader_ends s i r) = rs_irq s"
    "rs_leaked (reader_ends s i r) = rs_leaked s"
    using count by (auto simp: pending_def reader_ends_def get_report_end_def Let_def y_def [symmetric] same)
qed

lemma readers_finish:
  assumes "report_inv s" "\<not> rs_irq s" "rs_leaked s = 0"
  shows "\<exists>s'. (report_step False)\<^sup>*\<^sup>* s s' \<and> tt_report_sem (rs_ts s') = 1"
  using assms
proof (induction s rule: measure_induct_rule [where f = pending])
  case (less s)
  note inv = report_invD [OF less.prems(1)]
  have advance: "\<exists>s'. (report_step False)\<^sup>*\<^sup>* s s' \<and> tt_report_sem (rs_ts s') = 1"
    if steps: "(report_step False)\<^sup>*\<^sup>* s t" and t: "pending t < pending s" "\<not> rs_irq t" "rs_leaked t = 0" for t
  proof -
    have "report_inv t" using report_steps_inv [OF steps less.prems(1)] .
    from less.IH [OF t(1) this t(2,3)] show ?thesis
      using steps by (meson rtranclp_trans)
  qed
  consider (reading) n where "rs_holders s = Suc n" | (waiting) "deliveries (rs_ts s) \<noteq> 0"
    | (nobody) "rs_holders s = 0" "deliveries (rs_ts s) = 0"
    by (cases "rs_holders s") auto
  then show ?case
  proof cases
    case reading
    let ?k = "4 * unat (tt_rx_report_len (rs_ts s)) + 2"
    have "\<exists>txt. report_read_locked ?k (rs_ts s) = (int ?k, True, txt)"
      by (simp add: report_read_locked_def Let_def)
    then have step: "report_step False s (reader_reads s n True)"
      using report_step.read [OF reading] by blast
    have "pending (reader_reads s n True) < pending s"
      using reading
      by (simp add: pending_def reader_reads_def deliveries_def release_report_def up_report_sem_def Let_def)
    then show ?thesis
      using less.prems by (intro advance [OF r_into_rtranclp [of "report_step False", OF step]])
        (simp_all add: reader_reads_def)
  next
    case waiting
    then obtain i where i: "i < 5" "report_delivered (reader_at s i)"
      using inv(1) by (auto simp: deliveries_def filter_empty_conv in_set_conv_nth)
    show ?thesis
    proof (cases "rs_woken s i")
      case None
      then have sem: "rr_sem (reader_at s i) = Suc 0"
        using inv(2) [OF i(1)] i(2) by (simp add: reader_ok_def report_delivered_def split: if_splits)
      let ?t = "reader_wakes s i 0"
      have 1: "report_step False s ?t"
        using i None sem by (intro report_step.wake) (auto simp: report_delivered_def)
      have 2: "report_step False ?t (reader_ends ?t i 0)"
        by (intro report_step.finish) (simp add: reader_wakes_def)
      have t: "reader_at ?t i = (reader_at s i)\<lparr>rr_sem := 0\<rparr>" "length (tt_readers (rs_ts ?t)) = 5"
        using i inv(1) by (simp_all add: reader_wakes_def)
      have "deliveries (rs_ts ?t) = deliveries (rs_ts s)"
        using deliveries_update [of i "rs_ts s" "(reader_at s i)\<lparr>rr_sem := 0\<rparr>"] i inv(1)
        by (simp add: reader_wakes_def report_delivered_def)
      then have "pending ?t = pending s" by (simp add: pending_def reader_wakes_def)
      then show ?thesis
        using ends_pending [of i ?t 0] i t less.prems 1 2
        by (intro advance [of "reader_ends ?t i 0"]) (auto simp: report_delivered_def reader_wakes_def)
    next
      case (Some r)
      have "report_step False s (reader_ends s i r)" using Some by (rule report_step.finish)
      then show ?thesis
        using ends_pending [of i s r] i inv(1) less.prems by (intro advance [of "reader_ends s i r"]) auto
    qed
  next
    case nobody
    then have "tt_report_sem (rs_ts s) = 1"
      using inv(4,5) less.prems(2,3) by (auto simp: word_unat_eq_iff split: if_splits)
    then show ?thesis by blast
  qed
qed

section \<open>A reader that leaves\<close>

lemma leaked_mono: "report_step short s s' \<Longrightarrow> rs_leaked s \<le> rs_leaked s'"
  by (induction rule: report_step.induct)
    (auto simp: irq_down_def irq_body_def reader_wakes_def reader_ends_def reader_reads_def split: prod.split)

lemma leaked_steps: "(report_step short)\<^sup>*\<^sup>* s s' \<Longrightarrow> rs_leaked s \<le> rs_leaked s'"
  by (induction rule: rtranclp_induct) (auto dest: leaked_mono)

text \<open>The interrupt's thread never passes the semaphore again, whatever the readers do.\<close>

definition report_blocked :: "report_sys \<Rightarrow> bool" where
  "report_blocked s \<longleftrightarrow>
     (\<forall>s'. (report_step True)\<^sup>*\<^sup>* s s' \<longrightarrow> tt_report_sem (rs_ts s') = 0 \<and> \<not> rs_irq s')"

lemma leaked_blocked:
  assumes "report_inv s" "0 < rs_leaked s"
  shows "report_blocked s"
  unfolding report_blocked_def
proof (intro allI impI)
  fix s'
  assume steps: "(report_step True)\<^sup>*\<^sup>* s s'"
  have "0 < rs_leaked s'" using leaked_steps [OF steps] assms(2) by simp
  moreover note inv = report_invD [OF report_steps_inv [OF steps assms(1)]]
  ultimately have "tt_outstanding (rs_ts s') \<noteq> 0" by (auto simp: word_unat_eq_iff)
  then show "tt_report_sem (rs_ts s') = 0 \<and> \<not> rs_irq s'" using inv(5) by (auto split: if_splits)
qed

text \<open>One reader, one report of one packet, and a buffer without room.\<close>

definition w_one_packet :: "u8 list" where
  "w_one_packet = [0, 0x11] @ replicate 490 0"

definition w_reading :: report_sys where
  "w_reading = (report_start sirius_pdata)\<lparr>rs_ts := (touch_init sirius_pdata)\<lparr>
     tt_readers := no_reader\<lparr>rr_report_id := 0xFFFF\<rparr> # replicate 4 no_reader\<rparr>\<rparr>"

lemma w_reading_step: "report_step short (report_start sirius_pdata) w_reading"
proof -
  have "get_report_begin 0xFFFF (rs_ts (report_start sirius_pdata)) = (Inr 0, rs_ts w_reading)"
    by (simp add: get_report_begin_def free_reader_def MXM_REPORT_READERS_MAX_def report_start_def w_reading_def
        touch_init_def no_reader_def eval_nat_numeral)
  from report_step.enter [OF this] show ?thesis by (simp add: w_reading_def report_start_def)
qed

definition w_delivered :: report_sys where
  "w_delivered = irq_body (irq_down w_reading 0) w_one_packet"

lemma w_delivered_steps: "(report_step short)\<^sup>*\<^sup>* w_reading w_delivered"
proof -
  have 1: "report_step short w_reading (irq_down w_reading 0)"
    by (intro report_step.down) (simp_all add: w_reading_def report_start_def touch_init_def)
  have 2: "report_step short (irq_down w_reading 0) w_delivered"
    unfolding w_delivered_def
    by (intro report_step.body) (simp_all add: irq_down_def w_one_packet_def)
  from 1 2 show ?thesis by auto
qed

lemma w_one_packet_combined:
  assumes "tt_rx_packet ts = w_one_packet"
  shows "fst (combine_multipacketreport ts) = 0"
  using assms
  by (simp add: combine_multipacketreport_def w_one_packet_def word_at_def BYTEH_def MXM_ONE_PACKET_RPT_def Let_def)

lemma w_delivered_fields:
  "tt_readers (rs_ts w_delivered) =
     \<lparr>rr_report_id = 0xFFFF, rr_reports_passed = 1, rr_sem = 1, rr_status = 0\<rparr> # replicate 4 no_reader"
  "rs_woken w_delivered = (\<lambda>_. None)" "rs_holders w_delivered = 0" "rs_leaked w_delivered = 0"
  "rs_irq w_delivered = False" "tt_outstanding (rs_ts w_delivered) = 1"
proof -
  define ts where "ts = (rs_ts (irq_down w_reading 0))\<lparr>tt_rx_packet := w_one_packet\<rparr>"
  obtain r t where c: "combine_multipacketreport ts = (r, t)" by (cases "combine_multipacketreport ts")
  have r: "r = 0" using w_one_packet_combined [of ts] c by (simp add: ts_def)
  have rs: "tt_readers ts = no_reader\<lparr>rr_report_id := 0xFFFF\<rparr> # replicate 4 no_reader"
    "tt_outstanding ts = 0"
    by (simp_all add: ts_def irq_down_def w_reading_def touch_init_def)
  define u where "u = process_rbcmd t"
  have u: "tt_readers u = tt_readers ts" "tt_outstanding u = 0"
    using protocol_combine [of ts] protocol_rbcmd [of t] rs by (simp_all add: c protocol_def u_def)
  have w: "wanted u (no_reader\<lparr>rr_report_id := 0xFFFF\<rparr>)" "\<not> wanted u no_reader"
    by (simp_all add: wanted_def no_reader_def)
  define v where "v = fold (wake_reader 0) [0..<5] u"
  have "tt_readers v = map (woken_reader u) (tt_readers ts)"
    "tt_outstanding v = of_nat (length (filter (wanted u) (tt_readers ts)))"
    using wake_readers [of 5 u] rs u by (simp_all add: v_def Let_def del: upt_rec_numeral)
  then have v: "tt_readers v =
      \<lparr>rr_report_id = 0xFFFF, rr_reports_passed = 1, rr_sem = 1, rr_status = 0\<rparr> # replicate 4 no_reader"
    "tt_outstanding v = 1"
    using w by (simp_all add: rs woken_reader_def) (simp_all add: no_reader_def)
  have "rs_ts w_delivered = v"
    using r c v(2)
    by (simp add: w_delivered_def irq_body_def ts_def [symmetric] propagate_locked_def deliver_def Let_def
        u_def [symmetric] v_def MXM_REPORT_READERS_MAX_def del: upt_rec_numeral)
  then show "tt_readers (rs_ts w_delivered) =
     \<lparr>rr_report_id = 0xFFFF, rr_reports_passed = 1, rr_sem = 1, rr_status = 0\<rparr> # replicate 4 no_reader"
    "tt_outstanding (rs_ts w_delivered) = 1" using v by simp_all
  show "rs_woken w_delivered = (\<lambda>_. None)" "rs_holders w_delivered = 0" "rs_leaked w_delivered = 0"
    "rs_irq w_delivered = False"
    by (simp_all add: w_delivered_def irq_body_def irq_down_def w_reading_def report_start_def)
qed

lemma w_delivered_reach: "report_reach short w_delivered"
  unfolding report_reach_def
  by (intro exI [of _ sirius_pdata] converse_rtranclp_into_rtranclp [OF w_reading_step w_delivered_steps])

definition w_woken :: report_sys where
  "w_woken = reader_wakes w_delivered 0 0"

definition w_holding :: report_sys where
  "w_holding = reader_ends w_woken 0 0"

lemma w_woken_step: "report_step short w_delivered w_woken"
  unfolding w_woken_def by (intro report_step.wake) (simp_all add: w_delivered_fields)

lemma w_holding_step: "report_step short w_woken w_holding"
  unfolding w_holding_def by (intro report_step.finish) (simp add: w_woken_def reader_wakes_def)

lemma w_holding_fields: "rs_holders w_holding = 1" "rs_leaked w_holding = 0"
  by (simp_all add: w_holding_def reader_ends_def get_report_end_def Let_def w_woken_def reader_wakes_def
      w_delivered_fields)

lemma w_holding_reach: "report_reach short w_holding"
proof -
  obtain pd where "(report_step short)\<^sup>*\<^sup>* (report_start pd) w_delivered"
    using w_delivered_reach by (auto simp: report_reach_def)
  then have "(report_step short)\<^sup>*\<^sup>* (report_start pd) w_holding"
    using w_woken_step w_holding_step by (meson rtranclp.rtrancl_into_rtrancl)
  then show ?thesis by (auto simp: report_reach_def)
qed

section \<open>Properties\<close>

text \<open>
  C4: Readers and the interrupt do not get in each other's way for good. In every state that they reach, with
  readers whose buffers are large enough, exactly one of these holds: the report's semaphore is free, the
  interrupt's thread has it, or there are readers with an outstanding report, and
  \<^verbatim>\<open>report_readers_outstanding\<close> is their number. And from every such state in which the thread is not at work, the readers can
  bring it about that the semaphore is free, whoever was interrupted by a signal in between.
\<close>

theorem touch_reports_progress:
  assumes "report_reach False s" "\<not> rs_irq s"
  shows "(tt_report_sem (rs_ts s) = (if tt_outstanding (rs_ts s) = 0 then 1 else 0)) \<and>
    unat (tt_outstanding (rs_ts s)) = rs_holders s + deliveries (rs_ts s) \<and>
    (\<exists>s'. (report_step False)\<^sup>*\<^sup>* s s' \<and> tt_report_sem (rs_ts s') = 1)"
  using report_invD(4,5) [OF report_reach_inv [OF assms(1)]] no_leak [OF assms(1)] assms(2)
    readers_finish [OF report_reach_inv [OF assms(1)] assms(2) no_leak [OF assms(1)]]
  by (auto split: if_splits)

text \<open>A reader that holds a report.\<close>

theorem touch_reports_progress_witness:
  "report_reach False w_holding \<and> rs_holders w_holding = 1 \<and> tt_report_sem (rs_ts w_holding) = 0 \<and>
    (\<exists>s'. (report_step False)\<^sup>*\<^sup>* w_holding s' \<and> tt_report_sem (rs_ts s') = 1)"
proof -
  have "\<not> rs_irq w_holding"
    by (simp add: w_holding_def reader_ends_def w_woken_def reader_wakes_def w_delivered_fields split: prod.split)
  from touch_reports_progress [OF w_holding_reach this] show ?thesis
    using w_holding_reach w_holding_fields by (auto split: if_splits)
qed

text \<open>
  C38: A short read of the \<^verbatim>\<open>report\<close> file stops the touch screen. A reader that gets a report and whose buffer has
  no room for it returns from \<^verbatim>\<open>report_read\<close> with an error and does not give the report back: no reader is left,
  and the interrupt's thread waits for the semaphore for ever, whatever comes after.
\<close>

theorem touch_short_read_blocks:
  "\<exists>s. report_reach True s \<and> rs_holders s = 0 \<and> deliveries (rs_ts s) = 0 \<and> report_blocked s"
proof -
  let ?s = "reader_reads w_holding 0 False"
  have "report_read_locked 0 (rs_ts w_holding) = (- EIO, False, [])"
    by (simp add: report_read_locked_def Let_def)
  then have step: "report_step True w_holding ?s"
    using w_holding_fields(1) by (intro report_step.read) auto
  obtain pd where "(report_step True)\<^sup>*\<^sup>* (report_start pd) w_holding"
    using w_holding_reach [of True] by (auto simp: report_reach_def)
  then have reach: "report_reach True ?s"
    unfolding report_reach_def using step by (meson rtranclp.rtrancl_into_rtrancl)
  have "deliveries (rs_ts ?s) = 0"
    by (simp add: reader_reads_def deliveries_def w_holding_def reader_ends_def get_report_end_def Let_def
        w_woken_def reader_wakes_def w_delivered_fields report_delivered_def no_reader_def)
  moreover have "report_blocked ?s"
    by (rule leaked_blocked [OF report_reach_inv [OF reach]]) (simp add: reader_reads_def)
  ultimately show ?thesis using reach by (intro exI [of _ ?s]) (simp add: reader_reads_def)
qed

end
