(* ===== verification/Touch_Irq.thy ===== *)
theory Touch_Irq
  imports Touch_Report
begin

text \<open>
  The interrupt of the touch screen: its two handlers, the reset of the chip, and commands that wait for an
  answer. The interrupt is edge triggered: the chip pulls the line low when it has a report, the edge runs the
  handler or, while the interrupt is disabled, is kept until it is enabled, and the line stays low until the
  report has been read. While the driver sleeps or waits, edges may come (\<open>preempt\<close>).
\<close>

section \<open>Reset\<close>

definition MXM_WAIT_MIN_US :: nat where "MXM_WAIT_MIN_US = 1000"
definition MXM_WAIT_MAX_US :: nat where "MXM_WAIT_MAX_US = 2000"
definition MXM_CHIP_RESET_US :: nat where "MXM_CHIP_RESET_US = 6000"

definition up_reset :: "unit mxm" where
  "up_reset = modify (\<lambda>ts. ts\<lparr>tt_reset_sem := tt_reset_sem ts + 1\<rparr>)"

text \<open>A free semaphore is taken; else another thread may release it before the timeout (0) or not.\<close>

definition down_timeout_reset :: "mx_env \<Rightarrow> int mxm" where
  "down_timeout_reset env = do {
     n \<leftarrow> gets tt_reset_sem;
     if 0 < n then do {
       modify (\<lambda>ts. ts\<lparr>tt_reset_sem := n - 1\<rparr>);
       ret 0
     }
     else call (me_ret env) Mx_down_timeout
   }"

text \<open>The chip may change the line when it is read or reset.\<close>

definition line_settles :: "mx_env \<Rightarrow> unit mxm" where
  "line_settles env = do {
     low \<leftarrow> State (\<lambda>s. (me_line env (io_trace s), s));
     modify (\<lambda>ts. ts\<lparr>tt_line_low := low\<rparr>)
   }"

text \<open>\<open>nap\<close> is the sleep: what else runs meanwhile depends on the caller. Without a reset line the result stays
  the initial \<^verbatim>\<open>-EINVAL\<close>.\<close>

definition reset_finish :: "int \<Rightarrow> int mxm" where
  "reset_finish r = do {
     whenM (r \<noteq> 0) up_reset;
     ret r
   }"

definition drive_reset :: "mx_env \<Rightarrow> bool \<Rightarrow> int \<Rightarrow> int mxm" where
  "drive_reset env high r = do {
     pd \<leftarrow> gets tt_pdata;
     if tp_gpio_reset pd \<noteq> 0 then call (me_ret env) (Mx_gpio_output (tp_gpio_reset pd) high) else ret r
   }"

definition reset_power :: "(nat \<Rightarrow> nat \<Rightarrow> unit mxm) \<Rightarrow> mx_env \<Rightarrow> int mxm" where
  "reset_power nap env = do {
     invalidate_all_fingers;
     pd \<leftarrow> gets tt_pdata;
     r \<leftarrow> drive_reset env (tp_reset_l2h pd = 0) (- EINVAL);
     if tp_gpio_reset pd \<noteq> 0 \<and> r \<noteq> 0 then reset_finish r
     else do {
       line_settles env;
       nap MXM_WAIT_MIN_US MXM_WAIT_MAX_US;
       r \<leftarrow> drive_reset env (tp_reset_l2h pd \<noteq> 0) r;
       if tp_gpio_reset pd \<noteq> 0 \<and> r \<noteq> 0 then reset_finish r
       else do {
         nap MXM_CHIP_RESET_US (MXM_CHIP_RESET_US + MXM_WAIT_MIN_US);
         reset_finish r
       }
     }
   }"

section \<open>Handlers\<close>

definition propagate :: "int \<Rightarrow> bool \<Rightarrow> unit mxm" where
  "propagate status report = do {
     ts \<leftarrow> gets id;
     (case propagate_report status report ts of
        None \<Rightarrow> modify (\<lambda>ts. ts\<lparr>tt_stuck := True\<rparr>)
      | Some ts' \<Rightarrow> modify (\<lambda>_. ts'))
   }"

definition usleep_range :: "nat \<Rightarrow> nat \<Rightarrow> unit mxm" where
  "usleep_range a b = emit (Mx_usleep a b)"

definition irq_handler_soft :: "mx_env \<Rightarrow> unit mxm" where
  "irq_handler_soft env = do {
     r \<leftarrow> read_mtp_report env;
     if r = 0 then do {
       line_settles env;
       process_report env;
       propagate 0 True
     }
     else do {
       t \<leftarrow> down_timeout_reset env;
       if t = 0 then do { _ \<leftarrow> reset_power usleep_range env; ret () } else ret ()
     }
   }"

text \<open>Whether the thread is to be woken.\<close>

definition irq_handler_hard :: "bool mxm" where
  "irq_handler_hard = do {
     ts \<leftarrow> gets id;
     if \<not> tt_line_low ts then ret False
     else do {
       modify (\<lambda>ts. ts\<lparr>tt_irq_count := tt_irq_count ts + 1\<rparr>);
       if tt_pm_suspended ts then do {
         modify (\<lambda>ts. ts\<lparr>tt_irq_on_suspend := True\<rparr>);
         ret False
       }
       else ret True
     }
   }"

text \<open>A thread that is stuck in a semaphore does not run again.\<close>

definition handle_irq :: "mx_env \<Rightarrow> unit mxm" where
  "handle_irq env = do {
     wake \<leftarrow> irq_handler_hard;
     stuck \<leftarrow> gets tt_stuck;
     whenM (wake \<and> \<not> stuck) (irq_handler_soft env)
   }"

text \<open>The chip has a report: an edge, unless the line is low already.\<close>

definition line_falls :: "mx_env \<Rightarrow> unit mxm" where
  "line_falls env = do {
     ts \<leftarrow> gets id;
     if tt_line_low ts then ret ()
     else do {
       modify (\<lambda>ts. ts\<lparr>tt_line_low := True\<rparr>);
       if 0 < tt_irq_depth ts then modify (\<lambda>ts. ts\<lparr>tt_irq_pending := True\<rparr>) else handle_irq env
     }
   }"

definition preempt :: "mx_env \<Rightarrow> unit mxm" where
  "preempt env = do {
     n \<leftarrow> State (\<lambda>s. (me_irqs env (io_trace s), s));
     iterM (\<lambda>_. line_falls env) [0..<n]
   }"

definition nap :: "mx_env \<Rightarrow> nat \<Rightarrow> nat \<Rightarrow> unit mxm" where
  "nap env a b = do {
     usleep_range a b;
     preempt env
   }"

definition disable_irq :: "unit mxm" where
  "disable_irq = do {
     emit (Mx_irq_enable False);
     modify (\<lambda>ts. ts\<lparr>tt_irq_depth := tt_irq_depth ts + 1\<rparr>)
   }"

text \<open>An edge that was kept is handled now.\<close>

definition enable_irq :: "mx_env \<Rightarrow> unit mxm" where
  "enable_irq env = do {
     emit (Mx_irq_enable True);
     modify (\<lambda>ts. ts\<lparr>tt_irq_depth := tt_irq_depth ts - 1\<rparr>);
     ts \<leftarrow> gets id;
     whenM (tt_irq_depth ts = 0 \<and> tt_irq_pending ts) (do {
       modify (\<lambda>ts. ts\<lparr>tt_irq_pending := False\<rparr>);
       handle_irq env
     })
   }"

section \<open>Commands with an answer\<close>

definition cmd_send :: "mx_env \<Rightarrow> u16 list \<Rightarrow> int mxm" where
  "cmd_send env ws = do {
     r \<leftarrow> cmd_send_locked env ws;
     preempt env;
     ret r
   }"

definition max1187x_set_glove :: "mx_env \<Rightarrow> u32 \<Rightarrow> int mxm" where
  "max1187x_set_glove env enable = do {
     r \<leftarrow> max1187x_set_glove_locked env enable;
     preempt env;
     ret r
   }"

definition down_interruptible_rbcmd :: "mx_env \<Rightarrow> int mxm" where
  "down_interruptible_rbcmd env = do {
     n \<leftarrow> gets tt_sema_rbcmd;
     if 0 < n then do {
       modify (\<lambda>ts. ts\<lparr>tt_sema_rbcmd := n - 1\<rparr>);
       ret 0
     }
     else call (me_ret env) Mx_down_interruptible
   }"

definition rbcmd_end :: "unit mxm" where
  "rbcmd_end = modify (\<lambda>ts. ts\<lparr>tt_rb_waiting := False, tt_sema_rbcmd := tt_sema_rbcmd ts + 1\<rparr>)"

text \<open>The buffer of the caller, for \<open>cap\<close> words, is not initialised.\<close>

definition rbcmd_begin :: "mx_env \<Rightarrow> u16 \<Rightarrow> nat \<Rightarrow> unit mxm" where
  "rbcmd_begin env rpt_id cap = do {
     b \<leftarrow> State (\<lambda>s. (map (me_byte env (io_trace s)) [0..<2 * cap], s));
     modify (\<lambda>ts. ts\<lparr>tt_rb_report_id := rpt_id, tt_rb_buf := b, tt_rb_len := of_nat cap,
       tt_rb_received := False, tt_rb_waiting := True\<rparr>)
   }"

definition rbcmd_send_receive :: "mx_env \<Rightarrow> u16 list \<Rightarrow> u16 \<Rightarrow> nat \<Rightarrow> int mxm" where
  "rbcmd_send_receive env cmd rpt_id cap = do {
     r \<leftarrow> down_interruptible_rbcmd env;
     if r \<noteq> 0 then ret (- ERESTARTSYS)
     else do {
       rbcmd_begin env rpt_id cap;
       r \<leftarrow> cmd_send env cmd;
       if r \<noteq> 0 then do { rbcmd_end; ret (- ERESTARTSYS) }
       else do {
         preempt env;
         r \<leftarrow> call (me_ret env) (Mx_wait_report rpt_id);
         got \<leftarrow> gets tt_rb_received;
         rbcmd_end;
         ret (if r < 0 \<or> \<not> got then - ERESTARTSYS else 0)
       }
     }
   }"

definition sreset :: "mx_env \<Rightarrow> int mxm" where
  "sreset env =
     rbcmd_send_receive env [MXM_CMD_ID_RESET_SYSTEM, MXM_ZERO_SIZE_CMD] MXM_RPT_ID_SYS_STATUS 10"

definition MXM_FW_RETRIES_MAX :: nat where "MXM_FW_RETRIES_MAX = 5"
definition MXM_RPT_ID_FW_VERSION :: u16 where "MXM_RPT_ID_FW_VERSION = 0x0140"
definition MXM_RPT_ID_CFG_INF :: u16 where "MXM_RPT_ID_CFG_INF = 0x0102"

text \<open>\<open>n\<close> attempts are left; \<open>r\<close> is the result of the last.\<close>

fun rbcmd_retry :: "mx_env \<Rightarrow> u16 list \<Rightarrow> u16 \<Rightarrow> nat \<Rightarrow> int \<Rightarrow> int mxm" where
  "rbcmd_retry env cmd rpt_id 0 r = ret r"
| "rbcmd_retry env cmd rpt_id (Suc n) r =
     (if r = 0 then ret 0
      else do {
        r \<leftarrow> rbcmd_send_receive env cmd rpt_id 100;
        rbcmd_retry env cmd rpt_id n r
      })"

definition read_chip_data :: "mx_env \<Rightarrow> int mxm" where
  "read_chip_data env = do {
     r \<leftarrow> rbcmd_retry env [MXM_CMD_ID_GET_FW_VERSION, MXM_ZERO_SIZE_CMD] MXM_RPT_ID_FW_VERSION
            MXM_FW_RETRIES_MAX (- 1);
     if r \<noteq> 0 then ret r
     else do {
       modify (\<lambda>ts. ts\<lparr>tt_chip_id := BYTEH (word_at (tt_rb_buf ts) 4)\<rparr>);
       r \<leftarrow> rbcmd_retry env [MXM_CMD_ID_GET_CFG_INF, MXM_ZERO_SIZE_CMD] MXM_RPT_ID_CFG_INF
              MXM_FW_RETRIES_MAX (- 1);
       if r \<noteq> 0 then ret r
       else do {
         modify (\<lambda>ts. ts\<lparr>tt_config_id := word_at (tt_rb_buf ts) 3\<rparr>);
         ret 0
       }
     }
   }"

definition power_on_reset_store :: "mx_env \<Rightarrow> nat \<Rightarrow> nat mxm" where
  "power_on_reset_store env count = do {
     r \<leftarrow> down_timeout_reset env;
     if r \<noteq> 0 then ret count
     else do {
       _ \<leftarrow> reset_power (nap env) env;
       ret count
     }
   }"

end
