(* ===== verification/Touch_Pm.thy ===== *)
theory Touch_Pm
  imports Touch_Irq
begin

text \<open>
  Suspend and resume of the touch screen, with the interrupt that may come while they sleep. The resume that the
  device tree asks for resets the chip, whose first report says so.
\<close>

section \<open>Operations\<close>

definition MXM_LPM_UA_LOAD :: nat where "MXM_LPM_UA_LOAD = 2000"
definition MXM_HPM_UA_LOAD :: nat where "MXM_HPM_UA_LOAD = 15000"
definition MXM_PWR_SLEEP_MODE :: u16 where "MXM_PWR_SLEEP_MODE = 0x0000"
definition MXM_WAKEUP_MODE :: u16 where "MXM_WAKEUP_MODE = 0x0006"

definition vreg_suspend :: "mx_env \<Rightarrow> bool \<Rightarrow> int mxm" where
  "vreg_suspend env enable = do {
     v \<leftarrow> gets tt_vreg;
     if (case v of Vreg_err _ \<Rightarrow> True | _ \<Rightarrow> False) then ret (- ENODEV)
     else do {
       r \<leftarrow> call (me_ret env) (Mx_set_load (if enable then MXM_LPM_UA_LOAD else MXM_HPM_UA_LOAD));
       ret (if r < 0 then r else 0)
     }
   }"

definition device_may_wakeup :: "mx_env \<Rightarrow> bool mxm" where
  "device_may_wakeup env = do {
     r \<leftarrow> call (me_ret env) Mx_may_wakeup;
     ret (r \<noteq> 0)
   }"

definition set_suspend_mode :: "mx_env \<Rightarrow> unit mxm" where
  "set_suspend_mode env = do {
     r \<leftarrow> down_timeout_reset env;
     if r \<noteq> 0 then ret ()
     else do {
       modify (\<lambda>ts. ts\<lparr>tt_is_suspended := True\<rparr>);
       wakeup \<leftarrow> device_may_wakeup env;
       let mode = (if wakeup then MXM_WAKEUP_MODE else MXM_PWR_SLEEP_MODE);
       _ \<leftarrow> cmd_send env [MXM_CMD_ID_SET_POWER_MODE, MXM_ONE_SIZE_CMD, mode];
       whenM (mode \<noteq> MXM_WAKEUP_MODE) (do {
         nap env MXM_WAIT_MIN_US MXM_WAIT_MAX_US;
         _ \<leftarrow> vreg_suspend env True;
         ret ()
       });
       up_reset
     }
   }"

definition set_resume_mode :: "mx_env \<Rightarrow> unit mxm" where
  "set_resume_mode env = do {
     r \<leftarrow> down_timeout_reset env;
     if r \<noteq> 0 then ret ()
     else do {
       _ \<leftarrow> vreg_suspend env False;
       nap env MXM_WAIT_MIN_US MXM_WAIT_MAX_US;
       por \<leftarrow> gets (\<lambda>ts. tp_enable_resume_por (tt_pdata ts) \<noteq> 0);
       (if por then do {
          disable_irq;
          _ \<leftarrow> reset_power (nap env) env;
          enable_irq env
        } else do {
          reinit_chip_settings env;
          preempt env
        });
       modify (\<lambda>ts. ts\<lparr>tt_is_suspended := False\<rparr>);
       whenM (\<not> por) up_reset
     }
   }"

definition suspend_noirq :: "mx_env \<Rightarrow> int mxm" where
  "suspend_noirq env = do {
     ts \<leftarrow> gets id;
     if \<not> tt_irq_on_suspend ts then ret 0
     else do {
       wakeup \<leftarrow> device_may_wakeup env;
       ret (if wakeup then - EBUSY else 0)
     }
   }"

definition suspend :: "mx_env \<Rightarrow> int mxm" where
  "suspend env = do {
     ts \<leftarrow> gets id;
     whenM (\<not> tt_is_suspended ts) (set_suspend_mode env);
     disable_irq;
     wakeup \<leftarrow> device_may_wakeup env;
     whenM wakeup (emit (Mx_irq_wake True));
     modify (\<lambda>ts. ts\<lparr>tt_irq_on_suspend := False\<rparr>);
     modify (\<lambda>ts. ts\<lparr>tt_pm_suspended := True\<rparr>);
     ret 0
   }"

definition resume_report :: "mx_env \<Rightarrow> unit mxm" where
  "resume_report env = do {
     modify (\<lambda>ts. ts\<lparr>tt_irq_on_suspend := False\<rparr>);
     r \<leftarrow> read_mtp_report env;
     whenM (r = 0) (do {
       line_settles env;
       process_report env
     })
   }"

definition resume_start :: "mx_env \<Rightarrow> unit mxm" where
  "resume_start env = do {
     wakeup \<leftarrow> device_may_wakeup env;
     whenM wakeup (emit (Mx_irq_wake False));
     ts \<leftarrow> gets id;
     whenM (tt_irq_on_suspend ts) (resume_report env);
     enable_irq env
   }"

definition resume :: "mx_env \<Rightarrow> int mxm" where
  "resume env = do {
     resume_start env;
     ts \<leftarrow> gets id;
     whenM (tt_is_suspended ts) (set_resume_mode env);
     modify (\<lambda>ts. ts\<lparr>tt_pm_suspended := False\<rparr>);
     ret 0
   }"

section \<open>Interrupts during a resume\<close>

text \<open>What the interrupt does not change while \<^verbatim>\<open>pm_suspended\<close> is set.\<close>

definition resuming :: "nat \<Rightarrow> nat \<Rightarrow> max1187x_pdata \<Rightarrow> mx_io \<Rightarrow> bool" where
  "resuming d n pd s \<longleftrightarrow> tt_pm_suspended (io_dev s) \<and> tt_irq_depth (io_dev s) = d
     \<and> tt_reset_sem (io_dev s) = n \<and> tt_pdata (io_dev s) = pd \<and> tt_is_suspended (io_dev s)"

lemma resuming_trace [simp]: "resuming d n pd (s\<lparr>io_trace := tr\<rparr>) = resuming d n pd s"
  by (simp add: resuming_def)

lemma wp_handle_irq_suspended:
  assumes "tt_pm_suspended (io_dev s)"
    and "Q () (if tt_line_low (io_dev s)
      then s\<lparr>io_dev := (io_dev s)\<lparr>tt_irq_count := tt_irq_count (io_dev s) + 1, tt_irq_on_suspend := True\<rparr>\<rparr> else s)"
  shows "wp (handle_irq env) Q s"
  using assms by (auto simp: handle_irq_def irq_handler_hard_def wp_simps split: if_splits)

lemma wp_line_falls_suspended:
  assumes "resuming d n pd s"
  shows "wp (line_falls env) (\<lambda>_ t. resuming d n pd t \<and> tt_line_low (io_dev t)) s"
  using assms
  by (auto simp: line_falls_def wp_simps resuming_def Let_def intro!: wp_handle_irq_suspended)

lemma kept_resuming_line: "kept (resuming d n pd) (line_falls env)"
  by (rule keptI) (rule wp_mono [OF wp_line_falls_suspended], auto)

lemma kept_resuming_preempt: "kept (resuming d n pd) (preempt env)"
  by (rule keptI) (auto simp: preempt_def wp_simps
      intro!: keptD [OF kept_iterM] kept_resuming_line)

lemma wp_preempt_falls:
  assumes "resuming d n pd s" "0 < me_irqs env (io_trace s)"
  shows "wp (preempt env) (\<lambda>_ t. resuming d n pd t \<and> tt_line_low (io_dev t)) s"
proof -
  have more: "wp (iterM (\<lambda>_. line_falls env) ks) (\<lambda>_ t. resuming d n pd t \<and> tt_line_low (io_dev t)) t"
    if "resuming d n pd t \<and> tt_line_low (io_dev t)" for ks :: "nat list" and t
    by (rule wp_iterM [where Inv = "\<lambda>t. resuming d n pd t \<and> tt_line_low (io_dev t)", OF that])
      (auto intro: wp_mono [OF wp_line_falls_suspended])
  have "[0..<me_irqs env (io_trace s)] = 0 # [1..<me_irqs env (io_trace s)]"
    using assms(2) by (simp add: upt_conv_Cons)
  then show ?thesis
    using more by (auto simp: preempt_def wp_simps intro: wp_mono [OF wp_line_falls_suspended [OF assms(1)]])
qed

lemma wp_enable_suspended:
  assumes "resuming d n pd s"
  shows "wp (enable_irq env) (\<lambda>_ t. resuming (d - 1) n pd t \<and> tt_line_low (io_dev t) = tt_line_low (io_dev s)
     \<and> (if d \<le> 1 then \<not> tt_irq_pending (io_dev t) else tt_irq_pending (io_dev t) = tt_irq_pending (io_dev s))) s"
  using assms
  by (auto simp: enable_irq_def wp_simps resuming_def intro!: wp_handle_irq_suspended split: if_splits)

lemma kept_resuming_call: "kept (resuming d n pd) (call answer e)"
  by (rule keptI) (simp add: wp_simps resuming_def)

lemma kept_resuming_nap: "kept (resuming d n pd) (nap env a b)"
  unfolding nap_def usleep_range_def
  by (intro kept_bind kept_resuming_preempt) (rule keptI, simp add: wp_simps resuming_def)

lemma wp_nap_falls:
  assumes "resuming d n pd s" "0 < me_irqs env (io_trace s @ [Mx_usleep a b])"
  shows "wp (nap env a b) (\<lambda>_ t. resuming d n pd t \<and> tt_line_low (io_dev t)) s"
  using assms
  by (auto simp: nap_def usleep_range_def wp_simps intro!: wp_preempt_falls)

lemma wp_reset_suspended:
  assumes "resuming d n pd s" "tp_gpio_reset pd \<noteq> 0"
    and gpio: "\<And>tr g b. me_ret env tr (Mx_gpio_output g b) = 0"
    and boots: "\<And>tr. 0 < me_irqs env (tr @ [Mx_usleep MXM_CHIP_RESET_US (MXM_CHIP_RESET_US + MXM_WAIT_MIN_US)])"
  shows "wp (reset_power (nap env) env) (\<lambda>_ t. resuming d n pd t \<and> tt_line_low (io_dev t)) s"
proof -
  have G: "kept (resuming d n pd) invalidate_all_fingers" "kept (resuming d n pd) (line_settles env)"
    by (auto intro!: keptI simp: invalidate_all_fingers_def line_settles_def wp_simps resuming_def)
  have drive: "wp (drive_reset env b r) Q t" if "resuming d n pd t" "\<And>t. resuming d n pd t \<Longrightarrow> Q 0 t" for b r Q t
    using that assms(2) by (auto simp: drive_reset_def wp_simps gpio resuming_def)
  have pd: "tt_pdata (io_dev t) = pd" if "resuming d n pd t" for t
    using that by (simp add: resuming_def)
  show ?thesis
    unfolding reset_power_def reset_finish_def wp_simps
    by (rule kept_wp [OF G(1) assms(1)], simp add: pd, rule drive, assumption, simp add: assms(2),
        rule kept_wp [OF G(2)], assumption, rule kept_wp [OF kept_resuming_nap], assumption,
        rule drive, assumption, simp, rule wp_mono [OF wp_nap_falls [OF _ boots]], assumption, simp)
qed

section \<open>Deaf\<close>

text \<open>The line is low, no edge is kept, and the reset is taken: nothing will make the driver read.\<close>

definition deaf :: "touch \<Rightarrow> bool" where
  "deaf ts \<longleftrightarrow> tt_line_low ts \<and> \<not> tt_irq_pending ts \<and> tt_reset_sem ts = 0 \<and> \<not> tt_is_suspended ts
     \<and> \<not> (tt_pm_suspended ts \<and> tt_irq_on_suspend ts)"

lemma set_resume_deaf:
  assumes "resuming 0 1 pd s" "tp_enable_resume_por pd \<noteq> 0" "tp_gpio_reset pd \<noteq> 0"
    and gpio: "\<And>tr g b. me_ret env tr (Mx_gpio_output g b) = 0"
    and boots: "\<And>tr. 0 < me_irqs env (tr @ [Mx_usleep MXM_CHIP_RESET_US (MXM_CHIP_RESET_US + MXM_WAIT_MIN_US)])"
  shows "wp (set_resume_mode env) (\<lambda>_ t. tt_line_low (io_dev t) \<and> \<not> tt_irq_pending (io_dev t)
     \<and> tt_reset_sem (io_dev t) = 0 \<and> \<not> tt_is_suspended (io_dev t) \<and> tt_irq_depth (io_dev t) = 0) s"
proof -
  have vreg: "kept (resuming d n pd) (vreg_suspend env b)" for d n b
    by (auto simp: vreg_suspend_def resuming_def wp_simps intro!: keptI split: vreg.split)
  have disable: "wp disable_irq Q t" if "resuming 0 0 pd t" "\<And>t. resuming 1 0 pd t \<Longrightarrow> Q () t" for Q t
    using that by (simp add: disable_irq_def wp_simps resuming_def)
  have down: "wp (down_timeout_reset env) Q s" if "\<And>t. resuming 0 0 pd t \<Longrightarrow> Q 0 t" for Q
    using that assms(1) by (simp add: down_timeout_reset_def wp_simps resuming_def)
  have por: "tp_enable_resume_por (tt_pdata (io_dev t)) \<noteq> 0" if "resuming 0 0 pd t" for t
    using that assms(2) by (simp add: resuming_def)
  show ?thesis
    unfolding set_resume_mode_def wp_simps
    by (rule down, simp, rule kept_wp [OF vreg], assumption, rule kept_wp [OF kept_resuming_nap], assumption,
        simp add: por, rule disable, assumption,
        rule wp_mono [OF wp_reset_suspended [OF _ assms(3) gpio boots]], assumption,
        rule wp_mono [OF wp_enable_suspended], simp, auto simp: resuming_def)
qed

lemma resume_deaf:
  assumes "tt_pm_suspended (io_dev s)" "tt_is_suspended (io_dev s)" "\<not> tt_irq_on_suspend (io_dev s)"
    "tt_irq_depth (io_dev s) = 1" "tt_reset_sem (io_dev s) = 1" "tt_pdata (io_dev s) = pd"
    "tp_enable_resume_por pd \<noteq> 0" "tp_gpio_reset pd \<noteq> 0"
    and gpio: "\<And>tr g b. me_ret env tr (Mx_gpio_output g b) = 0"
    and boots: "\<And>tr. 0 < me_irqs env (tr @ [Mx_usleep MXM_CHIP_RESET_US (MXM_CHIP_RESET_US + MXM_WAIT_MIN_US)])"
  shows "wp (resume env) (\<lambda>_ t. deaf (io_dev t) \<and> \<not> tt_pm_suspended (io_dev t)) s"
proof -
  have start: "wp (resume_start env) (\<lambda>_ t. resuming 0 1 pd t) s"
  proof -
    have en: "wp (enable_irq env) (\<lambda>_ t. resuming 0 1 pd t) t" if "resuming 1 1 pd t" for t
      using wp_enable_suspended [OF that] by (rule wp_mono) simp
    have self: "resuming 1 1 pd s" using assms by (simp add: resuming_def)
    show ?thesis
      using assms(3) self by (auto simp: resume_start_def device_may_wakeup_def wp_simps intro!: en simp del: One_nat_def)
  qed
  have rest: "wp (set_resume_mode env) (\<lambda>_ u. deaf ((io_dev u)\<lparr>tt_pm_suspended := False\<rparr>)) t"
    if "resuming 0 1 pd t" for t
    by (rule wp_mono [OF set_resume_deaf [OF that assms(7,8) gpio boots]]) (simp add: deaf_def)
  have asleep: "tt_is_suspended (io_dev t)" if "resuming 0 1 pd t" for t
    using that by (simp add: resuming_def)
  show ?thesis
    unfolding resume_def wp_simps
    by (rule wp_mono [OF start]) (simp add: rest asleep)
qed

text \<open>What may happen next: an edge, a suspend or a resume in their turn, and the \<^verbatim>\<open>por\<close> file.\<close>

inductive pm_step :: "mx_env \<Rightarrow> mx_io \<Rightarrow> mx_io \<Rightarrow> bool" for env where
  edge: "run_state (line_falls env) s = ((), t) \<Longrightarrow> pm_step env s t"
| por: "run_state (power_on_reset_store env count) s = (c, t) \<Longrightarrow> pm_step env s t"
| suspends: "\<not> tt_pm_suspended (io_dev s) \<Longrightarrow> run_state (suspend env) s = (r, t) \<Longrightarrow> pm_step env s t"
| resumes: "tt_pm_suspended (io_dev s) \<Longrightarrow> run_state (resume env) s = (r, t) \<Longrightarrow> pm_step env s t"

text \<open>The transfers so far: while the driver is deaf there are no more.\<close>

definition transfers :: "mx_ev list \<Rightarrow> mx_ev list" where
  "transfers tr = filter (\<lambda>e. case e of Mx_send _ \<Rightarrow> True | Mx_recv _ \<Rightarrow> True | _ \<Rightarrow> False) tr"

definition deaf_for_good :: "mx_env \<Rightarrow> mx_io \<Rightarrow> bool" where
  "deaf_for_good env s \<longleftrightarrow> (\<forall>t. (pm_step env)\<^sup>*\<^sup>* s t \<longrightarrow>
     deaf (io_dev t) \<and> transfers (io_trace t) = transfers (io_trace s))"

definition deaf_since :: "mx_ev list \<Rightarrow> mx_io \<Rightarrow> bool" where
  "deaf_since tr s \<longleftrightarrow> deaf (io_dev s) \<and> transfers (io_trace s) = transfers tr"

lemma deaf_step:
  assumes "\<And>tr. me_ret env tr Mx_down_timeout \<noteq> 0" "pm_step env s t" "deaf_since tr s"
  shows "deaf_since tr t"
  using assms(2)
proof cases
  case edge
  then show ?thesis using assms(3) by (simp add: line_falls_def deaf_since_def deaf_def)
next
  case (por count c)
  then show ?thesis
    using assms(1,3)
    by (auto simp: power_on_reset_store_def down_timeout_reset_def deaf_since_def deaf_def transfers_def)
next
  case (suspends r)
  then show ?thesis
    using assms(1,3)
    by (auto simp: suspend_def set_suspend_mode_def down_timeout_reset_def deaf_since_def deaf_def transfers_def
        disable_irq_def device_may_wakeup_def whenM_def split: if_splits)
next
  case (resumes r)
  then show ?thesis
    using assms(3)
    by (auto simp: resume_def resume_start_def deaf_since_def deaf_def transfers_def enable_irq_def
        device_may_wakeup_def whenM_def split: if_splits)
qed

text \<open>A suspended driver whose device tree asks for the reset, as on the phone.\<close>

definition asleep :: "touch \<Rightarrow> bool" where
  "asleep ts \<longleftrightarrow> tt_pm_suspended ts \<and> tt_is_suspended ts \<and> \<not> tt_irq_on_suspend ts \<and> tt_irq_depth ts = 1
     \<and> tt_reset_sem ts = 1 \<and> tp_enable_resume_por (tt_pdata ts) \<noteq> 0 \<and> tp_gpio_reset (tt_pdata ts) \<noteq> 0"

lemma deaf_steps:
  assumes "\<And>tr. me_ret env tr Mx_down_timeout \<noteq> 0" "(pm_step env)\<^sup>*\<^sup>* s t" "deaf_since tr s"
  shows "deaf_since tr t"
  using assms(2,3) by (induction rule: rtranclp_induct) (auto intro: deaf_step [OF assms(1)])

lemma quiet_preempt:
  assumes "\<And>tr. me_irqs env tr = 0"
  shows "wp (preempt env) Q s = Q () s"
  using assms by (simp add: preempt_def wp_simps)

lemma resume_quiet:
  assumes "asleep (io_dev s)" "\<not> tt_irq_pending (io_dev s)" "\<not> tt_stuck (io_dev s)"
    and quiet: "\<And>tr. me_irqs env tr = 0" "\<And>tr. \<not> me_line env tr"
    and gpio: "\<And>tr g b. me_ret env tr (Mx_gpio_output g b) = 0"
  shows "wp (resume env) (\<lambda>_ t. \<not> tt_line_low (io_dev t) \<and> tt_irq_depth (io_dev t) = 0 \<and>
    \<not> tt_stuck (io_dev t) \<and> \<not> tt_pm_suspended (io_dev t) \<and> \<not> tt_is_suspended (io_dev t)) s"
  using assms
  by (auto simp: resume_def resume_start_def set_resume_mode_def reset_power_def drive_reset_def reset_finish_def
      down_timeout_reset_def vreg_suspend_def device_may_wakeup_def nap_def usleep_range_def enable_irq_def
      disable_irq_def invalidate_all_fingers_def line_settles_def asleep_def wp_simps quiet_preempt
      split: vreg.split)

section \<open>Properties\<close>

text \<open>
  C40: A resume that nothing interrupts gives the touch screen back: afterwards the next edge of the
  interrupt's line wakes the thread, which reads the report.
\<close>

theorem touch_resume_hears:
  assumes "asleep (io_dev s)" "\<not> tt_irq_pending (io_dev s)" "\<not> tt_stuck (io_dev s)"
    and "\<And>tr. me_irqs env tr = 0" "\<And>tr. \<not> me_line env tr"
    and "\<And>tr g b. me_ret env tr (Mx_gpio_output g b) = 0"
  shows "wp (resume env) (\<lambda>_ t. run_state (line_falls env) t = run_state (irq_handler_soft env)
    (t\<lparr>io_dev := (io_dev t)\<lparr>tt_line_low := True, tt_irq_count := tt_irq_count (io_dev t) + 1\<rparr>\<rparr>)) s"
  by (rule wp_mono [OF resume_quiet [OF assms]])
    (simp add: line_falls_def handle_irq_def irq_handler_hard_def whenM_def)

text \<open>The phone, suspended; a bus on which everything goes well; a chip that reports its reset, or does not.\<close>

definition w_asleep :: mx_io where
  "w_asleep = w_mx_io\<lparr>io_dev := w_touch\<lparr>tt_pm_suspended := True, tt_is_suspended := True, tt_irq_depth := 1\<rparr>\<rparr>"

definition w_pm_env :: "bool \<Rightarrow> mx_env" where
  "w_pm_env boots = \<lparr>me_again = (\<lambda>_ _. 0),
     me_ret = (\<lambda>_ e. case e of Mx_send b \<Rightarrow> int (length b) | Mx_recv n \<Rightarrow> int n | Mx_down_timeout \<Rightarrow> - ETIMEDOUT
       | _ \<Rightarrow> 0),
     me_byte = (\<lambda>_ _. 0),
     me_irqs = (\<lambda>tr. if boots \<and> last tr = Mx_usleep MXM_CHIP_RESET_US (MXM_CHIP_RESET_US + MXM_WAIT_MIN_US)
       then 1 else 0),
     me_line = (\<lambda>_. False)\<rparr>"

lemma w_asleep: "asleep (io_dev w_asleep)" "\<not> tt_irq_pending (io_dev w_asleep)" "\<not> tt_stuck (io_dev w_asleep)"
  by (simp_all add: asleep_def w_asleep_def w_touch_def touch_init_def sirius_pdata)

theorem touch_resume_hears_witness:
  "wp (resume (w_pm_env False)) (\<lambda>_ t. run_state (line_falls (w_pm_env False)) t =
    run_state (irq_handler_soft (w_pm_env False))
      (t\<lparr>io_dev := (io_dev t)\<lparr>tt_line_low := True, tt_irq_count := tt_irq_count (io_dev t) + 1\<rparr>\<rparr>)) w_asleep"
  by (rule touch_resume_hears [OF w_asleep]) (simp_all add: w_pm_env_def)

text \<open>
  C2: A chip that reports its reset within the time the driver gives it is never heard again. When the
  edge of that report comes while \<^verbatim>\<open>reset_power\<close> sleeps, it is kept and handed to the handler before \<^verbatim>\<open>resume\<close> has
  cleared \<^verbatim>\<open>pm_suspended\<close>: the handler takes it for an interrupt of the suspended device and does not wake
  the thread. The line stays low, so no edge follows, the semaphore of the reset stays taken, and neither edges, nor
  further suspends and resumes, nor the \<^verbatim>\<open>por\<close> file make the driver use the bus again.
\<close>

theorem touch_resume_deaf:
  assumes "asleep (io_dev s)"
    and "\<And>tr. 0 < me_irqs env (tr @ [Mx_usleep MXM_CHIP_RESET_US (MXM_CHIP_RESET_US + MXM_WAIT_MIN_US)])"
    and "\<And>tr g b. me_ret env tr (Mx_gpio_output g b) = 0" "\<And>tr. me_ret env tr Mx_down_timeout \<noteq> 0"
  shows "wp (resume env) (\<lambda>_ t. \<not> tt_pm_suspended (io_dev t) \<and> deaf_for_good env t) s"
proof -
  have "wp (resume env) (\<lambda>_ t. deaf (io_dev t) \<and> \<not> tt_pm_suspended (io_dev t)) s"
    using assms(1-3) by (intro resume_deaf [OF _ _ _ _ _ refl]) (auto simp: asleep_def)
  then show ?thesis
  proof (rule wp_mono)
    fix t :: mx_io
    assume t: "deaf (io_dev t) \<and> \<not> tt_pm_suspended (io_dev t)"
    then have "deaf_since (io_trace t) t" by (simp add: deaf_since_def)
    from deaf_steps [OF assms(4) _ this] have "deaf_for_good env t"
      unfolding deaf_for_good_def deaf_since_def by blast
    with t show "\<not> tt_pm_suspended (io_dev t) \<and> deaf_for_good env t" by simp
  qed
qed

theorem touch_resume_deaf_witness:
  "wp (resume (w_pm_env True)) (\<lambda>_ t. \<not> tt_pm_suspended (io_dev t) \<and> deaf_for_good (w_pm_env True) t) w_asleep"
  by (rule touch_resume_deaf [OF w_asleep(1)]) (simp_all add: w_pm_env_def)

end
