(* ===== verification/Touch_Boot.thy ===== *)
theory Touch_Boot
  imports Touch_Irq
begin

text \<open>
  The boot loader of the touch screen's chip and the update of its firmware: registers that are read and written
  over the bus, commands that are confirmed, the flash that is erased and written block by block, and the update
  that compares checksums before and after. The checksum \<^verbatim>\<open>crc16\<close>, the firmware files and the formatting of
  their names are arguments.
\<close>

section \<open>Registers\<close>

definition MXM_BL_STATUS_ADDR_H :: u8 where "MXM_BL_STATUS_ADDR_H = 0x00"
definition MXM_BL_STATUS_ADDR_L :: u8 where "MXM_BL_STATUS_ADDR_L = 0xFF"
definition MXM_BL_DATA_ADDR_H :: u8 where "MXM_BL_DATA_ADDR_H = 0x00"
definition MXM_BL_DATA_ADDR_L :: u8 where "MXM_BL_DATA_ADDR_L = 0xFE"
definition MXM_BL_STATUS_READY_H :: u8 where "MXM_BL_STATUS_READY_H = 0xAB"
definition MXM_BL_STATUS_READY_L :: u8 where "MXM_BL_STATUS_READY_L = 0xCC"
definition MXM_BL_DATA_READY_H :: u8 where "MXM_BL_DATA_READY_H = 0x00"
definition MXM_BL_DATA_READY_L :: u8 where "MXM_BL_DATA_READY_L = 0x3E"
definition MXM_BL_RXTX_COMPLETE_H :: u8 where "MXM_BL_RXTX_COMPLETE_H = 0x54"
definition MXM_BL_RXTX_COMPLETE_L :: u8 where "MXM_BL_RXTX_COMPLETE_L = 0x32"
definition MXM_BL_RD_STATUS_RETRY :: nat where "MXM_BL_RD_STATUS_RETRY = 3"

text \<open>\<open>n\<close> attempts are left. What was received is in the buffer that the next attempt sends.\<close>

fun read_status_loop :: "mx_env \<Rightarrow> u8 \<Rightarrow> u8 \<Rightarrow> nat \<Rightarrow> u8 list \<Rightarrow> int mxm" where
  "read_status_loop env byteL byteH 0 buffer = ret (- EIO)"
| "read_status_loop env byteL byteH (Suc n) buffer = do {
     tx \<leftarrow> i2c_tx_bytes env buffer;
     if tx \<noteq> 2 then ret (- EIO)
     else do {
       rx \<leftarrow> i2c_rx_bytes env 2;
       if fst rx \<noteq> 2 then ret (- EIO)
       else do {
         let buffer = take 2 (snd rx);
         if buffer ! 0 = byteL \<and> buffer ! 1 = byteH then ret 0
         else read_status_loop env byteL byteH n buffer
       }
     }
   }"

definition bootloader_read_status_reg :: "mx_env \<Rightarrow> u8 \<Rightarrow> u8 \<Rightarrow> int mxm" where
  "bootloader_read_status_reg env byteL byteH =
     read_status_loop env byteL byteH MXM_BL_RD_STATUS_RETRY [MXM_BL_STATUS_ADDR_L, MXM_BL_STATUS_ADDR_H]"

definition bootloader_write_status_reg :: "mx_env \<Rightarrow> u8 \<Rightarrow> u8 \<Rightarrow> int mxm" where
  "bootloader_write_status_reg env byteL byteH = do {
     tx \<leftarrow> i2c_tx_bytes env [MXM_BL_STATUS_ADDR_L, MXM_BL_STATUS_ADDR_H, byteL, byteH];
     ret (if tx \<noteq> 4 then - EIO else 0)
   }"

definition bootloader_rxtx_complete :: "mx_env \<Rightarrow> int mxm" where
  "bootloader_rxtx_complete env =
     bootloader_write_status_reg env MXM_BL_RXTX_COMPLETE_L MXM_BL_RXTX_COMPLETE_H"

text \<open>The result and the two bytes, which an error leaves as they were.\<close>

definition bootloader_read_data_reg :: "mx_env \<Rightarrow> u8 \<Rightarrow> u8 \<Rightarrow> (int \<times> u8 \<times> u8) mxm" where
  "bootloader_read_data_reg env byteL byteH = do {
     tx \<leftarrow> i2c_tx_bytes env [MXM_BL_DATA_ADDR_L, MXM_BL_DATA_ADDR_H];
     if tx \<noteq> 2 then ret (- EIO, byteL, byteH)
     else do {
       rx \<leftarrow> i2c_rx_bytes env 4;
       if fst rx \<noteq> 4 then ret (- EIO, byteL, byteH)
       else do {
         let b = snd rx;
         if b ! 2 \<noteq> MXM_BL_STATUS_READY_L \<and> b ! 3 \<noteq> MXM_BL_STATUS_READY_H
         then ret (- EIO, byteL, byteH)
         else do {
           r \<leftarrow> bootloader_rxtx_complete env;
           ret (r, b ! 0, b ! 1)
         }
       }
     }
   }"

definition bootloader_write_data_reg :: "mx_env \<Rightarrow> u8 \<Rightarrow> u8 \<Rightarrow> int mxm" where
  "bootloader_write_data_reg env byteL byteH = do {
     r \<leftarrow> bootloader_read_status_reg env MXM_BL_STATUS_READY_L MXM_BL_STATUS_READY_H;
     if r < 0 then ret (- EIO)
     else do {
       tx \<leftarrow> i2c_tx_bytes env [MXM_BL_DATA_ADDR_L, MXM_BL_DATA_ADDR_H, byteL, byteH,
               MXM_BL_RXTX_COMPLETE_L, MXM_BL_RXTX_COMPLETE_H];
       ret (if tx \<noteq> 6 then - EIO else 0)
     }
   }"

definition bootloader_rxtx :: "mx_env \<Rightarrow> u8 \<Rightarrow> u8 \<Rightarrow> int \<Rightarrow> (int \<times> u8 \<times> u8) mxm" where
  "bootloader_rxtx env byteL byteH tx =
     (if 0 < tx then do {
        r \<leftarrow> bootloader_write_data_reg env byteL byteH;
        ret (if r < 0 then - EIO else 0, byteL, byteH)
      } else do {
        r \<leftarrow> bootloader_read_data_reg env byteL byteH;
        ret (if fst r < 0 then - EIO else 0, snd r)
      })"

section \<open>Commands\<close>

text \<open>\<open>n\<close> attempts are left; there is always one.\<close>

fun get_cmd_conf_loop :: "mx_env \<Rightarrow> nat \<Rightarrow> int mxm" where
  "get_cmd_conf_loop env 0 = ret (- EIO)"
| "get_cmd_conf_loop env (Suc n) = do {
     r \<leftarrow> bootloader_read_data_reg env 0 0;
     if 0 \<le> fst r \<and> snd (snd r) = MXM_BL_DATA_READY_H \<and> fst (snd r) = MXM_BL_DATA_READY_L
     then ret 0 else get_cmd_conf_loop env n
   }"

definition bootloader_get_cmd_conf :: "mx_env \<Rightarrow> nat \<Rightarrow> int mxm" where
  "bootloader_get_cmd_conf env retries = get_cmd_conf_loop env (max 1 retries)"

definition MXM_BL_WR_START_ADDR :: u8 where "MXM_BL_WR_START_ADDR = 0x00"

fun bootloader_write_buffer :: "mx_env \<Rightarrow> u8 list \<Rightarrow> int mxm" where
  "bootloader_write_buffer env [] = ret 0"
| "bootloader_write_buffer env (b # bs) = do {
     r \<leftarrow> bootloader_rxtx env b MXM_BL_WR_START_ADDR 1;
     if fst r < 0 then ret (- EIO) else bootloader_write_buffer env bs
   }"

fun send_sequence :: "mx_env \<Rightarrow> u16 list list \<Rightarrow> int mxm" where
  "send_sequence env [] = ret 0"
| "send_sequence env (ws # wss) = do {
     tx \<leftarrow> i2c_tx_words env ws;
     if tx \<noteq> 2 then ret (- EIO) else send_sequence env wss
   }"

definition MXM_BL_ENTER_SEQ_L :: u16 where "MXM_BL_ENTER_SEQ_L = 0x7F00"
definition MXM_BL_ENTER_SEQ_H1 :: u16 where "MXM_BL_ENTER_SEQ_H1 = 0x0047"
definition MXM_BL_ENTER_SEQ_H2 :: u16 where "MXM_BL_ENTER_SEQ_H2 = 0x00C7"
definition MXM_BL_ENTER_SEQ_H3 :: u16 where "MXM_BL_ENTER_SEQ_H3 = 0x0007"
definition MXM_BL_ENTER_CONF_RETRY :: nat where "MXM_BL_ENTER_CONF_RETRY = 5"
definition MXM_BL_EXIT_SEQ_L :: u16 where "MXM_BL_EXIT_SEQ_L = 0x7F00"
definition MXM_BL_EXIT_SEQ_H1 :: u16 where "MXM_BL_EXIT_SEQ_H1 = 0x0040"
definition MXM_BL_EXIT_SEQ_H2 :: u16 where "MXM_BL_EXIT_SEQ_H2 = 0x00C0"
definition MXM_BL_EXIT_SEQ_H3 :: u16 where "MXM_BL_EXIT_SEQ_H3 = 0x0000"

definition bootloader_enter :: "mx_env \<Rightarrow> int mxm" where
  "bootloader_enter env = do {
     r \<leftarrow> send_sequence env [[MXM_BL_ENTER_SEQ_L, MXM_BL_ENTER_SEQ_H1],
            [MXM_BL_ENTER_SEQ_L, MXM_BL_ENTER_SEQ_H2], [MXM_BL_ENTER_SEQ_L, MXM_BL_ENTER_SEQ_H3]];
     if r \<noteq> 0 then ret r
     else do {
       r \<leftarrow> bootloader_get_cmd_conf env MXM_BL_ENTER_CONF_RETRY;
       ret (if r < 0 then - EIO else 0)
     }
   }"

definition bootloader_exit :: "mx_env \<Rightarrow> int mxm" where
  "bootloader_exit env =
     send_sequence env [[MXM_BL_EXIT_SEQ_L, MXM_BL_EXIT_SEQ_H1],
       [MXM_BL_EXIT_SEQ_L, MXM_BL_EXIT_SEQ_H2], [MXM_BL_EXIT_SEQ_L, MXM_BL_EXIT_SEQ_H3]]"

definition MXM_BL_GET_CRC_L :: u8 where "MXM_BL_GET_CRC_L = 0x30"
definition MXM_BL_GET_CRC_H :: u8 where "MXM_BL_GET_CRC_H = 0x02"
definition MXM_BL_CRC_GET_RETRY :: nat where "MXM_BL_CRC_GET_RETRY = 5"

text \<open>The result and the checksum.\<close>

definition bootloader_get_crc :: "mx_env \<Rightarrow> u16 \<Rightarrow> u16 \<Rightarrow> nat \<Rightarrow> (int \<times> u16) mxm" where
  "bootloader_get_crc env addr len delay = do {
     r \<leftarrow> bootloader_write_buffer env [MXM_BL_GET_CRC_L, MXM_BL_GET_CRC_H, ucast (BYTEL addr),
            ucast (BYTEH addr), ucast (BYTEL len), ucast (BYTEH len)];
     if r < 0 then ret (- EIO, 0)
     else do {
       emit (Mx_msleep delay);
       lo \<leftarrow> bootloader_rxtx env 0 0 0;
       if fst lo < 0 then ret (- EIO, 0)
       else do {
         hi \<leftarrow> bootloader_rxtx env (fst (snd lo)) (snd (snd lo)) 0;
         if fst hi < 0 then ret (- EIO, 0)
         else do {
           let crc = push_bit 8 (ucast (fst (snd hi))) OR ucast (fst (snd lo));
           r \<leftarrow> bootloader_get_cmd_conf env MXM_BL_CRC_GET_RETRY;
           ret (if r < 0 then (- EIO, 0) else (0, crc))
         }
       }
     }
   }"

definition MXM_BL_SET_BYTE_MODE_L :: u8 where "MXM_BL_SET_BYTE_MODE_L = 0x0A"
definition MXM_BL_SET_BYTE_MODE_H :: u8 where "MXM_BL_SET_BYTE_MODE_H = 0x00"

definition bootloader_set_byte_mode :: "mx_env \<Rightarrow> int mxm" where
  "bootloader_set_byte_mode env = do {
     r \<leftarrow> bootloader_write_buffer env [MXM_BL_SET_BYTE_MODE_L, MXM_BL_SET_BYTE_MODE_H];
     if r < 0 then ret (- EIO)
     else do {
       r \<leftarrow> bootloader_get_cmd_conf env 10;
       ret (if r < 0 then - EIO else 0)
     }
   }"

definition MXM_BL_ERASE_CONF_RETRY :: nat where "MXM_BL_ERASE_CONF_RETRY = 10"
definition MXM_BL_ERASE_DELAY_MS :: nat where "MXM_BL_ERASE_DELAY_MS = 60"
definition MXM_BL_ERASE_FLASH_L :: u8 where "MXM_BL_ERASE_FLASH_L = 0x02"
definition MXM_BL_ERASE_FLASH_H :: u8 where "MXM_BL_ERASE_FLASH_H = 0x00"

fun erase_conf_loop :: "mx_env \<Rightarrow> nat \<Rightarrow> int mxm" where
  "erase_conf_loop env 0 = ret (- EIO)"
| "erase_conf_loop env (Suc n) = do {
     emit (Mx_msleep MXM_BL_ERASE_DELAY_MS);
     r \<leftarrow> bootloader_get_cmd_conf env 0;
     if r < 0 then erase_conf_loop env n else ret 0
   }"

definition bootloader_erase_flash :: "mx_env \<Rightarrow> int mxm" where
  "bootloader_erase_flash env = do {
     r \<leftarrow> bootloader_rxtx env MXM_BL_ERASE_FLASH_L MXM_BL_ERASE_FLASH_H 1;
     if fst r < 0 then ret (- EIO) else erase_conf_loop env MXM_BL_ERASE_CONF_RETRY
   }"

section \<open>Flash\<close>

definition MXM_BL_WR_FAST_FLASH_L :: u8 where "MXM_BL_WR_FAST_FLASH_L = 0xF0"
definition MXM_BL_WR_FAST_FLASH_H :: u8 where "MXM_BL_WR_FAST_FLASH_H = 0x00"
definition MXM_BL_WR_DBUF0_ADDR :: u8 where "MXM_BL_WR_DBUF0_ADDR = 0x00"
definition MXM_BL_WR_DBUF1_ADDR :: u8 where "MXM_BL_WR_DBUF1_ADDR = 0x40"
definition MXM_BL_WR_BLK_SIZE :: nat where "MXM_BL_WR_BLK_SIZE = 128"
definition MXM_BL_WR_TX_SZ :: int where "MXM_BL_WR_TX_SZ = 130"
definition MXM_BL_WR_MIN_US :: nat where "MXM_BL_WR_MIN_US = 10000"
definition MXM_BL_WR_MAX_US :: nat where "MXM_BL_WR_MAX_US = 11000"
definition MXM_BL_WR_STATUS_RETRY :: nat where "MXM_BL_WR_STATUS_RETRY = 100"
definition MXM_BL_WR_DELAY_MS :: nat where "MXM_BL_WR_DELAY_MS = 200"
definition MXM_BL_WR_CONF_RETRY :: nat where "MXM_BL_WR_CONF_RETRY = 5"

fun wait_status :: "mx_env \<Rightarrow> nat \<Rightarrow> int mxm" where
  "wait_status env 0 = ret (- EIO)"
| "wait_status env (Suc n) = do {
     usleep_range MXM_WAIT_MIN_US MXM_WAIT_MAX_US;
     r \<leftarrow> bootloader_read_status_reg env MXM_BL_STATUS_READY_L MXM_BL_STATUS_READY_H;
     if r = 0 then ret 0 else wait_status env n
   }"

definition flash_block :: "u8 list \<Rightarrow> nat \<Rightarrow> u8 list" where
  "flash_block img i = (if even i then MXM_BL_WR_DBUF0_ADDR else MXM_BL_WR_DBUF1_ADDR) # 0x00
     # take MXM_BL_WR_BLK_SIZE (drop (i * MXM_BL_WR_BLK_SIZE) img)"

text \<open>The blocks from the \<open>i\<close>-th on; \<open>n\<close> are left.\<close>

fun write_blocks :: "mx_env \<Rightarrow> u8 list \<Rightarrow> nat \<Rightarrow> nat \<Rightarrow> int mxm" where
  "write_blocks env img i 0 = ret 0"
| "write_blocks env img i (Suc n) = do {
     r \<leftarrow> wait_status env MXM_BL_WR_STATUS_RETRY;
     if r \<noteq> 0 then ret (- EIO)
     else do {
       tx \<leftarrow> i2c_tx_bytes env (flash_block img i);
       if tx \<noteq> MXM_BL_WR_TX_SZ then ret (- EIO)
       else do {
         r \<leftarrow> bootloader_rxtx_complete env;
         if r < 0 then ret (- EIO) else write_blocks env img (i + 1) n
       }
     }
   }"

definition bootloader_write_flash :: "mx_env \<Rightarrow> u8 list \<Rightarrow> u16 \<Rightarrow> int mxm" where
  "bootloader_write_flash env img len = do {
     r \<leftarrow> bootloader_write_buffer env [MXM_BL_WR_FAST_FLASH_L, MXM_BL_WR_FAST_FLASH_H,
            ucast (drop_bit 8 len AND 0xFF), ucast (len AND 0xFF), MXM_BL_WR_START_ADDR];
     if r < 0 then ret (- EIO)
     else do {
       r \<leftarrow> write_blocks env img 0 (unat (drop_bit 7 len));
       if r \<noteq> 0 then ret r
       else do {
         usleep_range MXM_BL_WR_MIN_US MXM_BL_WR_MAX_US;
         r \<leftarrow> bootloader_get_cmd_conf env MXM_BL_WR_CONF_RETRY;
         ret (if r < 0 then - EIO else 0)
       }
     }
   }"

section \<open>Firmware update\<close>

definition MXM_FW_UPDATE_DEFAULT :: u8 where "MXM_FW_UPDATE_DEFAULT = 0"
definition MXM_FW_UPDATE_FORCE :: u8 where "MXM_FW_UPDATE_FORCE = 1"

definition fw_update_mode :: "string list" where
  "fw_update_mode = [''default'', ''force'']"

text \<open>The chip's checksum, or -1 when \<open>n\<close> attempts did not get one.\<close>

definition read_crc_once :: "mx_env \<Rightarrow> u16 \<Rightarrow> (int \<times> u16) mxm" where
  "read_crc_once env len = do {
     r \<leftarrow> bootloader_enter env;
     if r = 0 then bootloader_get_crc env 0 len MXM_BL_WR_DELAY_MS else ret (r, 0)
   }"

fun chip_crc_loop :: "mx_env \<Rightarrow> u16 \<Rightarrow> nat \<Rightarrow> int mxm" where
  "chip_crc_loop env len 0 = ret (- 1)"
| "chip_crc_loop env len (Suc n) = do {
     rc \<leftarrow> read_crc_once env len;
     _ \<leftarrow> bootloader_exit env;
     if fst rc = 0 then ret (uint (snd rc)) else chip_crc_loop env len n
   }"

definition program_once :: "mx_env \<Rightarrow> u8 list \<Rightarrow> u16 \<Rightarrow> (int \<times> u16) mxm" where
  "program_once env data len = do {
     r \<leftarrow> bootloader_enter env;
     r \<leftarrow> (if r = 0 then bootloader_erase_flash env else ret r);
     r \<leftarrow> (if r = 0 then bootloader_set_byte_mode env else ret r);
     r \<leftarrow> (if r = 0 then bootloader_write_flash env data len else ret r);
     if r = 0 then bootloader_get_crc env 0 len MXM_BL_WR_DELAY_MS else ret (r, 0)
   }"

fun program_loop :: "mx_env \<Rightarrow> u8 list \<Rightarrow> u16 \<Rightarrow> int \<Rightarrow> nat \<Rightarrow> int \<Rightarrow> int mxm" where
  "program_loop env data len want 0 chip = ret chip"
| "program_loop env data len want (Suc n) chip =
     (if want = chip then ret chip
      else do {
        rc \<leftarrow> program_once env data len;
        _ \<leftarrow> bootloader_exit env;
        program_loop env data len want n (if fst rc = 0 then uint (snd rc) else chip)
      })"

fun exit_loop :: "mx_env \<Rightarrow> nat \<Rightarrow> int mxm" where
  "exit_loop env 0 = ret (- EIO)"
| "exit_loop env (Suc n) = do {
     r \<leftarrow> bootloader_exit env;
     if r = 0 then ret 0 else exit_loop env n
   }"

text \<open>The size of the file is kept in 16 bits; its checksum is computed over that size.\<close>

definition device_fw_load :: "mx_env \<Rightarrow> (u16 \<Rightarrow> u8 list \<Rightarrow> u16) \<Rightarrow> u8 list \<Rightarrow> int mxm" where
  "device_fw_load env crc16 data = do {
     let filesize = of_nat (length data);
     let file_crc = uint (crc16 0 (take (unat (filesize :: u16)) data));
     chip1 \<leftarrow> chip_crc_loop env filesize MXM_FW_RETRIES_MAX;
     mode \<leftarrow> gets tt_fw_update_mode;
     chip2 \<leftarrow> (if mode = MXM_FW_UPDATE_FORCE \<or> file_crc \<noteq> chip1
               then program_loop env data filesize file_crc MXM_FW_RETRIES_MAX (- 1)
               else ret file_crc);
     if file_crc \<noteq> chip2 then ret (- EAGAIN)
     else do {
       r \<leftarrow> exit_loop env MXM_FW_RETRIES_MAX;
       ret (if r \<noteq> 0 then - EIO else 0)
     }
   }"

text \<open>\<open>fmt\<close> formats a number into a name; \<open>files\<close> are the firmware files.\<close>

definition fw_names :: "(string \<Rightarrow> u16 \<Rightarrow> string) \<Rightarrow> touch \<Rightarrow> string" where
  "fw_names fmt ts =
     (let pd = tt_pdata ts;
          chip_id = (if tt_chip_id ts \<noteq> 0 then tt_chip_id ts else ucast (tp_default_chip_id pd));
          config_id = (if tt_config_id ts \<noteq> 0 then tt_config_id ts else ucast (tp_default_config_id pd))
      in fmt (fmt (tp_fw_name pd) chip_id) config_id)"

definition fw_installed :: "mx_env \<Rightarrow> unit mxm" where
  "fw_installed env = do {
     _ \<leftarrow> read_chip_data env;
     r \<leftarrow> cmd_send env [MXM_CMD_ID_SET_TOUCH_RPT_MODE, MXM_ONE_SIZE_CMD, MXM_TOUCH_REPORT_MODE_EXT];
     if r \<noteq> 0 then ret ()
     else do {
       pd \<leftarrow> gets tt_pdata;
       _ \<leftarrow> max1187x_set_glove env (tp_glove_enabled pd);
       ret ()
     }
   }"

definition fw_request :: "mx_env \<Rightarrow> (u16 \<Rightarrow> u8 list \<Rightarrow> u16) \<Rightarrow> (string \<Rightarrow> u16 \<Rightarrow> string) \<Rightarrow>
    (string \<Rightarrow> u8 list option) \<Rightarrow> unit mxm" where
  "fw_request env crc16 fmt files = do {
     ts \<leftarrow> gets id;
     let name = fw_names fmt ts;
     emit (Mx_request_firmware name);
     (case files name of
        None \<Rightarrow> ret ()
      | Some data \<Rightarrow> do {
          disable_irq;
          r \<leftarrow> device_fw_load env crc16 data;
          emit Mx_release_firmware;
          enable_irq env;
          if r \<noteq> 0 then ret () else fw_installed env
        })
   }"

definition validate_fw :: "mx_env \<Rightarrow> (u16 \<Rightarrow> u8 list \<Rightarrow> u16) \<Rightarrow> (string \<Rightarrow> u16 \<Rightarrow> string) \<Rightarrow>
    (string \<Rightarrow> u8 list option) \<Rightarrow> unit mxm" where
  "validate_fw env crc16 fmt files = do {
     ts \<leftarrow> gets id;
     if tt_fw_update_mode ts = MXM_FW_UPDATE_FORCE then do {
       modify (\<lambda>ts. ts\<lparr>tt_chip_id := 0, tt_config_id := 0\<rparr>);
       fw_request env crc16 fmt files
     }
     else do {
       r \<leftarrow> read_chip_data env;
       if r \<noteq> 0 \<and> tp_defaults_allow (tt_pdata ts) = 0 then ret () else fw_request env crc16 fmt files
     }
   }"

text \<open>\<open>streq\<close> is the kernel's comparison of a written line; the file's length is the result.\<close>

definition fw_update_store :: "mx_env \<Rightarrow> (u16 \<Rightarrow> u8 list \<Rightarrow> u16) \<Rightarrow> (string \<Rightarrow> u16 \<Rightarrow> string) \<Rightarrow>
    (string \<Rightarrow> u8 list option) \<Rightarrow> (string \<Rightarrow> string \<Rightarrow> bool) \<Rightarrow> string \<Rightarrow> int mxm" where
  "fw_update_store env crc16 fmt files streq buf = do {
     r \<leftarrow> (if streq buf (fw_update_mode ! 0) \<or> streq buf (fw_update_mode ! 1) then do {
             modify (\<lambda>ts. ts\<lparr>tt_fw_update_mode :=
               (if streq buf (fw_update_mode ! 0) then MXM_FW_UPDATE_DEFAULT else MXM_FW_UPDATE_FORCE)\<rparr>);
             validate_fw env crc16 fmt files;
             ret (int (length buf))
           } else ret (- EINVAL));
     modify (\<lambda>ts. ts\<lparr>tt_fw_update_mode := MXM_FW_UPDATE_DEFAULT\<rparr>);
     ret r
   }"

definition i2c_reset_store :: "mx_env \<Rightarrow> nat \<Rightarrow> nat mxm" where
  "i2c_reset_store env count = do {
     _ \<leftarrow> bootloader_exit env;
     ret count
   }"

end
