(* ===== verification/Touch_Update.thy ===== *)
theory Touch_Update
  imports Touch_Boot Touch_Wire
begin

text \<open>
  What the update of the firmware does on the bus: which blocks it sends, and how long it can take. \<open>takes k n m\<close>
  says that \<open>m\<close> makes at most \<open>n\<close> calls, each of which the bus repeats at most \<open>k\<close> times; the bounds of the parts
  add up to that of the update. The locale \<open>bounded_bus\<close> is what the update asks of the bus.
\<close>

section \<open>Counting calls\<close>

definition takes :: "nat \<Rightarrow> nat \<Rightarrow> 'a mxm \<Rightarrow> bool" where
  "takes k n m \<longleftrightarrow> (\<forall>s. wp m (\<lambda>_ t. length (io_trace t) \<le> length (io_trace s) + n * (k + 1)) s)"

named_theorems takes_rules \<open>bounds on the calls of an operation\<close>

lemma takesI: "(\<And>s. wp m (\<lambda>_ t. length (io_trace t) \<le> length (io_trace s) + n * (k + 1)) s) \<Longrightarrow> takes k n m"
  by (simp add: takes_def)

lemma takesD: "takes k n m \<Longrightarrow> wp m (\<lambda>_ t. length (io_trace t) \<le> length (io_trace s) + n * (k + 1)) s"
  by (simp add: takes_def)

lemma takes_mono:
  assumes "takes k i m" "i \<le> j"
  shows "takes k j m"
proof (rule takesI, rule wp_mono [OF takesD [OF assms(1)]])
  fix s t :: mx_io
  assume "length (io_trace t) \<le> length (io_trace s) + i * (k + 1)"
  moreover have "i * (k + 1) \<le> j * (k + 1)" using assms(2) by (rule mult_le_mono1)
  ultimately show "length (io_trace t) \<le> length (io_trace s) + j * (k + 1)" by linarith
qed

lemma takes_return [takes_rules]: "takes k 0 (ret x)"
  by (simp add: takes_def wp_simps)

lemma takes_bind [takes_rules]:
  assumes "takes k i m" "\<And>a. takes k j (f a)"
  shows "takes k (i + j) (State_Monad.bind m f)"
proof (rule takesI)
  fix s
  show "wp (State_Monad.bind m f) (\<lambda>_ t. length (io_trace t) \<le> length (io_trace s) + (i + j) * (k + 1)) s"
    unfolding wp_bind
    by (rule wp_mono [OF takesD [OF assms(1)]], rule wp_mono [OF takesD [OF assms(2)]])
      (simp add: add_mult_distrib)
qed

lemma takes_if [takes_rules]: "takes k i m \<Longrightarrow> takes k j n \<Longrightarrow> takes k (max i j) (if b then m else n)"
  by (auto intro: takes_mono)

lemma takes_emit [takes_rules]: "takes k 1 (emit e)"
  by (simp add: takes_def wp_simps)

lemma takes_gets [takes_rules]: "takes k 0 (gets f)"
  by (simp add: takes_def wp_simps)

lemma takes_state [takes_rules]: "takes k 0 (State (\<lambda>s. (f s, s)))"
  by (simp add: takes_def wp_simps)

section \<open>A bus that repeats a transfer at most \<open>k\<close> times\<close>

locale bounded_bus =
  fixes env :: mx_env and k :: nat
  assumes again: "me_again env tr e \<le> k"
begin

lemma transfer: "takes k 1 (i2c_transfer env e)"
proof (rule takesI)
  fix s
  have "wp (iterM (\<lambda>_. emit e) [0..<n]) R t = R () (t\<lparr>io_trace := io_trace t @ replicate n e\<rparr>)"
    for n R and t :: mx_io
    using wp_iterM_emit [of "\<lambda>_. e" "[0..<n]" R t] by (simp add: map_replicate_const)
  then show "wp (i2c_transfer env e) (\<lambda>_ t. length (io_trace t) \<le> length (io_trace s) + 1 * (k + 1)) s"
    using again by (simp add: i2c_transfer_def wp_simps)
qed

lemma tx_words: "takes k 1 (i2c_tx_words env ws)"
  unfolding i2c_tx_words_def by (rule takes_mono, (rule takes_rules transfer)+) simp

lemma tx_bytes: "takes k 1 (i2c_tx_bytes env b)"
  unfolding i2c_tx_bytes_def by (rule takes_mono, (rule takes_rules transfer)+) simp

lemma rx_bytes: "takes k 1 (i2c_rx_bytes env n)"
  unfolding i2c_rx_bytes_def i2c_master_recv_def by (rule takes_mono, (rule takes_rules transfer)+) simp

lemmas bus_rules = takes_rules tx_words tx_bytes rx_bytes

lemma read_status: "takes k 6 (bootloader_read_status_reg env l h)"
proof -
  have "takes k (2 * n) (read_status_loop env l h n b)" for n b
  proof (induction n arbitrary: b)
    case 0
    then show ?case by (simp add: takes_return)
  next
    case (Suc n)
    show ?case
      unfolding read_status_loop.simps Let_def
      by (rule takes_mono, (rule bus_rules Suc.IH)+) simp
  qed
  from this [of 3] show ?thesis
    by (simp add: bootloader_read_status_reg_def MXM_BL_RD_STATUS_RETRY_def)
qed

lemma rxtx_complete: "takes k 1 (bootloader_rxtx_complete env)"
  unfolding bootloader_rxtx_complete_def bootloader_write_status_reg_def Let_def
  by (rule takes_mono, (rule bus_rules)+) simp

lemma read_data: "takes k 3 (bootloader_read_data_reg env l h)"
  unfolding bootloader_read_data_reg_def Let_def
  by (rule takes_mono, (rule bus_rules rxtx_complete)+) simp

lemma write_data: "takes k 7 (bootloader_write_data_reg env l h)"
  unfolding bootloader_write_data_reg_def Let_def
  by (rule takes_mono, (rule bus_rules read_status)+) simp

lemma rxtx: "takes k 7 (bootloader_rxtx env l h tx)"
  unfolding bootloader_rxtx_def Let_def
  by (rule takes_mono, (rule bus_rules read_data write_data)+) simp

lemma conf_loop: "takes k (3 * n) (get_cmd_conf_loop env n)"
proof (induction n)
  case 0
  then show ?case by (simp add: takes_return)
next
  case (Suc n)
  show ?case
    unfolding get_cmd_conf_loop.simps Let_def
    by (rule takes_mono, (rule bus_rules read_data Suc.IH)+) simp
qed

lemma conf: "takes k (3 * max 1 n) (bootloader_get_cmd_conf env n)"
  unfolding bootloader_get_cmd_conf_def by (rule conf_loop)

lemma write_buffer: "takes k (7 * length bs) (bootloader_write_buffer env bs)"
proof (induction bs)
  case Nil
  then show ?case by (simp add: takes_return)
next
  case (Cons b bs)
  show ?case
    unfolding bootloader_write_buffer.simps
    by (rule takes_mono, (rule bus_rules rxtx Cons.IH)+) simp
qed

lemma sequence: "takes k (length wss) (send_sequence env wss)"
proof (induction wss)
  case Nil
  then show ?case by (simp add: takes_return)
next
  case (Cons ws wss)
  show ?case
    unfolding send_sequence.simps
    by (rule takes_mono, (rule bus_rules Cons.IH)+) simp
qed

lemma enter: "takes k 18 (bootloader_enter env)"
  unfolding bootloader_enter_def MXM_BL_ENTER_CONF_RETRY_def Let_def
  by (rule takes_mono, (rule bus_rules sequence conf)+) simp

lemma exits: "takes k 3 (bootloader_exit env)"
  unfolding bootloader_exit_def by (rule takes_mono, rule sequence) simp

lemma get_crc: "takes k 72 (bootloader_get_crc env a n d)"
  unfolding bootloader_get_crc_def MXM_BL_CRC_GET_RETRY_def Let_def
  by (rule takes_mono, (rule bus_rules write_buffer rxtx conf)+) simp

lemma set_byte_mode: "takes k 44 (bootloader_set_byte_mode env)"
  unfolding bootloader_set_byte_mode_def Let_def
  by (rule takes_mono, (rule bus_rules write_buffer conf)+) simp

lemma erase_loop: "takes k (4 * n) (erase_conf_loop env n)"
proof (induction n)
  case 0
  then show ?case by (simp add: takes_return)
next
  case (Suc n)
  show ?case
    unfolding erase_conf_loop.simps Let_def
    by (rule takes_mono, (rule bus_rules conf Suc.IH)+) simp
qed

lemma erase: "takes k 47 (bootloader_erase_flash env)"
  unfolding bootloader_erase_flash_def MXM_BL_ERASE_CONF_RETRY_def Let_def
  by (rule takes_mono, (rule bus_rules rxtx erase_loop)+) simp

lemma usleep: "takes k 1 (usleep_range a b)"
  unfolding usleep_range_def by (rule takes_emit)

lemma status_loop: "takes k (7 * n) (wait_status env n)"
proof (induction n)
  case 0
  then show ?case by (simp add: takes_return)
next
  case (Suc n)
  show ?case
    unfolding wait_status.simps Let_def
    by (rule takes_mono, (rule bus_rules usleep read_status Suc.IH)+) simp
qed

lemma blocks: "takes k (702 * n) (write_blocks env img i n)"
proof (induction n arbitrary: i)
  case 0
  then show ?case by (simp add: takes_return)
next
  case (Suc n)
  show ?case
    unfolding write_blocks.simps MXM_BL_WR_STATUS_RETRY_def Let_def
    by (rule takes_mono, (rule bus_rules status_loop rxtx_complete Suc.IH)+) simp
qed

lemma write_flash: "takes k (51 + 702 * unat (drop_bit 7 len)) (bootloader_write_flash env img len)"
  unfolding bootloader_write_flash_def MXM_BL_WR_CONF_RETRY_def Let_def
  by (rule takes_mono, (rule bus_rules write_buffer blocks usleep conf)+) simp

lemma read_crc: "takes k 90 (read_crc_once env len)"
  unfolding read_crc_once_def Let_def
  by (rule takes_mono, (rule bus_rules enter get_crc)+) simp

lemma crc_loop: "takes k (93 * n) (chip_crc_loop env len n)"
proof (induction n)
  case 0
  then show ?case by (simp add: takes_return)
next
  case (Suc n)
  show ?case
    unfolding chip_crc_loop.simps Let_def
    by (rule takes_mono, (rule bus_rules read_crc exits Suc.IH)+) simp
qed

lemma program: "takes k (232 + 702 * unat (drop_bit 7 len)) (program_once env data len)"
  unfolding program_once_def Let_def
  by (rule takes_mono, (rule bus_rules enter erase set_byte_mode write_flash get_crc)+) simp

lemma program_tries: "takes k ((235 + 702 * unat (drop_bit 7 len)) * n) (program_loop env data len want n chip)"
proof (induction n arbitrary: chip)
  case 0
  then show ?case by (simp add: takes_return)
next
  case (Suc n)
  show ?case
    unfolding program_loop.simps Let_def
    by (rule takes_mono, (rule bus_rules program exits Suc.IH)+) simp
qed

lemma exit_tries: "takes k (3 * n) (exit_loop env n)"
proof (induction n)
  case 0
  then show ?case by (simp add: takes_return)
next
  case (Suc n)
  show ?case
    unfolding exit_loop.simps Let_def
    by (rule takes_mono, (rule bus_rules exits Suc.IH)+) simp
qed

lemma fw_load:
  "takes k (1655 + 3510 * unat (drop_bit 7 (of_nat (length data) :: u16))) (device_fw_load env crc16 data)"
  unfolding device_fw_load_def MXM_FW_RETRIES_MAX_def Let_def
  by (rule takes_mono, (rule bus_rules crc_loop program_tries exit_tries)+) simp

end

text \<open>Every bus whose repetitions are cut off is bounded.\<close>

definition limit_again :: "nat \<Rightarrow> mx_env \<Rightarrow> mx_env" where
  "limit_again k env = env\<lparr>me_again := (\<lambda>tr e. min k (me_again env tr e))\<rparr>"

interpretation limited: bounded_bus "limit_again k env" k
  by unfold_locales (simp add: limit_again_def)

section \<open>The blocks of the flash\<close>

text \<open>The messages that carry a block: no other has 130 bytes.\<close>

definition data_sends :: "mx_ev list \<Rightarrow> u8 list list" where
  "data_sends tr = concat (map (\<lambda>e. case e of Mx_send b \<Rightarrow> if length b = 130 then [b] else [] | _ \<Rightarrow> []) tr)"

lemma data_sends_append [simp]: "data_sends (a @ b) = data_sends a @ data_sends b"
  by (simp add: data_sends_def)
























section \<open>How long an update takes\<close>



end
