(* ===== verification/Touch_Probe.thy ===== *)
theory Touch_Probe
  imports Touch_Pm Touch_Boot Touch_Wire
begin

text \<open>
  The touch screen's driver comes and goes: the regulator, the GPIOs, the input device, the interrupt and the
  files it takes when it is bound to the chip, what it gives back when it fails halfway or when it is shut down, and the
  small files of its debug interface. \<open>tt_held\<close> is what it has taken; giving back what it does not hold sets
  the fault flag. The answer to a call that returns a pointer or a truth value is negative for NULL and false.
\<close>

section \<open>Held resources\<close>


definition acquire :: "mx_res \<Rightarrow> unit mxm" where
  "acquire r = modify (\<lambda>ts. ts\<lparr>tt_held := r # tt_held ts\<rparr>)"

definition release :: "mx_res \<Rightarrow> unit mxm" where
  "release r = do {
     held \<leftarrow> gets tt_held;
     whenM (r \<notin> set held) fault;
     modify (\<lambda>ts. ts\<lparr>tt_held := removeAll r (tt_held ts)\<rparr>)
   }"

text \<open>To remove a file that is not there is no error.\<close>

definition forget :: "mx_res \<Rightarrow> unit mxm" where
  "forget r = modify (\<lambda>ts. ts\<lparr>tt_held := removeAll r (tt_held ts)\<rparr>)"

section \<open>Regulator and GPIOs\<close>

text \<open>The regulator that \<^verbatim>\<open>regulator_get\<close> returned: an error pointer is a negative number, NULL is 0. To
  disable it gives the enable back, whatever the answer.\<close>

definition regulator_handler :: "mx_env \<Rightarrow> bool \<Rightarrow> int mxm" where
  "regulator_handler env sw = do {
     v \<leftarrow> gets tt_vreg;
     (case v of
        Vreg_null \<Rightarrow> ret (- EINVAL)
      | Vreg_err e \<Rightarrow> ret e
      | Vreg_ok \<Rightarrow> do {
          rc \<leftarrow> call (me_ret env) (Mx_regulator_enable sw);
          whenM (sw \<and> rc = 0) (acquire R_vreg_enabled);
          whenM (\<not> sw) (release R_vreg_enabled);
          if rc = 0 then ret 0
          else do {
            enabled \<leftarrow> call (me_ret env) Mx_regulator_is_enabled;
            ret (if enabled = 0 \<and> \<not> sw \<or> 0 < enabled \<and> sw then 0 else rc)
          }
        })
   }"

definition MXM_VREG_MAX_UV :: nat where "MXM_VREG_MAX_UV = 3000000"

definition regulator_put :: "unit mxm" where
  "regulator_put = do {
     emit Mx_regulator_put;
     release R_vreg
   }"

text \<open>The steps of \<^verbatim>\<open>vreg_configure\<close> that turn it on, from the last.\<close>

definition vreg_load :: "mx_env \<Rightarrow> int mxm" where
  "vreg_load env = do {
     rc \<leftarrow> vreg_suspend env False;
     if rc \<noteq> 0 then do { _ \<leftarrow> regulator_handler env False; regulator_put; ret rc }
     else ret 0
   }"

definition vreg_on :: "mx_env \<Rightarrow> int mxm" where
  "vreg_on env = do {
     rc \<leftarrow> regulator_handler env True;
     if rc \<noteq> 0 then do { regulator_put; ret rc } else vreg_load env
   }"

definition vreg_voltage :: "mx_env \<Rightarrow> int mxm" where
  "vreg_voltage env = do {
     rc \<leftarrow> call (me_ret env) (Mx_regulator_voltage MXM_VREG_MAX_UV MXM_VREG_MAX_UV);
     if rc \<noteq> 0 then do { regulator_put; ret rc } else vreg_on env
   }"

definition vreg_enable :: "mx_env \<Rightarrow> int mxm" where
  "vreg_enable env = do {
     v \<leftarrow> call (me_ret env) Mx_regulator_get;
     modify (\<lambda>ts. ts\<lparr>tt_vreg := (if v < 0 then Vreg_err v else if v = 0 then Vreg_null else Vreg_ok)\<rparr>);
     if v < 0 then ret (- EPROBE_DEFER)
     else do {
       acquire R_vreg;
       vreg_voltage env
     }
   }"

definition vreg_disable :: "mx_env \<Rightarrow> int mxm" where
  "vreg_disable env = do {
     v \<leftarrow> gets tt_vreg;
     if (case v of Vreg_err _ \<Rightarrow> True | _ \<Rightarrow> False) then ret 0
     else do {
       rc \<leftarrow> call (me_ret env) (Mx_regulator_voltage 0 MXM_VREG_MAX_UV);
       _ \<leftarrow> regulator_handler env False;
       regulator_put;
       ret rc
     }
   }"

definition vreg_configure :: "mx_env \<Rightarrow> bool \<Rightarrow> int mxm" where
  "vreg_configure env enable = (if enable then vreg_enable env else vreg_disable env)"

definition gpio_free :: "u32 \<Rightarrow> mx_res \<Rightarrow> unit mxm" where
  "gpio_free gpio r = do {
     emit (Mx_gpio_free gpio);
     release r
   }"

definition max1187x_chip_init :: "mx_env \<Rightarrow> bool \<Rightarrow> int mxm" where
  "max1187x_chip_init env enable = do {
     gpio \<leftarrow> gets (\<lambda>ts. tp_gpio_tirq (tt_pdata ts));
     if enable then do {
       r \<leftarrow> call (me_ret env) (Mx_gpio_request gpio);
       if r \<noteq> 0 then ret (- EIO)
       else do {
         acquire R_tirq;
         r \<leftarrow> call (me_ret env) (Mx_gpio_input gpio);
         if r \<noteq> 0 then do { gpio_free gpio R_tirq; ret (- EIO) } else ret 0
       }
     }
     else do { gpio_free gpio R_tirq; ret 0 }
   }"

definition max1187x_gpio_init :: "mx_env \<Rightarrow> bool \<Rightarrow> unit mxm" where
  "max1187x_gpio_init env enable = do {
     pd \<leftarrow> gets tt_pdata;
     let gpio = tp_gpio_reset pd;
     let l2h = tp_reset_l2h pd \<noteq> 0;
     if gpio = 0 then ret ()
     else if enable then do {
       r \<leftarrow> call (me_ret env) (Mx_gpio_request gpio);
       if r \<noteq> 0 then ret ()
       else do {
         acquire R_reset;
         r \<leftarrow> call (me_ret env) (Mx_gpio_output gpio l2h);
         whenM (r \<noteq> 0) (gpio_free gpio R_reset)
       }
     }
     else do {
       r \<leftarrow> call (me_ret env) (Mx_gpio_output gpio (\<not> l2h));
       usleep_range MXM_WAIT_MIN_US MXM_WAIT_MAX_US
     }
   }"

section \<open>The debug interface's files\<close>

text \<open>The files of \<^verbatim>\<open>dev_attrs\<close>, by their place in it. When one cannot be created, it and those before it are
  removed, each with a decrement of the counter, which was incremented once less.\<close>

definition dev_attrs :: "string list" where
  "dev_attrs = [''i2c_reset'', ''por'', ''sreset'', ''fw_update'', ''irq_count'', ''dflt_cfg'', ''panel'',
     ''fw_ver'', ''chip_id'', ''config_id'', ''driver_ver'', ''command'', ''glove'']"

definition remove_file :: "nat \<Rightarrow> unit mxm" where
  "remove_file i = do {
     emit (Mx_remove_file i);
     forget (R_file i)
   }"

definition add_created :: "u8 \<Rightarrow> unit mxm" where
  "add_created d = modify (\<lambda>ts. ts\<lparr>tt_sysfs_created := tt_sysfs_created ts + d\<rparr>)"

fun create_files :: "mx_env \<Rightarrow> nat \<Rightarrow> nat \<Rightarrow> int mxm" where
  "create_files env i 0 = ret 0"
| "create_files env i (Suc n) = do {
     r \<leftarrow> call (me_ret env) (Mx_create_file i);
     if r \<noteq> 0 then do {
       iterM (\<lambda>k. do { remove_file k; add_created (- 1) }) (rev [0..<Suc i]);
       ret r
     }
     else do {
       acquire (R_file i);
       add_created 1;
       create_files env (Suc i) n
     }
   }"

definition create_sysfs_entries :: "mx_env \<Rightarrow> int mxm" where
  "create_sysfs_entries env = create_files env 0 (length dev_attrs)"

definition remove_sysfs_entries :: "unit mxm" where
  "remove_sysfs_entries = iterM (\<lambda>i. do {
     n \<leftarrow> gets tt_sysfs_created;
     whenM (n \<noteq> 0) (do { add_created (- 1); remove_file i })
   }) [0..<length dev_attrs]"

section \<open>Probe\<close>

text \<open>Where a step fails, the earlier ones are undone: the labels of \<^verbatim>\<open>probe\<close>, from the last to the first.\<close>

definition err_device_init_pdata :: "int \<Rightarrow> int mxm" where
  "err_device_init_pdata r = do {
     emit Mx_free;
     release R_ts;
     ret r
   }"

definition err_device_init_gpio :: "mx_env \<Rightarrow> int \<Rightarrow> int mxm" where
  "err_device_init_gpio env r = do {
     _ \<leftarrow> vreg_configure env False;
     err_device_init_pdata r
   }"

definition err_device_init_inputdev :: "mx_env \<Rightarrow> int \<Rightarrow> int mxm" where
  "err_device_init_inputdev env r = do {
     _ \<leftarrow> max1187x_chip_init env False;
     max1187x_gpio_init env False;
     err_device_init_gpio env r
   }"

definition input_unregister :: "unit mxm" where
  "input_unregister = do {
     emit Mx_input_unregister;
     release R_input
   }"

definition err_device_init_irq :: "mx_env \<Rightarrow> int \<Rightarrow> int mxm" where
  "err_device_init_irq env r = do {
     input_unregister;
     err_device_init_inputdev env r
   }"




definition probe_files :: "mx_env \<Rightarrow> int mxm" where
  "probe_files env = do {
     r \<leftarrow> create_sysfs_entries env;
     if r \<noteq> 0 then err_device_init_irq env r
     else do {
       b \<leftarrow> call (me_ret env) Mx_create_bin;
       if b < 0 then do {
         remove_sysfs_entries;
         err_device_init_irq env r
       }
       else do {
         acquire R_bin;
         add_created 1;
         l \<leftarrow> call (me_ret env) Mx_create_link;
         whenM (l = 0) (acquire R_link);
         ret 0
       }
     }
   }"







section \<open>Shutdown\<close>

text \<open>The readers are told first, under the semaphore of the report: while a report is out, the shutdown
  waits.\<close>

definition shutdown_rest :: "mx_env \<Rightarrow> bool \<Rightarrow> unit mxm" where
  "shutdown_rest env irq = do {
     remove_sysfs_entries;
     n \<leftarrow> gets tt_sysfs_created;
     whenM (n \<noteq> 0) (do { add_created (- 1); emit Mx_remove_bin; forget R_bin });
     whenM irq (do { emit Mx_free_irq; release R_irq });
     emit Mx_remove_link;
     forget R_link;
     input_unregister;
     _ \<leftarrow> max1187x_chip_init env False;
     max1187x_gpio_init env False;
     _ \<leftarrow> vreg_configure env False;
     emit Mx_free;
     release R_ts
   }"

definition shutdown :: "mx_env \<Rightarrow> bool \<Rightarrow> unit mxm" where
  "shutdown env irq = do {
     propagate (- 1) False;
     stuck \<leftarrow> gets tt_stuck;
     whenM (\<not> stuck) (shutdown_rest env irq)
   }"

section \<open>What the interrupt and the commands leave alone\<close>

definition holding :: "mx_res set \<Rightarrow> vreg \<Rightarrow> bool \<Rightarrow> u8 \<Rightarrow> mx_io \<Rightarrow> bool" where
  "holding S v c k s \<longleftrightarrow> set (tt_held (io_dev s)) = S \<and> tt_vreg (io_dev s) = v
     \<and> (Mx_create_file 0 \<in> set (io_trace s)) = c \<and> tt_sysfs_created (io_dev s) = k"

text \<open>What a function on the driver's data leaves as it is.\<close>

definition same_held :: "touch \<Rightarrow> touch \<Rightarrow> bool" where
  "same_held ts ts' \<longleftrightarrow> tt_held ts' = tt_held ts \<and> tt_vreg ts' = tt_vreg ts \<and> tt_sysfs_created ts' = tt_sysfs_created ts"

lemma same_held_refl [simp]: "same_held ts ts"
  by (simp add: same_held_def)

lemma same_held_trans: "same_held a b \<Longrightarrow> same_held b c \<Longrightarrow> same_held a c"
  by (simp add: same_held_def)

lemma holding_emit: "e \<noteq> Mx_create_file 0 \<Longrightarrow> kept (holding S v c k) (emit e)"
  by (rule keptI) (simp add: holding_def wp_simps)

lemma holding_call: "e \<noteq> Mx_create_file 0 \<Longrightarrow> kept (holding S v c k) (call answer e)"
  by (rule keptI) (simp add: holding_def wp_simps)

lemma holding_modify:
  "(\<And>ts. same_held ts (f ts)) \<Longrightarrow> kept (holding S v c k) (modify f)"
  by (rule keptI) (simp add: holding_def wp_simps same_held_def)

lemma holding_gets: "kept (holding S v c k) (gets f)"
  by (rule keptI) (simp add: wp_simps)

lemma holding_state: "kept (holding S v c k) (State (\<lambda>s. (f s, s)))"
  by (rule keptI) (simp add: wp_simps)

named_theorems holding_rules \<open>operations that take and give back nothing\<close>

lemmas holding_basic = kept_rules kept_iterM holding_emit holding_call holding_gets holding_state

lemma holding_transfer: "e \<noteq> Mx_create_file 0 \<Longrightarrow> kept (holding S v c k) (i2c_transfer env e)"
  unfolding i2c_transfer_def by (intro holding_basic)

lemma holding_tx_words [holding_rules]: "kept (holding S v c k) (i2c_tx_words env ws)"
  unfolding i2c_tx_words_def Let_def by (intro holding_basic holding_transfer) simp

lemma holding_fault [holding_rules]: "kept (holding S v c k) fault"
  unfolding fault_def by (intro holding_modify) (simp_all add: same_held_def)

lemma holding_rx_words [holding_rules]: "kept (holding S v c k) (i2c_rx_words env off n)"
  unfolding i2c_rx_words_def i2c_master_recv_def Let_def
  by (intro holding_basic holding_rules holding_transfer holding_modify) (simp_all add: same_held_def)

lemma holding_read_report [holding_rules]: "kept (holding S v c k) (read_mtp_report env)"
  unfolding read_mtp_report_def read_packet_def read_raw_packet_def packet_word_def Let_def
  by (intro holding_basic holding_rules)

lemma holding_packets [holding_rules]: "kept (holding S v c k) (send_packets env p i len n)"
  by (induction n arbitrary: i len) (auto simp: Let_def intro!: holding_basic holding_rules)

lemma holding_cmd_locked [holding_rules]: "kept (holding S v c k) (cmd_send_locked env ws)"
  unfolding cmd_send_locked_def send_mtp_command_def Let_def
  by (intro holding_basic holding_rules holding_modify) (simp_all add: same_held_def)

lemma holding_report_up [holding_rules]: "kept (holding S v c k) (report_up i)"
  unfolding report_up_def by (intro holding_basic holding_modify) (simp_all add: same_held_def)

lemma holding_report_down [holding_rules]: "kept (holding S v c k) (report_down e)"
  unfolding report_down_def report_abs_def Let_def
  by (auto simp: same_held_def intro!: holding_basic holding_rules holding_modify split: prod.split)

lemma holding_invalidate [holding_rules]: "kept (holding S v c k) invalidate_all_fingers"
  unfolding invalidate_all_fingers_def by (intro holding_basic holding_modify) (simp_all add: same_held_def)

lemma holding_buttons [holding_rules]: "kept (holding S v c k) (report_buttons h)"
  unfolding report_buttons_def report_button_def by (intro holding_basic holding_modify) (simp_all add: same_held_def)

lemma holding_touches [holding_rules]: "kept (holding S v c k) (process_touch_report h)"
  unfolding process_touch_report_def process_touches_def lift_finger_def
  by (intro holding_basic holding_rules holding_modify) (simp_all add: same_held_def)

lemma holding_process [holding_rules]: "kept (holding S v c k) (process_report env)"
  unfolding process_report_def reinit_chip_settings_def max1187x_set_glove_locked_def Let_def
  by (intro holding_basic holding_rules holding_modify) (simp_all add: same_held_def)

lemma report_held [simp]:
  "same_held ts (to_report n x y ts)" "same_held ts (process_rbcmd ts)" "same_held ts (wake_reader st i ts)"
  "same_held ts (up_report_sem ts)"
  by (simp_all add: same_held_def to_report_def process_rbcmd_def wake_reader_def up_report_sem_def Let_def)

lemma deliver_held: "same_held ts (deliver st ts)"
proof -
  have "same_held ts (fold (wake_reader st) is ts)" for "is" ts
  proof (induction "is" arbitrary: ts)
    case (Cons i "is")
    show ?case using same_held_trans [OF report_held(3) Cons.IH] by simp
  qed simp
  from same_held_trans [OF report_held(2) this]
  have both: "same_held ts (fold (wake_reader st) is (process_rbcmd ts))" for "is" .
  show ?thesis
    by (simp add: deliver_def Let_def both same_held_trans [OF both report_held(4)])
qed

lemma combine_held: "same_held ts (snd (combine_multipacketreport ts))"
  by (simp add: same_held_def combine_multipacketreport_def to_report_def Let_def)

lemma propagate_held: "same_held ts (propagate_locked st r ts)"
  using combine_held [of ts]
  by (auto simp: propagate_locked_def intro: deliver_held same_held_trans split: prod.split)

lemma holding_propagate [holding_rules]: "kept (holding S v c k) (propagate st r)"
  by (rule keptI)
    (use propagate_held in \<open>simp add: propagate_def propagate_report_def holding_def wp_simps same_held_def split: nat.split\<close>)

lemma holding_settles [holding_rules]: "kept (holding S v c k) (line_settles env)"
  unfolding line_settles_def by (intro holding_basic holding_modify) (simp_all add: same_held_def)

lemma holding_down_reset [holding_rules]: "kept (holding S v c k) (down_timeout_reset env)"
  unfolding down_timeout_reset_def by (intro holding_basic holding_modify) (simp_all add: same_held_def)

lemma holding_usleep [holding_rules]: "kept (holding S v c k) (usleep_range a b)"
  unfolding usleep_range_def by (intro holding_emit) simp

lemma holding_reset [holding_rules]: "kept (holding S v c k) (reset_power usleep_range env)"
  unfolding reset_power_def drive_reset_def reset_finish_def up_reset_def
  by (intro holding_basic holding_rules holding_modify) (simp_all add: same_held_def)

lemma holding_handle [holding_rules]: "kept (holding S v c k) (handle_irq env)"
  unfolding handle_irq_def irq_handler_hard_def irq_handler_soft_def
  by (intro holding_basic holding_rules holding_modify) (simp_all add: same_held_def)

lemma holding_preempt [holding_rules]: "kept (holding S v c k) (preempt env)"
  unfolding preempt_def line_falls_def by (intro holding_basic holding_rules holding_modify) (simp_all add: same_held_def)

lemma holding_rbcmd [holding_rules]: "kept (holding S v c k) (rbcmd_send_receive env cmd rpt cap)"
  unfolding rbcmd_send_receive_def down_interruptible_rbcmd_def rbcmd_begin_def rbcmd_end_def cmd_send_def
  by (intro holding_basic holding_rules holding_modify) (simp_all add: same_held_def)

lemma holding_retry [holding_rules]: "kept (holding S v c k) (rbcmd_retry env cmd rpt n r)"
  by (induction n arbitrary: r) (auto intro!: holding_basic holding_rules)



section \<open>What is taken and given back\<close>

text \<open>From a state that satisfies \<open>P\<close> the operation ends in one that satisfies \<open>Q\<close>.\<close>

definition leads :: "('s \<Rightarrow> bool) \<Rightarrow> ('s, 'a) state \<Rightarrow> ('a \<Rightarrow> 's \<Rightarrow> bool) \<Rightarrow> bool" where
  "leads P m Q \<longleftrightarrow> (\<forall>s. P s \<longrightarrow> wp m Q s)"

lemma leadsI: "(\<And>s. P s \<Longrightarrow> wp m Q s) \<Longrightarrow> leads P m Q"
  by (simp add: leads_def)

lemma leads_bind: "leads P m R \<Longrightarrow> (\<And>a. leads (R a) (f a) Q) \<Longrightarrow> leads P (State_Monad.bind m f) Q"
  unfolding leads_def wp_bind by (blast intro: wp_mono)

lemma leads_kept: "kept P m \<Longrightarrow> leads P m (\<lambda>_. P)"
  by (simp add: leads_def kept_def)

lemma leads_then: "leads P m (\<lambda>_. R) \<Longrightarrow> (\<And>a. leads R (f a) Q) \<Longrightarrow> leads P (State_Monad.bind m f) Q"
  by (rule leads_bind)

lemma leads_return: "(\<And>s. P s \<Longrightarrow> Q x s) \<Longrightarrow> leads P (ret x) Q"
  by (simp add: leads_def wp_simps)

lemma leads_if: "(b \<Longrightarrow> leads P m Q) \<Longrightarrow> (\<not> b \<Longrightarrow> leads P n Q) \<Longrightarrow> leads P (if b then m else n) Q"
  by simp

lemma leads_post: "leads P m Q \<Longrightarrow> (\<And>a s. Q a s \<Longrightarrow> R a s) \<Longrightarrow> leads P m R"
  unfolding leads_def by (blast intro: wp_mono)

lemma leads_pre: "leads P m Q \<Longrightarrow> (\<And>s. R s \<Longrightarrow> P s) \<Longrightarrow> leads R m Q"
  by (simp add: leads_def)

lemma minus_twice: "S - A - B = S - (A \<union> B)"
  by blast

lemma holding_acquire: "leads (holding S v c k) (acquire r) (\<lambda>_. holding (insert r S) v c k)"
  by (rule leadsI) (simp add: acquire_def holding_def wp_simps)

lemma holding_release: "leads (holding S v c k) (release r) (\<lambda>_. holding (S - {r}) v c k)"
  by (rule leadsI) (simp add: release_def fault_def holding_def wp_simps)

lemma holding_forget: "leads (holding S v c k) (forget r) (\<lambda>_. holding (S - {r}) v c k)"
  by (rule leadsI) (simp add: forget_def holding_def wp_simps)

lemma holding_created: "leads (holding S v c k) (add_created d) (\<lambda>_. holding S v c (k + d))"
  by (rule leadsI) (simp add: add_created_def holding_def wp_simps)

lemma holding_file: "leads (holding S v c k) (remove_file i) (\<lambda>_. holding (S - {R_file i}) v c k)"
  unfolding remove_file_def
  by (rule leads_then, rule leads_kept, rule holding_emit, simp, rule holding_forget)

lemma regulator_off: "leads (holding S Vreg_ok c k) (regulator_handler env False)
    (\<lambda>_. holding (S - {R_vreg_enabled}) Vreg_ok c k)"
  by (rule leadsI) (simp add: regulator_handler_def release_def fault_def holding_def wp_simps)

lemma vreg_off: "leads (holding S Vreg_ok c k) (vreg_configure env False)
    (\<lambda>_. holding (S - {R_vreg_enabled, R_vreg}) Vreg_ok c k)"
proof (rule leadsI)
  fix s assume s: "holding S Vreg_ok c k s"
  have rest: "leads (holding S Vreg_ok c k) (do { _ \<leftarrow> regulator_handler env False; regulator_put; ret rc })
      (\<lambda>_. holding (S - {R_vreg_enabled, R_vreg}) Vreg_ok c k)" for rc
    unfolding regulator_put_def
    by (rule leads_then [OF regulator_off], rule leads_then, rule leads_then, rule leads_kept, rule holding_emit, simp,
        rule holding_release, rule leads_return, simp add: minus_twice insert_commute)
  show "wp (vreg_configure env False) (\<lambda>_. holding (S - {R_vreg_enabled, R_vreg}) Vreg_ok c k) s"
    using s rest by (simp add: vreg_configure_def vreg_disable_def wp_simps leads_def holding_def)
qed

lemma free_data: "leads (holding S v c k) (err_device_init_pdata r)
    (\<lambda>r' s. r' = r \<and> holding (S - {R_ts}) v c k s)"
  unfolding err_device_init_pdata_def
  by (rule leads_then, rule leads_kept, rule holding_emit, simp, rule leads_then, rule holding_release,
      rule leads_return, simp)

lemma undo_gpio: "leads (holding S Vreg_ok c k) (err_device_init_gpio env r)
    (\<lambda>r' s. r' = r \<and> holding (S - {R_ts, R_vreg_enabled, R_vreg}) Vreg_ok c k s)"
  unfolding err_device_init_gpio_def
  by (rule leads_then [OF vreg_off], rule leads_post [OF free_data])
    (simp add: minus_twice insert_commute)

lemma gpio_freed: "leads (holding S v c k) (gpio_free g r) (\<lambda>_. holding (S - {r}) v c k)"
  unfolding gpio_free_def
  by (rule leads_then, rule leads_kept, rule holding_emit, simp, rule holding_release)

lemma chip_off: "leads (holding S v c k) (max1187x_chip_init env False) (\<lambda>_. holding (S - {R_tirq}) v c k)"
  unfolding max1187x_chip_init_def if_False
  by (rule leads_then, rule leads_kept, rule holding_gets, rule leads_then, rule gpio_freed, rule leads_return)

lemma reset_off: "kept (holding S v c k) (max1187x_gpio_init env False)"
  unfolding max1187x_gpio_init_def if_False Let_def
  by (intro holding_basic holding_rules) simp

lemma undo_input: "leads (holding S Vreg_ok c k) (err_device_init_inputdev env r)
    (\<lambda>r' s. r' = r \<and> holding (S - {R_ts, R_vreg_enabled, R_vreg, R_tirq}) Vreg_ok c k s)"
  unfolding err_device_init_inputdev_def
  by (rule leads_then [OF chip_off], rule leads_then [OF leads_kept [OF reset_off]], rule leads_post [OF undo_gpio])
    (simp add: minus_twice insert_commute)

definition taken_before_irq :: "mx_res set" where
  "taken_before_irq = {R_ts, R_vreg_enabled, R_vreg, R_tirq, R_input}"

lemma input_off: "leads (holding S v c k) input_unregister (\<lambda>_. holding (S - {R_input}) v c k)"
  unfolding input_unregister_def
  by (rule leads_then, rule leads_kept, rule holding_emit, simp, rule holding_release)

lemma undo_irq: "leads (holding S Vreg_ok c k) (err_device_init_irq env r)
    (\<lambda>r' s. r' = r \<and> holding (S - taken_before_irq) Vreg_ok c k s)"
  unfolding err_device_init_irq_def
  by (rule leads_then [OF input_off], rule leads_post [OF undo_input])
    (simp add: taken_before_irq_def minus_twice insert_commute)

section \<open>The files\<close>

lemma created_call: "leads (holding S v c k) (call answer (Mx_create_file i)) (\<lambda>_. holding S v (c \<or> i = 0) k)"
  by (rule leadsI) (auto simp: holding_def wp_simps)

lemma iterM_leads:
  assumes "\<And>x S k. leads (holding S v c k) (f x) (\<lambda>_. holding (S - {g x}) v c (k + d))"
  shows "leads (holding S v c k) (iterM f xs) (\<lambda>_. holding (S - g ` set xs) v c (k + of_nat (length xs) * d))"
proof (induction xs arbitrary: S k)
  case Nil
  then show ?case by (auto intro: leads_return)
next
  case (Cons x xs)
  show ?case
    unfolding iterM.simps
    by (rule leads_then [OF assms], rule leads_post [OF Cons.IH])
      (simp add: Diff_insert2 [symmetric] distrib_right add_ac)
qed

lemma undo_files: "leads (holding S v c k)
    (iterM (\<lambda>i. do { remove_file i; add_created (- 1) }) (rev [0..<Suc i]))
    (\<lambda>_ s. \<exists>k. holding (S - R_file ` {..i}) v c k s)"
proof -
  have "leads (holding S v c k) (do { remove_file x; add_created (- 1) }) (\<lambda>_. holding (S - {R_file x}) v c (k + - 1))"
    for x S k
    by (rule leads_then [OF holding_file], rule holding_created)
  from iterM_leads [of v c _ R_file "- 1", OF this] show ?thesis
    by (rule leads_post) (auto simp: atLeastLessThan_upt [symmetric] atLeast0_lessThan_Suc lessThan_Suc_atMost atLeast0LessThan
        simp del: upt_Suc)
qed

text \<open>The files are all there, or none, and the counter counts them.\<close>

lemma files_created:
  assumes "B \<inter> range R_file = {}"
  shows "leads (holding (B \<union> R_file ` {..<i}) v c k) (create_files env i n)
    (\<lambda>r s. if r = 0 then holding (B \<union> R_file ` {..<i + n}) v (c \<or> i = 0 \<and> n \<noteq> 0) (k + of_nat n) s
           else \<exists>k. holding B v (c \<or> i = 0) k s)"
proof (induction n arbitrary: i c k)
  case 0
  then show ?case by (auto intro: leads_return)
next
  case (Suc n)
  have fail: "B \<union> R_file ` {..<i} - R_file ` {..i} = B" using assms by auto
  have more: "insert (R_file i) (B \<union> R_file ` {..<i}) = B \<union> R_file ` {..<Suc i}" by (auto simp: lessThan_Suc)
  have next_one: "leads (holding (B \<union> R_file ` {..<i}) v (c \<or> i = 0) k)
      (do { acquire (R_file i); add_created 1; create_files env (Suc i) n })
      (\<lambda>r s. if r = 0 then holding (B \<union> R_file ` {..<i + Suc n}) v (c \<or> i = 0) (k + of_nat (Suc n)) s
             else \<exists>k. holding B v (c \<or> i = 0) k s)"
    by (rule leads_then [OF holding_acquire], rule leads_then [OF holding_created], unfold more,
        rule leads_post [OF Suc.IH]) (auto simp: add_ac)
  show ?case
    unfolding create_files.simps
  proof (rule leads_then [OF created_call], rule leads_if)
    fix a :: int
    assume "a \<noteq> 0"
    then show "leads (holding (B \<union> R_file ` {..<i}) v (c \<or> i = 0) k)
        (do { iterM (\<lambda>k. do { remove_file k; add_created (- 1) }) (rev [0..<Suc i]); ret a })
        (\<lambda>r s. if r = 0 then holding (B \<union> R_file ` {..<i + Suc n}) v (c \<or> i = 0 \<and> Suc n \<noteq> 0) (k + of_nat (Suc n)) s
               else \<exists>k. holding B v (c \<or> i = 0) k s)"
      by (intro leads_then [OF undo_files] leads_return) (auto simp: fail)
  next
    fix a :: int
    show "leads (holding (B \<union> R_file ` {..<i}) v (c \<or> i = 0) k)
        (do { acquire (R_file i); add_created 1; create_files env (Suc i) n })
        (\<lambda>r s. if r = 0 then holding (B \<union> R_file ` {..<i + Suc n}) v (c \<or> i = 0 \<and> Suc n \<noteq> 0) (k + of_nat (Suc n)) s
               else \<exists>k. holding B v (c \<or> i = 0) k s)"
      using next_one by (rule leads_post) (simp split: if_splits)
  qed
qed

lemma dev_attrs_length: "length dev_attrs = 13"
  by (simp add: dev_attrs_def)

lemma sysfs_created:
  assumes "B \<inter> range R_file = {}"
  shows "leads (holding B v c 0) (create_sysfs_entries env)
    (\<lambda>r s. if r = 0 then holding (B \<union> R_file ` {..<13}) v True 13 s else \<exists>k. holding B v True k s)"
  unfolding create_sysfs_entries_def dev_attrs_length
  by (intro leads_post [OF leads_pre [OF files_created [OF assms, where i = 0]]]) (auto split: if_splits)

lemma files_removed:
  assumes "n + unat d < 256"
  shows "leads (holding S v c (of_nat n + d)) (iterM (\<lambda>i. do {
     m \<leftarrow> gets tt_sysfs_created;
     whenM (m \<noteq> 0) (do { add_created (- 1); remove_file i })
   }) [i..<i + n]) (\<lambda>_. holding (S - R_file ` {i..<i + n}) v c d)"
  using assms
proof (induction n arbitrary: i S)
  case 0
  then show ?case by (auto intro: leads_return)
next
  case (Suc n)
  have nonzero: "of_nat (Suc n) + d \<noteq> 0"
  proof
    assume "of_nat (Suc n) + d = 0"
    then have "unat (of_nat (Suc n) + d) = 0" by simp
    then show False using Suc.prems by (simp add: unat_word_ariths unat_of_nat del: of_nat_Suc)
  qed
  have first: "leads (holding S v c (of_nat (Suc n) + d)) (do {
     m \<leftarrow> gets tt_sysfs_created;
     whenM (m \<noteq> 0) (do { add_created (- 1); remove_file i }) })
     (\<lambda>_. holding (S - {R_file i}) v c (of_nat n + d))"
  proof (rule leadsI)
    fix s assume s: "holding S v c (of_nat (Suc n) + d) s"
    have "leads (holding S v c (of_nat (Suc n) + d)) (do { add_created (- 1); remove_file i })
      (\<lambda>_. holding (S - {R_file i}) v c (of_nat n + d))"
      by (rule leads_then [OF holding_created]) (use holding_file in simp)
    then show "wp (do {
     m \<leftarrow> gets tt_sysfs_created;
     whenM (m \<noteq> 0) (do { add_created (- 1); remove_file i }) })
     (\<lambda>_. holding (S - {R_file i}) v c (of_nat n + d)) s"
      using s nonzero by (simp add: wp_simps leads_def holding_def)
  qed
  have "[i..<i + Suc n] = i # [Suc i..<Suc i + n]" by (simp add: upt_rec)
  moreover have "{i..<i + Suc n} = insert i {Suc i..<Suc i + n}" by auto
  then have "S - {R_file i} - R_file ` {Suc i..<Suc i + n} = S - R_file ` {i..<i + Suc n}"
    by (simp only: image_insert) blast
  ultimately show ?case
    using leads_then [OF first Suc.IH [where i = "Suc i"]] Suc.prems by simp
qed

lemma sysfs_removed:
  assumes "13 + unat d < 256"
  shows "leads (holding (B \<union> R_file ` {..<13}) v c (13 + d)) remove_sysfs_entries (\<lambda>_. holding (B - R_file ` {..<13}) v c d)"
proof -
  have "B \<union> R_file ` {..<13} - R_file ` {0..<0 + 13} = B - R_file ` {..<13}" by auto
  moreover have "remove_sysfs_entries = iterM (\<lambda>i. do {
     m \<leftarrow> gets tt_sysfs_created;
     whenM (m \<noteq> 0) (do { add_created (- 1); remove_file i })
   }) [0..<0 + 13]"
    by (simp only: remove_sysfs_entries_def dev_attrs_length add_0)
  moreover have "of_nat 13 + d = 13 + d" by simp
  ultimately show ?thesis
    using files_removed [OF assms, of "B \<union> R_file ` {..<13}" v c 0] by (simp only:)
qed

section \<open>Probe\<close>


definition taken_for_good :: "mx_res set" where
  "taken_for_good = {R_ts, R_vreg, R_tirq, R_input, R_irq, R_bin} \<union> R_file ` {..<13}"

definition stays_bound :: "int \<Rightarrow> mx_io \<Rightarrow> bool" where
  "stays_bound r s \<longleftrightarrow> r = 0 \<and> taken_for_good \<subseteq> set (tt_held (io_dev s)) \<and> tt_vreg (io_dev s) = Vreg_ok
     \<and> tt_sysfs_created (io_dev s) = 14"



text \<open>What may be held when the files are created: all but them, with or without the reset line and the enabled
  regulator.\<close>

definition all_but_files :: "mx_res set \<Rightarrow> bool" where
  "all_but_files S \<longleftrightarrow> {R_ts, R_vreg, R_tirq, R_input, R_irq} \<subseteq> S \<and> S \<subseteq> taken_before_irq \<union> {R_irq, R_reset}"




lemma all_but_files_free:
  assumes "all_but_files S"
  shows "S \<inter> range R_file = {}"
  using assms by (auto simp: all_but_files_def taken_before_irq_def)





















text \<open>When the files are created but for the last, the probe reports success, with its data freed and the
  interrupt registered.\<close>

lemma files_ok:
  assumes "\<And>tr i. me_ret env tr (Mx_create_file i) = 0"
  shows "wp (create_files env i n) (\<lambda>r _. r = 0) s"
  by (induction n arbitrary: i s) (simp_all add: wp_simps assms acquire_def add_created_def)

lemma bin_file_lies:
  assumes "all_but_files S" "holding S Vreg_ok c 0 s"
    and files: "\<And>tr i. me_ret env tr (Mx_create_file i) = 0" and bin: "\<And>tr. me_ret env tr Mx_create_bin < 0"
  shows "wp (probe_files env) (\<lambda>r t. r = 0 \<and> R_ts \<notin> set (tt_held (io_dev t)) \<and> R_irq \<in> set (tt_held (io_dev t))) s"
proof -
  have S: "R_irq \<in> S" "S - R_file ` {..<13} = S" "S \<inter> range R_file = {}"
    using assms(1) all_but_files_free [OF assms(1)] by (auto simp: all_but_files_def)
  have created: "leads (holding S Vreg_ok c 0) (create_sysfs_entries env)
      (\<lambda>r s. r = 0 \<and> holding (S \<union> R_file ` {..<13}) Vreg_ok True 13 s)"
  proof (rule leadsI)
    fix s assume "holding S Vreg_ok c 0 s"
    then have "wp (create_sysfs_entries env) (\<lambda>r s. if r = 0 then holding (S \<union> R_file ` {..<13}) Vreg_ok True 13 s
        else \<exists>k. holding S Vreg_ok True k s) s"
      using sysfs_created [OF S(3)] unfolding leads_def by blast
    from wp_conj [OF files_ok [OF files] this [unfolded create_sysfs_entries_def]]
    show "wp (create_sysfs_entries env) (\<lambda>r s. r = 0 \<and> holding (S \<union> R_file ` {..<13}) Vreg_ok True 13 s) s"
      unfolding create_sysfs_entries_def by (rule wp_mono) auto
  qed
  have removed: "leads (holding (S \<union> R_file ` {..<13}) Vreg_ok True 13) remove_sysfs_entries (\<lambda>_. holding S Vreg_ok True 0)"
    using sysfs_removed [of 0 S Vreg_ok True] S(2) by simp
  have undo: "leads (holding (S \<union> R_file ` {..<13}) Vreg_ok True 13) (do { remove_sysfs_entries; err_device_init_irq env 0 })
      (\<lambda>r t. r = 0 \<and> R_ts \<notin> set (tt_held (io_dev t)) \<and> R_irq \<in> set (tt_held (io_dev t)))"
    by (rule leads_then [OF removed], rule leads_post [OF undo_irq])
      (use S(1) in \<open>auto simp: holding_def taken_before_irq_def\<close>)
  have "wp (do { b \<leftarrow> call (me_ret env) Mx_create_bin;
       if b < 0 then do { remove_sysfs_entries; err_device_init_irq env 0 } else m })
      (\<lambda>r t. r = 0 \<and> R_ts \<notin> set (tt_held (io_dev t)) \<and> R_irq \<in> set (tt_held (io_dev t))) t"
    if "holding (S \<union> R_file ` {..<13}) Vreg_ok True 13 t" for t m
    using undo that bin by (simp add: wp_simps leads_def holding_def)
  moreover have "wp (create_sysfs_entries env) (\<lambda>r t. r = 0 \<and> holding (S \<union> R_file ` {..<13}) Vreg_ok True 13 t) s"
    using created assms(2) by (simp add: leads_def)
  ultimately show ?thesis
    unfolding probe_files_def by (intro wp_bindI) (elim wp_mono, simp)
qed

section \<open>Shutdown\<close>

lemma shutdown_gives_back:
  assumes "stays_bound 0 s"
  shows "wp (shutdown_rest env True)
    (\<lambda>_ t. set (tt_held (io_dev t)) \<subseteq> set (tt_held (io_dev s)) - taken_for_good - {R_vreg_enabled, R_link}) s"
proof -
  define H where "H = set (tt_held (io_dev s))"
  define c where "c = (Mx_create_file 0 \<in> set (io_trace s))"
  have s: "holding (H \<union> R_file ` {..<13}) Vreg_ok c (13 + 1) s"
    using assms by (auto simp: stays_bound_def holding_def H_def c_def taken_for_good_def)
  have count: "leads (holding T Vreg_ok c 1) (gets tt_sysfs_created) (\<lambda>n s. n = 1 \<and> holding T Vreg_ok c 1 s)" for T
    by (rule leadsI) (simp add: wp_simps holding_def)
  have bin: "leads (\<lambda>s. n = 1 \<and> holding T Vreg_ok c 1 s)
      (whenM (n \<noteq> 0) (do { add_created (- 1); emit Mx_remove_bin; forget R_bin }))
      (\<lambda>_. holding (T - {R_bin}) Vreg_ok c 0)" for T and n :: u8
    by (rule leadsI) (simp add: wp_simps holding_def add_created_def forget_def)
  have irq: "leads (holding T Vreg_ok c 0) (whenM True (do { emit Mx_free_irq; release R_irq }))
      (\<lambda>_. holding (T - {R_irq}) Vreg_ok c 0)" for T
    unfolding whenM_def if_True by (rule leads_then [OF leads_kept [OF holding_emit]], simp, rule holding_release)
  have files: "leads (holding (H \<union> R_file ` {..<13}) Vreg_ok c (13 + 1)) remove_sysfs_entries
      (\<lambda>_. holding (H - R_file ` {..<13}) Vreg_ok c 1)"
    by (rule sysfs_removed) simp
  have "leads (holding (H \<union> R_file ` {..<13}) Vreg_ok c (13 + 1)) (shutdown_rest env True)
      (\<lambda>_. holding (H - R_file ` {..<13} - {R_bin} - {R_irq} - {R_link} - {R_input} - {R_tirq}
         - {R_vreg_enabled, R_vreg} - {R_ts}) Vreg_ok c 0)"
    unfolding shutdown_rest_def
    by (rule leads_then [OF files], rule leads_bind [OF count], rule leads_then [OF bin], rule leads_then [OF irq],
        rule leads_then [OF leads_kept [OF holding_emit]], simp, rule leads_then [OF holding_forget],
        rule leads_then [OF input_off], rule leads_then [OF chip_off], rule leads_then [OF leads_kept [OF reset_off]],
        rule leads_then [OF vreg_off], rule leads_then [OF leads_kept [OF holding_emit]], simp, rule holding_release)
  then have "wp (shutdown_rest env True) (\<lambda>_. holding (H - R_file ` {..<13} - {R_bin} - {R_irq} - {R_link} - {R_input} - {R_tirq}
         - {R_vreg_enabled, R_vreg} - {R_ts}) Vreg_ok c 0) s"
    using s by (simp add: leads_def)
  then show ?thesis
    by (rule wp_mono) (auto simp: holding_def H_def [symmetric] taken_for_good_def)
qed

end
