(* ===== verification/Touch_Files.thy ===== *)
theory Touch_Files
  imports Touch_Irq
begin

text \<open>
  The small files of the touch screen's debug interface: what reading one prints, and what writing one changes. The
  kernel's \<^verbatim>\<open>sscanf\<close> is an argument: the numbers that it converted, in order.
\<close>

section \<open>Numbers in text\<close>

function digits_of :: "string \<Rightarrow> nat \<Rightarrow> string" where
  "digits_of ds n = (if n < length ds \<or> length ds < 2 then [ds ! n]
     else digits_of ds (n div length ds) @ [ds ! (n mod length ds)])"
  by auto
termination by (relation "measure snd") auto

declare digits_of.simps [simp del]

text \<open>The conversions \<^verbatim>\<open>%u\<close>, \<^verbatim>\<open>%x\<close>, and \<^verbatim>\<open>%0nX\<close>.\<close>

definition dec :: "nat \<Rightarrow> string" where
  "dec n = digits_of ''0123456789'' n"

definition lower_hex :: "nat \<Rightarrow> string" where
  "lower_hex n = digits_of ''0123456789abcdef'' n"

definition upper_hex :: "nat \<Rightarrow> nat \<Rightarrow> string" where
  "upper_hex width n = (let s = digits_of ''0123456789ABCDEF'' n
     in replicate (width - length s) (CHR ''0'') @ s)"

definition newline :: string where "newline = [char_of (10 :: nat)]"

section \<open>Reading\<close>

definition irq_count_show :: "touch \<Rightarrow> string" where
  "irq_count_show ts = dec (unat (tt_irq_count ts)) @ newline"

definition dflt_cfg_show :: "touch \<Rightarrow> string" where
  "dflt_cfg_show ts = (let pd = tt_pdata ts in
     dec (unat (tp_defaults_allow pd)) @ '' 0x'' @ lower_hex (unat (tp_default_config_id pd))
     @ '' 0x'' @ lower_hex (unat (tp_default_chip_id pd)) @ newline)"

definition panel_show :: "touch \<Rightarrow> string" where
  "panel_show ts = (let pd = tt_pdata ts in
     dec (unat (tp_panel_margin_xl pd)) @ '' '' @ dec (unat (tp_panel_margin_xh pd))
     @ '' '' @ dec (unat (tp_panel_margin_yl pd)) @ '' '' @ dec (unat (tp_panel_margin_yh pd))
     @ '' '' @ dec (unat (tp_lcd_x pd)) @ '' '' @ dec (unat (tp_lcd_y pd)) @ newline)"

definition chip_id_show :: "touch \<Rightarrow> string" where
  "chip_id_show ts = ''0x'' @ upper_hex 2 (unat (tt_chip_id ts)) @ newline"

definition config_id_show :: "touch \<Rightarrow> string" where
  "config_id_show ts = ''0x'' @ upper_hex 4 (unat (tt_config_id ts)) @ newline"

definition driver_ver_show :: string where
  "driver_ver_show = ''3.3.2.2: October 29, 2013'' @ newline"

definition glove_show :: "touch \<Rightarrow> string" where
  "glove_show ts = dec (unat (tp_glove_enabled (tt_pdata ts))) @ newline"

text \<open>Where a chip keeps the two words of its customer.\<close>

definition cst_info_addr :: "u16 \<Rightarrow> nat" where
  "cst_info_addr chip =
     (if chip = 0x55 \<or> chip = 0x57 then 42
      else if chip = 0x72 \<or> chip = 0x73 \<or> chip = 0x74 \<or> chip = 0x75 \<or> chip = 0x76 \<or> chip = 0x78 then 58
      else 0)"

text \<open>The version, and when the chip answers the second command, too, its configuration. What the answers do not fill of the
  buffer is arbitrary.\<close>

definition fw_ver_show :: "mx_env \<Rightarrow> string mxm" where
  "fw_ver_show env = do {
     r \<leftarrow> rbcmd_send_receive env [MXM_CMD_ID_GET_FW_VERSION, MXM_ZERO_SIZE_CMD] MXM_RPT_ID_FW_VERSION 100;
     if r \<noteq> 0 then ret []
     else do {
       modify (\<lambda>ts. ts\<lparr>tt_chip_id := BYTEH (word_at (tt_rb_buf ts) 4)\<rparr>);
       ts \<leftarrow> gets id;
       let version = ''fw_ver ('' @ dec (unat (BYTEH (word_at (tt_rb_buf ts) 3))) @ ''.''
         @ dec (unat (BYTEL (word_at (tt_rb_buf ts) 3))) @ ''.'' @ dec (unat (word_at (tt_rb_buf ts) 5))
         @ '') chip_id (0x'' @ upper_hex 2 (unat (tt_chip_id ts)) @ '')'' @ newline;
       r \<leftarrow> rbcmd_send_receive env [MXM_CMD_ID_GET_CFG_INF, MXM_ZERO_SIZE_CMD] MXM_RPT_ID_CFG_INF 100;
       if r \<noteq> 0 then ret version
       else do {
         modify (\<lambda>ts. ts\<lparr>tt_config_id := word_at (tt_rb_buf ts) 3\<rparr>);
         ts \<leftarrow> gets id;
         let config = ''config_id (0x'' @ upper_hex 4 (unat (tt_config_id ts)) @ '') '';
         let k = cst_info_addr (tt_chip_id ts);
         ret (version @ config @ (if k = 0 then []
           else ''customer_info[1:0] (0x'' @ upper_hex 4 (unat (word_at (tt_rb_buf ts) (k + 1))) @ '', 0x''
             @ upper_hex 4 (unat (word_at (tt_rb_buf ts) k)) @ '')'' @ newline))
       }
     }
   }"

section \<open>Writing\<close>

text \<open>Each number that was read goes to its field; the fields beyond them stay as they are, and nothing is
  checked.\<close>

definition store_fields :: "(u32 \<Rightarrow> max1187x_pdata \<Rightarrow> max1187x_pdata) list \<Rightarrow> u32 list \<Rightarrow> touch \<Rightarrow> touch" where
  "store_fields upds vs ts = ts\<lparr>tt_pdata := fold (\<lambda>(u, v). u v) (zip upds vs) (tt_pdata ts)\<rparr>"

definition irq_count_store :: "nat \<Rightarrow> nat mxm" where
  "irq_count_store count = do {
     modify (\<lambda>ts. ts\<lparr>tt_irq_count := 0\<rparr>);
     ret count
   }"

definition sreset_store :: "mx_env \<Rightarrow> nat \<Rightarrow> nat mxm" where
  "sreset_store env count = do {
     _ \<leftarrow> sreset env;
     ret count
   }"

definition dflt_cfg_store :: "(string \<Rightarrow> u32 list) \<Rightarrow> string \<Rightarrow> nat mxm" where
  "dflt_cfg_store scan buf = do {
     modify (store_fields [\<lambda>v. tp_defaults_allow_update (\<lambda>_. v), \<lambda>v. tp_default_config_id_update (\<lambda>_. v),
       \<lambda>v. tp_default_chip_id_update (\<lambda>_. v)] (scan buf));
     ret (length buf)
   }"

definition panel_store :: "(string \<Rightarrow> u32 list) \<Rightarrow> string \<Rightarrow> nat mxm" where
  "panel_store scan buf = do {
     modify (store_fields [\<lambda>v. tp_panel_margin_xl_update (\<lambda>_. v), \<lambda>v. tp_panel_margin_xh_update (\<lambda>_. v),
       \<lambda>v. tp_panel_margin_yl_update (\<lambda>_. v), \<lambda>v. tp_panel_margin_yh_update (\<lambda>_. v),
       \<lambda>v. tp_lcd_x_update (\<lambda>_. v), \<lambda>v. tp_lcd_y_update (\<lambda>_. v)] (scan buf));
     ret (length buf)
   }"

definition glove_store :: "mx_env \<Rightarrow> (string \<Rightarrow> u32 list) \<Rightarrow> string \<Rightarrow> int mxm" where
  "glove_store env scan buf =
     (case scan buf of
        [] \<Rightarrow> ret (- EINVAL)
      | v # _ \<Rightarrow> do {
          modify (store_fields [\<lambda>v. tp_glove_enabled_update (\<lambda>_. v)] [v]);
          r \<leftarrow> max1187x_set_glove env v;
          ret (if r \<noteq> 0 then r else int (length buf))
        })"

end
