(* ===== verification/Power_Seq.thy ===== *)
theory Power_Seq
  imports Prelude
begin

text \<open>
  The contract between a driver and the code that powers its device: \<open>power_on\<close> takes the device
  from \<open>off\<close> to \<open>on\<close>, or fails and leaves it off; \<open>power_off\<close> takes it back and cannot fail. The
  panel drivers and the camera driver provide it with their regulators, resets and clocks. The
  lemmas are about what such drivers build on it: bringing the device up with an
  initialisation that is rolled back when it fails.
\<close>

locale power_sequenced =
  fixes on :: "'s \<Rightarrow> bool"
    and off :: "'s \<Rightarrow> bool"
    and power_on :: "('s, int) state"
    and power_off :: "('s, unit) state"
    and failed :: "int \<Rightarrow> bool"
  assumes power_on_law: "off s \<Longrightarrow> wp power_on (\<lambda>r s'. if failed r then off s' else on s') s"
    and power_off_law: "on s \<Longrightarrow> wp power_off (\<lambda>_. off) s"
begin

text \<open>An initialisation that keeps the device powered, rolled back when it fails.\<close>

lemma init_or_off:
  assumes "on s" "kept on init" "\<not> failed ok"
  shows "wp (do { r \<leftarrow> init; if failed r then do { power_off; ret r } else ret ok })
    (\<lambda>r s'. if failed r then off s' else on s') s"
  unfolding wp_bind
proof (rule kept_wp [OF assms(2,1)])
  fix r t
  assume "on t"
  with assms(3) show "wp (if failed r then do { power_off; ret r } else ret ok)
      (\<lambda>r s'. if failed r then off s' else on s') t"
    by (auto simp: wp_simps intro: wp_mono [OF power_off_law])
qed

text \<open>The same with a cleanup and a result of the client's own.\<close>

lemma power_on_then:
  assumes "off s"
    and "\<And>t r. off t \<Longrightarrow> failed r \<Longrightarrow> Q r t"
    and "\<And>t r. on t \<Longrightarrow> \<not> failed r \<Longrightarrow> wp (k r) Q t"
  shows "wp (do { r \<leftarrow> power_on; if failed r then ret r else k r }) Q s"
  unfolding wp_bind
  by (rule wp_mono [OF power_on_law [OF assms(1)]])
    (use assms in \<open>auto simp: wp_return split: if_splits\<close>)

lemma bring_up:
  assumes "off s" "kept on init" "\<not> failed ok"
  shows "wp (do {
      r \<leftarrow> power_on;
      if failed r then ret r
      else do { r \<leftarrow> init; if failed r then do { power_off; ret r } else ret ok }
    }) (\<lambda>r s'. if failed r then off s' else on s') s"
  by (rule power_on_then [OF assms(1)], simp,
      rule wp_mono [OF init_or_off [OF _ assms(2,3)]])

text \<open>A device brought up and powered off again, any number of times, is off.\<close>

lemma up_down:
  assumes "off s" "kept on init"
  shows "wp (do {
      r \<leftarrow> power_on;
      if failed r then ret r
      else do { r \<leftarrow> init; power_off; ret r }
    }) (\<lambda>_. off) s"
proof (rule power_on_then [OF assms(1)])
  fix t r
  assume "on t"
  then show "wp (do { r \<leftarrow> init; power_off; ret r }) (\<lambda>_. off) t"
    unfolding wp_bind wp_return by (rule kept_wp [OF assms(2)]) (rule power_off_law)
qed

end

end
