(* ===== verification/Sndcard.thy ===== *)
theory Sndcard
  imports Power_Seq
begin

text \<open>
  \<^verbatim>\<open>drivers/audio/msm8974-sndcard.c\<close>: the sound card. \<open>sound_port\<close> is the AFE port of a back end
  with the two clocks it runs from; \<open>sc_ev\<close> are the calls into the sound core, answered by
  \<open>sc_env\<close>. \<open>dai_link\<close> is what \<^verbatim>\<open>msm8974_add_ops\<close> reads and writes of a link.
\<close>

section \<open>Constants\<close>

definition MI2S_DEFAULT_RATE :: nat where "MI2S_DEFAULT_RATE = 48000"
definition MI2S_DEFAULT_BITS :: nat where "MI2S_DEFAULT_BITS = 16"
definition MI2S_DEFAULT_CHANNELS :: nat where "MI2S_DEFAULT_CHANNELS = 2"

definition MI2S_BCLK_RATE :: nat where
  "MI2S_BCLK_RATE = MI2S_DEFAULT_RATE * MI2S_DEFAULT_BITS * MI2S_DEFAULT_CHANNELS"

definition MI2S_OSR_RATE :: nat where
  "MI2S_OSR_RATE = MI2S_DEFAULT_RATE * 256"

text \<open>The ports of the AFE: the pairs of receive and transmit ports of the four MI2S interfaces and of
  the seven SLIMbus ones, the internal FM port, and all others.\<close>

datatype port_id =
    Primary_mi2s bool
  | Secondary_mi2s bool
  | Tertiary_mi2s bool
  | Quaternary_mi2s bool
  | Slimbus nat bool
  | Int_fm_tx
  | Other_port nat

definition msm8974_mi2s_index :: "port_id \<Rightarrow> int" where
  "msm8974_mi2s_index p =
     (case p of Primary_mi2s _ \<Rightarrow> 0 | Secondary_mi2s _ \<Rightarrow> 1 | Tertiary_mi2s _ \<Rightarrow> 2
      | Quaternary_mi2s _ \<Rightarrow> 3 | _ \<Rightarrow> - 1)"

section \<open>State and calls\<close>

datatype sysclk = Lpaif_bit_clk | Lpaif_osr_clk

datatype provider = Bp_fp | Bc_fc

datatype stream = Playback | Capture

record sound_port =
  sc_bit :: nat
  sc_osr :: nat

text \<open>\<open>Sc_codec_fmt i\<close>, \<open>Sc_get_map i\<close>: the \<open>i\<close>-th codec of the link, as consumer of the clocks and
  as the source of SLIMbus channels.\<close>

datatype sc_ev =
    Sc_sysclk sysclk nat
  | Sc_cpu_fmt provider
  | Sc_codec_fmt nat
  | Sc_warn
  | Sc_get_map nat
  | Sc_set_map "nat list" "nat list"

record sc_env =
  se_ret :: "sc_ev list \<Rightarrow> sc_ev \<Rightarrow> int"
  se_map :: "sc_ev list \<Rightarrow> sc_ev \<Rightarrow> nat list \<times> nat list"

type_synonym sc_io = "(sc_ev, sound_port) io"
type_synonym 'a scm = "(sc_io, 'a) state"

text \<open>\<^verbatim>\<open>snd_soc_dai_set_sysclk\<close> on the CPU DAI: the clock has the rate when the ADSP accepts it.\<close>

definition set_sysclk :: "sc_env \<Rightarrow> sysclk \<Rightarrow> nat \<Rightarrow> int scm" where
  "set_sysclk env c rate = do {
     r \<leftarrow> call (se_ret env) (Sc_sysclk c rate);
     whenM (r = 0) (modify (\<lambda>p. case c of Lpaif_bit_clk \<Rightarrow> p\<lparr>sc_bit := rate\<rparr>
                                         | Lpaif_osr_clk \<Rightarrow> p\<lparr>sc_osr := rate\<rparr>));
     ret r
   }"

section \<open>Back ends\<close>

definition set_codec_fmt :: "sc_env \<Rightarrow> nat \<Rightarrow> unit scm" where
  "set_codec_fmt env i = do {
     r \<leftarrow> call (se_ret env) (Sc_codec_fmt i);
     whenM (r \<noteq> 0 \<and> r \<noteq> - ENOTSUPP) (emit Sc_warn)
   }"

definition startup_formats :: "sc_env \<Rightarrow> nat \<Rightarrow> int scm" where
  "startup_formats env codecs = do {
     r \<leftarrow> call (se_ret env) (Sc_cpu_fmt Bp_fp);
     whenM (r \<noteq> 0) (emit Sc_warn);
     iterM (set_codec_fmt env) [0..<codecs];
     ret 0
   }"

definition startup_bit_clock :: "sc_env \<Rightarrow> nat \<Rightarrow> int scm" where
  "startup_bit_clock env codecs = do {
     r \<leftarrow> set_sysclk env Lpaif_bit_clk MI2S_BCLK_RATE;
     if r \<noteq> 0 then do {
       _ \<leftarrow> set_sysclk env Lpaif_osr_clk 0;
       ret r
     }
     else startup_formats env codecs
   }"

definition msm8974_snd_startup :: "sc_env \<Rightarrow> port_id \<Rightarrow> nat \<Rightarrow> int scm" where
  "msm8974_snd_startup env port codecs =
     (if msm8974_mi2s_index port < 0 then ret 0
      else do {
        r \<leftarrow> set_sysclk env Lpaif_osr_clk MI2S_OSR_RATE;
        if r \<noteq> 0 then ret r else startup_bit_clock env codecs
      })"

definition msm8974_snd_shutdown :: "sc_env \<Rightarrow> port_id \<Rightarrow> unit scm" where
  "msm8974_snd_shutdown env port =
     (if msm8974_mi2s_index port < 0 then ret ()
      else do {
        _ \<leftarrow> set_sysclk env Lpaif_bit_clk 0;
        _ \<leftarrow> set_sysclk env Lpaif_osr_clk 0;
        ret ()
      })"

definition msm8974_codecless_startup :: "sc_env \<Rightarrow> bool \<Rightarrow> port_id \<Rightarrow> nat \<Rightarrow> int scm" where
  "msm8974_codecless_startup env codecless_ws_internal port codecs =
     (if msm8974_mi2s_index port < 0 then ret 0
      else do {
        r \<leftarrow> msm8974_snd_startup env port codecs;
        if r \<noteq> 0 then ret r
        else do {
          r \<leftarrow> call (se_ret env) (Sc_cpu_fmt (if codecless_ws_internal then Bp_fp else Bc_fc));
          whenM (r \<noteq> 0) (emit Sc_warn);
          ret 0
        }
      })"

text \<open>The parameters of a back end: intervals of rates and channels, and a set of formats.\<close>

datatype pcm_format = S16_le | Other_format nat

record hw_params =
  hp_rate :: "nat \<times> nat"
  hp_channels :: "nat \<times> nat"
  hp_formats :: "pcm_format set"

definition msm8974_be_hw_params_fixup :: "hw_params \<Rightarrow> hw_params \<times> int" where
  "msm8974_be_hw_params_fixup p =
     (p\<lparr>hp_rate := (MI2S_DEFAULT_RATE, MI2S_DEFAULT_RATE),
        hp_channels := (MI2S_DEFAULT_CHANNELS, MI2S_DEFAULT_CHANNELS), hp_formats := {S16_le}\<rparr>, 0)"

text \<open>The loop over the codecs; \<open>r\<close> is the variable \<^verbatim>\<open>ret\<close>, which a skipped codec leaves set.\<close>

fun map_codecs :: "sc_env \<Rightarrow> stream \<Rightarrow> nat list \<Rightarrow> int \<Rightarrow> int scm" where
  "map_codecs env st [] r = ret r"
| "map_codecs env st (i # is) r = do {
     chans \<leftarrow> call (se_map env) (Sc_get_map i);
     r \<leftarrow> call (se_ret env) (Sc_get_map i);
     if r = - ENOTSUPP then map_codecs env st is r
     else if r \<noteq> 0 then ret r
     else do {
       r \<leftarrow> call (se_ret env)
         (case st of Playback \<Rightarrow> Sc_set_map [] (snd chans) | Capture \<Rightarrow> Sc_set_map (fst chans) []);
       if r \<noteq> 0 then ret r else map_codecs env st is r
     }
   }"

definition msm8974_be_hw_params :: "sc_env \<Rightarrow> port_id \<Rightarrow> stream \<Rightarrow> nat \<Rightarrow> int scm" where
  "msm8974_be_hw_params env port st codecs =
     (case port of
        Slimbus n tx \<Rightarrow> if n \<le> 6 then map_codecs env st [0..<codecs] 0 else ret 0
      | _ \<Rightarrow> ret 0)"

section \<open>The card\<close>

datatype link_ops = No_ops | Be_ops | Be_codecless_ops

record dai_link =
  dl_id :: port_id
  dl_dynamic :: bool
  dl_no_pcm :: bool
  dl_ignore_pmdown_time :: bool
  dl_platform :: "nat option"
  dl_cpu :: "nat option"
  dl_ops :: link_ops
  dl_fixup :: bool

text \<open>The node of the platform that the last back end names.\<close>

definition card_routing :: "dai_link list \<Rightarrow> nat option" where
  "card_routing links = fold (\<lambda>l r. if dl_no_pcm l then dl_platform l else r) links None"

definition to_codecless :: "dai_link \<Rightarrow> dai_link" where
  "to_codecless l = l\<lparr>dl_dynamic := False, dl_no_pcm := True, dl_ignore_pmdown_time := True\<rparr>"

definition add_link_ops :: "nat option \<Rightarrow> dai_link \<Rightarrow> dai_link" where
  "add_link_ops routing l =
     (let own = dl_dynamic l \<and> dl_platform l \<noteq> dl_cpu l;
          l = (if own then to_codecless l else l);
          fm = dl_id l = Int_fm_tx \<and> dl_dynamic l \<and> routing \<noteq> None;
          l = (if fm then (to_codecless l)\<lparr>dl_platform := routing\<rparr> else l)
      in if dl_no_pcm l
         then l\<lparr>dl_ops := (if own \<or> fm then Be_codecless_ops else Be_ops), dl_fixup := True\<rparr>
         else l)"

definition msm8974_add_ops :: "dai_link list \<Rightarrow> dai_link list" where
  "msm8974_add_ops links = map (add_link_ops (card_routing links)) links"

text \<open>\<open>parse\<close> is \<^verbatim>\<open>qcom_snd_parse_of\<close>, which reads the links from the device tree or fails, and
  \<open>register\<close> the sound core's registration.\<close>

definition msm8974_dapm_widgets :: "string list" where
  "msm8974_dapm_widgets = [''Handset Mic'', ''Secondary Mic'', ''Headset Mic'', ''Digital Mic'']"

definition msm8974_snd_platform_probe ::
    "bool \<Rightarrow> (string list \<Rightarrow> int + dai_link list) \<Rightarrow> (dai_link list \<Rightarrow> int) \<Rightarrow> int" where
  "msm8974_snd_platform_probe alloc parse register =
     (if \<not> alloc then - ENOMEM
      else case parse msm8974_dapm_widgets of
          Inl r \<Rightarrow> r
        | Inr links \<Rightarrow> register (msm8974_add_ops links))"

section \<open>The clocks of a back end\<close>

definition clocks_on :: "sound_port \<Rightarrow> bool" where
  "clocks_on p \<longleftrightarrow> sc_bit p = 1536000 \<and> sc_osr p = 12288000"

definition clocks_off :: "sound_port \<Rightarrow> bool" where
  "clocks_off p \<longleftrightarrow> sc_bit p = 0 \<and> sc_osr p = 0"

text \<open>An ADSP that accepts the commands that stop a clock.\<close>

definition stopping :: "sc_env \<Rightarrow> sc_env" where
  "stopping env = env\<lparr>se_ret := (\<lambda>h e. case e of
     Sc_sysclk c rate \<Rightarrow> if rate = 0 then 0 else se_ret env h e | _ \<Rightarrow> se_ret env h e)\<rparr>"

lemma stopping_simps [simp]:
  "se_ret (stopping env) h (Sc_sysclk c 0) = 0"
  "0 < rate \<Longrightarrow> se_ret (stopping env) h (Sc_sysclk c rate) = se_ret env h (Sc_sysclk c rate)"
  "se_ret (stopping env) h (Sc_cpu_fmt f) = se_ret env h (Sc_cpu_fmt f)"
  "se_ret (stopping env) h (Sc_codec_fmt i) = se_ret env h (Sc_codec_fmt i)"
  by (simp_all add: stopping_def)

text \<open>What the calls so far left of the two clocks, and that at no moment the bit clock ran without the
  oversampling clock it is divided from.\<close>

fun clock_step :: "sc_env \<Rightarrow> sc_ev list \<Rightarrow> sc_ev \<Rightarrow> nat \<times> nat \<Rightarrow> nat \<times> nat" where
  "clock_step env h (Sc_sysclk c rate) (bclk, osr) =
     (if se_ret env h (Sc_sysclk c rate) \<noteq> 0 then (bclk, osr)
      else case c of Lpaif_bit_clk \<Rightarrow> (rate, osr) | Lpaif_osr_clk \<Rightarrow> (bclk, rate))"
| "clock_step env h _ p = p"

inductive osr_first :: "sc_env \<Rightarrow> sc_ev list \<Rightarrow> nat \<times> nat \<Rightarrow> bool" for env where
  none: "osr_first env [] (0, 0)"
| call: "osr_first env h p \<Longrightarrow> clock_step env h e p = (bclk, osr) \<Longrightarrow> bclk = 0 \<or> osr \<noteq> 0 \<Longrightarrow>
    osr_first env (h @ [e]) (bclk, osr)"

definition clocks_sound :: "sc_env \<Rightarrow> sc_io \<Rightarrow> bool" where
  "clocks_sound env s \<longleftrightarrow> osr_first env (io_trace s) (sc_bit (io_dev s), sc_osr (io_dev s))"

lemma osr_firstD: "osr_first env h (bclk, osr) \<Longrightarrow> bclk = 0 \<or> osr \<noteq> 0"
  by (induction h "(bclk, osr)" rule: osr_first.induct) auto

text \<open>The clocks are on, off, and the calls so far are in order.\<close>

definition port_on :: "sc_env \<Rightarrow> sc_io \<Rightarrow> bool" where
  "port_on env s \<longleftrightarrow> clocks_on (io_dev s) \<and> clocks_sound env s"

definition port_off :: "sc_env \<Rightarrow> sc_io \<Rightarrow> bool" where
  "port_off env s \<longleftrightarrow> clocks_off (io_dev s) \<and> clocks_sound env s"

lemma port_on_call:
  assumes "port_on env s" "\<forall>c rate. e \<noteq> Sc_sysclk c rate"
  shows "port_on env (s\<lparr>io_trace := io_trace s @ [e]\<rparr>)"
proof -
  have "clock_step env (io_trace s) e p = p" for p
    using assms(2) by (cases "(env, io_trace s, e, p)" rule: clock_step.cases) auto
  then show ?thesis
    using assms(1) by (auto simp: port_on_def clocks_sound_def intro: osr_first.call dest: osr_firstD)
qed

lemma kept_port_call:
  assumes "\<forall>c rate. e \<noteq> Sc_sysclk c rate"
  shows "kept (port_on env) (call f e)" "kept (port_on env) (emit e)"
  using port_on_call [OF _ assms] by (simp_all add: kept_def wp_simps)

lemma wp_set_sysclk:
  assumes "clocks_sound env s"
    and "c = Lpaif_bit_clk \<Longrightarrow> rate = 0 \<or> sc_osr (io_dev s) \<noteq> 0"
    and "c = Lpaif_osr_clk \<Longrightarrow> rate \<noteq> 0 \<or> sc_bit (io_dev s) = 0"
  shows "wp (set_sysclk env c rate) (\<lambda>r s'. r = se_ret env (io_trace s) (Sc_sysclk c rate) \<and>
    clocks_sound env s' \<and>
    io_dev s' = (if r \<noteq> 0 then io_dev s
      else case c of Lpaif_bit_clk \<Rightarrow> (io_dev s)\<lparr>sc_bit := rate\<rparr>
                   | Lpaif_osr_clk \<Rightarrow> (io_dev s)\<lparr>sc_osr := rate\<rparr>)) s"
proof -
  have "sc_bit (io_dev s) = 0 \<or> sc_osr (io_dev s) \<noteq> 0"
    using assms(1) osr_firstD by (simp add: clocks_sound_def)
  with assms show ?thesis
    by (cases c) (auto simp: set_sysclk_def wp_simps clocks_sound_def intro!: osr_first.call)
qed

lemma kept_codec_fmt: "kept (port_on env) (iterM (set_codec_fmt env') ns)"
  unfolding set_codec_fmt_def by (intro kept_iterM kept_rules kept_port_call) simp_all

lemma sysclk_rates: "MI2S_OSR_RATE = 12288000" "MI2S_BCLK_RATE = 1536000"
  by (simp_all add: MI2S_OSR_RATE_def MI2S_BCLK_RATE_def MI2S_DEFAULT_RATE_def MI2S_DEFAULT_BITS_def
      MI2S_DEFAULT_CHANNELS_def)

lemma startup_formats_law:
  assumes "port_on env s"
  shows "wp (startup_formats env' n) (\<lambda>r s'. r = 0 \<and> port_on env s') s"
proof -
  have warn: "kept (port_on env) (whenM b (emit Sc_warn))" for b
    by (intro kept_rules kept_port_call) simp
  show ?thesis
    unfolding startup_formats_def wp_bind wp_return
    by (intro kept_wp [OF kept_port_call(1) assms] kept_wp [OF warn] kept_wp [OF kept_codec_fmt]) auto
qed

lemma startup_bit_clock_law:
  assumes "clocks_sound (stopping env) s" "sc_bit (io_dev s) = 0" "sc_osr (io_dev s) = 12288000"
  shows "wp (startup_bit_clock (stopping env) n)
    (\<lambda>r s'. if r \<noteq> 0 then port_off (stopping env) s' else port_on (stopping env) s') s"
  unfolding startup_bit_clock_def wp_bind
proof (rule wp_mono [OF wp_set_sysclk [OF assms(1)]])
  fix r u
  assume u: "r = se_ret (stopping env) (io_trace s) (Sc_sysclk Lpaif_bit_clk MI2S_BCLK_RATE) \<and>
    clocks_sound (stopping env) u \<and> io_dev u = (if r \<noteq> 0 then io_dev s
      else case Lpaif_bit_clk of Lpaif_bit_clk \<Rightarrow> (io_dev s)\<lparr>sc_bit := MI2S_BCLK_RATE\<rparr>
           | Lpaif_osr_clk \<Rightarrow> (io_dev s)\<lparr>sc_osr := MI2S_BCLK_RATE\<rparr>)"
  have undo: "wp (set_sysclk (stopping env) Lpaif_osr_clk 0) (\<lambda>_. port_off (stopping env)) u"
    if "r \<noteq> 0"
    by (rule wp_mono [OF wp_set_sysclk]) (use u assms that in \<open>auto simp: port_off_def clocks_off_def\<close>)
  have on: "port_on (stopping env) u" if "r = 0"
    using u assms that by (simp add: port_on_def clocks_on_def sysclk_rates)
  show "wp (if r \<noteq> 0 then do { _ \<leftarrow> set_sysclk (stopping env) Lpaif_osr_clk 0; ret r }
      else startup_formats (stopping env) n)
    (\<lambda>r s'. if r \<noteq> 0 then port_off (stopping env) s' else port_on (stopping env) s') u"
  proof (cases "r = 0")
    case True
    then show ?thesis using wp_mono [OF startup_formats_law [OF on]] by fastforce
  next
    case False
    then show ?thesis using undo by (simp add: wp_bind wp_return)
  qed
qed (use assms in auto)

lemma startup_law:
  assumes "0 \<le> msm8974_mi2s_index port" "port_off (stopping env) s"
  shows "wp (msm8974_snd_startup (stopping env) port n)
    (\<lambda>r s'. if r \<noteq> 0 then port_off (stopping env) s' else port_on (stopping env) s') s"
proof -
  have s: "clocks_sound (stopping env) s" "sc_bit (io_dev s) = 0" "sc_osr (io_dev s) = 0"
    using assms(2) by (simp_all add: port_off_def clocks_off_def)
  have next_step: "wp (if r \<noteq> 0 then ret r else startup_bit_clock (stopping env) n)
      (\<lambda>r s'. if r \<noteq> 0 then port_off (stopping env) s' else port_on (stopping env) s') u"
    if "r \<noteq> 0 \<Longrightarrow> port_off (stopping env) u"
      "r = 0 \<Longrightarrow> clocks_sound (stopping env) u \<and> sc_bit (io_dev u) = 0 \<and> sc_osr (io_dev u) = 12288000"
    for r u
    using that startup_bit_clock_law by (cases "r = 0") (simp_all add: wp_return)
  have "wp (set_sysclk (stopping env) Lpaif_osr_clk MI2S_OSR_RATE)
      (\<lambda>r. wp (if r \<noteq> 0 then ret r else startup_bit_clock (stopping env) n)
        (\<lambda>r s'. if r \<noteq> 0 then port_off (stopping env) s' else port_on (stopping env) s')) s"
    by (rule wp_mono [OF wp_set_sysclk [OF s(1)]], use s in simp, use s in simp, rule next_step)
      (use s in \<open>auto simp: port_off_def clocks_off_def sysclk_rates\<close>)
  with assms(1) show ?thesis by (simp add: msm8974_snd_startup_def wp_bind)
qed

lemma codecless_law:
  assumes "0 \<le> msm8974_mi2s_index port" "port_off (stopping env) s"
  shows "wp (msm8974_codecless_startup (stopping env) b port n)
    (\<lambda>r s'. if r \<noteq> 0 then port_off (stopping env) s' else port_on (stopping env) s') s"
proof -
  have fmt: "kept (port_on (stopping env)) (do {
      r \<leftarrow> call (se_ret (stopping env)) (Sc_cpu_fmt f);
      whenM (r \<noteq> 0) (emit Sc_warn);
      ret (0 :: int)
    })" for f
    by (intro kept_rules kept_port_call) simp_all
  have "wp (if r \<noteq> 0 then ret r else do {
      r \<leftarrow> call (se_ret (stopping env)) (Sc_cpu_fmt f);
      whenM (r \<noteq> 0) (emit Sc_warn);
      ret 0
    }) (\<lambda>r s'. if r \<noteq> 0 then port_off (stopping env) s' else port_on (stopping env) s') u"
    if "if r \<noteq> 0 then port_off (stopping env) u else port_on (stopping env) u" for r f u
    using that keptD [OF fmt [of f], of u] by (simp add: wp_simps split: if_splits)
  then have "wp (msm8974_snd_startup (stopping env) port n) (\<lambda>r. wp (if r \<noteq> 0 then ret r else do {
      r \<leftarrow> call (se_ret (stopping env)) (Sc_cpu_fmt f);
      whenM (r \<noteq> 0) (emit Sc_warn);
      ret 0
    }) (\<lambda>r s'. if r \<noteq> 0 then port_off (stopping env) s' else port_on (stopping env) s')) s" for f
    by (rule wp_mono [OF startup_law [OF assms]])
  with assms(1) show ?thesis
    unfolding msm8974_codecless_startup_def by (simp add: wp_bind split del: if_split)
qed

lemma shutdown_law:
  assumes "0 \<le> msm8974_mi2s_index port" "port_on (stopping env) s"
  shows "wp (msm8974_snd_shutdown (stopping env) port) (\<lambda>_. port_off (stopping env)) s"
proof -
  have s: "clocks_sound (stopping env) s" using assms(2) by (simp add: port_on_def)
  have osr: "wp (set_sysclk (stopping env) Lpaif_osr_clk 0) (\<lambda>_. port_off (stopping env)) u"
    if "clocks_sound (stopping env) u \<and> sc_bit (io_dev u) = 0" for u
    by (rule wp_mono [OF wp_set_sysclk]) (use that in \<open>auto simp: port_off_def clocks_off_def\<close>)
  have "wp (set_sysclk (stopping env) Lpaif_bit_clk 0)
      (\<lambda>_. wp (set_sysclk (stopping env) Lpaif_osr_clk 0) (\<lambda>_. port_off (stopping env))) s"
    by (rule wp_mono [OF wp_set_sysclk [OF s]]) (use osr in auto)
  with assms(1) show ?thesis by (simp add: msm8974_snd_shutdown_def wp_bind wp_return)
qed

interpretation be_clocks: power_sequenced "\<lambda>s. port_on (stopping env) s \<and> 0 \<le> msm8974_mi2s_index port"
    "\<lambda>s. port_off (stopping env) s \<and> 0 \<le> msm8974_mi2s_index port"
    "msm8974_snd_startup (stopping env) port n" "msm8974_snd_shutdown (stopping env) port" "\<lambda>r. r \<noteq> 0"
  by unfold_locales (auto intro: wp_mono [OF startup_law] wp_mono [OF shutdown_law] split: if_splits)

interpretation codecless_clocks: power_sequenced
    "\<lambda>s. port_on (stopping env) s \<and> 0 \<le> msm8974_mi2s_index port"
    "\<lambda>s. port_off (stopping env) s \<and> 0 \<le> msm8974_mi2s_index port"
    "msm8974_codecless_startup (stopping env) b port n" "msm8974_snd_shutdown (stopping env) port"
    "\<lambda>r. r \<noteq> 0"
  by unfold_locales (auto intro: wp_mono [OF codecless_law] wp_mono [OF shutdown_law] split: if_splits)

text \<open>A stream that is opened, configured and closed: \<open>codecless\<close> tells which of the card's two sets of
  operations the link has.\<close>

definition stream_cycle :: "sc_env \<Rightarrow> port_id \<Rightarrow> nat \<Rightarrow> bool option \<times> stream \<Rightarrow> int scm" where
  "stream_cycle env port n c = do {
     r \<leftarrow> (case fst c of None \<Rightarrow> msm8974_snd_startup env port n
             | Some b \<Rightarrow> msm8974_codecless_startup env b port n);
     if r \<noteq> 0 then ret r
     else do {
       r \<leftarrow> msm8974_be_hw_params env port (snd c) n;
       msm8974_snd_shutdown env port;
       ret r
     }
   }"

lemma kept_hw_params:
  "0 \<le> msm8974_mi2s_index port \<Longrightarrow> kept G (msm8974_be_hw_params env port st n)"
  by (cases port) (simp_all add: msm8974_be_hw_params_def msm8974_mi2s_index_def kept_return)

lemma stream_cycle_off:
  assumes "0 \<le> msm8974_mi2s_index port" "port_off (stopping env) s"
  shows "wp (stream_cycle (stopping env) port n c) (\<lambda>_. port_off (stopping env)) s"
proof (cases "fst c")
  case None
  then show ?thesis
    using be_clocks.up_down [where env = env and port = port and n = n and s = s, OF _ kept_hw_params] assms
    by (auto simp: stream_cycle_def intro: wp_mono)
next
  case (Some b)
  then show ?thesis
    using codecless_clocks.up_down [where env = env and port = port and n = n and b = b and s = s,
        OF _ kept_hw_params] assms
    by (auto simp: stream_cycle_def intro: wp_mono)
qed

lemma stopping_id:
  assumes "\<And>h c. se_ret env h (Sc_sysclk c 0) = 0"
  shows "stopping env = env"
proof -
  have "(\<lambda>h e. case e of Sc_sysclk c rate \<Rightarrow> if rate = 0 then 0 else se_ret env h e | _ \<Rightarrow> se_ret env h e)
      = se_ret env"
    by (intro ext) (auto simp: assms split: sc_ev.splits)
  then show ?thesis by (simp add: stopping_def)
qed

lemma stream_cycles_off:
  assumes "0 \<le> msm8974_mi2s_index port" "port_off (stopping env) s"
  shows "wp (iterM (\<lambda>c. do { _ \<leftarrow> stream_cycle (stopping env) port n c; ret () }) cs)
    (\<lambda>_. port_off (stopping env)) s"
  by (rule wp_iterM [where Inv = "port_off (stopping env)"], rule assms(2))
    (simp add: wp_bind wp_return stream_cycle_off [OF assms(1)])

text \<open>
  C35: The clocks of an MI2S back end follow its streams. If the ADSP accepts the commands that stop a
  clock, then any sequence of streams that are opened, configured and closed, whatever fails on the way,
  ends with both clocks stopped; and at no moment does the bit clock run without the oversampling
  clock it is divided from. A stream that was opened has both clocks at their rates, 1.536 MHz and
  12.288 MHz.
\<close>

theorem sndcard_clocks_follow_streams:
  assumes "\<And>h c. se_ret env h (Sc_sysclk c 0) = 0" "0 \<le> msm8974_mi2s_index port" "io_trace s = []"
    "sc_bit (io_dev s) = 0" "sc_osr (io_dev s) = 0"
  shows "wp (iterM (\<lambda>c. do { _ \<leftarrow> stream_cycle env port n c; ret () }) cs)
      (\<lambda>_ t. sc_bit (io_dev t) = 0 \<and> sc_osr (io_dev t) = 0 \<and> osr_first env (io_trace t) (0, 0) \<and>
        wp (msm8974_snd_startup env port n) (\<lambda>r u.
          if r = 0 then sc_bit (io_dev u) = 1536000 \<and> sc_osr (io_dev u) = 12288000
          else sc_bit (io_dev u) = 0 \<and> sc_osr (io_dev u) = 0) t) s"
proof -
  have env: "stopping env = env" by (rule stopping_id [OF assms(1)])
  have "port_off env s"
    using assms(3,4,5) by (simp add: port_off_def clocks_off_def clocks_sound_def osr_first.none)
  from stream_cycles_off [of port env s n cs, unfolded env, OF assms(2) this] show ?thesis
  proof (rule wp_mono)
    fix a t
    assume t: "port_off env t"
    have "wp (msm8974_snd_startup env port n) (\<lambda>r u.
          if r = 0 then sc_bit (io_dev u) = 1536000 \<and> sc_osr (io_dev u) = 12288000
          else sc_bit (io_dev u) = 0 \<and> sc_osr (io_dev u) = 0) t"
      using startup_law [of port env t n, unfolded env, OF assms(2) t]
      by (rule wp_mono) (auto simp: port_on_def port_off_def clocks_on_def clocks_off_def split: if_splits)
    with t show "sc_bit (io_dev t) = 0 \<and> sc_osr (io_dev t) = 0 \<and> osr_first env (io_trace t) (0, 0) \<and>
        wp (msm8974_snd_startup env port n) (\<lambda>r u.
          if r = 0 then sc_bit (io_dev u) = 1536000 \<and> sc_osr (io_dev u) = 12288000
          else sc_bit (io_dev u) = 0 \<and> sc_osr (io_dev u) = 0) t"
      by (clarsimp simp: port_off_def clocks_off_def clocks_sound_def)
  qed
qed

text \<open>A bit clock that the ADSP refuses at first.\<close>

definition w_sc_env :: sc_env where
  "w_sc_env = \<lparr>se_ret = (\<lambda>h e. case e of Sc_sysclk Lpaif_bit_clk r \<Rightarrow> if r \<noteq> 0 \<and> length h < 4 then - EIO else 0
     | _ \<Rightarrow> 0), se_map = (\<lambda>h e. ([], []))\<rparr>"

theorem sndcard_clocks_follow_streams_witness:
  "wp (iterM (\<lambda>c. do { _ \<leftarrow> stream_cycle w_sc_env (Quaternary_mi2s False) 2 c; ret () })
       [(None, Playback), (Some True, Capture)])
     (\<lambda>_ t. sc_bit (io_dev t) = 0 \<and> sc_osr (io_dev t) = 0) \<lparr>io_trace = [], io_dev = \<lparr>sc_bit = 0, sc_osr = 0\<rparr>\<rparr>"
  by (rule wp_mono [OF sndcard_clocks_follow_streams])
    (auto simp: w_sc_env_def msm8974_mi2s_index_def split: sysclk.split)

section \<open>SLIMbus channels\<close>

text \<open>The number of channel maps that the AFE port was given.\<close>

fun maps_set :: "sc_ev list \<Rightarrow> nat" where
  "maps_set [] = 0"
| "maps_set (Sc_set_map a b # es) = Suc (maps_set es)"
| "maps_set (_ # es) = maps_set es"

lemma maps_set_append [simp]: "maps_set (a @ b) = maps_set a + maps_set b"
  by (induction a rule: maps_set.induct) auto

lemma map_codecs_last_skipped:
  assumes "\<And>h i. i \<in> set is \<Longrightarrow> se_ret env h (Sc_get_map i) = 0"
    "\<And>h. se_ret env h (Sc_get_map j) = - ENOTSUPP"
    "\<And>h a b. se_ret env h (Sc_set_map a b) = 0"
  shows "wp (map_codecs env st (is @ [j]) r)
    (\<lambda>r' s'. r' = - ENOTSUPP \<and> maps_set (io_trace s') = maps_set (io_trace s) + length is) s"
  using assms
proof (induction "is" arbitrary: r s)
  case Nil
  then show ?case by (simp add: wp_simps)
next
  case (Cons i "is")
  have IH: "wp (map_codecs env st (is @ [j]) r')
      (\<lambda>r' s'. r' = - ENOTSUPP \<and> maps_set (io_trace s') = maps_set (io_trace t) + length is) t" for r' t
    by (rule Cons.IH) (use Cons.prems in auto)
  have rest: "wp (map_codecs env st (is @ [j]) 0)
      (\<lambda>r' s'. r' = - ENOTSUPP \<and> maps_set (io_trace s') = Suc (maps_set (io_trace s) + length is))
      (s\<lparr>io_trace := io_trace s @ [Sc_get_map i, Sc_get_map i, Sc_set_map a b]\<rparr>)" for a b
    by (rule wp_mono [OF IH]) simp
  show ?case
    using Cons.prems rest by (cases st) (auto simp: wp_simps)
qed

text \<open>
  A SLIMbus back end whose last codec has no channel map fails: the loop means to skip such a
  codec, but returns what the codec answered, so the parameters of the stream are refused with
  \<open>-ENOTSUPP\<close> although the AFE port was given the channels of every other codec.
\<close>

theorem sndcard_skipped_codec_fails:
  assumes "k \<le> 6" "\<And>h i. i < n \<Longrightarrow> se_ret env h (Sc_get_map i) = 0"
    "\<And>h. se_ret env h (Sc_get_map n) = - ENOTSUPP" "\<And>h a b. se_ret env h (Sc_set_map a b) = 0"
  shows "wp (msm8974_be_hw_params env (Slimbus k tx) st (Suc n))
    (\<lambda>r s'. r = - ENOTSUPP \<and> maps_set (io_trace s') = maps_set (io_trace s) + n) s"
  using map_codecs_last_skipped [of "[0..<n]" env n st 0 s] assms
  by (simp add: msm8974_be_hw_params_def)

definition w_two_codecs :: sc_env where
  "w_two_codecs = \<lparr>se_ret = (\<lambda>h e. if e = Sc_get_map 1 then - ENOTSUPP else 0),
     se_map = (\<lambda>h e. ([], [144, 145]))\<rparr>"

theorem sndcard_skipped_codec_fails_witness:
  "wp (msm8974_be_hw_params w_two_codecs (Slimbus 0 False) Playback 2)
     (\<lambda>r s'. r = - ENOTSUPP \<and> maps_set (io_trace s') = 1)
     \<lparr>io_trace = [], io_dev = \<lparr>sc_bit = 0, sc_osr = 0\<rparr>\<rparr>"
  using sndcard_skipped_codec_fails [of 0 1 w_two_codecs False Playback
      "\<lparr>io_trace = [], io_dev = \<lparr>sc_bit = 0, sc_osr = 0\<rparr>\<rparr>"]
  by (simp add: w_two_codecs_def numeral_2_eq_2)

end
