(* ===== verification/Imx132.thy ===== *)
theory Imx132
  imports Power_Seq
begin

text \<open>
  \<^verbatim>\<open>drivers/camera/imx132.c\<close>: the front camera sensor. \<open>imx132\<close> holds the controls of the driver's
  struct and what the driver holds at the time: supplies, reset, clock, and the objects that
  probe creates. \<open>im_ev\<close> are the register accesses and the calls into the kernel. The V4L2 control
  framework is not code of this repository: the call that changes the range of the exposure is an
  argument of the model (\<open>mr\<close>), and what its documentation says of it is the hypothesis
  \<open>framework_range\<close>.
\<close>

section \<open>Registers and constants\<close>

datatype cci_reg = Reg8 u16 | Reg16 u16

definition IMX132_REG_CHIP_ID :: cci_reg where "IMX132_REG_CHIP_ID = Reg16 0x0000"
definition IMX132_CHIP_ID :: int where "IMX132_CHIP_ID = 0x0132"
definition IMX132_REG_MODE_SELECT :: cci_reg where "IMX132_REG_MODE_SELECT = Reg8 0x0100"
definition IMX132_REG_IMAGE_ORIENTATION :: cci_reg where
  "IMX132_REG_IMAGE_ORIENTATION = Reg8 0x0101"
definition IMX132_REG_EXPOSURE :: cci_reg where "IMX132_REG_EXPOSURE = Reg16 0x0202"
definition IMX132_REG_ANALOGUE_GAIN :: cci_reg where "IMX132_REG_ANALOGUE_GAIN = Reg16 0x0204"
definition IMX132_REG_FRAME_LENGTH :: cci_reg where "IMX132_REG_FRAME_LENGTH = Reg16 0x0340"
definition IMX132_REG_LINE_LENGTH :: cci_reg where "IMX132_REG_LINE_LENGTH = Reg16 0x0342"

definition IMX132_MODE_STANDBY :: int where "IMX132_MODE_STANDBY = 0"
definition IMX132_EXPOSURE_MIN :: int where "IMX132_EXPOSURE_MIN = 1"
definition IMX132_EXPOSURE_STEP :: int where "IMX132_EXPOSURE_STEP = 1"
definition IMX132_EXPOSURE_MARGIN :: int where "IMX132_EXPOSURE_MARGIN = 4"
definition IMX132_EXPOSURE_DEFAULT :: int where "IMX132_EXPOSURE_DEFAULT = 800"
definition IMX132_ANA_GAIN_MIN :: int where "IMX132_ANA_GAIN_MIN = 0"
definition IMX132_ANA_GAIN_MAX :: int where "IMX132_ANA_GAIN_MAX = 224"
definition IMX132_ANA_GAIN_STEP :: int where "IMX132_ANA_GAIN_STEP = 1"
definition IMX132_ANA_GAIN_DEFAULT :: int where "IMX132_ANA_GAIN_DEFAULT = 0"
definition IMX132_VBLANK_MIN :: int where "IMX132_VBLANK_MIN = 16"
definition IMX132_FRAME_LENGTH_MAX :: int where "IMX132_FRAME_LENGTH_MAX = 0xffff"
definition IMX132_XCLK_FREQ :: int where "IMX132_XCLK_FREQ = 19200000"
definition IMX132_PIXEL_RATE :: int where "IMX132_PIXEL_RATE = 76800000"
definition IMX132_LINK_FREQ :: int where "IMX132_LINK_FREQ = 192000000"
definition IMX132_NATIVE_WIDTH :: int where "IMX132_NATIVE_WIDTH = 1976"
definition IMX132_NATIVE_HEIGHT :: int where "IMX132_NATIVE_HEIGHT = 1200"

datatype mbus_format = SBGGR10_1X10 | SGBRG10_1X10 | SGRBG10_1X10 | SRGGB10_1X10

definition imx132_mbus_formats :: "mbus_format list" where
  "imx132_mbus_formats = [SBGGR10_1X10, SGBRG10_1X10, SGRBG10_1X10, SRGGB10_1X10]"

definition imx132_supply_name :: "string list" where
  "imx132_supply_name = [''vana'', ''vdig'', ''vif'']"


record v4l2_rect =
  r_left :: int
  r_top :: int
  r_width :: int
  r_height :: int

record imx132_mode =
  im_width :: int
  im_height :: int
  im_line_length :: int
  im_frame_length :: int
  im_crop :: v4l2_rect

definition imx132_mode_1976x1144 :: imx132_mode where
  "imx132_mode_1976x1144 = \<lparr>im_width = 1976, im_height = 1144, im_line_length = 2250,
     im_frame_length = 1200,
     im_crop = \<lparr>r_left = 0, r_top = 28, r_width = 1976, r_height = 1144\<rparr>\<rparr>"

section \<open>State and environment\<close>

datatype ctrl_id =
  Exposure | Analogue_gain | Vblank | Hblank | Hflip | Vflip | Link_freq | Pixel_rate | Other_ctrl

datatype ctrl_flag = Read_only | Modify_layout

record v4l2_ctrl =
  ct_min :: int
  ct_max :: int
  ct_def :: int
  ct_val :: int

record imx132 =
  im_exposure :: v4l2_ctrl
  im_gain :: v4l2_ctrl
  im_vblank :: v4l2_ctrl
  im_hblank :: v4l2_ctrl
  im_hflip :: v4l2_ctrl
  im_vflip :: v4l2_ctrl
  im_supplies :: bool
  im_reset_released :: bool
  im_xclk :: bool
  im_ctrls :: bool
  im_media :: bool
  im_subdev :: bool
  im_registered :: bool
  im_pm_enabled :: bool
  im_pm_active :: bool
  im_pm_count :: int

datatype im_ev =
    Im_write cci_reg int
  | Im_read cci_reg
  | Im_usleep nat nat
  | Im_msleep nat
  | Im_supplies_on
  | Im_supplies_off
  | Im_reset bool
  | Im_clk_on
  | Im_clk_off
  | Im_pm_get_if_in_use
  | Im_pm_resume_and_get
  | Im_pm_put
  | Im_pm_mark_busy
  | Im_pm_put_autosuspend
  | Im_pm_autosuspend_delay nat
  | Im_handler_init nat
  | Im_new_ctrl ctrl_id int int int int
  | Im_flag ctrl_id ctrl_flag
  | Im_handler_error
  | Im_handler_setup
  | Im_fwnode_parse
  | Im_fwnode_ctrls
  | Im_alloc
  | Im_endpoint
  | Im_endpoint_parse
  | Im_endpoint_lanes
  | Im_endpoint_freqs
  | Im_endpoint_freq0
  | Im_endpoint_put
  | Im_endpoint_free
  | Im_warn
  | Im_regmap nat
  | Im_clk_get
  | Im_clk_rate
  | Im_supplies_get "string list"
  | Im_gpio_get
  | Im_pads_init
  | Im_subdev_init
  | Im_register
  | Im_unregister

text \<open>
  \<open>ie_ret\<close> answers the calls that return a status (zero, or an error number below it), \<open>ie_ok\<close> the
  calls that return a pointer, and \<open>ie_val\<close> gives the values that are read: the chip identification,
  what the endpoint says, the clock's rate.
\<close>

record im_env =
  ie_ret :: "im_ev list \<Rightarrow> im_ev \<Rightarrow> int"
  ie_ok :: "im_ev list \<Rightarrow> im_ev \<Rightarrow> bool"
  ie_val :: "im_ev list \<Rightarrow> im_ev \<Rightarrow> int"

type_synonym im_io = "(im_ev, imx132) io"
type_synonym 'a imm = "(im_io, 'a) state"

text \<open>\<^verbatim>\<open>cci_write\<close> with an error accumulator: nothing is written once an error is recorded.\<close>

definition cci_write :: "im_env \<Rightarrow> cci_reg \<Rightarrow> int \<Rightarrow> int \<Rightarrow> int imm" where
  "cci_write env reg val err =
     (if err \<noteq> 0 then ret err else call (ie_ret env) (Im_write reg val))"


section \<open>Controls\<close>

definition imx132_get_format_code :: "imx132 \<Rightarrow> mbus_format" where
  "imx132_get_format_code im =
     imx132_mbus_formats !
       ((if ct_val (im_vflip im) \<noteq> 0 then 2 else 0) + (if ct_val (im_hflip im) \<noteq> 0 then 1 else 0))"

definition orientation :: "imx132 \<Rightarrow> int" where
  "orientation im = (if ct_val (im_hflip im) \<noteq> 0 then 1 else 0)
     + (if ct_val (im_vflip im) \<noteq> 0 then 2 else 0)"

text \<open>The part of \<^verbatim>\<open>imx132_set_ctrl\<close> that writes the sensor, for every control but the one that has
  a range to change first.\<close>

definition set_ctrl_write :: "im_env \<Rightarrow> ctrl_id \<Rightarrow> int imm" where
  "set_ctrl_write env cid = do {
     in_use \<leftarrow> call (ie_ret env) Im_pm_get_if_in_use;
     if in_use = 0 then ret 0
     else do {
       im \<leftarrow> gets id;
       r \<leftarrow> (case cid of
          Exposure \<Rightarrow> cci_write env IMX132_REG_EXPOSURE (ct_val (im_exposure im)) 0
        | Analogue_gain \<Rightarrow> cci_write env IMX132_REG_ANALOGUE_GAIN (ct_val (im_gain im)) 0
        | Vblank \<Rightarrow> cci_write env IMX132_REG_FRAME_LENGTH
            (im_height imx132_mode_1976x1144 + ct_val (im_vblank im)) 0
        | Hblank \<Rightarrow> cci_write env IMX132_REG_LINE_LENGTH
            (im_width imx132_mode_1976x1144 + ct_val (im_hblank im)) 0
        | Hflip \<Rightarrow> cci_write env IMX132_REG_IMAGE_ORIENTATION (orientation im) 0
        | Vflip \<Rightarrow> cci_write env IMX132_REG_IMAGE_ORIENTATION (orientation im) 0
        | _ \<Rightarrow> ret (- EINVAL));
       emit Im_pm_put;
       ret r
     }
   }"

text \<open>
  \<open>mr callback hi def\<close> is \<^verbatim>\<open>__v4l2_ctrl_modify_range\<close> on the exposure with the new maximum and
  default; \<open>callback\<close> is what the framework calls when the range changes the value. Its result is
  not used.
\<close>

type_synonym modify_range = "int imm \<Rightarrow> int \<Rightarrow> int \<Rightarrow> int imm"

definition imx132_set_ctrl :: "modify_range \<Rightarrow> im_env \<Rightarrow> ctrl_id \<Rightarrow> int imm" where
  "imx132_set_ctrl mr env cid = do {
     (if cid = Vblank then do {
        im \<leftarrow> gets id;
        let exposure_max = im_height imx132_mode_1976x1144 + ct_val (im_vblank im)
                             - IMX132_EXPOSURE_MARGIN;
        _ \<leftarrow> mr (set_ctrl_write env Exposure) exposure_max (min exposure_max IMX132_EXPOSURE_DEFAULT);
        ret ()
      } else ret ());
     set_ctrl_write env cid
   }"

definition new_ctrl :: "im_env \<Rightarrow> ctrl_id \<Rightarrow> int \<Rightarrow> int \<Rightarrow> int \<Rightarrow> int \<Rightarrow>
    (v4l2_ctrl \<Rightarrow> imx132 \<Rightarrow> imx132) \<Rightarrow> ctrl_flag option \<Rightarrow> unit imm" where
  "new_ctrl env cid lo hi step def upd flag = do {
     ok \<leftarrow> call (ie_ok env) (Im_new_ctrl cid lo hi step def);
     whenM ok (do {
       modify (upd \<lparr>ct_min = lo, ct_max = hi, ct_def = def, ct_val = def\<rparr>);
       case flag of None \<Rightarrow> ret () | Some f \<Rightarrow> emit (Im_flag cid f)
     })
   }"

text \<open>\<^verbatim>\<open>v4l2_ctrl_handler_free\<close>\<close>

definition handler_free :: "unit imm" where
  "handler_free = modify (\<lambda>im. im\<lparr>im_ctrls := False\<rparr>)"

definition imx132_init_controls :: "im_env \<Rightarrow> int imm" where
  "imx132_init_controls env = do {
     r \<leftarrow> call (ie_ret env) (Im_handler_init 10);
     if r \<noteq> 0 then ret r
     else do {
       modify (\<lambda>im. im\<lparr>im_ctrls := True\<rparr>);
       let mode = imx132_mode_1976x1144;
       new_ctrl env Link_freq IMX132_LINK_FREQ IMX132_LINK_FREQ 0 IMX132_LINK_FREQ (\<lambda>_. id)
         (Some Read_only);
       new_ctrl env Pixel_rate IMX132_PIXEL_RATE IMX132_PIXEL_RATE 1 IMX132_PIXEL_RATE (\<lambda>_. id)
         (Some Read_only);
       let vblank_def = im_frame_length mode - im_height mode;
       let vblank_max = IMX132_FRAME_LENGTH_MAX - im_height mode;
       new_ctrl env Vblank IMX132_VBLANK_MIN vblank_max 1 vblank_def (\<lambda>c im. im\<lparr>im_vblank := c\<rparr>) None;
       let hblank = im_line_length mode - im_width mode;
       new_ctrl env Hblank hblank hblank 1 hblank (\<lambda>c im. im\<lparr>im_hblank := c\<rparr>) (Some Read_only);
       let exposure_max = im_frame_length mode - IMX132_EXPOSURE_MARGIN;
       new_ctrl env Exposure IMX132_EXPOSURE_MIN exposure_max IMX132_EXPOSURE_STEP
         (min exposure_max IMX132_EXPOSURE_DEFAULT) (\<lambda>c im. im\<lparr>im_exposure := c\<rparr>) None;
       new_ctrl env Analogue_gain IMX132_ANA_GAIN_MIN IMX132_ANA_GAIN_MAX IMX132_ANA_GAIN_STEP
         IMX132_ANA_GAIN_DEFAULT (\<lambda>c im. im\<lparr>im_gain := c\<rparr>) None;
       new_ctrl env Hflip 0 1 1 0 (\<lambda>c im. im\<lparr>im_hflip := c\<rparr>) (Some Modify_layout);
       new_ctrl env Vflip 0 1 1 0 (\<lambda>c im. im\<lparr>im_vflip := c\<rparr>) (Some Modify_layout);
       r \<leftarrow> call (ie_ret env) Im_handler_error;
       if r \<noteq> 0 then do { handler_free; ret r }
       else do {
         r \<leftarrow> call (ie_ret env) Im_fwnode_parse;
         if r \<noteq> 0 then do { handler_free; ret r }
         else do {
           r \<leftarrow> call (ie_ret env) Im_fwnode_ctrls;
           if r \<noteq> 0 then do { handler_free; ret r } else ret 0
         }
       }
     }
   }"

section \<open>Subdev operations\<close>

datatype ycbcr = Ycbcr_default | Ycbcr_601
datatype quantization = Quant_default | Full_range
datatype v4l2_field = Field_any | Field_none
datatype colorspace = Colorspace_default | Colorspace_raw
datatype xfer_func = Xfer_default | Xfer_none

record framefmt =
  f_code :: mbus_format
  f_width :: int
  f_height :: int
  f_field :: v4l2_field
  f_colorspace :: colorspace
  f_ycbcr_enc :: ycbcr
  f_quantization :: quantization
  f_xfer_func :: xfer_func

record subdev_state =
  st_format :: framefmt
  st_crop :: v4l2_rect

definition imx132_enum_mbus_code :: "imx132 \<Rightarrow> nat \<Rightarrow> int + mbus_format" where
  "imx132_enum_mbus_code im index =
     (if index \<noteq> 0 then Inl (- EINVAL) else Inr (imx132_get_format_code im))"

definition imx132_enum_frame_size ::
    "imx132 \<Rightarrow> nat \<Rightarrow> mbus_format \<Rightarrow> int + (int \<times> int \<times> int \<times> int)" where
  "imx132_enum_frame_size im index code =
     (if index \<noteq> 0 then Inl (- EINVAL)
      else if code \<noteq> imx132_get_format_code im then Inl (- EINVAL)
      else Inr (im_width imx132_mode_1976x1144, im_width imx132_mode_1976x1144,
                im_height imx132_mode_1976x1144, im_height imx132_mode_1976x1144))"

definition imx132_set_pad_format ::
    "imx132 \<Rightarrow> subdev_state \<Rightarrow> framefmt \<Rightarrow> subdev_state \<times> framefmt" where
  "imx132_set_pad_format im st fmt =
     (let format = (st_format st)\<lparr>f_code := imx132_get_format_code im,
            f_width := im_width imx132_mode_1976x1144, f_height := im_height imx132_mode_1976x1144,
            f_field := Field_none, f_colorspace := Colorspace_raw, f_ycbcr_enc := Ycbcr_601,
            f_quantization := Full_range, f_xfer_func := Xfer_none\<rparr>
      in (st\<lparr>st_format := format, st_crop := im_crop imx132_mode_1976x1144\<rparr>, format))"

datatype sel_target = Sel_crop | Sel_native_size | Sel_crop_bounds | Sel_crop_default | Sel_other

definition imx132_get_selection :: "subdev_state \<Rightarrow> sel_target \<Rightarrow> int + v4l2_rect" where
  "imx132_get_selection st target =
     (case target of
        Sel_crop \<Rightarrow> Inr (st_crop st)
      | Sel_other \<Rightarrow> Inl (- EINVAL)
      | _ \<Rightarrow> Inr \<lparr>r_left = 0, r_top = 0, r_width = IMX132_NATIVE_WIDTH,
                r_height = IMX132_NATIVE_HEIGHT\<rparr>)"

definition imx132_init_state :: "imx132 \<Rightarrow> subdev_state \<Rightarrow> framefmt \<Rightarrow> subdev_state" where
  "imx132_init_state im st fmt = fst (imx132_set_pad_format im st fmt)"

section \<open>Streaming\<close>


definition pm_put_autosuspend :: "unit imm" where
  "pm_put_autosuspend = do {
     emit Im_pm_mark_busy;
     emit Im_pm_put_autosuspend;
     modify (\<lambda>im. im\<lparr>im_pm_count := im_pm_count im - 1\<rparr>)
   }"



definition imx132_disable_streams :: "im_env \<Rightarrow> int imm" where
  "imx132_disable_streams env = do {
     r \<leftarrow> cci_write env IMX132_REG_MODE_SELECT IMX132_MODE_STANDBY 0;
     whenM (r \<noteq> 0) (emit Im_warn);
     pm_put_autosuspend;
     ret r
   }"

section \<open>Power\<close>

text \<open>The optional reset line's value 1 releases the reset; \<open>im_supplies\<close> is the three supplies,
  which the regulator core enables together or not at all.\<close>

definition im_set_reset :: "bool \<Rightarrow> unit imm" where
  "im_set_reset released = do {
     emit (Im_reset released);
     modify (\<lambda>im. im\<lparr>im_reset_released := released\<rparr>)
   }"

definition supplies_disable :: "unit imm" where
  "supplies_disable = do {
     emit Im_supplies_off;
     modify (\<lambda>im. im\<lparr>im_supplies := False\<rparr>)
   }"

definition imx132_power_on :: "im_env \<Rightarrow> int imm" where
  "imx132_power_on env = do {
     r \<leftarrow> call (ie_ret env) Im_supplies_on;
     if r \<noteq> 0 then ret r
     else do {
       modify (\<lambda>im. im\<lparr>im_supplies := True\<rparr>);
       emit (Im_usleep 1000 2000);
       im_set_reset True;
       emit (Im_usleep 1000 2000);
       r \<leftarrow> call (ie_ret env) Im_clk_on;
       if r \<noteq> 0 then do { im_set_reset False; supplies_disable; ret r }
       else do {
         modify (\<lambda>im. im\<lparr>im_xclk := True\<rparr>);
         emit (Im_usleep 1000 2000);
         ret 0
       }
     }
   }"

definition imx132_power_off :: "unit imm" where
  "imx132_power_off = do {
     emit Im_clk_off;
     modify (\<lambda>im. im\<lparr>im_xclk := False\<rparr>);
     im_set_reset False;
     supplies_disable;
     emit (Im_msleep 98)
   }"

section \<open>Probe and remove\<close>

definition imx132_identify_module :: "im_env \<Rightarrow> int imm" where
  "imx132_identify_module env = do {
     val \<leftarrow> call (ie_val env) (Im_read IMX132_REG_CHIP_ID);
     r \<leftarrow> call (ie_ret env) (Im_read IMX132_REG_CHIP_ID);
     if r \<noteq> 0 then ret r
     else if val \<noteq> IMX132_CHIP_ID then ret (- ENODEV)
     else ret 0
   }"

definition imx132_check_hwcfg :: "im_env \<Rightarrow> int imm" where
  "imx132_check_hwcfg env = do {
     endpoint \<leftarrow> call (ie_ok env) Im_endpoint;
     if \<not> endpoint then ret (- EINVAL)
     else do {
       r \<leftarrow> call (ie_ret env) Im_endpoint_parse;
       emit Im_endpoint_put;
       if r \<noteq> 0 then ret r
       else do {
         lanes \<leftarrow> call (ie_val env) Im_endpoint_lanes;
         if lanes \<noteq> 2 then do { emit Im_endpoint_free; ret (- EINVAL) }
         else do {
           n \<leftarrow> call (ie_val env) Im_endpoint_freqs;
           (if n \<noteq> 1 then emit Im_warn
            else do {
              freq \<leftarrow> call (ie_val env) Im_endpoint_freq0;
              whenM (freq \<noteq> IMX132_LINK_FREQ) (emit Im_warn)
            });
           emit Im_endpoint_free;
           ret 0
         }
       }
     }
   }"

text \<open>The end of \<^verbatim>\<open>imx132_probe\<close>, from the controls on, and its exits \<^verbatim>\<open>err_pm\<close>,
  \<^verbatim>\<open>err_media_cleanup\<close> and \<^verbatim>\<open>err_free_ctrls\<close>, each of which goes on to the next; the exit
  \<^verbatim>\<open>err_power_off\<close> is in \<open>probe_device\<close>.\<close>

definition err_free_ctrls :: "int \<Rightarrow> int imm" where
  "err_free_ctrls r = do { handler_free; ret r }"

definition err_media_cleanup :: "int \<Rightarrow> int imm" where
  "err_media_cleanup r = do {
     modify (\<lambda>im. im\<lparr>im_media := False\<rparr>);
     err_free_ctrls r
   }"

definition err_pm :: "int \<Rightarrow> int imm" where
  "err_pm r = do {
     modify (\<lambda>im. im\<lparr>im_pm_enabled := False, im_pm_count := im_pm_count im - 1\<rparr>);
     modify (\<lambda>im. im\<lparr>im_subdev := False\<rparr>);
     err_media_cleanup r
   }"

definition probe_subdev :: "im_env \<Rightarrow> int imm" where
  "probe_subdev env = do {
     r \<leftarrow> call (ie_ret env) Im_pads_init;
     if r \<noteq> 0 then err_free_ctrls r
     else do {
       modify (\<lambda>im. im\<lparr>im_media := True\<rparr>);
       r \<leftarrow> call (ie_ret env) Im_subdev_init;
       if r < 0 then err_media_cleanup r
       else do {
         modify (\<lambda>im. im\<lparr>im_subdev := True\<rparr>);
         modify (\<lambda>im. im\<lparr>im_pm_active := True, im_pm_count := im_pm_count im + 1,
                          im_pm_enabled := True\<rparr>);
         r \<leftarrow> call (ie_ret env) Im_register;
         if r < 0 then err_pm r
         else do {
           modify (\<lambda>im. im\<lparr>im_registered := True\<rparr>);
           emit (Im_pm_autosuspend_delay 1000);
           emit Im_pm_put_autosuspend;
           modify (\<lambda>im. im\<lparr>im_pm_count := im_pm_count im - 1\<rparr>);
           ret 0
         }
       }
     }
   }"

definition probe_powered :: "im_env \<Rightarrow> int imm" where
  "probe_powered env = do {
     r \<leftarrow> imx132_identify_module env;
     if r \<noteq> 0 then ret r
     else do {
       r \<leftarrow> imx132_init_controls env;
       if r \<noteq> 0 then ret r else probe_subdev env
     }
   }"

definition probe_device :: "im_env \<Rightarrow> int imm" where
  "probe_device env = do {
     r \<leftarrow> imx132_power_on env;
     if r \<noteq> 0 then ret r
     else do {
       r \<leftarrow> probe_powered env;
       if r \<noteq> 0 then do { imx132_power_off; ret r } else ret 0
     }
   }"

text \<open>The resources that the driver core releases by itself when the probe fails.\<close>

definition probe_resources :: "im_env \<Rightarrow> int imm" where
  "probe_resources env = do {
     r \<leftarrow> call (ie_ret env) (Im_regmap 16);
     if r \<noteq> 0 then ret r
     else do {
     r \<leftarrow> call (ie_ret env) Im_clk_get;
     if r \<noteq> 0 then ret r
     else do {
     freq \<leftarrow> call (ie_val env) Im_clk_rate;
     if freq \<noteq> IMX132_XCLK_FREQ then ret (- EINVAL)
     else do {
     r \<leftarrow> call (ie_ret env) (Im_supplies_get imx132_supply_name);
     if r \<noteq> 0 then ret r
     else do {
     r \<leftarrow> call (ie_ret env) Im_gpio_get;
     if r \<noteq> 0 then ret r
     else probe_device env
     }}}}
   }"

definition imx132_probe :: "im_env \<Rightarrow> int imm" where
  "imx132_probe env = do {
     ok \<leftarrow> call (ie_ok env) Im_alloc;
     if \<not> ok then ret (- ENOMEM)
     else do {
       r \<leftarrow> imx132_check_hwcfg env;
       if r \<noteq> 0 then ret r else probe_resources env
     }
   }"

definition imx132_remove :: "unit imm" where
  "imx132_remove = do {
     emit Im_unregister;
     modify (\<lambda>im. im\<lparr>im_registered := False\<rparr>);
     modify (\<lambda>im. im\<lparr>im_subdev := False\<rparr>);
     modify (\<lambda>im. im\<lparr>im_media := False\<rparr>);
     handler_free;
     modify (\<lambda>im. im\<lparr>im_pm_enabled := False\<rparr>);
     active \<leftarrow> gets im_pm_active;
     whenM active imx132_power_off;
     modify (\<lambda>im. im\<lparr>im_pm_active := False\<rparr>)
   }"

section \<open>Exposure and frame length\<close>

text \<open>What the framework's documentation says of \<^verbatim>\<open>__v4l2_ctrl_modify_range\<close>: a value that is out of
  the new range is moved into it, and the driver is called when the value changed.\<close>

definition framework_range :: "modify_range \<Rightarrow> bool" where
  "framework_range mr \<longleftrightarrow>
     (\<forall>cb hi def s. let e = im_exposure (io_dev s) in ct_min e \<le> hi \<longrightarrow>
        (\<exists>v. ct_min e \<le> v \<and> v \<le> hi \<and> (ct_min e \<le> ct_val e \<and> ct_val e \<le> hi \<longrightarrow> v = ct_val e) \<and>
           run_state (mr cb hi def) s =
           run_state (if v = ct_val e then ret 0 else cb)
             (s\<lparr>io_dev := (io_dev s)\<lparr>im_exposure := e\<lparr>ct_max := hi, ct_def := def, ct_val := v\<rparr>\<rparr>\<rparr>)))"

text \<open>A sensor that is in use and answers, and memory for the controls.\<close>

definition answering :: "im_env \<Rightarrow> bool" where
  "answering env \<longleftrightarrow> (\<forall>h reg v. ie_ret env h (Im_write reg v) = 0)
     \<and> (\<forall>h. ie_ret env h Im_pm_get_if_in_use = 1)
     \<and> (\<forall>h cid lo hi st d. ie_ok env h (Im_new_ctrl cid lo hi st d))"

text \<open>A call of the driver for a control that a program sets: the value is in the control's range,
  and the horizontal blanking is read only.\<close>

definition get_ctrl :: "ctrl_id \<Rightarrow> imx132 \<Rightarrow> v4l2_ctrl option" where
  "get_ctrl cid im =
     (case cid of Exposure \<Rightarrow> Some (im_exposure im) | Analogue_gain \<Rightarrow> Some (im_gain im)
      | Vblank \<Rightarrow> Some (im_vblank im) | Hflip \<Rightarrow> Some (im_hflip im) | Vflip \<Rightarrow> Some (im_vflip im)
      | _ \<Rightarrow> None)"

definition set_val :: "ctrl_id \<Rightarrow> int \<Rightarrow> imx132 \<Rightarrow> imx132" where
  "set_val cid v im =
     (case cid of
        Exposure \<Rightarrow> im\<lparr>im_exposure := (im_exposure im)\<lparr>ct_val := v\<rparr>\<rparr>
      | Analogue_gain \<Rightarrow> im\<lparr>im_gain := (im_gain im)\<lparr>ct_val := v\<rparr>\<rparr>
      | Vblank \<Rightarrow> im\<lparr>im_vblank := (im_vblank im)\<lparr>ct_val := v\<rparr>\<rparr>
      | Hflip \<Rightarrow> im\<lparr>im_hflip := (im_hflip im)\<lparr>ct_val := v\<rparr>\<rparr>
      | Vflip \<Rightarrow> im\<lparr>im_vflip := (im_vflip im)\<lparr>ct_val := v\<rparr>\<rparr>
      | _ \<Rightarrow> im)"

inductive controls_set :: "modify_range \<Rightarrow> im_env \<Rightarrow> im_io \<Rightarrow> bool" for mr env where
  created: "io_trace s = [] \<Longrightarrow> run_state (imx132_init_controls env) s = (0, s') \<Longrightarrow>
    controls_set mr env s'"
| ctrl_set: "controls_set mr env s \<Longrightarrow> get_ctrl cid (io_dev s) = Some c \<Longrightarrow> ct_min c \<le> v \<Longrightarrow> v \<le> ct_max c \<Longrightarrow>
    run_state (imx132_set_ctrl mr env cid) (s\<lparr>io_dev := set_val cid v (io_dev s)\<rparr>) = (r, s') \<Longrightarrow>
    controls_set mr env s'"

text \<open>Every write fits its register, and the exposure and the frame length registers, \<open>x\<close> and \<open>f\<close> at
  first, never come closer than the margin.\<close>

fun write_fits :: "im_ev \<Rightarrow> bool" where
  "write_fits (Im_write (Reg8 a) v) = (0 \<le> v \<and> v < 256)"
| "write_fits (Im_write (Reg16 a) v) = (0 \<le> v \<and> v < 65536)"
| "write_fits _ = True"

fun reg_after :: "cci_reg \<Rightarrow> im_ev \<Rightarrow> int \<Rightarrow> int" where
  "reg_after reg (Im_write reg' v) x = (if reg' = reg then v else x)"
| "reg_after reg _ x = x"

abbreviation reg_of :: "cci_reg \<Rightarrow> im_ev list \<Rightarrow> int \<Rightarrow> int" where
  "reg_of reg \<equiv> fold (reg_after reg)"

fun exposure_fits :: "int \<Rightarrow> int \<Rightarrow> im_ev list \<Rightarrow> bool" where
  "exposure_fits f x [] \<longleftrightarrow> x + IMX132_EXPOSURE_MARGIN \<le> f"
| "exposure_fits f x (e # es) \<longleftrightarrow> x + IMX132_EXPOSURE_MARGIN \<le> f \<and> write_fits e \<and>
     exposure_fits (reg_after IMX132_REG_FRAME_LENGTH e f) (reg_after IMX132_REG_EXPOSURE e x) es"

lemma exposure_fits_snoc:
  "exposure_fits f x (es @ [e]) \<longleftrightarrow> exposure_fits f x es \<and> write_fits e \<and>
     reg_of IMX132_REG_EXPOSURE (es @ [e]) x + IMX132_EXPOSURE_MARGIN
       \<le> reg_of IMX132_REG_FRAME_LENGTH (es @ [e]) f"
proof (induction es arbitrary: f x)
  case (Cons e' es)
  show ?case using Cons.IH by auto
next
  case Nil
  then show ?case by (cases e rule: write_fits.cases) auto
qed

lemmas reg_defs = IMX132_REG_EXPOSURE_def IMX132_REG_FRAME_LENGTH_def IMX132_REG_ANALOGUE_GAIN_def
  IMX132_REG_IMAGE_ORIENTATION_def IMX132_REG_LINE_LENGTH_def

lemmas im_consts = IMX132_EXPOSURE_MIN_def IMX132_EXPOSURE_MARGIN_def IMX132_EXPOSURE_DEFAULT_def
  IMX132_ANA_GAIN_MIN_def IMX132_ANA_GAIN_MAX_def IMX132_ANA_GAIN_DEFAULT_def IMX132_VBLANK_MIN_def
  IMX132_FRAME_LENGTH_MAX_def imx132_mode_1976x1144_def

text \<open>The ranges of the controls; the exposure's follows the blanking.\<close>

definition ctrl_in :: "v4l2_ctrl \<Rightarrow> int \<Rightarrow> int \<Rightarrow> bool" where
  "ctrl_in c lo hi \<longleftrightarrow> ct_min c = lo \<and> ct_max c = hi \<and> lo \<le> ct_val c \<and> ct_val c \<le> hi"

definition ctrls_fit :: "imx132 \<Rightarrow> bool" where
  "ctrls_fit im \<longleftrightarrow> ctrl_in (im_vblank im) 16 64391
     \<and> ctrl_in (im_exposure im) 1 (1140 + ct_val (im_vblank im))
     \<and> ctrl_in (im_gain im) 0 224 \<and> ctrl_in (im_hflip im) 0 1 \<and> ctrl_in (im_vflip im) 0 1"

definition regs_synced :: "im_io \<Rightarrow> bool" where
  "regs_synced s \<longleftrightarrow> ctrls_fit (io_dev s) \<and> exposure_fits 1200 800 (io_trace s)
     \<and> reg_of IMX132_REG_FRAME_LENGTH (io_trace s) 1200 = 1144 + ct_val (im_vblank (io_dev s))
     \<and> reg_of IMX132_REG_EXPOSURE (io_trace s) 800 = ct_val (im_exposure (io_dev s))"

lemma set_ctrl_write_run:
  assumes "answering env"
  shows "run_state (set_ctrl_write env cid) s =
    (case cid of
       Exposure \<Rightarrow> (0, s\<lparr>io_trace := io_trace s @ [Im_pm_get_if_in_use,
         Im_write IMX132_REG_EXPOSURE (ct_val (im_exposure (io_dev s))), Im_pm_put]\<rparr>)
     | Analogue_gain \<Rightarrow> (0, s\<lparr>io_trace := io_trace s @ [Im_pm_get_if_in_use,
         Im_write IMX132_REG_ANALOGUE_GAIN (ct_val (im_gain (io_dev s))), Im_pm_put]\<rparr>)
     | Vblank \<Rightarrow> (0, s\<lparr>io_trace := io_trace s @ [Im_pm_get_if_in_use,
         Im_write IMX132_REG_FRAME_LENGTH (1144 + ct_val (im_vblank (io_dev s))), Im_pm_put]\<rparr>)
     | Hblank \<Rightarrow> (0, s\<lparr>io_trace := io_trace s @ [Im_pm_get_if_in_use,
         Im_write IMX132_REG_LINE_LENGTH (1976 + ct_val (im_hblank (io_dev s))), Im_pm_put]\<rparr>)
     | Hflip \<Rightarrow> (0, s\<lparr>io_trace := io_trace s @ [Im_pm_get_if_in_use,
         Im_write IMX132_REG_IMAGE_ORIENTATION (orientation (io_dev s)), Im_pm_put]\<rparr>)
     | Vflip \<Rightarrow> (0, s\<lparr>io_trace := io_trace s @ [Im_pm_get_if_in_use,
         Im_write IMX132_REG_IMAGE_ORIENTATION (orientation (io_dev s)), Im_pm_put]\<rparr>)
     | _ \<Rightarrow> (- EINVAL, s\<lparr>io_trace := io_trace s @ [Im_pm_get_if_in_use, Im_pm_put]\<rparr>))"
  using assms by (cases cid)
    (simp_all add: set_ctrl_write_def cci_write_def answering_def imx132_mode_1976x1144_def)

lemma exposure_fits_last:
  "exposure_fits f x es \<Longrightarrow>
     reg_of IMX132_REG_EXPOSURE es x + IMX132_EXPOSURE_MARGIN \<le> reg_of IMX132_REG_FRAME_LENGTH es f"
  by (induction es arbitrary: f x) auto

text \<open>A write between the accesses to the runtime state.\<close>

lemma exposure_fits_write:
  assumes "exposure_fits f x es" "write_fits (Im_write reg v)"
    and "reg_after IMX132_REG_EXPOSURE (Im_write reg v) (reg_of IMX132_REG_EXPOSURE es x)
           + IMX132_EXPOSURE_MARGIN
         \<le> reg_after IMX132_REG_FRAME_LENGTH (Im_write reg v) (reg_of IMX132_REG_FRAME_LENGTH es f)"
  shows "exposure_fits f x (es @ [Im_pm_get_if_in_use, Im_write reg v, Im_pm_put])"
proof -
  have "exposure_fits f x (es @ [Im_pm_get_if_in_use])"
    using assms(1) exposure_fits_last by (simp add: exposure_fits_snoc)
  then have "exposure_fits f x ((es @ [Im_pm_get_if_in_use]) @ [Im_write reg v])"
    unfolding exposure_fits_snoc using assms by simp
  then have "exposure_fits f x (((es @ [Im_pm_get_if_in_use]) @ [Im_write reg v]) @ [Im_pm_put])"
    using assms(3) by (subst exposure_fits_snoc) simp
  then show ?thesis by simp
qed

lemma orientation_fits: "0 \<le> orientation im \<and> orientation im \<le> 3"
  by (simp add: orientation_def)

lemma synced_other:
  assumes "regs_synced s" "answering env" "cid = Analogue_gain \<or> cid = Hflip \<or> cid = Vflip"
    "get_ctrl cid (io_dev s) = Some c" "ct_min c \<le> v" "v \<le> ct_max c"
  shows "wp (imx132_set_ctrl mr env cid) (\<lambda>_. regs_synced) (s\<lparr>io_dev := set_val cid v (io_dev s)\<rparr>)"
proof -
  have fits: "exposure_fits 1200 800 (io_trace s)" and inv: "ctrls_fit (io_dev s)"
    using assms(1) by (simp_all add: regs_synced_def)
  have w: "exposure_fits 1200 800 (io_trace s @ [Im_pm_get_if_in_use, Im_write reg n, Im_pm_put])"
    if "reg = IMX132_REG_ANALOGUE_GAIN \<and> 0 \<le> n \<and> n < 65536
        \<or> reg = IMX132_REG_IMAGE_ORIENTATION \<and> 0 \<le> n \<and> n < 256" for reg n
    using that exposure_fits_last [OF fits]
    by (intro exposure_fits_write [OF fits]) (auto simp: reg_defs)
  have o: "0 \<le> orientation im \<and> orientation im < 256" for im
    using orientation_fits [of im] by simp
  show ?thesis
    using assms inv w [of IMX132_REG_ANALOGUE_GAIN v] w [OF disjI2 [OF conjI [OF refl o]]]
    by (auto simp: wp_def imx132_set_ctrl_def set_ctrl_write_run regs_synced_def ctrls_fit_def
        ctrl_in_def get_ctrl_def set_val_def reg_defs)
qed

lemma synced_exposure:
  assumes "regs_synced s" "answering env"
    "ct_min (im_exposure (io_dev s)) \<le> v" "v \<le> ct_max (im_exposure (io_dev s))"
  shows "wp (imx132_set_ctrl mr env Exposure) (\<lambda>_. regs_synced)
    (s\<lparr>io_dev := set_val Exposure v (io_dev s)\<rparr>)"
proof -
  have fits: "exposure_fits 1200 800 (io_trace s)" and inv: "ctrls_fit (io_dev s)"
    and f: "reg_of IMX132_REG_FRAME_LENGTH (io_trace s) 1200 = 1144 + ct_val (im_vblank (io_dev s))"
    using assms(1) by (simp_all add: regs_synced_def)
  have w: "exposure_fits 1200 800 (io_trace s @ [Im_pm_get_if_in_use,
      Im_write IMX132_REG_EXPOSURE v, Im_pm_put])"
    using assms inv f by (intro exposure_fits_write [OF fits])
      (auto simp: reg_defs ctrls_fit_def ctrl_in_def IMX132_EXPOSURE_MARGIN_def)
  show ?thesis
    using assms inv w f
    by (auto simp: wp_def imx132_set_ctrl_def set_ctrl_write_run regs_synced_def ctrls_fit_def
        ctrl_in_def set_val_def reg_defs)
qed

lemma framework_rangeE:
  assumes "framework_range mr" "ct_min (im_exposure (io_dev s)) \<le> hi"
  obtains v where "ct_min (im_exposure (io_dev s)) \<le> v" "v \<le> hi"
    "ct_min (im_exposure (io_dev s)) \<le> ct_val (im_exposure (io_dev s)) \<Longrightarrow>
       ct_val (im_exposure (io_dev s)) \<le> hi \<Longrightarrow> v = ct_val (im_exposure (io_dev s))"
    "run_state (mr cb hi def) s =
       run_state (if v = ct_val (im_exposure (io_dev s)) then ret 0 else cb)
         (s\<lparr>io_dev := (io_dev s)\<lparr>im_exposure := (im_exposure (io_dev s))
           \<lparr>ct_max := hi, ct_def := def, ct_val := v\<rparr>\<rparr>\<rparr>)"
  using assms unfolding framework_range_def Let_def by blast

text \<open>The range of the exposure changes before the frame length does, so the two registers keep
  their distance when the frame gets shorter, too.\<close>

lemma synced_vblank:
  assumes s: "regs_synced s" and env: "answering env" and mr: "framework_range mr"
    and v: "16 \<le> v" "v \<le> 64391"
  shows "wp (imx132_set_ctrl mr env Vblank) (\<lambda>_. regs_synced)
    (s\<lparr>io_dev := set_val Vblank v (io_dev s)\<rparr>)"
proof -
  define e where "e = im_exposure (io_dev s)"
  define t where "t = s\<lparr>io_dev := set_val Vblank v (io_dev s)\<rparr>"
  have fits: "exposure_fits 1200 800 (io_trace s)" and inv: "ctrls_fit (io_dev s)"
    and f: "reg_of IMX132_REG_FRAME_LENGTH (io_trace s) 1200 = 1144 + ct_val (im_vblank (io_dev s))"
    and x: "reg_of IMX132_REG_EXPOSURE (io_trace s) 800 = ct_val e"
    using s by (simp_all add: regs_synced_def e_def)
  have e: "ct_min e = 1" "1 \<le> ct_val e" "ct_val e \<le> 1140 + ct_val (im_vblank (io_dev s))"
    "ct_val (im_vblank (io_dev s)) \<le> 64391"
    using inv by (simp_all add: ctrls_fit_def ctrl_in_def e_def)
  have t: "im_exposure (io_dev t) = e" "io_trace t = io_trace s"
    by (simp_all add: t_def e_def set_val_def)
  have "ct_min (im_exposure (io_dev t)) \<le> 1140 + v" using e v t by simp
  from framework_rangeE [OF mr this, of "set_ctrl_write env Exposure" "min (1140 + v) 800"]
  obtain n where n: "1 \<le> n" "n \<le> 1140 + v" "ct_val e \<le> 1140 + v \<Longrightarrow> n = ct_val e"
    and run: "run_state (mr (set_ctrl_write env Exposure) (1140 + v) (min (1140 + v) 800)) t =
      run_state (if n = ct_val e then ret 0 else set_ctrl_write env Exposure)
        (t\<lparr>io_dev := (io_dev t)\<lparr>im_exposure := e\<lparr>ct_max := 1140 + v, ct_def := min (1140 + v) 800,
           ct_val := n\<rparr>\<rparr>\<rparr>)"
    using e unfolding t by metis
  have n': "n \<noteq> ct_val e \<Longrightarrow> n < ct_val e" using n by (cases "ct_val e \<le> 1140 + v") auto
  define es where "es = (if n = ct_val e then []
    else [Im_pm_get_if_in_use, Im_write IMX132_REG_EXPOSURE n, Im_pm_put])"
  have es: "exposure_fits 1200 800 (io_trace s @ es)"
    "reg_of IMX132_REG_EXPOSURE (io_trace s @ es) 800 = n"
    "reg_of IMX132_REG_FRAME_LENGTH (io_trace s @ es) 1200 = 1144 + ct_val (im_vblank (io_dev s))"
    using fits f x n n' e by (auto simp: es_def reg_defs IMX132_EXPOSURE_MARGIN_def
        intro!: exposure_fits_write)
  have w: "exposure_fits 1200 800 (io_trace s @ es @ [Im_pm_get_if_in_use,
      Im_write IMX132_REG_FRAME_LENGTH (1144 + v), Im_pm_put])"
    using exposure_fits_write [OF es(1), of IMX132_REG_FRAME_LENGTH "1144 + v"] es(2,3) n v
    by (auto simp: reg_defs IMX132_EXPOSURE_MARGIN_def)
  have "run_state (imx132_set_ctrl mr env Vblank) t = (0, t\<lparr>io_trace := io_trace s @ es @
      [Im_pm_get_if_in_use, Im_write IMX132_REG_FRAME_LENGTH (1144 + v), Im_pm_put],
      io_dev := (io_dev t)\<lparr>im_exposure := e\<lparr>ct_max := 1140 + v, ct_def := min (1140 + v) 800,
        ct_val := n\<rparr>\<rparr>\<rparr>)"
    using run env by (simp add: imx132_set_ctrl_def set_ctrl_write_run t_def set_val_def es_def Let_def
        im_consts)
  then show ?thesis
    using inv v n w es
    by (auto simp: wp_def t_def [symmetric] regs_synced_def ctrls_fit_def ctrl_in_def set_val_def
        reg_defs e_def) (simp_all add: t_def set_val_def)
qed

lemma synced_set_ctrl:
  assumes "regs_synced s" "answering env" "framework_range mr" "get_ctrl cid (io_dev s) = Some c"
    "ct_min c \<le> v" "v \<le> ct_max c"
  shows "wp (imx132_set_ctrl mr env cid) (\<lambda>_. regs_synced) (s\<lparr>io_dev := set_val cid v (io_dev s)\<rparr>)"
proof (cases cid)
  case Vblank
  then have "16 \<le> v" "v \<le> 64391"
    using assms by (auto simp: get_ctrl_def regs_synced_def ctrls_fit_def ctrl_in_def)
  then show ?thesis using Vblank assms synced_vblank by blast
next
  case Exposure
  then show ?thesis using assms synced_exposure by (auto simp: get_ctrl_def)
qed (use assms synced_other in \<open>auto simp: get_ctrl_def\<close>)

lemma new_ctrl_run:
  assumes "answering env"
  shows "run_state (new_ctrl env cid lo hi st def upd flag) s =
    ((), s\<lparr>io_trace := io_trace s @ Im_new_ctrl cid lo hi st def #
           (case flag of None \<Rightarrow> [] | Some f \<Rightarrow> [Im_flag cid f]),
         io_dev := upd \<lparr>ct_min = lo, ct_max = hi, ct_def = def, ct_val = def\<rparr> (io_dev s)\<rparr>)"
  using assms by (cases flag) (simp_all add: new_ctrl_def answering_def whenM_def)

lemma controls_created:
  assumes "answering env" "io_trace s = []"
  shows "wp (imx132_init_controls env) (\<lambda>r s'. r = 0 \<longrightarrow> regs_synced s') s"
  using assms(2)
  by (simp add: imx132_init_controls_def wp_def new_ctrl_run [OF assms(1)] handler_free_def
      regs_synced_def ctrls_fit_def ctrl_in_def im_consts)

lemma controls_set_synced:
  assumes "controls_set mr env s" "answering env" "framework_range mr"
  shows "regs_synced s"
  using assms(1)
proof induction
  case (created s s')
  then show ?case using wp_run [OF controls_created [OF assms(2)]] by blast
next
  case (ctrl_set s cid c v r s')
  then show ?case using wp_run [OF synced_set_ctrl [OF _ assms(2,3)]] by blast
qed

text \<open>
  C11: Whatever controls programs set, in whatever order, the exposure programmed in the sensor
  stays at least four lines below the frame length that is programmed at that moment, and
  every register write fits its register, at every moment: shortening the frame moves the
  exposure first. This is for a sensor that is in use and answers, and for the control
  framework's documented behaviour.
\<close>

theorem imx132_exposure_within_frame:
  assumes "controls_set mr env s" "answering env" "framework_range mr"
  shows "exposure_fits 1200 800 (io_trace s) \<and>
    ct_val (im_exposure (io_dev s)) + IMX132_EXPOSURE_MARGIN
      \<le> im_height imx132_mode_1976x1144 + ct_val (im_vblank (io_dev s))"
  using controls_set_synced [OF assms]
  by (auto simp: regs_synced_def ctrls_fit_def ctrl_in_def im_consts)

text \<open>The hypotheses hold for a framework that clamps the value: an exposure of 1196 lines follows a
  frame of 1160 lines down to 1156.\<close>

definition clamp_range :: modify_range where
  "clamp_range cb hi def = do {
     e \<leftarrow> gets im_exposure;
     let v = max (ct_min e) (min hi (ct_val e));
     modify (\<lambda>im. im\<lparr>im_exposure := e\<lparr>ct_max := hi, ct_def := def, ct_val := v\<rparr>\<rparr>);
     if v = ct_val e then ret 0 else cb
   }"

lemma clamp_range_framework: "framework_range clamp_range"
  unfolding framework_range_def Let_def
proof (intro allI impI)
  fix cb :: "int imm" and hi def :: int and s :: im_io
  assume "ct_min (im_exposure (io_dev s)) \<le> hi"
  then show "\<exists>v\<ge>ct_min (im_exposure (io_dev s)). v \<le> hi \<and>
      (ct_min (im_exposure (io_dev s)) \<le> ct_val (im_exposure (io_dev s)) \<and>
       ct_val (im_exposure (io_dev s)) \<le> hi \<longrightarrow> v = ct_val (im_exposure (io_dev s))) \<and>
      run_state (clamp_range cb hi def) s =
      run_state (if v = ct_val (im_exposure (io_dev s)) then ret 0 else cb)
        (s\<lparr>io_dev := (io_dev s)\<lparr>im_exposure := (im_exposure (io_dev s))
          \<lparr>ct_max := hi, ct_def := def, ct_val := v\<rparr>\<rparr>\<rparr>)"
    by (intro exI [of _ "max (ct_min (im_exposure (io_dev s))) (min hi (ct_val (im_exposure (io_dev s))))"])
      (auto simp: clamp_range_def Let_def)
qed

definition w_im_env :: im_env where
  "w_im_env = \<lparr>ie_ret = (\<lambda>h e. if e = Im_pm_get_if_in_use then 1 else 0), ie_ok = (\<lambda>h e. True),
     ie_val = (\<lambda>h e. 0)\<rparr>"

lemma w_im_ret: "ie_ret w_im_env h e = (if e = Im_pm_get_if_in_use then 1 else 0)"
  by (simp add: w_im_env_def)

lemma w_im_answering: "answering w_im_env"
  by (simp add: answering_def w_im_env_def)

definition w_ctrl :: v4l2_ctrl where
  "w_ctrl = \<lparr>ct_min = 0, ct_max = 0, ct_def = 0, ct_val = 0\<rparr>"

definition w_imx132 :: imx132 where
  "w_imx132 = \<lparr>im_exposure = w_ctrl, im_gain = w_ctrl, im_vblank = w_ctrl, im_hblank = w_ctrl,
     im_hflip = w_ctrl, im_vflip = w_ctrl, im_supplies = False, im_reset_released = False,
     im_xclk = False, im_ctrls = False, im_media = False, im_subdev = False,
     im_registered = False, im_pm_enabled = False, im_pm_active = False, im_pm_count = 0\<rparr>"

definition w_shorten :: "im_io" where
  "w_shorten = snd (run_state (do {
     _ \<leftarrow> imx132_init_controls w_im_env;
     modify (set_val Exposure 1196);
     _ \<leftarrow> imx132_set_ctrl clamp_range w_im_env Exposure;
     modify (set_val Vblank 16);
     imx132_set_ctrl clamp_range w_im_env Vblank
   }) \<lparr>io_trace = [], io_dev = w_imx132\<rparr>)"

lemmas w_im_run = imx132_init_controls_def new_ctrl_run [OF w_im_answering]
  set_ctrl_write_run [OF w_im_answering] handler_free_def imx132_set_ctrl_def clamp_range_def
  Let_def set_val_def get_ctrl_def im_consts

lemma w_shorten_reached: "controls_set clamp_range w_im_env w_shorten"
proof -
  define s0 :: im_io where "s0 = \<lparr>io_trace = [], io_dev = w_imx132\<rparr>"
  define s1 where "s1 = snd (run_state (imx132_init_controls w_im_env) s0)"
  have r1: "run_state (imx132_init_controls w_im_env) s0 = (0, s1)"
    by (simp add: s1_def w_im_run w_im_ret)
  have e1: "get_ctrl Exposure (io_dev s1) =
      Some \<lparr>ct_min = 1, ct_max = 1196, ct_def = 800, ct_val = 800\<rparr>"
    "get_ctrl Vblank (io_dev s1) = Some \<lparr>ct_min = 16, ct_max = 64391, ct_def = 56, ct_val = 56\<rparr>"
    by (simp_all add: s1_def w_im_run w_im_ret)
  have c1: "controls_set clamp_range w_im_env s1"
    by (rule controls_set.created [OF _ r1]) (simp add: s0_def)
  define s2 where "s2 = snd (run_state (imx132_set_ctrl clamp_range w_im_env Exposure)
    (s1\<lparr>io_dev := set_val Exposure 1196 (io_dev s1)\<rparr>))"
  have r2: "run_state (imx132_set_ctrl clamp_range w_im_env Exposure)
      (s1\<lparr>io_dev := set_val Exposure 1196 (io_dev s1)\<rparr>) = (0, s2)"
    by (simp add: s2_def w_im_run)
  have c2: "controls_set clamp_range w_im_env s2"
    by (rule controls_set.ctrl_set [OF c1 e1(1) _ _ r2]) simp_all
  have e2: "get_ctrl Vblank (io_dev s2) =
      Some \<lparr>ct_min = 16, ct_max = 64391, ct_def = 56, ct_val = 56\<rparr>"
    using e1(2) by (simp add: s2_def w_im_run)
  define s3 where "s3 = snd (run_state (imx132_set_ctrl clamp_range w_im_env Vblank)
    (s2\<lparr>io_dev := set_val Vblank 16 (io_dev s2)\<rparr>))"
  have r3: "run_state (imx132_set_ctrl clamp_range w_im_env Vblank)
      (s2\<lparr>io_dev := set_val Vblank 16 (io_dev s2)\<rparr>) = (0, s3)"
    by (simp add: s3_def w_im_run)
  have "controls_set clamp_range w_im_env s3"
    by (rule controls_set.ctrl_set [OF c2 e2 _ _ r3]) simp_all
  moreover have "w_shorten = s3"
    using r1 r2 r3 by (simp add: w_shorten_def s0_def)
  ultimately show ?thesis by simp
qed

theorem imx132_exposure_within_frame_witness:
  "exposure_fits 1200 800 (io_trace w_shorten) \<and>
   ct_val (im_exposure (io_dev w_shorten)) = 1156 \<and>
   reg_of IMX132_REG_EXPOSURE (io_trace w_shorten) 800 = 1156 \<and>
   reg_of IMX132_REG_FRAME_LENGTH (io_trace w_shorten) 1200 = 1160"
  using imx132_exposure_within_frame
    [OF w_shorten_reached w_im_answering clamp_range_framework]
  by (simp add: w_shorten_def w_im_run w_im_ret w_imx132_def w_ctrl_def reg_defs)

section \<open>Resources\<close>

definition powered :: "imx132 \<Rightarrow> bool" where
  "powered im \<longleftrightarrow> im_supplies im \<and> im_reset_released im \<and> im_xclk im"

definition unpowered :: "imx132 \<Rightarrow> bool" where
  "unpowered im \<longleftrightarrow> \<not> im_supplies im \<and> \<not> im_reset_released im \<and> \<not> im_xclk im"

definition objects :: "imx132 \<Rightarrow> bool \<times> bool \<times> bool \<times> bool \<times> bool" where
  "objects im = (im_ctrls im, im_media im, im_subdev im, im_registered im, im_pm_enabled im)"

interpretation im_supply: power_sequenced "\<lambda>s. powered (io_dev s)" "\<lambda>s. unpowered (io_dev s)"
    "imx132_power_on env" imx132_power_off "\<lambda>r. r \<noteq> 0"
  by unfold_locales
    (simp_all add: imx132_power_on_def imx132_power_off_def im_set_reset_def supplies_disable_def
      wp_simps powered_def unpowered_def)

lemma kept_call_dev: "(\<And>s e. G (s\<lparr>io_trace := io_trace s @ [e]\<rparr>) = G s) \<Longrightarrow> kept G (call f e)"
  by (simp add: kept_def wp_simps)

lemma kept_emit_dev: "(\<And>s e. G (s\<lparr>io_trace := io_trace s @ [e]\<rparr>) = G s) \<Longrightarrow> kept G (emit e)"
  by (simp add: kept_def wp_simps)

lemma kept_modify_dev: "(\<And>s. G (s\<lparr>io_dev := f (io_dev s)\<rparr>) = G s) \<Longrightarrow> kept G (modify f)"
  by (simp add: kept_def wp_simps)

lemma kept_cci_write:
  "(\<And>s e. G (s\<lparr>io_trace := io_trace s @ [e]\<rparr>) = G s) \<Longrightarrow> kept G (cci_write env reg v err)"
  by (simp add: cci_write_def kept_rules kept_call_dev)

lemmas kept_io = kept_call_dev kept_emit_dev kept_modify_dev kept_cci_write

lemma kept_power_rest:
  assumes "\<And>s e. G (s\<lparr>io_trace := io_trace s @ [e]\<rparr>) = G s"
    "\<And>s b. G (s\<lparr>io_dev := (io_dev s)\<lparr>im_supplies := b\<rparr>\<rparr>) = G s"
    "\<And>s b. G (s\<lparr>io_dev := (io_dev s)\<lparr>im_reset_released := b\<rparr>\<rparr>) = G s"
    "\<And>s b. G (s\<lparr>io_dev := (io_dev s)\<lparr>im_xclk := b\<rparr>\<rparr>) = G s"
  shows "kept G (imx132_power_on env)" "kept G imx132_power_off"
  unfolding imx132_power_on_def imx132_power_off_def im_set_reset_def supplies_disable_def
  by (intro kept_rules kept_io assms)+

text \<open>The controls, the entity, the subdevice and the registration, from none: all of them on
  success, none of them on failure.\<close>

definition probe_result :: "int \<Rightarrow> imx132 \<Rightarrow> bool" where
  "probe_result r im \<longleftrightarrow> im_pm_count im = 0 \<and>
     (if r = 0 then objects im = (True, True, True, True, True) \<and> im_pm_active im
      else objects im = (False, False, False, False, False))"

definition bare :: "imx132 \<Rightarrow> bool" where
  "bare im \<longleftrightarrow> im_pm_count im = 0 \<and> objects im = (False, False, False, False, False)"

lemma new_ctrl_objects:
  assumes "\<And>c im. objects (upd c im) = objects im \<and> im_pm_count (upd c im) = im_pm_count im"
  shows "kept (\<lambda>s. objects (io_dev s) = x \<and> im_pm_count (io_dev s) = n)
    (new_ctrl env cid lo hi st def upd flag)"
  unfolding new_ctrl_def
  by (intro kept_rules kept_io) (simp_all add: assms)

lemma wp_new_ctrl:
  assumes "objects (io_dev s) = x \<and> im_pm_count (io_dev s) = n"
    "\<And>c im. objects (upd c im) = objects im \<and> im_pm_count (upd c im) = im_pm_count im"
    "\<And>t. objects (io_dev t) = x \<and> im_pm_count (io_dev t) = n \<Longrightarrow> Q () t"
  shows "wp (new_ctrl env cid lo hi st def upd flag) Q s"
  using assms by (intro kept_wp [OF new_ctrl_objects]) auto

lemma init_controls_objects:
  assumes "bare (io_dev s)"
  shows "wp (imx132_init_controls env) (\<lambda>r s'. im_pm_count (io_dev s') = 0 \<and>
    objects (io_dev s') = (r = 0, False, False, False, False)) s"
  unfolding imx132_init_controls_def Let_def wp_bind wp_call wp_if wp_modify wp_return
  apply (split if_split, rule conjI, rule impI)
   apply (use assms in \<open>simp add: bare_def\<close>)
  apply (rule impI, rule wp_new_ctrl [where x = "(True, False, False, False, False)" and n = 0])
    apply (use assms in \<open>simp add: bare_def objects_def\<close>)
   apply (simp add: objects_def)
  apply ((rule wp_new_ctrl, assumption, simp add: objects_def)+)
  apply (auto simp: wp_simps handler_free_def objects_def)
  done

lemma probe_subdev_result:
  assumes "objects (io_dev s) = (True, False, False, False, False)" "im_pm_count (io_dev s) = 0"
  shows "wp (probe_subdev env) (\<lambda>r s'. probe_result r (io_dev s')) s"
  using assms
  by (auto simp: probe_subdev_def err_pm_def err_media_cleanup_def err_free_ctrls_def handler_free_def
      wp_simps probe_result_def objects_def)

lemma probe_result_failed:
  "r \<noteq> 0 \<Longrightarrow> probe_result r im \<longleftrightarrow>
     im_pm_count im = 0 \<and> objects im = (False, False, False, False, False)"
  by (simp add: probe_result_def)

lemma probe_powered_result:
  assumes "bare (io_dev s)"
  shows "wp (probe_powered env) (\<lambda>r s'. probe_result r (io_dev s')) s"
proof -
  have "wp (imx132_init_controls env) (\<lambda>r. wp (if r \<noteq> 0 then ret r else probe_subdev env)
      (\<lambda>r s'. probe_result r (io_dev s'))) t" if "bare (io_dev t)" for t
    by (rule wp_mono [OF init_controls_objects [OF that]])
      (auto simp: wp_simps probe_result_failed intro!: probe_subdev_result)
  with assms show ?thesis
    by (simp add: probe_powered_def imx132_identify_module_def wp_simps bare_def
        probe_result_failed)
qed

lemma kept_new_ctrl_powered:
  assumes "\<And>c im. powered (upd c im) = powered im"
  shows "kept (\<lambda>s. powered (io_dev s)) (new_ctrl env cid lo hi st def upd flag)"
  unfolding new_ctrl_def by (intro kept_rules kept_io) (simp_all add: assms)

lemma kept_probe_powered: "kept (\<lambda>s. powered (io_dev s)) (probe_powered env)"
  unfolding probe_powered_def imx132_identify_module_def imx132_init_controls_def probe_subdev_def
    err_pm_def err_media_cleanup_def err_free_ctrls_def handler_free_def Let_def
  by (intro kept_rules kept_io kept_new_ctrl_powered) (simp_all add: powered_def)

lemma probe_device_result:
  assumes "unpowered (io_dev s)" "bare (io_dev s)"
  shows "wp (probe_device env) (\<lambda>r s'. (if r \<noteq> 0 then unpowered (io_dev s') else powered (io_dev s'))
    \<and> probe_result r (io_dev s')) s"
proof (rule wp_conj)
  show "wp (probe_device env)
      (\<lambda>r s'. if r \<noteq> 0 then unpowered (io_dev s') else powered (io_dev s')) s"
    unfolding probe_device_def
    by (rule im_supply.bring_up [OF assms(1) kept_probe_powered]) simp
next
  have on: "kept (\<lambda>s. bare (io_dev s)) (imx132_power_on env)"
    by (rule kept_power_rest) (simp_all add: bare_def objects_def)
  have off: "kept (\<lambda>s. probe_result r (io_dev s)) imx132_power_off" for r
    by (rule kept_power_rest) (simp_all add: probe_result_def objects_def)
  have "wp (probe_powered env)
      (\<lambda>r. wp (if r \<noteq> 0 then do { imx132_power_off; ret r } else ret 0)
        (\<lambda>r s'. probe_result r (io_dev s'))) t" if "bare (io_dev t)" for t
    by (rule wp_mono [OF probe_powered_result [OF that]])
      (auto simp: wp_simps intro: kept_wp [OF off])
  then show "wp (probe_device env) (\<lambda>r s'. probe_result r (io_dev s')) s"
    unfolding probe_device_def wp_bind
    by (intro kept_wp [OF on assms(2)]) (auto simp: wp_if wp_return bare_def probe_result_failed wp_bind)
qed

definition im_clean :: "imx132 \<Rightarrow> bool" where
  "im_clean im \<longleftrightarrow> unpowered im \<and> bare im"

lemma im_clean_trace: "im_clean (io_dev (s\<lparr>io_trace := tr\<rparr>)) = im_clean (io_dev s)"
  by simp

lemma kept_check_hwcfg: "kept (\<lambda>s. im_clean (io_dev s)) (imx132_check_hwcfg env)"
  unfolding imx132_check_hwcfg_def by (intro kept_rules kept_io) simp_all

definition probe_ends :: "int \<Rightarrow> imx132 \<Rightarrow> bool" where
  "probe_ends r im \<longleftrightarrow> (if r \<noteq> 0 then unpowered im else powered im) \<and> probe_result r im"

lemma probe_ends_failed: "r \<noteq> 0 \<Longrightarrow> probe_ends r im = im_clean im"
  by (auto simp: probe_ends_def im_clean_def probe_result_def bare_def)

lemma probe_result_all:
  assumes "im_clean (io_dev s)"
  shows "wp (imx132_probe env) (\<lambda>r s'. probe_ends r (io_dev s')) s"
proof -
  have dev: "wp (probe_device env) (\<lambda>r s'. probe_ends r (io_dev s')) t" if "im_clean (io_dev t)" for t
    using probe_device_result that unfolding probe_ends_def im_clean_def by blast
  have res: "wp (probe_resources env) (\<lambda>r s'. probe_ends r (io_dev s')) t"
    if "im_clean (io_dev t)" for t
    using that by (simp add: probe_resources_def wp_simps probe_ends_failed dev)
  have "wp (imx132_check_hwcfg env) (\<lambda>r. wp (if r \<noteq> 0 then ret r else probe_resources env)
      (\<lambda>r s'. probe_ends r (io_dev s'))) t" if "im_clean (io_dev t)" for t
    by (rule kept_wp [OF kept_check_hwcfg that]) (simp add: wp_return probe_ends_failed res)
  then show ?thesis
    unfolding imx132_probe_def wp_bind wp_call using assms
    by (simp add: wp_return probe_ends_failed wp_bind)
qed

text \<open>
  A device that was probed, and what the kernel's runtime power management does with it from then
  on: it calls \<^verbatim>\<open>imx132_power_off\<close> and \<^verbatim>\<open>imx132_power_on\<close>, and keeps a device whose resume failed
  suspended.
\<close>

definition rt_suspend :: "unit imm" where
  "rt_suspend = do { imx132_power_off; modify (\<lambda>im. im\<lparr>im_pm_active := False\<rparr>) }"

definition rt_resume :: "im_env \<Rightarrow> unit imm" where
  "rt_resume env = do {
     r \<leftarrow> imx132_power_on env;
     whenM (r = 0) (modify (\<lambda>im. im\<lparr>im_pm_active := True\<rparr>))
   }"

inductive bound :: "im_io \<Rightarrow> bool" where
  probed: "im_clean (io_dev s) \<Longrightarrow> run_state (imx132_probe env) s = (0, s') \<Longrightarrow> bound s'"
| suspended: "bound s \<Longrightarrow> im_pm_active (io_dev s) \<Longrightarrow> bound (snd (run_state rt_suspend s))"
| resumed: "bound s \<Longrightarrow> \<not> im_pm_active (io_dev s) \<Longrightarrow>
    bound (snd (run_state (rt_resume env) s))"

definition bound_inv :: "im_io \<Rightarrow> bool" where
  "bound_inv s \<longleftrightarrow> im_pm_count (io_dev s) = 0
     \<and> (if im_pm_active (io_dev s) then powered (io_dev s) else unpowered (io_dev s))"

lemma bound_bound_inv: "bound s \<Longrightarrow> bound_inv s"
proof (induction rule: bound.induct)
  case (probed s env s')
  then show ?case
    using wp_run [OF probe_result_all] by (fastforce simp: bound_inv_def probe_ends_def probe_result_def)
next
  case (suspended s)
  have "wp rt_suspend (\<lambda>_. bound_inv) s"
    using suspended by (auto simp: bound_inv_def rt_suspend_def imx132_power_off_def im_set_reset_def
        supplies_disable_def wp_simps unpowered_def)
  then show ?case by (auto elim: wp_runE)
next
  case (resumed s env)
  have "wp (rt_resume env) (\<lambda>_. bound_inv) s"
    using resumed by (auto simp: rt_resume_def imx132_power_on_def im_set_reset_def
        supplies_disable_def wp_simps bound_inv_def powered_def unpowered_def)
  then show ?case by (auto elim: wp_runE)
qed

text \<open>
  C8: A probe that fails, wherever it fails, leaves the sensor without power, clock and controls,
  entity and subdevice gone, and the runtime power management as it was; a probe that succeeds leaves it
  powered. However often the runtime power management suspends and resumes it then, also when
  resuming fails, removing the driver releases everything, and does not power off twice.
\<close>

theorem imx132_probe_releases:
  shows "(\<forall>s. im_clean (io_dev s) \<longrightarrow>
      wp (imx132_probe env) (\<lambda>r s'. if r = 0 then powered (io_dev s') else im_clean (io_dev s')) s)
    \<and> (\<forall>s. bound s \<longrightarrow> wp imx132_remove (\<lambda>_ s'. im_clean (io_dev s') \<and>
         (Im_clk_off \<in> set (drop (length (io_trace s)) (io_trace s')) \<longleftrightarrow> im_xclk (io_dev s))) s)"
proof (intro conjI allI impI)
  fix s :: im_io
  assume "im_clean (io_dev s)"
  then show "wp (imx132_probe env)
      (\<lambda>r s'. if r = 0 then powered (io_dev s') else im_clean (io_dev s')) s"
    by (rule wp_mono [OF probe_result_all]) (auto simp: probe_ends_def im_clean_def bare_def probe_result_def
        split: if_splits)
next
  fix s
  assume "bound s"
  then have "bound_inv s" by (rule bound_bound_inv)
  then show "wp imx132_remove (\<lambda>_ s'. im_clean (io_dev s') \<and>
      (Im_clk_off \<in> set (drop (length (io_trace s)) (io_trace s')) \<longleftrightarrow> im_xclk (io_dev s))) s"
    by (auto simp: imx132_remove_def imx132_power_off_def im_set_reset_def supplies_disable_def
        handler_free_def wp_simps im_clean_def bare_def objects_def unpowered_def powered_def
        bound_inv_def)
qed

text \<open>A board that answers as the driver expects, and a resume that fails: the probe succeeds, the
  sensor is suspended, stays off, and is removed.\<close>

definition w_board :: im_env where
  "w_board = \<lparr>ie_ret = (\<lambda>h e. 0), ie_ok = (\<lambda>h e. True),
     ie_val = (\<lambda>h e. case e of Im_read _ \<Rightarrow> 0x132 | Im_endpoint_lanes \<Rightarrow> 2 | Im_endpoint_freqs \<Rightarrow> 1
       | Im_endpoint_freq0 \<Rightarrow> 192000000 | Im_clk_rate \<Rightarrow> 19200000 | _ \<Rightarrow> 0)\<rparr>"

definition w_no_clock :: im_env where
  "w_no_clock = w_board\<lparr>ie_ret := (\<lambda>h e. if e = Im_clk_on then - EIO else 0)\<rparr>"

definition w_im_start :: im_io where
  "w_im_start = \<lparr>io_trace = [], io_dev = w_imx132\<rparr>"

definition w_removed :: im_io where
  "w_removed = snd (run_state (do {
     _ \<leftarrow> imx132_probe w_board;
     _ \<leftarrow> rt_suspend;
     _ \<leftarrow> rt_resume w_no_clock;
     imx132_remove
   }) w_im_start)"

lemma w_im_start_clean: "im_clean (io_dev w_im_start)"
  by (simp add: im_clean_def w_im_start_def w_imx132_def unpowered_def bare_def objects_def)

lemma w_new_ctrl_run:
  "run_state (new_ctrl w_board cid lo hi st def upd flag) s =
    ((), s\<lparr>io_trace := io_trace s @ Im_new_ctrl cid lo hi st def #
           (case flag of None \<Rightarrow> [] | Some f \<Rightarrow> [Im_flag cid f]),
         io_dev := upd \<lparr>ct_min = lo, ct_max = hi, ct_def = def, ct_val = def\<rparr> (io_dev s)\<rparr>)"
  by (cases flag) (simp_all add: new_ctrl_def w_board_def whenM_def)

lemma w_board_simps: "ie_ret w_board h e = 0" "ie_ok w_board h e" "ie_val w_board h (Im_read r) = 0x132"
  "ie_val w_board h Im_endpoint_lanes = 2" "ie_val w_board h Im_endpoint_freqs = 1"
  "ie_val w_board h Im_endpoint_freq0 = 192000000" "ie_val w_board h Im_clk_rate = 19200000"
  by (simp_all add: w_board_def)

lemma w_probe_succeeds: "fst (run_state (imx132_probe w_board) s) = 0"
  by (simp add: imx132_probe_def imx132_check_hwcfg_def probe_resources_def probe_device_def
      probe_powered_def imx132_power_on_def im_set_reset_def imx132_identify_module_def
      imx132_init_controls_def probe_subdev_def w_new_ctrl_run w_board_simps Let_def whenM_def
      IMX132_LINK_FREQ_def IMX132_XCLK_FREQ_def IMX132_CHIP_ID_def)

theorem imx132_probe_releases_witness:
  "im_clean (io_dev w_removed)"
proof -
  define s1 where "s1 = snd (run_state (imx132_probe w_board) w_im_start)"
  have r1: "run_state (imx132_probe w_board) w_im_start = (0, s1)"
    using w_probe_succeeds [of w_im_start] by (simp add: s1_def prod_eq_iff)
  have on: "powered (io_dev s1)"
    using wp_run [OF imx132_probe_releases [THEN conjunct1, THEN spec, THEN mp, OF w_im_start_clean]
      r1] by simp
  have b1: "bound s1" by (rule bound.probed [OF w_im_start_clean r1])
  show ?thesis
  proof (cases "im_pm_active (io_dev s1)")
    case True
    define s2 where "s2 = snd (run_state rt_suspend s1)"
    have b2: "bound s2" unfolding s2_def by (rule bound.suspended [OF b1 True])
    have "\<not> im_pm_active (io_dev s2)" by (simp add: s2_def rt_suspend_def split: prod.split)
    define s3 where "s3 = snd (run_state (rt_resume w_no_clock) s2)"
    have b3: "bound s3" unfolding s3_def by (rule bound.resumed [OF b2]) fact
    have "w_removed = snd (run_state imx132_remove s3)"
      by (simp add: w_removed_def r1 s2_def s3_def split: prod.splits)
    then show ?thesis
      using imx132_probe_releases [THEN conjunct2, THEN spec, THEN mp, OF b3]
      by (simp add: wp_def split: prod.splits)
  next
    case False
    then show ?thesis
      using on bound_bound_inv [OF b1] by (simp add: bound_inv_def powered_def unpowered_def)
  qed
qed

section \<open>The mode is written before the stream starts\<close>

fun written :: "im_ev list \<Rightarrow> (cci_reg \<times> int) list" where
  "written [] = []"
| "written (Im_write reg v # es) = (reg, v) # written es"
| "written (_ # es) = written es"

lemma written_append [simp]: "written (es @ es') = written es @ written es'"
  by (induction es rule: written.induct) simp_all























end
