(* ===== verification/Dbl.thy ===== *)
theory Dbl
  imports Complex_Main
begin

text \<open>
  The double precision arithmetic the FM repair plugin uses: a value is a rational number, and the
  result of an operation is the exact one rounded to 53 significant bits, ties to even. The
  plugin's values are far from the limits of the exponent, so overflow and subnormal numbers
  do not occur. \<open>rounding\<close> states what the proofs need of it.
\<close>

section \<open>Rounding to nearest, ties to even\<close>

fun flog :: "nat \<Rightarrow> nat" where
  "flog n = (if n < 2 then 0 else Suc (flog (n div 2)))"

declare flog.simps [simp del]

definition round_even :: "rat \<Rightarrow> int" where
  "round_even x =
     (let f = \<lfloor>x\<rfloor>; r = x - of_int f in
      if r < 1 / 2 then f else if r > 1 / 2 then f + 1 else if even f then f else f + 1)"

text \<open>The exponent of a positive number.\<close>

definition dexp :: "rat \<Rightarrow> int" where
  "dexp x =
     (let (n, d) = quotient_of x; k = int (flog (nat n)) - int (flog (nat d)) in
      if x < 2 powi k then k - 1 else k)"

definition rnd_pos :: "rat \<Rightarrow> rat" where
  "rnd_pos x = (let u = 2 powi (dexp x - 52) in u * of_int (round_even (x / u)))"

definition rnd :: "rat \<Rightarrow> rat" where
  "rnd x = (if x = 0 then 0 else if 0 < x then rnd_pos x else - rnd_pos (- x))"

lemma flog_bounds: "0 < n \<Longrightarrow> 2 ^ flog n \<le> n \<and> n < 2 ^ Suc (flog n)"
proof (induction n rule: flog.induct)
  case (1 n)
  show ?case
  proof (cases "n < 2")
    case True
    with 1 show ?thesis by (simp add: flog.simps [of n])
  next
    case False
    then have "0 < n div 2" by simp
    from 1(1) [OF False this] show ?thesis
      using False by (simp add: flog.simps [of n]) linarith
  qed
qed

lemma round_even_cases: "round_even x = \<lfloor>x\<rfloor> \<or> round_even x = \<lfloor>x\<rfloor> + 1"
  by (simp add: round_even_def Let_def)

lemma round_even_int [simp]: "round_even (of_int k) = k"
  by (simp add: round_even_def)

lemma round_even_mono: "x \<le> y \<Longrightarrow> round_even x \<le> round_even y"
proof -
  assume xy: "x \<le> y"
  show ?thesis
  proof (cases "\<lfloor>x\<rfloor> = \<lfloor>y\<rfloor>")
    case True
    with xy show ?thesis by (auto simp: round_even_def Let_def)
  next
    case False
    then have "\<lfloor>x\<rfloor> + 1 \<le> \<lfloor>y\<rfloor>" using floor_mono [OF xy] by linarith
    then show ?thesis using round_even_cases [of x] round_even_cases [of y] by linarith
  qed
qed

lemma powi_flog:
  assumes "0 < n"
  shows "2 powi int (flog n) \<le> (of_nat n :: rat)" "(of_nat n :: rat) < 2 powi (int (flog n) + 1)"
proof -
  have "2 ^ flog n \<le> n" "n < 2 ^ Suc (flog n)" using flog_bounds [OF assms] by auto
  then have "of_nat (2 ^ flog n) \<le> (of_nat n :: rat)" "(of_nat n :: rat) < of_nat (2 ^ Suc (flog n))"
    by (simp_all only: of_nat_le_iff of_nat_less_iff)
  then show "2 powi int (flog n) \<le> (of_nat n :: rat)" "(of_nat n :: rat) < 2 powi (int (flog n) + 1)"
    by (simp_all add: power_int_add_1)
qed

lemma dexp_bounds:
  assumes "0 < x"
  shows "2 powi dexp x \<le> x" "x < 2 powi (dexp x + 1)"
proof -
  obtain n d where q: "quotient_of x = (n, d)" by fastforce
  have d: "0 < d" and x: "x = of_int n / of_int d"
    using quotient_of_denom_pos [OF q] quotient_of_div [OF q] by auto
  have n: "0 < n" using assms x d by (simp add: zero_less_divide_iff)
  let ?a = "int (flog (nat n))" and ?b = "int (flog (nat d))"
  have nb: "2 powi ?a \<le> (of_int n :: rat)" "(of_int n :: rat) < 2 powi (?a + 1)"
    using powi_flog [of "nat n"] n by (simp_all add: of_nat_nat)
  have db: "2 powi ?b \<le> (of_int d :: rat)" "(of_int d :: rat) < 2 powi (?b + 1)"
    using powi_flog [of "nat d"] d by (simp_all add: of_nat_nat)
  have "2 powi ?a / 2 powi (?b + 1) < x"
    unfolding x using nb db d by (intro frac_less2) auto
  then have low: "2 powi (?a - ?b - 1) < x"
    by (simp add: power_int_diff power_int_add algebra_simps)
  have "x < 2 powi (?a + 1) / 2 powi ?b"
    unfolding x using nb db d n by (intro frac_less) auto
  then have high: "x < 2 powi (?a - ?b + 1)"
    by (simp add: power_int_diff power_int_add algebra_simps)
  show "2 powi dexp x \<le> x" "x < 2 powi (dexp x + 1)"
    using low high by (auto simp: dexp_def q Let_def)
qed

lemma powi_52: "2 powi (e - 52) * 4503599627370496 = (2 powi e :: rat)"
  by (simp add: power_int_diff)

lemma rnd_pos_bounds:
  assumes "0 < x"
  shows "2 powi dexp x \<le> rnd_pos x" "rnd_pos x \<le> 2 powi (dexp x + 1)"
proof -
  define u :: rat where "u = 2 powi (dexp x - 52)"
  have u: "0 < u" by (simp add: u_def)
  have lo: "u * 4503599627370496 = 2 powi dexp x" by (simp add: u_def powi_52)
  have hi: "u * 9007199254740992 = 2 powi (dexp x + 1)"
    using lo by (simp add: power_int_add_1)
  have "of_int 4503599627370496 \<le> x / u" "x / u \<le> of_int 9007199254740992"
    using dexp_bounds [OF assms] lo hi u by (simp_all add: field_simps)
  then have "4503599627370496 \<le> round_even (x / u)" "round_even (x / u) \<le> 9007199254740992"
    using round_even_mono round_even_int by metis+
  then have "4503599627370496 \<le> (of_int (round_even (x / u)) :: rat)"
    "(of_int (round_even (x / u)) :: rat) \<le> 9007199254740992"
    by linarith+
  then have "u * 4503599627370496 \<le> u * of_int (round_even (x / u))"
    "u * of_int (round_even (x / u)) \<le> u * 9007199254740992"
    using u by (simp_all only: mult_le_cancel_left_pos)
  then show "2 powi dexp x \<le> rnd_pos x" "rnd_pos x \<le> 2 powi (dexp x + 1)"
    by (simp_all add: rnd_pos_def Let_def lo hi flip: u_def)
qed

lemma dexp_mono:
  assumes "0 < x" "x \<le> y"
  shows "dexp x \<le> dexp y"
proof (rule ccontr)
  assume "\<not> dexp x \<le> dexp y"
  then have "dexp y + 1 \<le> dexp x" by simp
  then have "(2 :: rat) powi (dexp y + 1) \<le> 2 powi dexp x" by (simp add: power_int_increasing)
  with dexp_bounds [of x] dexp_bounds [of y] assms show False by linarith
qed

lemma rnd_pos_mono:
  assumes "0 < x" "x \<le> y"
  shows "rnd_pos x \<le> rnd_pos y"
proof (cases "dexp x = dexp y")
  case True
  have "round_even (x / u) \<le> round_even (y / u)" if "0 < u" for u
    by (rule round_even_mono) (use that assms in \<open>simp add: divide_right_mono\<close>)
  then show ?thesis
    by (simp add: rnd_pos_def True Let_def)
next
  case False
  with dexp_mono [OF assms] have "dexp x + 1 \<le> dexp y" by simp
  then have "(2 :: rat) powi (dexp x + 1) \<le> 2 powi dexp y" by (simp add: power_int_increasing)
  with rnd_pos_bounds [of x] rnd_pos_bounds [of y] assms show ?thesis by linarith
qed

lemma rnd_pos_nonneg: "0 < x \<Longrightarrow> 0 \<le> rnd_pos x"
  using rnd_pos_bounds(1) [of x] by (meson order_trans zero_le_power_int zero_le_numeral)

lemma rnd_mono: "x \<le> y \<Longrightarrow> rnd x \<le> rnd y"
  using rnd_pos_mono [of x y] rnd_pos_mono [of "- y" "- x"] rnd_pos_nonneg [of y]
    rnd_pos_nonneg [of "- x"]
  by (auto simp: rnd_def)

text \<open>Half integers of moderate size are exact.\<close>

lemma rnd_pos_half:
  assumes "0 < k" "k < 2 ^ 52"
  shows "rnd_pos (of_int k / 2) = of_int k / 2"
proof -
  let ?x = "of_int k / 2 :: rat"
  have x: "0 < ?x" using assms by simp
  have "(2 :: rat) powi dexp ?x \<le> ?x" by (rule dexp_bounds [OF x])
  also have "?x < 2 powi 51"
    using assms(2) by (simp add: power_int_def)
  finally have "(2 :: rat) powi dexp ?x < 2 powi 51" .
  then have e: "dexp ?x < 51"
    using power_int_increasing [of 51 "dexp ?x" "2 :: rat"] by (cases "dexp ?x < 51") auto
  define j where "j = nat (51 - dexp ?x)"
  have j: "52 - dexp ?x = int (Suc j)" using e by (simp add: j_def)
  have "?x / 2 powi (dexp ?x - 52) = ?x * 2 powi (52 - dexp ?x)"
    by (simp add: power_int_diff field_simps)
  also have "\<dots> = of_int (k * 2 ^ j)" unfolding j power_int_of_nat by simp
  finally have "?x / 2 powi (dexp ?x - 52) = of_int (k * 2 ^ j)" .
  moreover from this have "2 powi (dexp ?x - 52) * of_int (k * 2 ^ j) = ?x"
    by (metis nonzero_eq_divide_eq power_int_not_zero zero_neq_numeral mult.commute)
  ultimately show ?thesis by (simp only: rnd_pos_def Let_def round_even_int)
qed

lemma rnd_half: "\<bar>k\<bar> < 2 ^ 52 \<Longrightarrow> rnd (of_int k / 2) = of_int k / 2"
  using rnd_pos_half [of k] rnd_pos_half [of "- k"] by (auto simp: rnd_def)

lemma rnd_int: "\<bar>k\<bar> < 2 ^ 51 \<Longrightarrow> rnd (of_int k) = of_int k"
  using rnd_half [of "2 * k"] by simp

section \<open>What the proofs use\<close>

locale rounding =
  fixes round :: "rat \<Rightarrow> rat"
  assumes round_mono: "x \<le> y \<Longrightarrow> round x \<le> round y"
    and round_half: "\<bar>k\<bar> < 2 ^ 52 \<Longrightarrow> round (of_int k / 2) = of_int k / 2"
begin

lemma round_int: "\<bar>k\<bar> < 2 ^ 51 \<Longrightarrow> round (of_int k) = of_int k"
  using round_half [of "2 * k"] by simp

lemma round_ge: "\<bar>k\<bar> < 2 ^ 52 \<Longrightarrow> of_int k / 2 \<le> x \<Longrightarrow> of_int k / 2 \<le> round x"
  using round_mono [of "of_int k / 2" x] round_half by simp

lemma round_le: "\<bar>k\<bar> < 2 ^ 52 \<Longrightarrow> x \<le> of_int k / 2 \<Longrightarrow> round x \<le> of_int k / 2"
  using round_mono [of x "of_int k / 2"] round_half by simp

text \<open>Rounded results stay between integers and half integers that bound the exact ones.\<close>

lemma round_between:
  assumes "\<bar>a\<bar> < 2 ^ 51" "\<bar>b\<bar> < 2 ^ 51" "of_int a \<le> x" "x \<le> of_int b"
  shows "of_int a \<le> round x \<and> round x \<le> of_int b"
  using round_mono [OF assms(3)] round_mono [OF assms(4)] round_int assms by simp

end

interpretation dbl: rounding rnd
  by unfold_locales (erule rnd_mono, erule rnd_half)

end
