(* ===== verification/Fm_Repair.thy ===== *)
theory Fm_Repair
  imports Prelude Dbl
begin

text \<open>
  \<^verbatim>\<open>drivers/audio/fmrepair/pcm_fmrepair.c\<close>: the ALSA plugin that repairs the bursts of flipped sign
  bits in the FM capture. \<open>fm_t\<close> is its struct; an array of \<open>RING\<close> entries is a function of the
  index modulo \<open>RING\<close>. Samples are 16 bit words, frame counters integers (they stay far below
  \<open>2 ^ 63\<close>), the period a double (theory \<open>Dbl\<close>). \<open>fm_step\<close> is the body of the transfer loop: one frame
  in, one frame out.
\<close>

section \<open>Constants and state\<close>

type_synonym s16 = "16 word"

abbreviation (input) RING :: int where "RING \<equiv> 4096"
abbreviation (input) DELAY :: int where "DELAY \<equiv> 192"
abbreviation (input) WIN :: nat where "WIN \<equiv> 15"
abbreviation (input) HALF :: int where "HALF \<equiv> 7"
abbreviation (input) CLUSTER :: int where "CLUSTER \<equiv> 48"
abbreviation (input) MIN_OUTLIERS :: int where "MIN_OUTLIERS \<equiv> 3"
abbreviation (input) STRONG :: int where "STRONG \<equiv> 6"
abbreviation (input) MAX_BURST :: int where "MAX_BURST \<equiv> 120"
abbreviation (input) MARGIN :: int where "MARGIN \<equiv> 6"
abbreviation (input) P_INIT :: rat where "P_INIT \<equiv> 1152"
abbreviation (input) P_MIN :: rat where "P_MIN \<equiv> 1050"
abbreviation (input) P_MAX :: rat where "P_MAX \<equiv> 1260"
abbreviation (input) PHASE_TOL :: int where "PHASE_TOL \<equiv> 150"
abbreviation (input) PRED_HALF :: int where "PRED_HALF \<equiv> 30"
abbreviation (input) MAX_BLANKS :: nat where "MAX_BLANKS \<equiv> 16"
abbreviation (input) T_FLIP :: int where "T_FLIP \<equiv> 6000"
abbreviation (input) T_JUMP :: int where "T_JUMP \<equiv> 20000"

type_synonym frm = "s16 \<times> s16"

record blank =
  bl_a :: int
  bl_b :: int

record fm_t =
  fr_ring :: "int \<Rightarrow> frm"
  fr_n_in :: int
  fr_n_out :: int
  fr_outlier :: "int \<Rightarrow> bool"
  fr_n_cls :: int
  fr_open :: bool
  fr_first :: int
  fr_last :: int
  fr_count :: int
  fr_locked :: bool
  fr_period :: rat
  fr_c_last :: int
  fr_misses :: int
  fr_blanks :: "blank list"

definition frame :: "fm_t \<Rightarrow> int \<Rightarrow> frm" where
  "frame fm n = fr_ring fm (n mod RING)"

section \<open>Outliers\<close>

text \<open>One channel of a window: the samples at \<open>n - HALF\<close> to \<open>n + HALF\<close>.\<close>

definition outlier_channel :: "int list \<Rightarrow> bool" where
  "outlier_channel w =
     (let x = w ! 7; base = sort w ! 7; dev = \<bar>x - base\<bar>;
          cand = sint (word_of_int x XOR 0x8000 :: s16) in
      if dev > T_JUMP then True
      else if dev > T_FLIP \<and> \<bar>cand - base\<bar> * 3 < dev then True
      else \<bar>2 * x - w ! 6 - w ! 8\<bar> > 2 * T_JUMP)"

definition window :: "(frm \<Rightarrow> s16) \<Rightarrow> fm_t \<Rightarrow> int \<Rightarrow> int list" where
  "window ch fm n = map (\<lambda>k. sint (ch (frame fm (n - HALF + int k)))) [0..<WIN]"

definition classify :: "fm_t \<Rightarrow> int \<Rightarrow> bool" where
  "classify fm n \<longleftrightarrow> outlier_channel (window fst fm n) \<or> outlier_channel (window snd fm n)"

section \<open>Bursts and blanks\<close>

definition add_blank :: "int \<Rightarrow> int \<Rightarrow> fm_t \<Rightarrow> fm_t" where
  "add_blank a b fm =
     (let a = (if a < 1 then 1 else a);
          bs = (if length (fr_blanks fm) = MAX_BLANKS then tl (fr_blanks fm) else fr_blanks fm) in
      fm\<lparr>fr_blanks := bs @ [\<lparr>bl_a = a, bl_b = b\<rparr>]\<rparr>)"

text \<open>C's conversion of a double to an integer drops the fraction; its integer division by 2 too.\<close>

definition trunc :: "rat \<Rightarrow> int" where
  "trunc x = (if x < 0 then - \<lfloor>- x\<rfloor> else \<lfloor>x\<rfloor>)"

definition half :: "int \<Rightarrow> int" where
  "half n = (if n < 0 then - ((- n) div 2) else n div 2)"

definition nearest :: "rat \<Rightarrow> int" where
  "nearest x = trunc (rnd (x + 1 / 2))"

text \<open>\<^verbatim>\<open>period += w * (target - period)\<close>, each operation rounded.\<close>

definition pull :: "rat \<Rightarrow> rat \<Rightarrow> rat \<Rightarrow> rat" where
  "pull w target period = rnd (period + rnd (rnd w * rnd (target - period)))"

definition new_period :: "bool \<Rightarrow> rat \<Rightarrow> rat \<Rightarrow> rat" where
  "new_period on_phase d period =
     (if P_MIN < d \<and> d < P_MAX then pull (15 / 100) d period
      else if \<not> on_phase \<and> d > 3 / 2 * P_MIN
        then pull (5 / 100) (rnd (d / of_int (nearest (rnd (d / period))))) period
      else period)"

definition close_burst :: "fm_t \<Rightarrow> fm_t" where
  "close_burst fm =
     (let centre = half (fr_first fm + fr_last fm);
          d = of_int (centre - fr_c_last fm);
          fm = fm\<lparr>fr_open := False\<rparr>;
          on_phase = (let off = centre - (fr_c_last fm + nearest (fr_period fm)) in
                      - PHASE_TOL \<le> off \<and> off \<le> PHASE_TOL);
          accept = (\<not> fr_locked fm \<or> on_phase \<or> fr_count fm \<ge> STRONG);
          fm = (if fr_locked fm then
                  (if accept then fm\<lparr>fr_period := new_period on_phase d (fr_period fm),
                                      fr_c_last := centre, fr_misses := 0\<rparr>
                   else fm)
                else
                  (if fr_c_last fm \<noteq> 0 \<and> P_MIN < d \<and> d < P_MAX
                   then fm\<lparr>fr_locked := True, fr_period := d\<rparr> else fm)
                    \<lparr>fr_c_last := centre, fr_misses := 0\<rparr>) in
      if accept then add_blank (fr_first fm - MARGIN) (fr_last fm + MARGIN) fm else fm)"

definition note_outlier :: "int \<Rightarrow> bool \<Rightarrow> fm_t \<Rightarrow> fm_t" where
  "note_outlier n outlier fm =
     (if \<not> outlier then fm
      else if \<not> fr_open fm
        then fm\<lparr>fr_open := True, fr_first := n, fr_last := n, fr_count := 1\<rparr>
      else fm\<lparr>fr_last := n, fr_count := fr_count fm + 1\<rparr>)"

definition end_burst :: "int \<Rightarrow> fm_t \<Rightarrow> fm_t" where
  "end_burst n fm =
     (if fr_open fm \<and> (n - fr_last fm > CLUSTER \<or> n - fr_first fm > MAX_BURST)
      then (if fr_count fm \<ge> MIN_OUTLIERS then close_burst fm else fm\<lparr>fr_open := False\<rparr>)
      else fm)"

definition predict :: "int \<Rightarrow> fm_t \<Rightarrow> fm_t" where
  "predict n fm =
     (if fr_locked fm \<and> \<not> fr_open fm then
        (let pred = fr_c_last fm + nearest (fr_period fm) in
         if n > pred + PHASE_TOL then
           (let fm = (add_blank (pred - PRED_HALF) (pred + PRED_HALF) fm)
                       \<lparr>fr_c_last := pred, fr_misses := fr_misses fm + 1\<rparr> in
            if fr_misses fm \<ge> 3 then fm\<lparr>fr_locked := False\<rparr> else fm)
         else fm)
      else fm)"

definition track :: "int \<Rightarrow> bool \<Rightarrow> fm_t \<Rightarrow> fm_t" where
  "track n outlier fm = predict n (end_burst n (note_outlier n outlier fm))"

section \<open>Output\<close>

text \<open>The interpolated sample at \<open>m\<close> in a blank from \<open>a\<close> to \<open>b\<close>, between the samples \<open>pa\<close> before it
  and \<open>pb\<close> after it; the conversion to 16 bits keeps the low bits.\<close>

definition interpolate :: "int \<Rightarrow> int \<Rightarrow> int \<Rightarrow> s16 \<Rightarrow> s16 \<Rightarrow> s16" where
  "interpolate a b m pa pb =
     (let t = rnd (of_int (m - (a - 1)) / of_int (b + 2 - a));
          v = rnd (rnd (of_int (sint pa) + rnd (of_int (sint pb - sint pa) * t)) + 1 / 2) in
      word_of_int (trunc v))"

definition emit_frame :: "int \<Rightarrow> fm_t \<Rightarrow> frm \<times> fm_t" where
  "emit_frame m fm =
     (let fm = fm\<lparr>fr_blanks := dropWhile (\<lambda>bl. bl_b bl < m) (fr_blanks fm)\<rparr> in
      case List.find (\<lambda>bl. bl_a bl \<le> m \<and> m \<le> bl_b bl) (fr_blanks fm) of
        Some bl \<Rightarrow>
          (let pa = frame fm (bl_a bl - 1); pb = frame fm (bl_b bl + 1) in
           ((interpolate (bl_a bl) (bl_b bl) m (fst pa) (fst pb),
             interpolate (bl_a bl) (bl_b bl) m (snd pa) (snd pb)), fm))
      | None \<Rightarrow> (frame fm m, fm))"

section \<open>Transfer\<close>

definition store :: "frm \<Rightarrow> fm_t \<Rightarrow> fm_t" where
  "store f fm = fm\<lparr>fr_ring := (fr_ring fm)(fr_n_in fm mod RING := f), fr_n_in := fr_n_in fm + 1\<rparr>"

definition classify_one :: "fm_t \<Rightarrow> fm_t" where
  "classify_one fm =
     (let n = fr_n_cls fm; out = (n > HALF \<and> classify fm n);
          fm = track n out (fm\<lparr>fr_outlier := (fr_outlier fm)(n mod RING := out)\<rparr>) in
      fm\<lparr>fr_n_cls := fr_n_cls fm + 1\<rparr>)"

text \<open>Tracking a frame changes neither counter, so the loop ends.\<close>

definition same_io :: "fm_t \<Rightarrow> fm_t \<Rightarrow> bool" where
  "same_io fm fm' \<longleftrightarrow> fr_n_in fm' = fr_n_in fm \<and> fr_n_cls fm' = fr_n_cls fm \<and>
     fr_n_out fm' = fr_n_out fm \<and> fr_ring fm' = fr_ring fm"

lemma same_io_trans: "same_io x y \<Longrightarrow> same_io y z \<Longrightarrow> same_io x z"
  by (simp add: same_io_def)

lemma same_io_add_blank: "same_io fm (add_blank a b fm)"
  by (simp add: same_io_def add_blank_def Let_def)

lemma same_io_note_outlier: "same_io fm (note_outlier n out fm)"
  by (simp add: same_io_def note_outlier_def)

lemma same_io_close_burst: "same_io fm (close_burst fm)"
  by (simp add: same_io_def close_burst_def add_blank_def Let_def)

lemma same_io_end_burst: "same_io fm (end_burst n fm)"
  using same_io_close_burst [of fm] by (simp add: same_io_def end_burst_def)

lemma same_io_predict: "same_io fm (predict n fm)"
  by (simp add: same_io_def predict_def add_blank_def Let_def)

lemma same_io_track: "same_io fm (track n out fm)"
  unfolding track_def
  by (rule same_io_trans [OF same_io_note_outlier same_io_trans [OF same_io_end_burst same_io_predict]])

lemmas track_counters = same_io_track [unfolded same_io_def]

lemma classify_one_counters [simp]:
  "fr_n_in (classify_one fm) = fr_n_in fm" "fr_n_cls (classify_one fm) = fr_n_cls fm + 1"
  "fr_n_out (classify_one fm) = fr_n_out fm" "fr_ring (classify_one fm) = fr_ring fm"
  by (simp_all add: classify_one_def track_counters Let_def)

function classify_ready :: "fm_t \<Rightarrow> fm_t" where
  "classify_ready fm =
     (if fr_n_cls fm + HALF + 1 < fr_n_in fm then classify_ready (classify_one fm) else fm)"
  by pat_completeness auto
termination by (relation "measure (\<lambda>fm. nat (fr_n_in fm - fr_n_cls fm))") auto

declare classify_ready.simps [simp del]

definition fm_step :: "frm \<Rightarrow> fm_t \<Rightarrow> frm \<times> fm_t" where
  "fm_step f fm =
     (let fm = classify_ready (store f fm) in
      if fr_n_in fm > DELAY
      then (let (out, fm) = emit_frame (fr_n_out fm) fm in
            (out, fm\<lparr>fr_n_out := fr_n_out fm + 1\<rparr>))
      else ((0, 0), fm))"

fun fm_transfer :: "frm list \<Rightarrow> fm_t \<Rightarrow> frm list \<times> fm_t" where
  "fm_transfer [] fm = ([], fm)"
| "fm_transfer (f # fs) fm =
     (let (out, fm) = fm_step f fm; (outs, fm) = fm_transfer fs fm in (out # outs, fm))"

definition fm_init :: fm_t where
  "fm_init = \<lparr>fr_ring = (\<lambda>_. (0, 0)), fr_n_in = 0, fr_n_out = 0, fr_outlier = (\<lambda>_. False),
     fr_n_cls = 0, fr_open = False, fr_first = 0, fr_last = 0, fr_count = 0, fr_locked = False,
     fr_period = P_INIT, fr_c_last = 0, fr_misses = 0, fr_blanks = []\<rparr>"

section \<open>What the plugin remembers of its input\<close>

text \<open>\<open>holds_input x fm\<close>: the ring holds the last \<open>RING\<close> frames of the stream \<open>x\<close>, which is silent
  before time 0.\<close>

definition holds_input :: "(int \<Rightarrow> frm) \<Rightarrow> fm_t \<Rightarrow> bool" where
  "holds_input x fm \<longleftrightarrow>
     (\<forall>k. fr_n_in fm - RING \<le> k \<and> k < fr_n_in fm \<longrightarrow> fr_ring fm (k mod RING) = x k)"

lemma holds_input_frame:
  "holds_input x fm \<Longrightarrow> fr_n_in fm - RING \<le> k \<Longrightarrow> k < fr_n_in fm \<Longrightarrow> frame fm k = x k"
  by (simp add: holds_input_def frame_def)

lemma mod_window:
  fixes j k n :: int
  assumes "n - 4096 < k" "k \<le> n" "n - 4096 < j" "j \<le> n"
  shows "k mod 4096 = j mod 4096 \<longleftrightarrow> k = j"
proof
  assume "k mod 4096 = j mod 4096"
  then have "4096 dvd k - j" by (simp add: mod_eq_dvd_iff)
  then obtain c where c: "k - j = 4096 * c" by (auto elim: dvdE)
  then have "4096 * c < 4096" "- 4096 < 4096 * c" using assms by linarith+
  then have "c = 0" by linarith
  with c show "k = j" by simp
qed simp

lemma holds_input_store:
  assumes "holds_input x fm" "f = x (fr_n_in fm)"
  shows "holds_input x (store f fm)"
  unfolding holds_input_def
proof (intro allI impI)
  fix k
  assume k: "fr_n_in (store f fm) - RING \<le> k \<and> k < fr_n_in (store f fm)"
  then have "k mod RING = fr_n_in fm mod RING \<longleftrightarrow> k = fr_n_in fm"
    by (intro mod_window) (auto simp: store_def)
  with assms k show "fr_ring (store f fm) (k mod RING) = x k"
    by (auto simp: store_def holds_input_def)
qed

section \<open>Bursts and blanks stay small and recent\<close>

text \<open>\<open>blanks_ok n bs\<close>: at most 16 blanks, each of at most 134 frames, all of them and the frame
  after them already received when \<open>n\<close> frames are.\<close>

definition blank_ok :: "int \<Rightarrow> blank \<Rightarrow> bool" where
  "blank_ok n bl \<longleftrightarrow> 1 \<le> bl_a bl \<and> bl_b bl - bl_a bl \<le> 133 \<and> bl_b bl + 1 < n"

definition blanks_ok :: "int \<Rightarrow> blank list \<Rightarrow> bool" where
  "blanks_ok n bs \<longleftrightarrow> length bs \<le> 16 \<and> list_all (blank_ok n) bs"

text \<open>\<open>burst_ok n fm\<close>: a burst under construction before frame \<open>n\<close> has started and is not too old.\<close>

definition burst_ok :: "int \<Rightarrow> fm_t \<Rightarrow> bool" where
  "burst_ok n fm \<longleftrightarrow>
     (fr_open fm \<longrightarrow> fr_first fm \<le> fr_last fm \<and> fr_last fm < n \<and> n - 1 - fr_first fm \<le> 120)"

lemma blanks_ok_mono: "blanks_ok n bs \<Longrightarrow> n \<le> n' \<Longrightarrow> blanks_ok n' bs"
  by (auto simp: blanks_ok_def blank_ok_def list_all_iff)

lemma blanks_ok_add:
  assumes "blanks_ok n (fr_blanks fm)" "b - a \<le> 133" "b + 1 < n"
  shows "blanks_ok n (fr_blanks (add_blank a b fm))"
  using assms
  by (cases "fr_blanks fm") (auto simp: blanks_ok_def blank_ok_def add_blank_def Let_def)

lemma add_blank_fields [simp]:
  "fr_open (add_blank a b fm) = fr_open fm" "fr_first (add_blank a b fm) = fr_first fm"
  "fr_last (add_blank a b fm) = fr_last fm" "fr_locked (add_blank a b fm) = fr_locked fm"
  by (simp_all add: add_blank_def Let_def)

lemma close_burst_open: "\<not> fr_open (close_burst fm)"
  by (simp add: close_burst_def Let_def)

lemma close_burst_blanks:
  "fr_blanks (close_burst fm) = fr_blanks fm \<or>
   fr_blanks (close_burst fm) =
     fr_blanks (add_blank (fr_first fm - MARGIN) (fr_last fm + MARGIN) fm)"
  by (simp add: close_burst_def add_blank_def Let_def)

lemma note_outlier_burst:
  assumes "burst_ok n fm"
  shows "fr_open (note_outlier n out fm) \<Longrightarrow> fr_first (note_outlier n out fm) \<le> fr_last (note_outlier n out fm) \<and>
    fr_last (note_outlier n out fm) \<le> n \<and> n - fr_first (note_outlier n out fm) \<le> 121"
  using assms by (auto simp: burst_ok_def note_outlier_def split: if_splits)

lemma end_burst_ok:
  assumes "fr_open fm \<Longrightarrow> fr_first fm \<le> fr_last fm \<and> fr_last fm \<le> n \<and> n - fr_first fm \<le> 121"
    and "blanks_ok (n + 9) (fr_blanks fm)"
  shows "burst_ok (n + 1) (end_burst n fm) \<and> blanks_ok (n + 9) (fr_blanks (end_burst n fm))"
proof (cases "fr_open fm \<and> (n - fr_last fm > CLUSTER \<or> n - fr_first fm > MAX_BURST) \<and>
    fr_count fm \<ge> MIN_OUTLIERS")
  case True
  then have "blanks_ok (n + 9) (fr_blanks (add_blank (fr_first fm - 6) (fr_last fm + 6) fm))"
    using assms by (intro blanks_ok_add) auto
  with True assms(2) close_burst_blanks [of fm] close_burst_open [of fm] show ?thesis
    by (auto simp: end_burst_def burst_ok_def)
next
  case False
  with assms show ?thesis by (auto simp: end_burst_def burst_ok_def)
qed

lemma predict_ok:
  assumes "burst_ok (n + 1) fm" "blanks_ok (n + 9) (fr_blanks fm)"
  shows "burst_ok (n + 1) (predict n fm) \<and> blanks_ok (n + 9) (fr_blanks (predict n fm))"
proof (cases "fr_locked fm \<and> \<not> fr_open fm \<and> n > fr_c_last fm + nearest (fr_period fm) + PHASE_TOL")
  case True
  let ?p = "fr_c_last fm + nearest (fr_period fm)"
  have "blanks_ok (n + 9) (fr_blanks (add_blank (?p - 30) (?p + 30) fm))"
    using True assms(2) by (intro blanks_ok_add) auto
  with True assms(1) show ?thesis by (auto simp: predict_def burst_ok_def Let_def)
next
  case False
  with assms show ?thesis by (auto simp: predict_def Let_def)
qed

lemma track_ok:
  assumes "burst_ok n fm" "blanks_ok (n + 9) (fr_blanks fm)"
  shows "burst_ok (n + 1) (track n out fm) \<and> blanks_ok (n + 9) (fr_blanks (track n out fm))"
proof -
  have "fr_blanks (note_outlier n out fm) = fr_blanks fm" by (simp add: note_outlier_def)
  with assms show ?thesis
    unfolding track_def by (intro predict_ok; intro conjunct1 [OF end_burst_ok]
      conjunct2 [OF end_burst_ok] note_outlier_burst) simp_all
qed

section \<open>One frame\<close>

definition repair_inv :: "(int \<Rightarrow> frm) \<Rightarrow> fm_t \<Rightarrow> bool" where
  "repair_inv x fm \<longleftrightarrow> 0 \<le> fr_n_in fm \<and> fr_n_cls fm = max 0 (fr_n_in fm - 8) \<and>
     fr_n_out fm = max 0 (fr_n_in fm - 192) \<and> holds_input x fm \<and>
     blanks_ok (fr_n_in fm) (fr_blanks fm) \<and> burst_ok (fr_n_cls fm) fm"

lemma classify_ready_once:
  assumes "fr_n_in fm \<le> fr_n_cls fm + 9"
  shows "classify_ready fm = (if fr_n_cls fm + 9 = fr_n_in fm then classify_one fm else fm)"
proof -
  have "classify_ready (classify_one fm) = classify_one fm"
    using assms by (subst classify_ready.simps) simp
  then show ?thesis
    using assms by (subst classify_ready.simps) auto
qed

lemma classify_one_ok:
  assumes "burst_ok (fr_n_cls fm) fm" "blanks_ok (fr_n_cls fm + 9) (fr_blanks fm)"
  shows "burst_ok (fr_n_cls fm + 1) (classify_one fm) \<and>
    blanks_ok (fr_n_cls fm + 9) (fr_blanks (classify_one fm))"
proof -
  let ?n = "fr_n_cls fm" and ?out = "fr_n_cls fm > 7 \<and> classify fm (fr_n_cls fm)"
  let ?fm = "fm\<lparr>fr_outlier := (fr_outlier fm)(?n mod 4096 := ?out)\<rparr>"
  have "burst_ok ?n ?fm" "blanks_ok (?n + 9) (fr_blanks ?fm)"
    using assms by (simp_all add: burst_ok_def)
  from track_ok [OF this, of ?out] show ?thesis
    by (simp add: classify_one_def Let_def burst_ok_def)
qed

definition ready :: "frm \<Rightarrow> fm_t \<Rightarrow> fm_t" where
  "ready f fm = classify_ready (store f fm)"

lemma store_fields [simp]:
  "fr_n_in (store f fm) = fr_n_in fm + 1" "fr_n_cls (store f fm) = fr_n_cls fm"
  "fr_n_out (store f fm) = fr_n_out fm" "fr_blanks (store f fm) = fr_blanks fm"
  "burst_ok n (store f fm) = burst_ok n fm"
  by (simp_all add: store_def burst_ok_def)

text \<open>After a frame has been stored and the frame eight before it classified.\<close>

lemma ready_inv:
  assumes inv: "repair_inv x fm" and f: "f = x (fr_n_in fm)"
  shows "fr_n_in (ready f fm) = fr_n_in fm + 1" "fr_n_out (ready f fm) = fr_n_out fm"
    "holds_input x (ready f fm)" "fr_n_cls (ready f fm) = max 0 (fr_n_in fm - 7)"
    "blanks_ok (fr_n_in fm + 1) (fr_blanks (ready f fm))"
    "burst_ok (fr_n_cls (ready f fm)) (ready f fm)"
proof -
  from inv have n: "0 \<le> fr_n_in fm" "fr_n_cls fm = max 0 (fr_n_in fm - 8)"
    and b: "blanks_ok (fr_n_in fm) (fr_blanks fm)" "burst_ok (fr_n_cls fm) fm"
    by (auto simp: repair_inv_def)
  have h: "holds_input x (store f fm)"
    using inv f by (intro holds_input_store) (auto simp: repair_inv_def)
  have r: "ready f fm = (if fr_n_cls fm + 9 = fr_n_in fm + 1 then classify_one (store f fm) else store f fm)"
    unfolding ready_def using n by (subst classify_ready_once) auto
  have "burst_ok (fr_n_cls fm) (store f fm)" "blanks_ok (fr_n_in fm + 1) (fr_blanks (store f fm))"
    using b by (auto intro: blanks_ok_mono)
  have one: "burst_ok (fr_n_cls fm + 1) (classify_one (store f fm)) \<and>
      blanks_ok (fr_n_in fm + 1) (fr_blanks (classify_one (store f fm)))"
    if e: "fr_n_cls fm + 8 = fr_n_in fm"
  proof -
    from e have nine: "fr_n_cls (store f fm) + 9 = fr_n_in fm + 1" by simp
    from classify_one_ok [of "store f fm", unfolded nine] \<open>burst_ok (fr_n_cls fm) (store f fm)\<close>
      \<open>blanks_ok (fr_n_in fm + 1) (fr_blanks (store f fm))\<close>
    show ?thesis by simp
  qed
  show "fr_n_in (ready f fm) = fr_n_in fm + 1" "fr_n_out (ready f fm) = fr_n_out fm"
    "fr_n_cls (ready f fm) = max 0 (fr_n_in fm - 7)"
    using n by (auto simp: r)
  show "holds_input x (ready f fm)"
    using h by (auto simp: r holds_input_def)
  show "blanks_ok (fr_n_in fm + 1) (fr_blanks (ready f fm))"
    "burst_ok (fr_n_cls (ready f fm)) (ready f fm)"
    using one n b by (auto simp: r intro: blanks_ok_mono)
qed

text \<open>
  \<open>repaired x m out\<close>: \<open>out\<close> is frame \<open>m\<close> of the stream, or both its samples are interpolated
  between the frames around an interval of at most 134 frames that holds \<open>m\<close>, the last of which
  was received before frame \<open>m + 192\<close>.
\<close>

definition repaired :: "(int \<Rightarrow> frm) \<Rightarrow> int \<Rightarrow> frm \<Rightarrow> bool" where
  "repaired x m out \<longleftrightarrow> out = x m \<or>
     (\<exists>a b. 1 \<le> a \<and> a \<le> m \<and> m \<le> b \<and> b - a \<le> 133 \<and> b + 1 \<le> m + 192 \<and>
        out = (interpolate a b m (fst (x (a - 1))) (fst (x (b + 1))),
               interpolate a b m (snd (x (a - 1))) (snd (x (b + 1)))))"

lemma emit_repaired:
  assumes h: "holds_input x fm" and m: "m = fr_n_in fm - 193" "0 \<le> m"
    and b: "blanks_ok (fr_n_in fm) (fr_blanks fm)"
    and e: "emit_frame m fm = (out, fm')"
  shows "repaired x m out \<and> fr_blanks fm' = dropWhile (\<lambda>bl. bl_b bl < m) (fr_blanks fm) \<and>
    fm' = fm\<lparr>fr_blanks := fr_blanks fm'\<rparr>"
proof (cases "List.find (\<lambda>bl. bl_a bl \<le> m \<and> m \<le> bl_b bl)
    (dropWhile (\<lambda>bl. bl_b bl < m) (fr_blanks fm))")
  case None
  have "frame fm m = x m" using m by (intro holds_input_frame [OF h]) auto
  with None e show ?thesis
    by (auto simp: emit_frame_def repaired_def frame_def)
next
  case (Some bl)
  then have in_bl: "bl_a bl \<le> m" "m \<le> bl_b bl" and "bl \<in> set (fr_blanks fm)"
    by (auto simp: find_Some_iff dest: set_dropWhileD)
      (metis nth_mem set_dropWhileD)
  with b have bl: "1 \<le> bl_a bl" "bl_b bl - bl_a bl \<le> 133" "bl_b bl + 1 < fr_n_in fm"
    by (auto simp: blanks_ok_def blank_ok_def list_all_iff)
  have pa: "frame fm (bl_a bl - 1) = x (bl_a bl - 1)" "frame fm (bl_b bl + 1) = x (bl_b bl + 1)"
    using bl in_bl m by (auto intro!: holds_input_frame [OF h])
  have out: "out = (interpolate (bl_a bl) (bl_b bl) m (fst (x (bl_a bl - 1))) (fst (x (bl_b bl + 1))),
      interpolate (bl_a bl) (bl_b bl) m (snd (x (bl_a bl - 1))) (snd (x (bl_b bl + 1))))"
    and fm': "fm' = fm\<lparr>fr_blanks := dropWhile (\<lambda>bl. bl_b bl < m) (fr_blanks fm)\<rparr>"
    using Some e pa by (auto simp: emit_frame_def Let_def frame_def)
  have "repaired x m out"
    unfolding repaired_def using bl in_bl m(1) out
    by (intro disjI2 exI [of _ "bl_a bl"] exI [of _ "bl_b bl"]) simp
  with fm' show ?thesis by simp
qed

definition delivered :: "(int \<Rightarrow> frm) \<Rightarrow> int \<Rightarrow> frm \<Rightarrow> bool" where
  "delivered x k out \<longleftrightarrow> (if k < 192 then out = (0, 0) else repaired x (k - 192) out)"

lemma step_ok:
  assumes inv: "repair_inv x fm" and f: "f = x (fr_n_in fm)" and s: "fm_step f fm = (out, fm')"
  shows "repair_inv x fm' \<and> fr_n_in fm' = fr_n_in fm + 1 \<and> delivered x (fr_n_in fm) out"
proof (cases "fr_n_in fm < 192")
  case True
  with s ready_inv [OF inv f] inv show ?thesis
    by (auto simp: fm_step_def ready_def Let_def repair_inv_def delivered_def)
next
  case False
  let ?m = "fr_n_in fm - 192"
  have out: "fr_n_out (ready f fm) = ?m"
    using False inv ready_inv(2) [OF inv f] by (simp add: repair_inv_def)
  obtain fm2 where e: "emit_frame ?m (ready f fm) = (out, fm2)"
    and fm': "fm' = fm2\<lparr>fr_n_out := fr_n_out fm2 + 1\<rparr>"
    using s False out ready_inv(1) [OF inv f]
    by (auto simp: fm_step_def ready_def [symmetric] Let_def split: prod.splits)
  have "repaired x ?m out \<and> fr_blanks fm2 = dropWhile (\<lambda>bl. bl_b bl < ?m) (fr_blanks (ready f fm)) \<and>
      fm2 = (ready f fm)\<lparr>fr_blanks := fr_blanks fm2\<rparr>"
    using False ready_inv [OF inv f] by (intro emit_repaired [OF _ _ _ _ e]) auto
  then have rep: "repaired x ?m out"
    and bl: "fr_blanks fm2 = dropWhile (\<lambda>bl. bl_b bl < ?m) (fr_blanks (ready f fm))"
    and fm2: "fm2 = (ready f fm)\<lparr>fr_blanks := fr_blanks fm2\<rparr>" by auto
  have "blanks_ok (fr_n_in fm + 1) (fr_blanks fm2)"
    using ready_inv(5) [OF inv f] unfolding bl blanks_ok_def list_all_iff
    by (auto dest: set_dropWhileD intro: order_trans [OF length_dropWhile_le])
  moreover have "fr_n_in fm2 = fr_n_in fm + 1" "fr_n_cls fm2 = max 0 (fr_n_in fm - 7)"
    "fr_n_out fm2 = ?m" "holds_input x fm2" "burst_ok (fr_n_cls fm2) fm2"
    using ready_inv [OF inv f] out
    by (subst fm2; simp add: holds_input_def burst_ok_def)+
  ultimately show ?thesis
    using False rep by (simp add: fm' repair_inv_def delivered_def holds_input_def burst_ok_def)
qed

text \<open>The stream that a list of frames makes.\<close>

definition stream :: "frm list \<Rightarrow> int \<Rightarrow> frm" where
  "stream xs k = (if 0 \<le> k \<and> k < int (length xs) then xs ! nat k else (0, 0))"

lemma repair_inv_init: "repair_inv (stream xs) fm_init"
  by (auto simp: repair_inv_def fm_init_def holds_input_def blanks_ok_def burst_ok_def stream_def)

lemma transfer_ok:
  assumes "repair_inv x fm" "\<And>k. k < length fs \<Longrightarrow> fs ! k = x (fr_n_in fm + int k)"
    and "fm_transfer fs fm = (outs, fm')"
  shows "repair_inv x fm' \<and> length outs = length fs \<and>
    (\<forall>k < length fs. delivered x (fr_n_in fm + int k) (outs ! k))"
  using assms
proof (induction fs arbitrary: fm outs)
  case (Cons f fs)
  obtain out fm1 where s: "fm_step f fm = (out, fm1)" by fastforce
  obtain outs1 where t: "fm_transfer fs fm1 = (outs1, fm')" and outs: "outs = out # outs1"
    using Cons.prems(3) s by (auto simp: Let_def split: prod.splits)
  have "f = x (fr_n_in fm)" using Cons.prems(2) [of 0] by simp
  note step = step_ok [OF Cons.prems(1) this s]
  have "fs ! k = x (fr_n_in fm1 + int k)" if "k < length fs" for k
    using Cons.prems(2) [of "Suc k"] that step by (simp add: algebra_simps)
  from Cons.IH [OF conjunct1 [OF step] this t] step show ?case
    by (auto simp: outs nth_Cons algebra_simps split: nat.split)
qed simp

lemma delivered_stream:
  assumes "fm_transfer xs fm_init = (outs, fm)"
  shows "repair_inv (stream xs) fm \<and> length outs = length xs \<and>
    (\<forall>k < length xs. delivered (stream xs) (int k) (outs ! k))"
  using transfer_ok [OF repair_inv_init _ assms, of xs]
  by (simp add: fm_init_def stream_def)

text \<open>
  C5: for any input, the plugin delivers as many frames as it is given. The first 192 are
  silence; frame \<open>k\<close> after them is the input frame \<open>k - 192\<close>, or both its samples are interpolated
  between the two input frames around one interval of at most 134 frames that holds it, and
  both of these have been received (and are still in the ring). At no time more than 16 blanks
  are scheduled.
\<close>

theorem fmrepair_delivers:
  assumes "fm_transfer xs fm_init = (outs, fm)"
  shows "length outs = length xs \<and> length (fr_blanks fm) \<le> 16 \<and>
    (\<forall>k < length xs. if k < 192 then outs ! k = (0, 0)
      else outs ! k = xs ! (k - 192) \<or>
        (\<exists>a b. 1 \<le> a \<and> a \<le> k - 192 \<and> k - 192 \<le> b \<and> b \<le> a + 133 \<and> b + 1 \<le> k \<and>
          outs ! k = (interpolate (int a) (int b) (int k - 192) (fst (xs ! (a - 1))) (fst (xs ! (b + 1))),
                      interpolate (int a) (int b) (int k - 192) (snd (xs ! (a - 1))) (snd (xs ! (b + 1))))))"
proof -
  note d = delivered_stream [OF assms]
  have at: "stream xs (int i) = xs ! i" if "i < length xs" for i
    using that by (simp add: stream_def)
  have "if k < 192 then outs ! k = (0, 0) else outs ! k = xs ! (k - 192) \<or>
      (\<exists>a b. 1 \<le> a \<and> a \<le> k - 192 \<and> k - 192 \<le> b \<and> b \<le> a + 133 \<and> b + 1 \<le> k \<and>
        outs ! k = (interpolate (int a) (int b) (int k - 192) (fst (xs ! (a - 1))) (fst (xs ! (b + 1))),
                    interpolate (int a) (int b) (int k - 192) (snd (xs ! (a - 1))) (snd (xs ! (b + 1)))))"
    if k: "k < length xs" for k
  proof (cases "k < 192")
    case True
    with d k show ?thesis by (simp add: delivered_def)
  next
    case False
    then have m: "int k - 192 = int (k - 192)" by simp
    have "repaired (stream xs) (int k - 192) (outs ! k)"
      using d k False by (simp add: delivered_def)
    then consider "outs ! k = xs ! (k - 192)"
      | a b where "1 \<le> a" "a \<le> int k - 192" "int k - 192 \<le> b" "b - a \<le> 133" "b + 1 \<le> int k"
        "outs ! k = (interpolate a b (int k - 192) (fst (stream xs (a - 1))) (fst (stream xs (b + 1))),
           interpolate a b (int k - 192) (snd (stream xs (a - 1))) (snd (stream xs (b + 1))))"
      using at [of "k - 192"] k False unfolding repaired_def m by auto
    then show ?thesis
    proof cases
      case 2
      then have a: "int (nat a) = a" "int (nat b) = b" "nat a - 1 < length xs" "nat b + 1 < length xs"
        "int (nat a - 1) = a - 1" "int (nat b + 1) = b + 1"
        using k False by auto
      have "stream xs (a - 1) = xs ! (nat a - 1)" "stream xs (b + 1) = xs ! (nat b + 1)"
        using at [OF a(3)] at [OF a(4)] unfolding a(5,6) by blast+
      then have out: "outs ! k =
          (interpolate (int (nat a)) (int (nat b)) (int k - 192) (fst (xs ! (nat a - 1))) (fst (xs ! (nat b + 1))),
           interpolate (int (nat a)) (int (nat b)) (int k - 192) (snd (xs ! (nat a - 1))) (snd (xs ! (nat b + 1))))"
        using 2(6) by (simp only: a(1,2))
      have "1 \<le> nat a" "nat a \<le> k - 192" "k - 192 \<le> nat b" "nat b \<le> nat a + 133" "nat b + 1 \<le> k"
        using 2 False by linarith+
      with out False show ?thesis by metis
    qed (use False in simp)
  qed
  moreover have "length outs = length xs" "length (fr_blanks fm) \<le> 16"
    using d by (simp_all add: repair_inv_def blanks_ok_def)
  ultimately show ?thesis by blast
qed

theorem fmrepair_delivers_witness:
  "\<exists>outs fm. fm_transfer (replicate 200 (3, - 3)) fm_init = (outs, fm) \<and> length outs = 200 \<and>
     outs ! 10 = (0, 0) \<and> length (fr_blanks fm) \<le> 16"
proof -
  obtain outs fm where t: "fm_transfer (replicate 200 (3, - 3)) fm_init = (outs, fm)" by fastforce
  from fmrepair_delivers [OF t] have "length outs = 200" "length (fr_blanks fm) \<le> 16"
    "outs ! 10 = (0, 0)" by (auto dest!: spec [of _ "10 :: nat"])
  with t show ?thesis by blast
qed

section \<open>A clean signal\<close>

text \<open>\<open>clean x\<close>: no window of the stream has an outlier in its middle.\<close>

definition clean :: "(int \<Rightarrow> frm) \<Rightarrow> bool" where
  "clean x \<longleftrightarrow> (\<forall>n > 7. \<forall>ch \<in> {fst, snd}.
     \<not> outlier_channel (map (\<lambda>k. sint (ch (x (n - 7 + int k)))) [0..<15]))"

definition idle :: "fm_t \<Rightarrow> bool" where
  "idle fm \<longleftrightarrow> \<not> fr_open fm \<and> \<not> fr_locked fm \<and> fr_blanks fm = []"

lemma clean_window:
  assumes "clean x" "holds_input x fm" "7 < n" "n + 7 < fr_n_in fm" "fr_n_in fm - 4096 \<le> n - 7"
  shows "\<not> classify fm n"
proof -
  have "window ch fm n = map (\<lambda>k. sint (ch (x (n - 7 + int k)))) [0..<15]" for ch
    unfolding window_def using assms(4,5)
    by (intro map_cong refl) (simp add: holds_input_frame [OF assms(2)])
  with assms(1,3) show ?thesis by (simp add: classify_def clean_def del: upt_rec)
qed

lemma idle_track: "idle fm \<Longrightarrow> idle (track n False fm)"
  by (simp add: idle_def track_def note_outlier_def end_burst_def predict_def)

lemma idle_step:
  assumes inv: "repair_inv x fm" and f: "f = x (fr_n_in fm)" and s: "fm_step f fm = (out, fm')"
    and c: "clean x" and i: "idle fm"
  shows "idle fm' \<and> out = (if fr_n_in fm < 192 then (0, 0) else x (fr_n_in fm - 192))"
proof -
  have st: "idle (store f fm)" "holds_input x (store f fm)"
    using i inv f holds_input_store [of x fm f] by (simp_all add: idle_def repair_inv_def store_def)
  have "idle (ready f fm)"
  proof (cases "fr_n_cls fm + 8 = fr_n_in fm \<and> 7 < fr_n_cls fm")
    case True
    then have "\<not> classify (store f fm) (fr_n_cls fm)"
      by (intro clean_window [OF c st(2)]) auto
    moreover have "classify_ready (store f fm) = classify_one (store f fm)"
      using True by (subst classify_ready_once) auto
    ultimately show ?thesis
      using st(1) idle_track [of "(store f fm)\<lparr>fr_outlier := (fr_outlier (store f fm))
          (fr_n_cls fm mod 4096 := False)\<rparr>" "fr_n_cls fm"]
      by (simp add: ready_def classify_one_def idle_def Let_def)
  next
    case False
    have "fr_n_in (store f fm) \<le> fr_n_cls (store f fm) + 9"
      using inv by (simp add: repair_inv_def)
    then show ?thesis
      using False st(1) idle_track [of "(store f fm)\<lparr>fr_outlier := (fr_outlier (store f fm))
          (fr_n_cls fm mod 4096 := False)\<rparr>" "fr_n_cls fm"]
      by (simp add: ready_def classify_ready_once classify_one_def idle_def Let_def)
  qed
  moreover have "frame (ready f fm) (fr_n_in fm - 192) = x (fr_n_in fm - 192)"
    if "\<not> fr_n_in fm < 192"
    using that ready_inv(1,3) [OF inv f] by (intro holds_input_frame) auto
  ultimately show ?thesis
    using s ready_inv(1,2) [OF inv f] inv
    by (auto simp: fm_step_def ready_def [symmetric] Let_def emit_frame_def idle_def repair_inv_def
        frame_def split: if_splits)
qed

lemma idle_transfer:
  assumes "repair_inv x fm" "\<And>k. k < length fs \<Longrightarrow> fs ! k = x (fr_n_in fm + int k)"
    and "fm_transfer fs fm = (outs, fm')" and "clean x" "idle fm"
  shows "length outs = length fs \<and> (\<forall>k < length fs. outs ! k =
    (if fr_n_in fm + int k < 192 then (0, 0) else x (fr_n_in fm + int k - 192)))"
  using assms
proof (induction fs arbitrary: fm outs)
  case (Cons f fs)
  obtain out fm1 where s: "fm_step f fm = (out, fm1)" by fastforce
  obtain outs1 where t: "fm_transfer fs fm1 = (outs1, fm')" and outs: "outs = out # outs1"
    using Cons.prems(3) s by (auto simp: Let_def split: prod.splits)
  have f: "f = x (fr_n_in fm)" using Cons.prems(2) [of 0] by simp
  note step = step_ok [OF Cons.prems(1) f s] idle_step [OF Cons.prems(1) f s Cons.prems(4,5)]
  have "fs ! k = x (fr_n_in fm1 + int k)" if "k < length fs" for k
    using Cons.prems(2) [of "Suc k"] that step by (simp add: algebra_simps)
  from Cons.IH [OF _ this t Cons.prems(4)] step show ?case
    by (auto simp: outs nth_Cons algebra_simps split: nat.split)
qed simp

text \<open>
  C20: a signal without outliers is not touched. The plugin is then a delay line of 192 frames,
  for as long as the stream runs.
\<close>

theorem fmrepair_clean_delays:
  assumes "clean (stream xs)"
  shows "fst (fm_transfer xs fm_init) = take (length xs) (replicate 192 (0, 0) @ xs)"
proof -
  obtain outs fm where t: "fm_transfer xs fm_init = (outs, fm)" by fastforce
  have "length outs = length xs \<and> (\<forall>k < length xs. outs ! k =
      (if int k < 192 then (0, 0) else stream xs (int k - 192)))"
    using idle_transfer [OF repair_inv_init _ t assms]
    by (simp add: fm_init_def stream_def idle_def)
  then have "outs = take (length xs) (replicate 192 (0, 0) @ xs)"
    by (auto intro!: nth_equalityI simp: nth_append stream_def nat_diff_distrib)
  with t show ?thesis by simp
qed

lemma quiet_window:
  assumes "length w = 15" "\<forall>v \<in> set w. \<bar>v\<bar> \<le> 1000"
  shows "\<not> outlier_channel w"
proof -
  have "7 < length (sort w)" using assms(1) by simp
  then have "sort w ! 7 \<in> set (sort w)" by (rule nth_mem)
  then have "sort w ! 7 \<in> set w" by simp
  moreover have "w ! 6 \<in> set w" "w ! 7 \<in> set w" "w ! 8 \<in> set w" using assms(1) by simp_all
  ultimately have "\<bar>sort w ! 7\<bar> \<le> 1000" "\<bar>w ! 6\<bar> \<le> 1000" "\<bar>w ! 7\<bar> \<le> 1000" "\<bar>w ! 8\<bar> \<le> 1000"
    using assms(2) by blast+
  then have "\<not> 6000 < \<bar>w ! 7 - sort w ! 7\<bar>" "\<not> 20000 < \<bar>w ! 7 - sort w ! 7\<bar>"
    "\<not> 40000 < \<bar>2 * w ! 7 - w ! 6 - w ! 8\<bar>" by linarith+
  then show ?thesis by (simp add: outlier_channel_def Let_def)
qed

theorem fmrepair_clean_delays_witness:
  "fst (fm_transfer (replicate 200 (3, 5)) fm_init) =
     take 200 (replicate 192 (0, 0) @ replicate 200 (3, 5))"
proof -
  have "clean (stream (replicate 200 (3, 5)))"
    unfolding clean_def
  proof (intro allI impI ballI quiet_window)
    fix n :: int and ch :: "frm \<Rightarrow> s16" and v :: int
    assume ch: "ch \<in> {fst, snd}"
      and "v \<in> set (map (\<lambda>k. sint (ch (stream (replicate 200 (3, 5)) (n - 7 + int k)))) [0..<15])"
    then obtain k where v: "v = sint (ch (stream (replicate 200 (3, 5)) k))" by auto
    have "stream (replicate 200 (3, 5)) k \<in> {(0, 0), (3, 5)}"
      by (auto simp: stream_def nat_less_iff)
    with ch v show "\<bar>v\<bar> \<le> 1000" by auto
  qed simp
  from fmrepair_clean_delays [OF this] show ?thesis by simp
qed

section \<open>Interpolated samples\<close>

lemma sint_s16: "- 32768 \<le> sint (w :: s16)" "sint (w :: s16) \<le> 32767"
  using sint_greater_eq [of w] sint_less [of w] by simp_all

lemma sint_word16: "- 32768 \<le> k \<Longrightarrow> k \<le> 32767 \<Longrightarrow> sint (word_of_int k :: s16) = k"
  by (simp add: signed_of_int signed_take_bit_int_eq_self)

text \<open>The weight of the later sample lies between 0 and 1.\<close>

lemma weight_bounds:
  assumes "a \<le> m" "m \<le> b"
  shows "0 \<le> rnd (of_int (m - (a - 1)) / of_int (b + 2 - a))"
    "rnd (of_int (m - (a - 1)) / of_int (b + 2 - a)) \<le> 1"
proof -
  have "(0 :: rat) \<le> of_int (m - (a - 1)) / of_int (b + 2 - a)"
    "of_int (m - (a - 1)) / of_int (b + 2 - a) \<le> (1 :: rat)"
    using assms by (simp_all add: divide_le_eq_1)
  with dbl.round_between [of 0 1] show "0 \<le> rnd (of_int (m - (a - 1)) / of_int (b + 2 - a))"
    "rnd (of_int (m - (a - 1)) / of_int (b + 2 - a)) \<le> 1"
    by simp_all
qed

lemma trunc_int [simp]: "trunc (of_int k) = k"
  by (simp add: trunc_def)

lemma trunc_mono: "x \<le> y \<Longrightarrow> trunc x \<le> trunc y"
  unfolding trunc_def using floor_mono [of x y] floor_mono [of "- y" "- x"]
  by (auto simp: zero_le_floor) (meson le_minus_iff neg_0_le_iff_le order_trans zero_le_floor not_less less_imp_le)

lemma blend_bounds:
  fixes p q :: int and t :: rat
  assumes "0 \<le> t" "t \<le> 1" "\<bar>p\<bar> \<le> 32768" "\<bar>q\<bar> \<le> 32768"
  shows "of_int (min p q) \<le> rnd (of_int p + rnd (of_int (q - p) * t))"
    "rnd (of_int p + rnd (of_int (q - p) * t)) \<le> of_int (max p q)"
proof -
  let ?d = "of_int (q - p) * t"
  have "of_int (min 0 (q - p)) \<le> ?d \<and> ?d \<le> of_int (max 0 (q - p))"
  proof (cases "p \<le> q")
    case True
    with assms show ?thesis by (simp add: mult_left_le)
  next
    case False
    with assms show ?thesis
      by (simp add: mult_nonpos_nonneg)
  qed
  with dbl.round_between [of "min 0 (q - p)" "max 0 (q - p)" ?d] assms
  have "of_int (min 0 (q - p)) \<le> rnd ?d \<and> rnd ?d \<le> of_int (max 0 (q - p))" by simp
  then have "of_int (min p q) \<le> of_int p + rnd ?d \<and> of_int p + rnd ?d \<le> of_int (max p q)"
    by (auto simp: min_def max_def split: if_splits)
  with dbl.round_between [of "min p q" "max p q" "of_int p + rnd ?d"] assms
  show "of_int (min p q) \<le> rnd (of_int p + rnd (of_int (q - p) * t))"
    "rnd (of_int p + rnd (of_int (q - p) * t)) \<le> of_int (max p q)"
    by (simp_all add: min_def max_def split: if_splits)
qed

text \<open>Adding a half and dropping the fraction rounds a value that is not negative; a negative
  integer it moves up by one.\<close>

definition half_up :: "int \<Rightarrow> int" where
  "half_up k = (if k < 0 then k + 1 else k)"

lemma trunc_half: "trunc (of_int k + 1 / 2) = half_up k"
proof (cases "k < 0")
  case True
  have "\<lfloor>- (of_int k + 1 / 2 :: rat)\<rfloor> = - k - 1" by (simp add: floor_eq_iff)
  moreover have "(of_int k + 1 / 2 :: rat) < 0"
  proof -
    have "k \<le> - 1" using True by simp
    then have "(of_int k :: rat) \<le> - 1" by linarith
    then show ?thesis by linarith
  qed
  ultimately show ?thesis using True by (simp add: trunc_def half_up_def)
next
  case False
  then have "(0 :: rat) \<le> of_int k" by simp
  then have "\<not> (of_int k + 1 / 2 :: rat) < 0" by linarith
  moreover have "\<lfloor>of_int k + 1 / 2 :: rat\<rfloor> = k" by (simp add: floor_eq_iff)
  ultimately show ?thesis using False by (simp add: trunc_def half_up_def)
qed

lemma round_plus_half:
  assumes "\<bar>k\<bar> \<le> 32768"
  shows "of_int k \<le> v \<Longrightarrow> of_int k + 1 / 2 \<le> rnd (v + 1 / 2)"
    "v \<le> of_int k \<Longrightarrow> rnd (v + 1 / 2) \<le> of_int k + 1 / 2"
proof -
  have e: "of_int (2 * k + 1) / 2 = (of_int k + 1 / 2 :: rat)" by (simp add: field_simps)
  have b: "\<bar>2 * k + 1\<bar> < 2 ^ 52" using assms by simp
  show "of_int k \<le> v \<Longrightarrow> of_int k + 1 / 2 \<le> rnd (v + 1 / 2)"
    "v \<le> of_int k \<Longrightarrow> rnd (v + 1 / 2) \<le> of_int k + 1 / 2"
    using dbl.round_ge [OF b, of "v + 1 / 2"] dbl.round_le [OF b, of "v + 1 / 2"]
    unfolding e by simp_all
qed

text \<open>
  C34: an interpolated sample lies between the two samples it is made from, except that the
  conversion, which adds a half and truncates towards zero, moves negative values up by one: a
  constant negative signal comes out one higher inside of a blank. With every operation rounded
  to a double, no interpolated sample leaves the 16 bits.
\<close>

theorem fmrepair_interpolates_between:
  assumes "a \<le> m" "m \<le> b"
  shows "half_up (min (sint pa) (sint pb)) \<le> sint (interpolate a b m pa pb) \<and>
    sint (interpolate a b m pa pb) \<le> half_up (max (sint pa) (sint pb))"
proof -
  let ?p = "sint pa" and ?q = "sint pb"
  define t where "t = rnd (of_int (m - (a - 1)) / of_int (b + 2 - a))"
  define v where "v = rnd (of_int ?p + rnd (of_int (?q - ?p) * t))"
  have range: "\<bar>?p\<bar> \<le> 32768" "\<bar>?q\<bar> \<le> 32768"
    using sint_s16 [of pa] sint_s16 [of pb] by auto
  have "of_int (min ?p ?q) \<le> v" "v \<le> of_int (max ?p ?q)"
    using blend_bounds [OF weight_bounds [OF assms] range] unfolding v_def t_def by blast+
  moreover have "\<bar>min ?p ?q\<bar> \<le> 32768" "\<bar>max ?p ?q\<bar> \<le> 32768" using range by auto
  ultimately have "of_int (min ?p ?q) + 1 / 2 \<le> rnd (v + 1 / 2)"
    "rnd (v + 1 / 2) \<le> of_int (max ?p ?q) + 1 / 2"
    using round_plus_half by blast+
  then have b: "half_up (min ?p ?q) \<le> trunc (rnd (v + 1 / 2))"
    "trunc (rnd (v + 1 / 2)) \<le> half_up (max ?p ?q)"
    using trunc_mono trunc_half by metis+
  then have "- 32768 \<le> trunc (rnd (v + 1 / 2))" "trunc (rnd (v + 1 / 2)) \<le> 32767"
    using sint_s16 [of pa] sint_s16 [of pb] by (auto simp: half_up_def split: if_splits)
  then have "sint (interpolate a b m pa pb) = trunc (rnd (v + 1 / 2))"
    unfolding interpolate_def Let_def t_def [symmetric] v_def [symmetric] by (rule sint_word16)
  with b show ?thesis by simp
qed

theorem fmrepair_interpolates_between_witness:
  "sint (interpolate 10 20 15 (- 3) (- 3)) = - 2"
  using fmrepair_interpolates_between [of 10 15 20 "- 3" "- 3"] by (simp add: half_up_def)

end
