(* ===== verification/Wcnss_Fm.thy ===== *)
theory Wcnss_Fm
  imports Prelude
begin

text \<open>
  \<^verbatim>\<open>drivers/fm/radio-wcnss-fm.c\<close>: the V4L2 radio driver of the FM receiver in the WCNSS coprocessor.
  The driver sends command packets over one channel and sleeps until an event packet completes
  the command. The channel's receive callback \<open>wcnss_fm_rx\<close> runs in another context: the model
  lets packets arrive (\<open>arrivals\<close>) between any two accesses of \<open>wcnss_fm_cmd\<close> to the shared state,
  as the environment chooses. A completion is the number of \<open>complete\<close> calls not yet consumed.
  A read of a packet outside of its bytes is the result \<open>None\<close>; \<open>fm_rx_total\<close> shows there is none.
\<close>

section \<open>Protocol constants\<close>

definition FM_PKT_COMMAND :: u8 where "FM_PKT_COMMAND = 0x11"
definition FM_PKT_EVENT :: u8 where "FM_PKT_EVENT = 0x14"
definition FM_OGF_RECV_CTRL :: u16 where "FM_OGF_RECV_CTRL = 0x13"
definition FM_OGF_COMMON_CTRL :: u16 where "FM_OGF_COMMON_CTRL = 0x15"

definition fm_opcode :: "u16 \<Rightarrow> u16 \<Rightarrow> u16" where
  "fm_opcode ogf ocf = (ocf AND 0x03ff) OR push_bit 10 ogf"

definition FM_OCF_ENABLE_RECV :: u16 where "FM_OCF_ENABLE_RECV = 0x0001"
definition FM_OCF_DISABLE_RECV :: u16 where "FM_OCF_DISABLE_RECV = 0x0002"
definition FM_OCF_SET_MUTE_MODE :: u16 where "FM_OCF_SET_MUTE_MODE = 0x0005"
definition FM_OCF_SET_STEREO_MODE :: u16 where "FM_OCF_SET_STEREO_MODE = 0x0006"
definition FM_OCF_SET_ANTENNA :: u16 where "FM_OCF_SET_ANTENNA = 0x0007"
definition FM_OCF_GET_STATION_PARAM :: u16 where "FM_OCF_GET_STATION_PARAM = 0x000a"
definition FM_OCF_SEARCH_STATIONS :: u16 where "FM_OCF_SEARCH_STATIONS = 0x000e"
definition FM_OCF_CANCEL_SEARCH :: u16 where "FM_OCF_CANCEL_SEARCH = 0x0011"
definition FM_OCF_TUNE_STATION :: u16 where "FM_OCF_TUNE_STATION = 0x0001"

definition FM_EV_TUNE_STATUS :: u8 where "FM_EV_TUNE_STATUS = 0x01"
definition FM_EV_SEARCH_PROGRESS :: u8 where "FM_EV_SEARCH_PROGRESS = 0x05"
definition FM_EV_CMD_COMPLETE :: u8 where "FM_EV_CMD_COMPLETE = 0x0f"
definition FM_EV_CMD_STATUS :: u8 where "FM_EV_CMD_STATUS = 0x10"

definition FM_FREQ_LOW :: u32 where "FM_FREQ_LOW = 87500"
definition FM_FREQ_HIGH :: u32 where "FM_FREQ_HIGH = 108000"
definition FM_FREQ_STEP :: u32 where "FM_FREQ_STEP = 100"

definition KHZ_TO_V4L2 :: "u32 \<Rightarrow> u32" where "KHZ_TO_V4L2 k = k * 16"
definition V4L2_TO_KHZ :: "u32 \<Rightarrow> u32" where "V4L2_TO_KHZ f = f div 16"

section \<open>State\<close>

text \<open>\<open>fm_fhs\<close> is the length of the V4L2 core's list of open file handles of the device.\<close>

record wcnss_fm =
  fm_cmd_done :: nat
  fm_pending_opcode :: u16
  fm_cmd_status :: u8
  fm_seek_done :: nat
  fm_frequency :: u32
  fm_rssi :: u8
  fm_stereo :: bool
  fm_enabled :: bool
  fm_fhs :: nat

text \<open>
  The calls the driver makes, and the packets it receives (\<open>FmRx\<close>). \<open>fe_ret\<close> answers the
  calls that return a status, \<open>fe_arrive\<close> gives the packets that the callback handles before the
  driver's next step, \<open>fe_ptr\<close> says which lookups find their object.
\<close>

datatype fm_call =
    FmRx "u8 list"
  | FmReinitCmd
  | FmReinitSeek
  | FmSend "u8 list"
  | FmWaitCmd
  | FmWaitSeek
  | FmFhOpen
  | FmFhRelease
  | FmAlloc
  | FmGetParent
  | FmOpenChannel
  | FmDestroyChannel
  | FmV4l2Register
  | FmV4l2Unregister
  | FmCtrlsInit
  | FmCtrlsFree
  | FmVideoRegister
  | FmVideoUnregister

record fm_env =
  fe_ret :: "fm_call list \<Rightarrow> fm_call \<Rightarrow> int"
  fe_arrive :: "fm_call list \<Rightarrow> u8 list list"
  fe_ptr :: "fm_call list \<Rightarrow> fm_call \<Rightarrow> bool"

type_synonym fm_io = "(fm_call, wcnss_fm) io"
type_synonym 'a fmm = "(fm_io, 'a) state"

section \<open>Bytes\<close>

definition le16 :: "u16 \<Rightarrow> u8 list" where
  "le16 w = [ucast w, ucast (drop_bit 8 w)]"

definition le32 :: "u32 \<Rightarrow> u8 list" where
  "le32 w = [ucast w, ucast (drop_bit 8 w), ucast (drop_bit 16 w), ucast (drop_bit 24 w)]"

definition rd8 :: "u8 list \<Rightarrow> nat \<Rightarrow> u8 option" where
  "rd8 b i = (if i < length b then Some (b ! i) else None)"

definition rd16 :: "u8 list \<Rightarrow> nat \<Rightarrow> u16 option" where
  "rd16 b i = do {
     x \<leftarrow> rd8 b i;
     y \<leftarrow> rd8 b (i + 1);
     Some (ucast x OR push_bit 8 (ucast y))
   }"

definition rd32 :: "u8 list \<Rightarrow> nat \<Rightarrow> u32 option" where
  "rd32 b i = do {
     w \<leftarrow> rd8 b i;
     x \<leftarrow> rd8 b (i + 1);
     y \<leftarrow> rd8 b (i + 2);
     z \<leftarrow> rd8 b (i + 3);
     Some (ucast w OR push_bit 8 (ucast x) OR push_bit 16 (ucast y) OR push_bit 24 (ucast z))
   }"

section \<open>Events\<close>

text \<open>
  \<^verbatim>\<open>struct fm_tune_status\<close> is packed: \<open>sub_event\<close> at 0, \<open>station_freq\<close> at 1, \<open>serv_avble\<close> at 5,
  \<open>rssi\<close> at 6, \<open>stereo_prg\<close> at 7, then four more bytes. The callback hands over the payload,
  which starts at \<open>i\<close> of the packet, and its length.
\<close>

definition sizeof_fm_tune_status :: nat where "sizeof_fm_tune_status = 12"

definition wcnss_fm_tune_status :: "u8 list \<Rightarrow> nat \<Rightarrow> nat \<Rightarrow> wcnss_fm \<Rightarrow> wcnss_fm option" where
  "wcnss_fm_tune_status b i len fm =
     (if len < sizeof_fm_tune_status then Some fm
      else do {
        freq \<leftarrow> rd32 b (i + 1);
        rssi \<leftarrow> rd8 b (i + 6);
        st \<leftarrow> rd8 b (i + 7);
        Some (fm\<lparr>fm_frequency := freq, fm_rssi := rssi, fm_stereo := st \<noteq> 0\<rparr>)
      })"

definition complete_cmd :: "wcnss_fm \<Rightarrow> wcnss_fm" where
  "complete_cmd fm = fm\<lparr>fm_cmd_done := fm_cmd_done fm + 1\<rparr>"

definition complete_seek :: "wcnss_fm \<Rightarrow> wcnss_fm" where
  "complete_seek fm = fm\<lparr>fm_seek_done := fm_seek_done fm + 1\<rparr>"

definition fm_event :: "u8 \<Rightarrow> u8 \<Rightarrow> u8 list \<Rightarrow> wcnss_fm \<Rightarrow> wcnss_fm option" where
  "fm_event evt plen buf fm =
     (if evt = FM_EV_CMD_COMPLETE then
        (if plen < 4 then Some fm
         else do {
           op \<leftarrow> rd16 buf 4;
           if op \<noteq> fm_pending_opcode fm then Some fm
           else do {
             st \<leftarrow> rd8 buf 6;
             Some (complete_cmd (fm\<lparr>fm_cmd_status := st\<rparr>))
           }
         })
      else if evt = FM_EV_CMD_STATUS then
        (if plen \<ge> 1 then do {
           st \<leftarrow> rd8 buf 3;
           Some (complete_cmd (fm\<lparr>fm_cmd_status := st\<rparr>))
         }
         else Some (complete_cmd fm))
      else if evt = FM_EV_TUNE_STATUS then wcnss_fm_tune_status buf 3 (unat plen) fm
      else if evt = FM_EV_SEARCH_PROGRESS then Some (complete_seek fm)
      else Some fm)"

definition wcnss_fm_rx :: "u8 list \<Rightarrow> wcnss_fm \<Rightarrow> wcnss_fm option" where
  "wcnss_fm_rx buf fm =
     (if length buf < 3 then Some fm
      else do {
        typ \<leftarrow> rd8 buf 0;
        if typ \<noteq> FM_PKT_EVENT then Some fm
        else do {
          evt \<leftarrow> rd8 buf 1;
          plen \<leftarrow> rd8 buf 2;
          if length buf < 3 + unat plen then Some fm
          else fm_event evt plen buf fm
        }
      })"

text \<open>The packets that the callback handles before the next step of the driver.\<close>

definition rx_packet :: "u8 list \<Rightarrow> unit fmm" where
  "rx_packet p = do {
     emit (FmRx p);
     modify (\<lambda>fm. case wcnss_fm_rx p fm of None \<Rightarrow> fm | Some fm' \<Rightarrow> fm')
   }"

definition arrivals :: "fm_env \<Rightarrow> unit fmm" where
  "arrivals env = do {
     ps \<leftarrow> State (\<lambda>s. (fe_arrive env (io_trace s), s));
     iterM rx_packet ps
   }"

section \<open>Commands\<close>

definition fm_packet :: "u16 \<Rightarrow> u8 list \<Rightarrow> u8 \<Rightarrow> u8 list" where
  "fm_packet opcode payload plen = FM_PKT_COMMAND # le16 opcode @ [plen] @ take (unat plen) payload"

text \<open>The buffer holds 4 + 255 bytes.\<close>

definition wcnss_fm_send :: "fm_env \<Rightarrow> u16 \<Rightarrow> u8 list \<Rightarrow> u8 \<Rightarrow> int fmm" where
  "wcnss_fm_send env opcode payload plen =
     (if unat plen > 4 + 255 - 4 then ret (- EINVAL)
      else call (fe_ret env) (FmSend (fm_packet opcode payload plen)))"

text \<open>\<^verbatim>\<open>wait_for_completion_timeout\<close>: packets arrive while it sleeps; it returns 0 when there is no
  completion to consume.\<close>

definition wait_cmd :: "fm_env \<Rightarrow> bool fmm" where
  "wait_cmd env = do {
     emit FmWaitCmd;
     arrivals env;
     n \<leftarrow> gets fm_cmd_done;
     if n = 0 then ret False
     else do { modify (\<lambda>fm. fm\<lparr>fm_cmd_done := n - 1\<rparr>); ret True }
   }"

definition wait_seek :: "fm_env \<Rightarrow> bool fmm" where
  "wait_seek env = do {
     emit FmWaitSeek;
     arrivals env;
     n \<leftarrow> gets fm_seek_done;
     if n = 0 then ret False
     else do { modify (\<lambda>fm. fm\<lparr>fm_seek_done := n - 1\<rparr>); ret True }
   }"

definition wcnss_fm_cmd :: "fm_env \<Rightarrow> u16 \<Rightarrow> u8 list \<Rightarrow> u8 \<Rightarrow> int fmm" where
  "wcnss_fm_cmd env opcode payload plen = do {
     emit FmReinitCmd;
     modify (\<lambda>fm. fm\<lparr>fm_cmd_done := 0\<rparr>);
     arrivals env;
     modify (\<lambda>fm. fm\<lparr>fm_pending_opcode := opcode\<rparr>);
     arrivals env;
     modify (\<lambda>fm. fm\<lparr>fm_cmd_status := 0\<rparr>);
     arrivals env;
     r \<leftarrow> wcnss_fm_send env opcode payload plen;
     if r \<noteq> 0 then ret r
     else do {
       answered \<leftarrow> wait_cmd env;
       if \<not> answered then ret (- ETIMEDOUT)
       else do {
         arrivals env;
         st \<leftarrow> gets fm_cmd_status;
         ret (if st \<noteq> 0 then - EIO else 0)
       }
     }
   }"

section \<open>The receiver\<close>

definition fm_recv_conf :: "u8 list" where
  "fm_recv_conf = [0, 0, 0, 0] @ le32 FM_FREQ_LOW @ le32 FM_FREQ_HIGH"

definition set_enabled :: "bool \<Rightarrow> unit fmm" where
  "set_enabled b = modify (\<lambda>fm. fm\<lparr>fm_enabled := b\<rparr>)"

definition wcnss_fm_enable :: "fm_env \<Rightarrow> int fmm" where
  "wcnss_fm_enable env = do {
     r \<leftarrow> wcnss_fm_cmd env (fm_opcode FM_OGF_RECV_CTRL FM_OCF_ENABLE_RECV) fm_recv_conf 12;
     if r \<noteq> 0 then ret r
     else do {
       _ \<leftarrow> wcnss_fm_cmd env (fm_opcode FM_OGF_RECV_CTRL FM_OCF_SET_ANTENNA) [0] 1;
       set_enabled True;
       ret 0
     }
   }"

definition wcnss_fm_disable :: "fm_env \<Rightarrow> int fmm" where
  "wcnss_fm_disable env = do {
     en \<leftarrow> gets fm_enabled;
     if \<not> en then ret 0
     else do {
       r \<leftarrow> wcnss_fm_cmd env (fm_opcode FM_OGF_RECV_CTRL FM_OCF_DISABLE_RECV) [] 0;
       set_enabled False;
       ret r
     }
   }"

definition wcnss_fm_tune :: "fm_env \<Rightarrow> u32 \<Rightarrow> int fmm" where
  "wcnss_fm_tune env khz =
     wcnss_fm_cmd env (fm_opcode FM_OGF_COMMON_CTRL FM_OCF_TUNE_STATION) (le32 khz) 4"

section \<open>V4L2 operations\<close>

record v4l2_tuner =
  vt_index :: u32
  vt_name :: string
  vt_type :: u32
  vt_capability :: u32
  vt_rangelow :: u32
  vt_rangehigh :: u32
  vt_rxsubchans :: u32
  vt_audmode :: u32
  vt_signal :: u32
  vt_afc :: u32

record v4l2_frequency =
  vf_tuner :: u32
  vf_type :: u32
  vf_frequency :: u32

text \<open>Constants of the V4L2 interface (\<^verbatim>\<open>linux/videodev2.h\<close>).\<close>

abbreviation (input) V4L2_TUNER_RADIO :: u32 where "V4L2_TUNER_RADIO \<equiv> 1"
abbreviation (input) V4L2_TUNER_CAP_HWSEEK_BOUNDED :: u32 where "V4L2_TUNER_CAP_HWSEEK_BOUNDED \<equiv> 4"
abbreviation (input) V4L2_TUNER_CAP_STEREO :: u32 where "V4L2_TUNER_CAP_STEREO \<equiv> 0x10"
abbreviation (input) V4L2_TUNER_SUB_MONO :: u32 where "V4L2_TUNER_SUB_MONO \<equiv> 1"
abbreviation (input) V4L2_TUNER_SUB_STEREO :: u32 where "V4L2_TUNER_SUB_STEREO \<equiv> 2"
abbreviation (input) V4L2_TUNER_MODE_MONO :: u32 where "V4L2_TUNER_MODE_MONO \<equiv> 0"
abbreviation (input) V4L2_TUNER_MODE_STEREO :: u32 where "V4L2_TUNER_MODE_STEREO \<equiv> 1"
abbreviation (input) V4L2_CID_AUDIO_MUTE :: u32 where "V4L2_CID_AUDIO_MUTE \<equiv> 0x980909"

definition wcnss_fm_querycap :: "string \<times> string \<times> string" where
  "wcnss_fm_querycap = (''radio-wcnss-fm'', ''WCNSS FM Receiver'', ''platform:radio-wcnss-fm'')"

definition wcnss_fm_g_tuner :: "fm_env \<Rightarrow> v4l2_tuner \<Rightarrow> (int \<times> v4l2_tuner) fmm" where
  "wcnss_fm_g_tuner env tuner =
     (if vt_index tuner \<noteq> 0 then ret (- EINVAL, tuner)
      else do {
        r \<leftarrow> wcnss_fm_cmd env (fm_opcode FM_OGF_RECV_CTRL FM_OCF_GET_STATION_PARAM) [] 0;
        if r \<noteq> 0 then ret (r, tuner)
        else do {
          stereo \<leftarrow> gets fm_stereo;
          rssi \<leftarrow> gets fm_rssi;
          ret (0, tuner\<lparr>vt_name := ''FM'', vt_type := V4L2_TUNER_RADIO,
                vt_capability := V4L2_TUNER_CAP_STEREO OR V4L2_TUNER_CAP_HWSEEK_BOUNDED,
                vt_rangelow := KHZ_TO_V4L2 FM_FREQ_LOW,
                vt_rangehigh := KHZ_TO_V4L2 FM_FREQ_HIGH,
                vt_rxsubchans := (if stereo then V4L2_TUNER_SUB_STEREO else V4L2_TUNER_SUB_MONO),
                vt_audmode := (if stereo then V4L2_TUNER_MODE_STEREO else V4L2_TUNER_MODE_MONO),
                vt_signal := push_bit 8 (ucast rssi), vt_afc := 0\<rparr>)
        }
      })"

definition wcnss_fm_s_tuner :: "fm_env \<Rightarrow> v4l2_tuner \<Rightarrow> int fmm" where
  "wcnss_fm_s_tuner env tuner =
     (if vt_index tuner \<noteq> 0 then ret (- EINVAL)
      else wcnss_fm_cmd env (fm_opcode FM_OGF_RECV_CTRL FM_OCF_SET_STEREO_MODE)
             [if vt_audmode tuner = V4L2_TUNER_MODE_MONO then 1 else 0] 1)"

definition wcnss_fm_g_frequency :: "v4l2_frequency \<Rightarrow> (int \<times> v4l2_frequency) fmm" where
  "wcnss_fm_g_frequency f =
     (if vf_tuner f \<noteq> 0 then ret (- EINVAL, f)
      else do {
        khz \<leftarrow> gets fm_frequency;
        ret (0, f\<lparr>vf_type := V4L2_TUNER_RADIO, vf_frequency := KHZ_TO_V4L2 khz\<rparr>)
      })"

definition clamp_khz :: "u32 \<Rightarrow> u32" where
  "clamp_khz f =
     (let khz = max FM_FREQ_LOW (min (V4L2_TO_KHZ f) FM_FREQ_HIGH)
      in khz - khz mod FM_FREQ_STEP)"

definition wcnss_fm_s_frequency :: "fm_env \<Rightarrow> v4l2_frequency \<Rightarrow> int fmm" where
  "wcnss_fm_s_frequency env f =
     (if vf_tuner f \<noteq> 0 then ret (- EINVAL)
      else wcnss_fm_tune env (clamp_khz (vf_frequency f)))"

definition wcnss_fm_s_hw_freq_seek :: "fm_env \<Rightarrow> bool \<Rightarrow> u32 \<Rightarrow> bool \<Rightarrow> int fmm" where
  "wcnss_fm_s_hw_freq_seek env nonblock tuner upward =
     (if tuner \<noteq> 0 then ret (- EINVAL)
      else if nonblock then ret (- EAGAIN)
      else do {
        emit FmReinitSeek;
        modify (\<lambda>fm. fm\<lparr>fm_seek_done := 0\<rparr>);
        r \<leftarrow> wcnss_fm_cmd env (fm_opcode FM_OGF_RECV_CTRL FM_OCF_SEARCH_STATIONS)
               [if upward then 1 else 0, 1] 2;
        if r \<noteq> 0 then ret r
        else do {
          found \<leftarrow> wait_seek env;
          if found then ret 0
          else do {
            _ \<leftarrow> wcnss_fm_cmd env (fm_opcode FM_OGF_RECV_CTRL FM_OCF_CANCEL_SEARCH) [] 0;
            ret (- ETIMEDOUT)
          }
        }
      })"

definition wcnss_fm_s_ctrl :: "fm_env \<Rightarrow> u32 \<Rightarrow> bool \<Rightarrow> int fmm" where
  "wcnss_fm_s_ctrl env cid val =
     (if cid = V4L2_CID_AUDIO_MUTE
      then wcnss_fm_cmd env (fm_opcode FM_OGF_RECV_CTRL FM_OCF_SET_MUTE_MODE)
             [if val then 3 else 0] 1
      else ret (- EINVAL))"

section \<open>Open and release\<close>

text \<open>
  \<^verbatim>\<open>v4l2_fh_open\<close> and \<^verbatim>\<open>v4l2_fh_release\<close> add a handle to the device's list and remove it, outside
  of the driver's mutex; \<open>open_locked\<close> and \<open>release_locked\<close> are the parts under the mutex.
\<close>

definition v4l2_fh_open :: "fm_env \<Rightarrow> int fmm" where
  "v4l2_fh_open env = do {
     r \<leftarrow> call (fe_ret env) FmFhOpen;
     if r \<noteq> 0 then ret r
     else do { modify (\<lambda>fm. fm\<lparr>fm_fhs := fm_fhs fm + 1\<rparr>); ret 0 }
   }"

definition v4l2_fh_release :: "int fmm" where
  "v4l2_fh_release = do {
     emit FmFhRelease;
     modify (\<lambda>fm. fm\<lparr>fm_fhs := fm_fhs fm - 1\<rparr>);
     ret 0
   }"

definition open_locked :: "fm_env \<Rightarrow> int fmm" where
  "open_locked env = do {
     n \<leftarrow> gets fm_fhs;
     if n = 1 then do {
       r \<leftarrow> wcnss_fm_enable env;
       if r \<noteq> 0 then do { _ \<leftarrow> v4l2_fh_release; ret r }
       else ret 0
     }
     else ret 0
   }"


definition release_locked :: "fm_env \<Rightarrow> unit fmm" where
  "release_locked env = do {
     n \<leftarrow> gets fm_fhs;
     if n = 1 then do { _ \<leftarrow> wcnss_fm_disable env; ret () } else ret ()
   }"


section \<open>Probe and remove\<close>

definition wcnss_fm_probe :: "fm_env \<Rightarrow> int fmm" where
  "wcnss_fm_probe env = do {
     mem \<leftarrow> call (fe_ptr env) FmAlloc;
     if \<not> mem then ret (- ENOMEM)
     else do {
       modify (\<lambda>_. \<lparr>fm_cmd_done = 0, fm_pending_opcode = 0, fm_cmd_status = 0, fm_seek_done = 0,
         fm_frequency = FM_FREQ_LOW, fm_rssi = 0, fm_stereo = False, fm_enabled = False,
         fm_fhs = 0\<rparr>);
       parent \<leftarrow> call (fe_ptr env) FmGetParent;
       if \<not> parent then ret (- EPROBE_DEFER)
       else do {
         ch \<leftarrow> call (fe_ret env) FmOpenChannel;
         if ch \<noteq> 0 then ret ch
         else do {
           r \<leftarrow> call (fe_ret env) FmV4l2Register;
           if r \<noteq> 0 then do { emit FmDestroyChannel; ret r }
           else do {
             r \<leftarrow> call (fe_ret env) FmCtrlsInit;
             if r \<noteq> 0 then do {
               emit FmCtrlsFree; emit FmV4l2Unregister; emit FmDestroyChannel; ret r }
             else do {
               r \<leftarrow> call (fe_ret env) FmVideoRegister;
               if r \<noteq> 0 then do {
                 emit FmCtrlsFree; emit FmV4l2Unregister; emit FmDestroyChannel; ret r }
               else ret 0
             }
           }
         }
       }
     }
   }"

definition wcnss_fm_remove :: "unit fmm" where
  "wcnss_fm_remove = do {
     emit FmVideoUnregister;
     emit FmCtrlsFree;
     emit FmV4l2Unregister;
     emit FmDestroyChannel
   }"

section \<open>Packets\<close>

lemma rd8_eq [simp]: "i < length b \<Longrightarrow> rd8 b i = Some (b ! i)"
  by (simp add: rd8_def)

lemma rd16_eq:
  "i + 1 < length b \<Longrightarrow> rd16 b i = Some (ucast (b ! i) OR push_bit 8 (ucast (b ! (i + 1))))"
  by (simp add: rd16_def)

lemma rd32_ex: "i + 3 < length b \<Longrightarrow> \<exists>w. rd32 b i = Some w"
  by (simp add: rd32_def)

lemma le16_join: "ucast (ucast (w :: u16) :: u8) OR push_bit 8 (ucast (ucast (drop_bit 8 w) :: u8)) = w"
  by (rule bit_eqI) (auto simp: bit_simps)

lemma le32_join:
  "ucast (ucast (w :: u32) :: u8) OR push_bit 8 (ucast (ucast (drop_bit 8 w) :: u8))
     OR push_bit 16 (ucast (ucast (drop_bit 16 w) :: u8))
     OR push_bit 24 (ucast (ucast (drop_bit 24 w) :: u8)) = w"
proof (rule bit_word_eqI)
  fix n
  assume "n < LENGTH(32)"
  then consider "n < 8" | "8 \<le> n" "n < 16" | "16 \<le> n" "n < 24" | "24 \<le> n" "n < 32"
    by (cases "n < 8"; cases "n < 16"; cases "n < 24") auto
  then show "bit (ucast (ucast w :: u8) OR push_bit 8 (ucast (ucast (drop_bit 8 w) :: u8))
     OR push_bit 16 (ucast (ucast (drop_bit 16 w) :: u8))
     OR push_bit 24 (ucast (ucast (drop_bit 24 w) :: u8)) :: u32) n = bit w n"
    by cases (auto simp: bit_simps)
qed

lemma rd16_le16: "rd16 (le16 w @ rest) 0 = Some w"
  by (simp add: rd16_def le16_def le16_join)

lemma rd32_le32: "rd32 (le32 w @ rest) 0 = Some w"
  by (simp add: rd32_def le32_def le32_join)

lemma le16_split: "le16 (ucast (x :: u8) OR push_bit 8 (ucast (y :: u8))) = [x, y]"
proof -
  have "ucast (ucast x OR push_bit 8 (ucast y) :: u16) = x"
    by (rule bit_eqI) (auto simp: bit_simps)
  moreover have "ucast (drop_bit 8 (ucast x OR push_bit 8 (ucast y) :: u16)) = y"
    by (rule bit_eqI) (auto simp: bit_simps dest: bit_imp_le_length)
  ultimately show ?thesis by (simp add: le16_def)
qed

text \<open>The other side of the framing, as the coprocessor has to read it.\<close>

definition fm_decode :: "u8 list \<Rightarrow> (u16 \<times> u8 list) option" where
  "fm_decode p = do {
     typ \<leftarrow> rd8 p 0;
     op \<leftarrow> rd16 p 1;
     plen \<leftarrow> rd8 p 3;
     if typ = FM_PKT_COMMAND \<and> length p = 4 + unat plen then Some (op, drop 4 p) else None
   }"

lemma fm_decode_packet:
  assumes "length payload = unat plen"
  shows "fm_decode (fm_packet opcode payload plen) = Some (opcode, payload)"
  using assms by (simp add: fm_decode_def fm_packet_def le16_def rd16_def le16_join)

lemma fm_packet_decode:
  assumes "fm_decode p = Some (opcode, payload)"
  shows "\<exists>plen. p = fm_packet opcode payload plen \<and> unat plen = length payload"
proof -
  obtain a b c d rest where p: "p = a # b # c # d # rest"
    using assms
    by (cases p; cases "tl p"; cases "tl (tl p)"; cases "tl (tl (tl p))")
      (auto simp: fm_decode_def rd8_def rd16_def split: if_splits Option.bind_splits)
  with assms show ?thesis
    by (auto simp: fm_decode_def fm_packet_def rd16_def le16_split split: if_splits
        intro!: exI [of _ d])
qed

lemma fm_opcode_fields:
  assumes "ocf < 0x400" and "ogf < 0x40"
  shows "drop_bit 10 (fm_opcode ogf ocf) = ogf" and "fm_opcode ogf ocf AND 0x3ff = ocf"
proof -
  have o: "take_bit 10 ocf = ocf" and g: "take_bit 6 ogf = ogf"
    using assms by (simp_all add: take_bit_eq_mod mod_word_less)
  have m: "(0x3ff :: u16) = mask 10" by (simp add: mask_eq_exp_minus_1)
  show "drop_bit 10 (fm_opcode ogf ocf) = ogf"
    unfolding fm_opcode_def m
    by (subst (2) g [symmetric], subst g [symmetric]) (rule bit_eqI; auto simp: bit_simps)
  show "fm_opcode ogf ocf AND 0x3ff = ocf"
    unfolding fm_opcode_def m
    by (subst (2) o [symmetric]) (rule bit_eqI; auto simp: bit_simps)
qed

lemma fm_event_some:
  assumes "3 + unat plen \<le> length buf"
  shows "\<exists>fm'. fm_event evt plen buf fm = Some fm'"
proof -
  have p4: "6 < length buf" if "\<not> plen < 4"
    using that assms by (simp add: word_less_nat_alt)
  have p1: "3 < length buf" if "1 \<le> plen"
    using that assms by (simp add: word_le_nat_alt)
  obtain w where "\<not> unat plen < 12 \<Longrightarrow> rd32 buf 4 = Some w"
    using rd32_ex [of 4 buf] assms by (cases "unat plen < 12") auto
  then show ?thesis
    using assms p4 p1
    by (auto simp: fm_event_def wcnss_fm_tune_status_def sizeof_fm_tune_status_def rd16_eq)
qed

lemma fm_rx_some: "\<exists>fm'. wcnss_fm_rx buf fm = Some fm'"
proof (cases "length buf < 3")
  case False
  then have "rd8 buf 0 = Some (buf ! 0)" "rd8 buf 1 = Some (buf ! 1)" "rd8 buf 2 = Some (buf ! 2)"
    by (auto simp: rd8_def)
  with fm_event_some [of "buf ! 2" buf] show ?thesis by (auto simp: wcnss_fm_rx_def not_less)
qed (simp add: wcnss_fm_rx_def)

section \<open>What an event changes\<close>

text \<open>\<open>finishes op p\<close>: the driver takes the packet \<open>p\<close> as the end of the command \<open>op\<close>. A command
  status event ends any command.\<close>

definition finishes :: "u16 \<Rightarrow> u8 list \<Rightarrow> bool" where
  "finishes op p \<longleftrightarrow> 3 \<le> length p \<and> p ! 0 = FM_PKT_EVENT \<and> 3 + unat (p ! 2) \<le> length p \<and>
     (p ! 1 = FM_EV_CMD_STATUS \<or> p ! 1 = FM_EV_CMD_COMPLETE \<and> 4 \<le> p ! 2 \<and> rd16 p 4 = Some op)"

definition same_handles :: "wcnss_fm \<Rightarrow> wcnss_fm \<Rightarrow> bool" where
  "same_handles fm fm' \<longleftrightarrow> fm_enabled fm' = fm_enabled fm \<and> fm_fhs fm' = fm_fhs fm"

definition completed_by :: "wcnss_fm \<Rightarrow> wcnss_fm \<Rightarrow> bool \<Rightarrow> bool" where
  "completed_by fm fm' b \<longleftrightarrow> fm_pending_opcode fm' = fm_pending_opcode fm \<and>
     (fm_cmd_done fm' = fm_cmd_done fm \<and> fm_cmd_status fm' = fm_cmd_status fm \<or>
      fm_cmd_done fm' = fm_cmd_done fm + 1 \<and> b)"

lemma completed_by_self [simp]: "completed_by fm fm b"
  by (simp add: completed_by_def)

lemma fm_event_effect:
  assumes "fm_event evt plen buf fm = Some fm'"
  shows "same_handles fm fm' \<and> completed_by fm fm'
    (evt = FM_EV_CMD_STATUS \<or>
     evt = FM_EV_CMD_COMPLETE \<and> 4 \<le> plen \<and> rd16 buf 4 = Some (fm_pending_opcode fm))"
  using assms
  by (auto simp: not_less fm_event_def wcnss_fm_tune_status_def complete_cmd_def complete_seek_def
      same_handles_def completed_by_def split: if_splits Option.bind_splits)

lemma fm_rx_effect:
  assumes "wcnss_fm_rx p fm = Some fm'"
  shows "same_handles fm fm' \<and> completed_by fm fm' (finishes (fm_pending_opcode fm) p)"
proof (cases "3 \<le> length p \<and> p ! 0 = FM_PKT_EVENT \<and> 3 + unat (p ! 2) \<le> length p")
  case True
  then have "rd8 p 0 = Some (p ! 0)" "rd8 p 1 = Some (p ! 1)" "rd8 p 2 = Some (p ! 2)"
    by (auto simp: rd8_def)
  with True assms have "fm_event (p ! 1) (p ! 2) p fm = Some fm'"
    by (auto simp: wcnss_fm_rx_def)
  from fm_event_effect [OF this] True show ?thesis
    by (auto simp: finishes_def)
next
  case False
  with assms have "fm' = fm"
    by (auto simp: wcnss_fm_rx_def rd8_def not_less split: if_splits Option.bind_splits)
  then show ?thesis by (simp add: same_handles_def)
qed

text \<open>The device's state after a packet.\<close>

definition after_rx :: "u8 list \<Rightarrow> wcnss_fm \<Rightarrow> wcnss_fm" where
  "after_rx p fm = the (wcnss_fm_rx p fm)"

lemma wp_rx_packet:
  "wp (rx_packet p) Q s =
     Q () (s\<lparr>io_trace := io_trace s @ [FmRx p], io_dev := after_rx p (io_dev s)\<rparr>)"
  using fm_rx_some [of p "io_dev s"] by (auto simp: rx_packet_def wp_simps after_rx_def)

lemma after_rx_effect:
  "same_handles fm (after_rx p fm)"
  "completed_by fm (after_rx p fm) (finishes (fm_pending_opcode fm) p)"
  using fm_rx_some [of p fm] fm_rx_effect [of p fm] by (auto simp: after_rx_def)

lemma wp_arrivals: "wp (arrivals env) Q s = wp (iterM rx_packet (fe_arrive env (io_trace s))) Q s"
  by (simp add: arrivals_def wp_simps wp_def)

lemma kept_arrivals: "(\<And>p. kept G (rx_packet p)) \<Longrightarrow> kept G (arrivals env)"
  by (rule keptI) (simp add: wp_arrivals keptD [OF kept_iterM])

text \<open>
  C23: the receive callback reads no byte outside of the packet it is given, whatever its bytes
  and its length, and never touches the open handles or the power flag.
\<close>

theorem fm_rx_total:
  "\<exists>fm'. wcnss_fm_rx buf fm = Some fm' \<and>
     fm_enabled fm' = fm_enabled fm \<and> fm_fhs fm' = fm_fhs fm"
  using fm_rx_some [of buf fm] fm_rx_effect [of buf fm] by (auto simp: same_handles_def)

text \<open>
  C32: the packets the driver sends are exactly those that the framing (type, opcode low byte
  first, length, payload) decodes, and decoding gives back the opcode and the payload.
\<close>

theorem fm_packet_roundtrip:
  "fm_decode p = Some (opcode, payload) \<longleftrightarrow>
     (\<exists>plen. unat plen = length payload \<and> p = fm_packet opcode payload plen)"
  using fm_decode_packet fm_packet_decode by metis

section \<open>Commands and their answers\<close>

text \<open>\<open>told t0 ops s\<close>: since the trace was \<open>t0\<close>, a completion that is pending in \<open>s\<close> came from a
  packet that finishes one of the opcodes \<open>ops\<close>.\<close>

definition heard :: "fm_call list \<Rightarrow> u16 set \<Rightarrow> fm_call list \<Rightarrow> bool" where
  "heard t0 ops t \<longleftrightarrow>
     (\<exists>rest p op. t = t0 @ rest \<and> FmRx p \<in> set rest \<and> op \<in> ops \<and> finishes op p)"

definition told :: "fm_call list \<Rightarrow> u16 set \<Rightarrow> fm_io \<Rightarrow> bool" where
  "told t0 ops s \<longleftrightarrow> (\<exists>rest. io_trace s = t0 @ rest) \<and> fm_pending_opcode (io_dev s) \<in> ops \<and>
     (fm_cmd_done (io_dev s) = 0 \<or> heard t0 ops (io_trace s))"

lemma heard_append: "heard t0 ops t \<Longrightarrow> heard t0 ops (t @ t')"
  unfolding heard_def by fastforce

lemma heard_rx:
  "t = t0 @ rest \<Longrightarrow> op \<in> ops \<Longrightarrow> finishes op p \<Longrightarrow> heard t0 ops (t @ [FmRx p])"
  unfolding heard_def by fastforce

lemma told_step: "told t0 ops s \<Longrightarrow> told t0 ops (s\<lparr>io_trace := io_trace s @ [e]\<rparr>)"
  by (auto simp: told_def intro: heard_append)

lemma told_rx: "kept (told t0 ops) (rx_packet p)"
proof (rule keptI)
  fix s
  assume "told t0 ops s"
  then show "wp (rx_packet p) (\<lambda>_. told t0 ops) s"
    using after_rx_effect(2) [of "io_dev s" p]
    by (auto simp: wp_rx_packet told_def completed_by_def intro: heard_append heard_rx)
qed

lemmas told_arrivals = kept_arrivals [OF told_rx]

lemma told_modify:
  "(\<And>fm. fm_pending_opcode (f fm) = fm_pending_opcode fm \<or> fm_pending_opcode (f fm) \<in> ops) \<Longrightarrow>
   (\<And>fm. fm_cmd_done (f fm) \<le> fm_cmd_done fm) \<Longrightarrow> told t0 ops s \<Longrightarrow>
     told t0 ops (s\<lparr>io_dev := f (io_dev s)\<rparr>)"
  unfolding told_def by simp (metis le_zero_eq)

definition answered :: "fm_call list \<Rightarrow> u16 set \<Rightarrow> int \<Rightarrow> fm_io \<Rightarrow> bool" where
  "answered t0 ops r s \<longleftrightarrow> (r = 0 \<longrightarrow> heard t0 ops (io_trace s))"

lemma wait_cmd_heard:
  assumes "told t0 ops s"
  shows "wp (wait_cmd env) (\<lambda>b s'. told t0 ops s' \<and> (b \<longrightarrow> heard t0 ops (io_trace s'))) s"
  unfolding wait_cmd_def wp_bind wp_emit
proof (rule kept_wp [OF told_arrivals told_step [OF assms]])
  fix t
  assume t: "told t0 ops t"
  then show "wp (gets fm_cmd_done) (\<lambda>n. wp (if n = 0 then ret False
      else do { modify (\<lambda>fm. fm\<lparr>fm_cmd_done := n - 1\<rparr>); ret True })
      (\<lambda>b s'. told t0 ops s' \<and> (b \<longrightarrow> heard t0 ops (io_trace s')))) t"
    by (auto simp: wp_simps told_def)
qed

lemma cmd_finish_heard:
  assumes "told t0 ops s"
  shows "wp (do {
       answered \<leftarrow> wait_cmd env;
       if \<not> answered then ret (- ETIMEDOUT)
       else do { arrivals env; st \<leftarrow> gets fm_cmd_status; ret (if st \<noteq> 0 then - EIO else 0) }
     }) (\<lambda>r s'. r = 0 \<longrightarrow> heard t0 ops (io_trace s') \<and> fm_cmd_status (io_dev s') = 0) s"
  unfolding wp_bind
proof (rule wp_mono [OF wait_cmd_heard [OF assms]], elim conjE)
  fix b t
  assume t: "told t0 ops t" and b: "b \<longrightarrow> heard t0 ops (io_trace t)"
  show "wp (if \<not> b then ret (- ETIMEDOUT)
      else do { arrivals env; st \<leftarrow> gets fm_cmd_status; ret (if st \<noteq> 0 then - EIO else 0) })
      (\<lambda>r s'. r = 0 \<longrightarrow> heard t0 ops (io_trace s') \<and> fm_cmd_status (io_dev s') = 0) t"
  proof (cases b)
    case True
    have "kept (\<lambda>s. heard t0 ops (io_trace s)) (rx_packet p)" for p
      by (rule keptI) (auto simp: wp_rx_packet intro: heard_append)
    then have "wp (arrivals env) (\<lambda>_ s. heard t0 ops (io_trace s)) t"
      using b True by (intro keptD [OF kept_arrivals]) auto
    then show ?thesis using True
      by (auto simp: wp_simps elim: wp_mono)
  qed (simp add: wp_simps)
qed

lemma cmd_heard:
  "wp (wcnss_fm_cmd env op payload plen) (\<lambda>r s'. r = 0 \<longrightarrow>
     heard (io_trace s) {fm_pending_opcode (io_dev s), op} (io_trace s') \<and>
     fm_cmd_status (io_dev s') = 0) s"
  (is "wp _ ?Q s")
proof -
  let ?told = "told (io_trace s) {fm_pending_opcode (io_dev s), op}"
  have send: "wp (do { r \<leftarrow> wcnss_fm_send env op payload plen; if r \<noteq> 0 then ret r else k }) ?Q u"
    if "?told u" and k: "\<And>v. ?told v \<Longrightarrow> wp k ?Q v" for u k
    using k [OF told_step [OF that(1)]] by (simp add: wcnss_fm_send_def wp_simps)
  have arrive: "wp (arrivals env) (\<lambda>_. ?told) u" if "?told u" for u
    using that by (rule keptD [OF told_arrivals])
  show ?thesis
    unfolding wcnss_fm_cmd_def wp_bind wp_emit wp_modify
    apply (rule wp_mono [OF arrive])
     apply (simp add: told_def)
    apply (rule wp_mono [OF arrive])
     apply (rule told_modify; simp)
    apply (rule wp_mono [OF arrive])
     apply (rule told_modify; simp)
    unfolding wp_bind [symmetric]
    by (rule send) (assumption, rule cmd_finish_heard)
qed

text \<open>
  C6: a command returns 0 only when, after the call, a packet arrived that the driver takes as
  its end, and the last status the driver saw is 0. The opcode such a packet may carry is the
  command's own or, as the completion is reset before the pending opcode is replaced, that of
  the command before it; a command status event ends the command whatever its opcode. However
  packets interleave with the driver, no other return value means success.
\<close>

theorem fm_cmd_success_answered:
  assumes "run_state (wcnss_fm_cmd env op payload plen) s = (0, s')"
  shows "\<exists>rest p. io_trace s' = io_trace s @ rest \<and> FmRx p \<in> set rest \<and>
    (finishes op p \<or> finishes (fm_pending_opcode (io_dev s)) p) \<and> fm_cmd_status (io_dev s') = 0"
  using cmd_heard [of env op payload plen s] assms by (auto simp: wp_def heard_def)

text \<open>The packet that ends the command here is the status of another one (opcode 0x5401).\<close>

definition fm_foreign :: fm_env where
  "fm_foreign = \<lparr>fe_ret = (\<lambda>_ _. 0),
     fe_arrive = (\<lambda>t. if t \<noteq> [] \<and> last t = FmWaitCmd
       then [[0x14, 0x10, 4, 0, 1, 0x01, 0x54]] else []),
     fe_ptr = (\<lambda>_ _. True)\<rparr>"

definition fm_fresh :: fm_io where
  "fm_fresh = \<lparr>io_trace = [], io_dev = \<lparr>fm_cmd_done = 0, fm_pending_opcode = 0,
     fm_cmd_status = 0, fm_seek_done = 0, fm_frequency = FM_FREQ_LOW, fm_rssi = 0,
     fm_stereo = False, fm_enabled = False, fm_fhs = 0\<rparr>\<rparr>"

lemma fm_foreign_cmd: "\<exists>s'. run_state (wcnss_fm_cmd fm_foreign 0x4c05 [3] 1) fm_fresh = (0, s')"
proof -
  have rx: "after_rx [0x14, 0x10, 4, 0, 1, 0x01, 0x54] fm = complete_cmd (fm\<lparr>fm_cmd_status := 0\<rparr>)"
    for fm
    by (simp add: after_rx_def wcnss_fm_rx_def fm_event_def FM_PKT_EVENT_def FM_EV_CMD_STATUS_def
        FM_EV_CMD_COMPLETE_def)
  have "wp (wcnss_fm_cmd fm_foreign 0x4c05 [3] 1) (\<lambda>r _. r = 0) fm_fresh"
    by (simp add: wcnss_fm_cmd_def wait_cmd_def wcnss_fm_send_def wp_simps wp_arrivals fm_fresh_def
        fm_foreign_def wp_rx_packet rx complete_cmd_def)
  then show ?thesis by (auto simp: wp_def split: prod.splits)
qed

theorem fm_cmd_success_answered_witness:
  "\<exists>s' rest p. run_state (wcnss_fm_cmd fm_foreign 0x4c05 [3] 1) fm_fresh = (0, s') \<and>
     io_trace s' = io_trace fm_fresh @ rest \<and> FmRx p \<in> set rest \<and>
     (finishes 0x4c05 p \<or> finishes (fm_pending_opcode (io_dev fm_fresh)) p) \<and>
     fm_cmd_status (io_dev s') = 0"
proof -
  obtain s' where "run_state (wcnss_fm_cmd fm_foreign 0x4c05 [3] 1) fm_fresh = (0, s')"
    using fm_foreign_cmd by blast
  then show ?thesis using fm_cmd_success_answered [of fm_foreign "0x4c05" "[3]" 1 fm_fresh] by blast
qed

subsection \<open>When packets arrive only while the driver waits\<close>

lemma wp_iterM_rx:
  "wp (iterM rx_packet ps) Q s =
     Q () (s\<lparr>io_trace := io_trace s @ map FmRx ps, io_dev := fold after_rx ps (io_dev s)\<rparr>)"
  by (induction ps arbitrary: s) (simp_all add: wp_simps wp_rx_packet)

definition waits_for :: "u8 list list \<Rightarrow> fm_env \<Rightarrow> bool" where
  "waits_for ps env \<longleftrightarrow> 
     (\<forall>t. t \<noteq> [] \<longrightarrow> fe_arrive env t = (if last t = FmWaitCmd then ps else []))"

text \<open>What the driver has learnt of its command after some packets: \<open>None\<close>, no end of it yet.\<close>

definition reply :: "u16 \<Rightarrow> u8 list \<Rightarrow> u8 option \<Rightarrow> u8 option" where
  "reply op p v =
     (if \<not> finishes op p then v
      else if p ! 1 = FM_EV_CMD_COMPLETE then Some (p ! 6)
      else if p ! 2 = 0 then Some (case v of None \<Rightarrow> 0 | Some x \<Rightarrow> x)
      else Some (p ! 3))"

definition shows_verdict :: "u16 \<Rightarrow> u8 option \<Rightarrow> wcnss_fm \<Rightarrow> bool" where
  "shows_verdict op v fm \<longleftrightarrow> fm_pending_opcode fm = op \<and>
     (case v of None \<Rightarrow> fm_cmd_done fm = 0 \<and> fm_cmd_status fm = 0
      | Some x \<Rightarrow> 0 < fm_cmd_done fm \<and> fm_cmd_status fm = x)"

lemma fm_event_reply:
  assumes fin: "finishes op p" and v: "shows_verdict op v fm"
    and e: "fm_event (p ! 1) (p ! 2) p fm = Some fm'"
  shows "shows_verdict op (reply op p v) fm'"
proof (cases "p ! 1 = FM_EV_CMD_COMPLETE")
  case True
  with fin have c: "4 \<le> p ! 2" "rd16 p 4 = Some op" "3 + unat (p ! 2) \<le> length p"
    by (auto simp: finishes_def FM_EV_CMD_COMPLETE_def FM_EV_CMD_STATUS_def)
  then have "rd8 p 6 = Some (p ! 6)" by (simp add: word_le_nat_alt)
  with True fin v c e have "fm' = complete_cmd (fm\<lparr>fm_cmd_status := p ! 6\<rparr>)"
    by (auto simp: fm_event_def shows_verdict_def not_less leD simp del: One_nat_def)
  with True fin v show ?thesis
    by (auto simp: shows_verdict_def complete_cmd_def reply_def simp del: One_nat_def)
next
  case False
  with fin have c: "p ! 1 = FM_EV_CMD_STATUS" "3 + unat (p ! 2) \<le> length p"
    by (auto simp: finishes_def)
  show ?thesis
  proof (cases "p ! 2 = 0")
    case True
    with False fin v c e show ?thesis
      by (auto simp: fm_event_def shows_verdict_def complete_cmd_def reply_def
          simp del: One_nat_def split: option.splits)
  next
    case nz: False
    then have "0 < unat (p ! 2)" by (simp add: unat_gt_0)
    with c have "1 \<le> p ! 2" and "3 < length p"
      by (simp_all add: word_le_nat_alt)
    with nz False fin v c e show ?thesis
      by (auto simp: fm_event_def shows_verdict_def complete_cmd_def reply_def
          simp del: One_nat_def)
  qed
qed

lemma after_rx_reply:
  assumes "shows_verdict op v fm"
  shows "shows_verdict op (reply op p v) (after_rx p fm)"
proof (cases "finishes op p")
  case True
  then have p: "3 \<le> length p" "p ! 0 = FM_PKT_EVENT" "3 + unat (p ! 2) \<le> length p"
    by (auto simp: finishes_def)
  then have "rd8 p 0 = Some (p ! 0)" "rd8 p 1 = Some (p ! 1)" "rd8 p 2 = Some (p ! 2)"
    by (auto simp: rd8_def)
  with p have "wcnss_fm_rx p fm = fm_event (p ! 1) (p ! 2) p fm"
    by (simp add: wcnss_fm_rx_def not_less)
  moreover obtain fm' where "wcnss_fm_rx p fm = Some fm'" using fm_rx_some by blast
  ultimately show ?thesis
    using fm_event_reply [OF True assms, of fm'] unfolding after_rx_def by (metis option.sel)
next
  case False
  with after_rx_effect(2) [of fm p] assms show ?thesis
    by (auto simp: shows_verdict_def completed_by_def reply_def split: option.splits)
qed

lemma fold_reply:
  "shows_verdict op v fm \<Longrightarrow>
     shows_verdict op (fold (reply op) ps v) (fold after_rx ps fm)"
  by (induction ps arbitrary: v fm) (auto dest: after_rx_reply)

lemma wp_arrivals_none: "fe_arrive env (io_trace s) = [] \<Longrightarrow> wp (arrivals env) Q s = Q () s"
  by (simp add: wp_arrivals wp_simps)

definition cmd_result :: "fm_env \<Rightarrow> u8 list list \<Rightarrow> u16 \<Rightarrow> u8 list \<Rightarrow> u8 \<Rightarrow> fm_call list \<Rightarrow> int" where
  "cmd_result env ps op payload plen t =
    (let r = fe_ret env (t @ [FmReinitCmd]) (FmSend (fm_packet op payload plen)) in
     if r \<noteq> 0 then r
     else case fold (reply op) ps None of
            None \<Rightarrow> - ETIMEDOUT
          | Some st \<Rightarrow> if st \<noteq> 0 then - EIO else 0)"

lemma cmd_waits:
  assumes "waits_for ps env"
  shows "wp (wcnss_fm_cmd env op payload plen)
    (\<lambda>r _. r = cmd_result env ps op payload plen (io_trace s)) s"
proof -
  let ?tr = "io_trace s @ [FmReinitCmd]"
  let ?v = "fold (reply op) ps None"
  define fm0 where "fm0 = (io_dev s)\<lparr>fm_cmd_done := 0, fm_pending_opcode := op, fm_cmd_status := 0\<rparr>"
  have v: "shows_verdict op ?v (fold after_rx ps fm0)"
    by (rule fold_reply) (simp add: shows_verdict_def fm0_def)
  have small: "unat plen \<le> 255" using u8_less [of plen] by simp
  have arrive: "fe_arrive env t = (if last t = FmWaitCmd then ps else [])" if "t \<noteq> []" for t
    using assms that by (simp add: waits_for_def)
  have "wp (wcnss_fm_cmd env op payload plen) (\<lambda>r _. r =
      (let r = fe_ret env ?tr (FmSend (fm_packet op payload plen)) in
       if r \<noteq> 0 then r else case ?v of None \<Rightarrow> - ETIMEDOUT | Some st \<Rightarrow> if st \<noteq> 0 then - EIO else 0)) s"
    using v small
    by (auto simp: wcnss_fm_cmd_def wait_cmd_def wcnss_fm_send_def wp_simps wp_arrivals
        wp_iterM_rx arrive last_map shows_verdict_def fm0_def Let_def not_less
        split: option.splits)
  then show ?thesis unfolding cmd_result_def .
qed

text \<open>
  when packets arrive only while the driver waits, the result of a command is decided by
  the packets: the error of the channel if the packet could not be sent, a timeout if no packet
  ended the command, an I/O error if the last packet that ended it carried a status, 0
  otherwise. Packets of other kinds, with other opcodes, truncated or of unknown events change
  nothing of the verdict.
\<close>

theorem fm_cmd_outcome:
  assumes "waits_for ps env"
  shows "fst (run_state (wcnss_fm_cmd env op payload plen) s) =
    (let r = fe_ret env (io_trace s @ [FmReinitCmd]) (FmSend (fm_packet op payload plen)) in
     if r \<noteq> 0 then r
     else case fold (reply op) ps None of
            None \<Rightarrow> - ETIMEDOUT
          | Some st \<Rightarrow> if st \<noteq> 0 then - EIO else 0)"
  using cmd_waits [OF assms] by (simp add: wp_def split_beta cmd_result_def)

theorem fm_cmd_outcome_witness:
  "fst (run_state (wcnss_fm_cmd fm_foreign 0x4c05 [3] 1) fm_fresh) = 0"
proof -
  have w: "waits_for [[0x14, 0x10, 4, 0, 1, 0x01, 0x54]] fm_foreign"
    by (simp add: waits_for_def fm_foreign_def)
  show ?thesis
    unfolding fm_cmd_outcome [OF w]
    by (simp add: fm_foreign_def reply_def finishes_def FM_PKT_EVENT_def FM_EV_CMD_STATUS_def
        FM_EV_CMD_COMPLETE_def)
qed

section \<open>Tuning\<close>

lemma rounddown_band:
  fixes k :: nat
  assumes "87500 \<le> k" "k \<le> 108000"
  shows "87500 \<le> k - k mod 100" "k - k mod 100 \<le> 108000" "(k - k mod 100) mod 100 = 0"
proof -
  have e: "k - k mod 100 = 100 * (k div 100)" by (simp add: minus_mod_eq_mult_div)
  have "875 \<le> k div 100" using div_le_mono [OF assms(1), of 100] by simp
  then show "87500 \<le> k - k mod 100" "k - k mod 100 \<le> 108000" "(k - k mod 100) mod 100 = 0"
    using assms unfolding e by simp_all
qed

lemma clamp_khz_bounds:
  "FM_FREQ_LOW \<le> clamp_khz f" "clamp_khz f \<le> FM_FREQ_HIGH" "clamp_khz f mod FM_FREQ_STEP = 0"
proof -
  let ?k = "max FM_FREQ_LOW (min (V4L2_TO_KHZ f) FM_FREQ_HIGH)"
  have k: "87500 \<le> unat ?k" "unat ?k \<le> 108000"
    by (auto simp: FM_FREQ_LOW_def FM_FREQ_HIGH_def max_def min_def word_le_nat_alt)
  have "?k mod 100 \<le> ?k" by (simp add: word_le_nat_alt unat_mod)
  then have c: "unat (clamp_khz f) = unat ?k - unat ?k mod 100"
    by (simp add: clamp_khz_def Let_def FM_FREQ_STEP_def unat_sub unat_mod)
  have "87500 \<le> unat (clamp_khz f)" "unat (clamp_khz f) \<le> 108000"
    "unat (clamp_khz f) mod 100 = 0"
    using rounddown_band [OF k] unfolding c by blast+
  then show "FM_FREQ_LOW \<le> clamp_khz f" "clamp_khz f \<le> FM_FREQ_HIGH"
    "clamp_khz f mod FM_FREQ_STEP = 0"
    by (simp_all add: FM_FREQ_LOW_def FM_FREQ_HIGH_def FM_FREQ_STEP_def word_le_nat_alt unat_mod
        word_unat_eq_iff)
qed

text \<open>
  V4L2 gives frequencies in units of 62.5 kHz unless the tuner sets \<^verbatim>\<open>V4L2_TUNER_CAP_LOW\<close>, which
  this one does not. In these units the whole band lies below 1728, and the driver, which
  divides by 16, tunes every such request to the lower end of the band.
\<close>

lemma fm_standard_units_clamped:
  assumes "f \<le> 1728"
  shows "clamp_khz f = FM_FREQ_LOW"
proof -
  have "unat (V4L2_TO_KHZ f) \<le> 108"
    using assms by (simp add: V4L2_TO_KHZ_def word_le_nat_alt unat_div)
  then have "min (V4L2_TO_KHZ f) FM_FREQ_HIGH \<le> FM_FREQ_LOW"
    by (intro order_trans [OF min.cobounded1]) (simp add: FM_FREQ_LOW_def word_le_nat_alt)
  then show ?thesis
    by (simp add: clamp_khz_def Let_def max_absorb1 FM_FREQ_LOW_def FM_FREQ_STEP_def)
qed

text \<open>\<open>sent P t0 s\<close>: every packet sent since the trace was \<open>t0\<close> satisfies \<open>P\<close>.\<close>

definition sent :: "(u8 list \<Rightarrow> bool) \<Rightarrow> fm_call list \<Rightarrow> fm_io \<Rightarrow> bool" where
  "sent P t0 s \<longleftrightarrow> (\<exists>rest. io_trace s = t0 @ rest \<and> (\<forall>p. FmSend p \<in> set rest \<longrightarrow> P p))"

lemma sent_start: "sent P (io_trace s) s"
  by (simp add: sent_def)

lemma sent_step:
  "sent P t0 s \<Longrightarrow> (\<And>p. e = FmSend p \<Longrightarrow> P p) \<Longrightarrow> io_trace s' = io_trace s @ [e] \<Longrightarrow> sent P t0 s'"
  by (auto simp: sent_def)

lemma sent_emit: "(\<And>p. e = FmSend p \<Longrightarrow> P p) \<Longrightarrow> kept (sent P t0) (emit e)"
  by (rule keptI) (simp add: wp_simps, erule sent_step, auto)

lemma sent_call: "(\<And>p. e = FmSend p \<Longrightarrow> P p) \<Longrightarrow> kept (sent P t0) (call a e)"
  by (rule keptI) (simp add: wp_simps, erule sent_step, auto)

lemma sent_modify: "kept (sent P t0) (modify f)"
  by (rule keptI) (auto simp: wp_simps sent_def)

lemma sent_gets: "kept (sent P t0) (gets f)"
  by (rule keptI) (auto simp: wp_simps)

lemma sent_arrivals: "kept (sent P t0) (arrivals env)"
  by (rule kept_arrivals) (rule keptI, auto simp: wp_rx_packet elim: sent_step)

lemmas sent_rules = kept_rules sent_modify sent_gets sent_arrivals

lemma sent_wait_cmd: "kept (sent P t0) (wait_cmd env)"
  unfolding wait_cmd_def by (intro sent_rules sent_emit) auto

lemma sent_cmd:
  assumes "P (fm_packet op payload plen)"
  shows "kept (sent P t0) (wcnss_fm_cmd env op payload plen)"
proof -
  have "kept (sent P t0) (wcnss_fm_send env op payload plen)"
    unfolding wcnss_fm_send_def by (intro sent_rules sent_call) (use assms in auto)
  then show ?thesis
    unfolding wcnss_fm_cmd_def by (intro sent_rules sent_emit sent_wait_cmd) auto
qed

text \<open>
  whatever frequency a program asks for, every packet that \<^verbatim>\<open>VIDIOC_S_FREQUENCY\<close> sends is a
  well-formed tune command for a frequency inside the band, on the 100 kHz raster. A request in
  the units the interface prescribes for this tuner, 62.5 kHz, tunes to the lower end of the
  band, whatever it is.
\<close>

theorem fm_s_frequency_in_band:
  "wp (wcnss_fm_s_frequency env f) (\<lambda>_ s'. \<exists>rest. io_trace s' = io_trace s @ rest \<and>
     (\<forall>p. FmSend p \<in> set rest \<longrightarrow> (\<exists>khz. fm_decode p =
        Some (fm_opcode FM_OGF_COMMON_CTRL FM_OCF_TUNE_STATION, le32 khz) \<and>
        87500 \<le> khz \<and> khz \<le> 108000 \<and> khz mod 100 = 0 \<and>
        (vf_frequency f \<le> 1728 \<longrightarrow> khz = 87500)))) s"
proof -
  let ?khz = "clamp_khz (vf_frequency f)"
  let ?P = "\<lambda>p. \<exists>khz. fm_decode p =
        Some (fm_opcode FM_OGF_COMMON_CTRL FM_OCF_TUNE_STATION, le32 khz) \<and>
        87500 \<le> khz \<and> khz \<le> 108000 \<and> khz mod 100 = 0 \<and>
        (vf_frequency f \<le> 1728 \<longrightarrow> khz = 87500)"
  have "length (le32 ?khz) = unat (4 :: u8)" by (simp add: le32_def)
  from fm_decode_packet [OF this]
  have "?P (fm_packet (fm_opcode FM_OGF_COMMON_CTRL FM_OCF_TUNE_STATION) (le32 ?khz) 4)"
    using clamp_khz_bounds [of "vf_frequency f"] fm_standard_units_clamped [of "vf_frequency f"]
    unfolding FM_FREQ_LOW_def FM_FREQ_HIGH_def FM_FREQ_STEP_def
    by (intro exI [of _ ?khz]) simp
  then have "kept (sent ?P (io_trace s)) (wcnss_fm_s_frequency env f)"
    unfolding wcnss_fm_s_frequency_def wcnss_fm_tune_def by (intro sent_rules sent_cmd)
  from keptD [OF this sent_start] show ?thesis by (simp only: sent_def)
qed

text \<open>98.5 MHz in the units of the interface.\<close>

lemma fm_tune_demo:
  "wp (wcnss_fm_s_frequency fm_foreign \<lparr>vf_tuner = 0, vf_type = 1, vf_frequency = 1576\<rparr>)
     (\<lambda>r s'. r = 0 \<and> FmSend (fm_packet (fm_opcode FM_OGF_COMMON_CTRL FM_OCF_TUNE_STATION)
        (le32 87500) 4) \<in> set (io_trace s')) fm_fresh"
proof -
  have rx: "after_rx [0x14, 0x10, 4, 0, 1, 0x01, 0x54] fm = complete_cmd (fm\<lparr>fm_cmd_status := 0\<rparr>)"
    for fm
    by (simp add: after_rx_def wcnss_fm_rx_def fm_event_def FM_PKT_EVENT_def FM_EV_CMD_STATUS_def
        FM_EV_CMD_COMPLETE_def)
  have khz: "clamp_khz 1576 = 87500"
    using fm_standard_units_clamped [of 1576] by (simp add: FM_FREQ_LOW_def)
  show ?thesis
    by (simp add: wcnss_fm_s_frequency_def wcnss_fm_tune_def khz wcnss_fm_cmd_def wait_cmd_def
        wcnss_fm_send_def wp_simps wp_arrivals fm_fresh_def fm_foreign_def wp_rx_packet rx
        complete_cmd_def)
qed

theorem fm_s_frequency_in_band_witness:
  "wp (wcnss_fm_s_frequency fm_foreign \<lparr>vf_tuner = 0, vf_type = 1, vf_frequency = 1576\<rparr>)
     (\<lambda>r s'. r = 0 \<and> (\<exists>p khz. FmSend p \<in> set (io_trace s') \<and> fm_decode p =
        Some (fm_opcode FM_OGF_COMMON_CTRL FM_OCF_TUNE_STATION, le32 khz) \<and> khz = 87500)) fm_fresh"
proof (rule wp_mono [OF wp_conj [OF fm_tune_demo fm_s_frequency_in_band]], elim conjE exE)
  fix r :: int and s' rest
  assume "r = 0" and sent: "FmSend (fm_packet (fm_opcode FM_OGF_COMMON_CTRL FM_OCF_TUNE_STATION)
      (le32 87500) 4) \<in> set (io_trace s')"
    and t: "io_trace s' = io_trace fm_fresh @ rest"
    and all: "\<forall>p. FmSend p \<in> set rest \<longrightarrow> (\<exists>khz. fm_decode p =
        Some (fm_opcode FM_OGF_COMMON_CTRL FM_OCF_TUNE_STATION, le32 khz) \<and>
        87500 \<le> khz \<and> khz \<le> 108000 \<and> khz mod 100 = 0 \<and>
        (vf_frequency \<lparr>vf_tuner = 0, vf_type = 1, vf_frequency = 1576\<rparr> \<le> 1728 \<longrightarrow> khz = 87500))"
  have "1576 \<le> (1728 :: u32)" by simp
  with sent t all \<open>r = 0\<close> show "r = 0 \<and> (\<exists>p khz. FmSend p \<in> set (io_trace s') \<and> fm_decode p =
        Some (fm_opcode FM_OGF_COMMON_CTRL FM_OCF_TUNE_STATION, le32 khz) \<and> khz = 87500)"
    by (auto simp: fm_fresh_def)
qed

section \<open>Handles and power\<close>

text \<open>Commands and packets leave the handles and the power flag alone.\<close>

definition hand :: "bool \<Rightarrow> nat \<Rightarrow> fm_io \<Rightarrow> bool" where
  "hand e n s \<longleftrightarrow> fm_enabled (io_dev s) = e \<and> fm_fhs (io_dev s) = n"

lemma hand_emit: "kept (hand e n) (emit c)"
  by (rule keptI) (simp add: wp_simps hand_def)

lemma hand_call: "kept (hand e n) (call a c)"
  by (rule keptI) (simp add: wp_simps hand_def)

lemma hand_gets: "kept (hand e n) (gets f)"
  by (rule keptI) (simp add: wp_simps)

lemma hand_modify: "(\<And>fm. same_handles fm (f fm)) \<Longrightarrow> kept (hand e n) (modify f)"
  by (rule keptI) (simp add: wp_simps hand_def same_handles_def)

lemma hand_rx: "kept (hand e n) (rx_packet p)"
  using after_rx_effect(1)
  by (intro keptI) (simp add: wp_rx_packet hand_def same_handles_def)

lemmas hand_rules = kept_rules hand_emit hand_call hand_gets hand_modify kept_arrivals [OF hand_rx]

lemma hand_cmd: "kept (hand e n) (wcnss_fm_cmd env op payload plen)"
  unfolding wcnss_fm_cmd_def wcnss_fm_send_def wait_cmd_def
  by (intro hand_rules; simp add: same_handles_def)

lemma wp_set_enabled: "hand e n s \<Longrightarrow> wp (set_enabled b) (\<lambda>_. hand b n) s"
  by (simp add: set_enabled_def wp_simps hand_def)

lemma enable_hand:
  assumes "hand e n s"
  shows "wp (wcnss_fm_enable env) (\<lambda>r. hand (if r = 0 then True else e) n) s"
proof -
  have rest: "wp (do { _ \<leftarrow> wcnss_fm_cmd env op payload plen; set_enabled True; ret (0::int) })
      (\<lambda>r. hand (if r = 0 then True else e) n) t" if "hand e n t" for t op payload plen
    unfolding wp_bind
    by (rule kept_wp [OF hand_cmd that], rule wp_mono [OF wp_set_enabled]) (simp_all add: wp_simps)
  show ?thesis
    unfolding wcnss_fm_enable_def
    by (subst wp_bind, rule kept_wp [OF hand_cmd assms]) (auto simp: wp_return intro: rest)
qed

lemma disable_hand:
  assumes "hand e n s"
  shows "wp (wcnss_fm_disable env) (\<lambda>_. hand False n) s"
proof (cases "fm_enabled (io_dev s)")
  case True
  then show ?thesis
    by (simp add: wcnss_fm_disable_def wp_simps)
      (rule kept_wp [OF hand_cmd assms], erule wp_set_enabled)
next
  case False
  with assms show ?thesis by (simp add: wcnss_fm_disable_def wp_simps hand_def)
qed

lemma open_locked_hand:
  assumes "hand e n s"
  shows "wp (open_locked env) (\<lambda>r s'. if n \<noteq> 1 then r = 0 \<and> hand e n s'
     else if r = 0 then hand True 1 s' else hand e 0 s') s"
proof (cases "n = 1")
  case True
  with assms have "fm_fhs (io_dev s) = 1" by (simp add: hand_def)
  then show ?thesis
    using True
    by (simp add: open_locked_def wp_simps)
      (rule wp_mono [OF enable_hand [OF assms]],
        simp add: v4l2_fh_release_def wp_simps hand_def split: if_splits)
next
  case False
  with assms show ?thesis by (simp add: open_locked_def wp_simps hand_def)
qed

lemma release_locked_hand:
  assumes "hand e n s"
  shows "wp (release_locked env) (\<lambda>_. hand (e \<and> n \<noteq> 1) n) s"
proof (cases "n = 1")
  case True
  with assms have "fm_fhs (io_dev s) = 1" by (simp add: hand_def)
  then show ?thesis
    using True wp_mono [OF disable_hand [OF assms]]
    by (simp add: release_locked_def wp_simps)
next
  case False
  with assms show ?thesis by (simp add: release_locked_def wp_simps hand_def)
qed

lemma fh_open_hand:
  "hand e n s \<Longrightarrow> wp (v4l2_fh_open env) (\<lambda>r. hand e (if r = 0 then n + 1 else n)) s"
  by (simp add: v4l2_fh_open_def wp_simps hand_def)

lemma fh_release_hand: "hand e n s \<Longrightarrow> wp v4l2_fh_release (\<lambda>_. hand e (n - 1)) s"
  by (simp add: v4l2_fh_release_def wp_simps hand_def)







text \<open>
  The states reached when two opens or two releases may overlap: the list of handles changes
  outside of the driver's mutex. \<open>opening\<close> and \<open>closing\<close> count the threads between the two
  halves of an open and of a release.
\<close>

inductive fm_conc :: "fm_io \<Rightarrow> nat \<Rightarrow> nat \<Rightarrow> bool" where
  conc_fresh: "fm_conc fm_fresh 0 0"
| conc_open_add: "fm_conc s opening closing \<Longrightarrow> run_state (v4l2_fh_open env) s = (0, s') \<Longrightarrow>
     fm_conc s' (Suc opening) closing"
| conc_open_lock: "fm_conc s (Suc opening) closing \<Longrightarrow> run_state (open_locked env) s = (r, s') \<Longrightarrow>
     fm_conc s' opening closing"
| conc_release_lock: "fm_conc s opening closing \<Longrightarrow> opening + closing < fm_fhs (io_dev s) \<Longrightarrow>
     run_state (release_locked env) s = (u, s') \<Longrightarrow> fm_conc s' opening (Suc closing)"
| conc_release_del: "fm_conc s opening (Suc closing) \<Longrightarrow> run_state v4l2_fh_release s = (r, s') \<Longrightarrow>
     fm_conc s' opening closing"

text \<open>An environment in which everything succeeds: the coprocessor answers each command with a
  command status event, while the driver waits.\<close>

definition fm_demo :: fm_env where
  "fm_demo = \<lparr>fe_ret = (\<lambda>_ _. 0),
     fe_arrive = (\<lambda>t. if t \<noteq> [] \<and> last t = FmWaitCmd then [[0x14, 0x10, 4, 0, 1, 0, 0]] else []),
     fe_ptr = (\<lambda>_ _. True)\<rparr>"

lemma fm_demo_cmd: "wp (wcnss_fm_cmd fm_demo op payload plen) (\<lambda>r _. r = 0) s"
proof -
  have w: "waits_for [[0x14, 0x10, 4, 0, 1, 0, 0]] fm_demo"
    by (simp add: waits_for_def fm_demo_def)
  have "cmd_result fm_demo [[0x14, 0x10, 4, 0, 1, 0, 0]] op payload plen t = 0" for t
    by (simp add: cmd_result_def fm_demo_def reply_def finishes_def FM_PKT_EVENT_def
        FM_EV_CMD_STATUS_def FM_EV_CMD_COMPLETE_def)
  then show ?thesis using cmd_waits [OF w, of op payload plen s] by (simp add: wp_def)
qed

lemma fm_demo_enable: "wp (wcnss_fm_enable fm_demo) (\<lambda>r _. r = 0) s"
proof -
  have "wp (do { _ \<leftarrow> wcnss_fm_cmd fm_demo op p l; set_enabled True; ret (0::int) }) (\<lambda>r _. r = 0) t"
    for op p l t by (simp add: wp_simps set_enabled_def wp_def split_beta)
  then show ?thesis
    unfolding wcnss_fm_enable_def
    by (subst wp_bind, intro wp_mono [OF fm_demo_cmd]) simp
qed

lemma conc_add:
  assumes "fm_conc s m k" "hand e n s"
  shows "\<exists>s'. fm_conc s' (Suc m) k \<and> hand e (Suc n) s'"
proof -
  have "wp (v4l2_fh_open fm_demo) (\<lambda>r _. r = 0) s"
    by (simp add: v4l2_fh_open_def fm_demo_def wp_simps)
  from wp_conj [OF this fh_open_hand [OF assms(2)]] obtain s'
    where "run_state (v4l2_fh_open fm_demo) s = (0, s')" "hand e (Suc n) s'"
    by (elim wp_runE) auto
  with assms(1) show ?thesis by (blast intro: conc_open_add)
qed

lemma conc_lock:
  assumes "fm_conc s (Suc m) k" "hand e n s"
  shows "\<exists>s'. fm_conc s' m k \<and> hand (e \<or> n = 1) n s'"
proof -
  have "wp (open_locked fm_demo) (\<lambda>r _. r = 0) s"
    using wp_mono [OF fm_demo_enable] by (simp add: open_locked_def wp_simps)
  from wp_conj [OF this open_locked_hand [OF assms(2)]] obtain s'
    where "run_state (open_locked fm_demo) s = (0, s')" "hand (e \<or> n = 1) n s'"
    by (elim wp_runE) (auto split: if_splits)
  with assms(1) show ?thesis by (blast intro: conc_open_lock)
qed

lemma conc_rel_idle:
  assumes "fm_conc s m k" "hand e n s" "m + k < n" "n \<noteq> 1"
  shows "\<exists>s'. fm_conc s' m (Suc k) \<and> hand e n s'"
proof -
  obtain u s' where "run_state (release_locked fm_demo) s = (u, s')" "hand e n s'"
    using assms(4) by (auto intro: wp_runE [OF release_locked_hand [OF assms(2), of fm_demo]])
  with assms show ?thesis by (blast intro: conc_release_lock [OF assms(1)] dest: hand_def [THEN iffD1])
qed

lemma conc_del:
  assumes "fm_conc s m (Suc k)" "hand e n s"
  shows "\<exists>s'. fm_conc s' m k \<and> hand e (n - 1) s'"
proof -
  from fh_release_hand [OF assms(2)] obtain u s'
    where "run_state v4l2_fh_release s = (u, s')" "hand e (n - 1) s'"
    by (elim wp_runE) auto
  with assms(1) show ?thesis by (blast intro: conc_release_del)
qed

lemma fresh_hand: "hand False 0 fm_fresh"
  by (simp add: hand_def fm_fresh_def)

lemma both_open_off: "\<exists>s. fm_conc s 0 0 \<and> hand False 2 s"
proof -
  obtain s1 where "fm_conc s1 (Suc 0) 0" "hand False 1 s1"
    using conc_add [OF conc_fresh fresh_hand] by auto
  then obtain s2 where "fm_conc s2 (Suc (Suc 0)) 0" "hand False 2 s2"
    using conc_add [of s1 "Suc 0" 0 False 1] by (auto simp: numeral_2_eq_2)
  then obtain s3 where "fm_conc s3 (Suc 0) 0" "hand False 2 s3"
    using conc_lock [of s2 "Suc 0" 0 False 2] by auto
  then show ?thesis using conc_lock [of s3 0 0 False 2] by auto
qed

lemma all_closed_on: "\<exists>s. fm_conc s 0 0 \<and> hand True 0 s"
proof -
  obtain s1 where "fm_conc s1 (Suc 0) 0" "hand False 1 s1"
    using conc_add [OF conc_fresh fresh_hand] by auto
  then obtain s2 where "fm_conc s2 0 0" "hand True 1 s2"
    using conc_lock [of s1 0 0 False 1] by auto
  then obtain s3 where "fm_conc s3 (Suc 0) 0" "hand True 2 s3"
    using conc_add [of s2 0 0 True 1] by (auto simp: numeral_2_eq_2)
  then obtain s4 where "fm_conc s4 0 0" "hand True 2 s4"
    using conc_lock [of s3 0 0 True 2] by auto
  then obtain s5 where "fm_conc s5 0 (Suc 0)" "hand True 2 s5"
    using conc_rel_idle [of s4 0 0 True 2] by auto
  then obtain s6 where "fm_conc s6 0 (Suc (Suc 0))" "hand True 2 s6"
    using conc_rel_idle [of s5 0 "Suc 0" True 2] by (auto simp: numeral_2_eq_2)
  then obtain s7 where "fm_conc s7 0 (Suc 0)" "hand True 1 s7"
    using conc_del [of s6 0 "Suc 0" True 2] by (auto simp: numeral_2_eq_2)
  then show ?thesis using conc_del [of s7 0 0 True 1] by auto
qed

text \<open>
  C31: the test for the first and the last handle is made after the list has changed outside of
  the mutex. Two opens that overlap both see two handles, and leave the receiver off with both
  open; two releases that overlap both see two, and leave it on with none open.
\<close>

theorem fm_open_release_race:
  "(\<exists>s. fm_conc s 0 0 \<and> fm_fhs (io_dev s) = 2 \<and> \<not> fm_enabled (io_dev s)) \<and>
   (\<exists>s. fm_conc s 0 0 \<and> fm_fhs (io_dev s) = 0 \<and> fm_enabled (io_dev s))"
  using both_open_off all_closed_on unfolding hand_def by blast

end
