(* ===== verification/Panel_Dsi.thy ===== *)
theory Panel_Dsi
  imports Prelude
begin

text \<open>
  What the panel drivers share. A panel is programmed by a sequence of DSI commands and delays
  (\<open>dsi_op\<close>). The drivers run such a sequence in two ways: \<^verbatim>\<open>panel-sony-sirius.c\<close> through the
  kernel's multi context, whose functions do nothing once an error is recorded (\<open>run_multi\<close>), the
  generated drivers with a return after each failed command (\<open>run_early\<close>). Both are the same
  function, and both stop after the first command that fails. The vendor's device trees hold the
  sequences as bytes; \<open>qcom_parse\<close> decodes them.
\<close>

section \<open>DSI commands\<close>

datatype dsi_op =
    Dcs "u8 list"
  | Generic "u8 list"
  | Msleep nat
  | Usleep nat nat

text \<open>Commands of the display command set (\<^verbatim>\<open>video/mipi_display.h\<close>) behind the kernel's helpers.\<close>

abbreviation (input) dcs_soft_reset :: dsi_op where "dcs_soft_reset \<equiv> Dcs [0x01]"
abbreviation (input) dcs_enter_sleep_mode :: dsi_op where "dcs_enter_sleep_mode \<equiv> Dcs [0x10]"
abbreviation (input) dcs_exit_sleep_mode :: dsi_op where "dcs_exit_sleep_mode \<equiv> Dcs [0x11]"
abbreviation (input) dcs_set_display_off :: dsi_op where "dcs_set_display_off \<equiv> Dcs [0x28]"
abbreviation (input) dcs_set_display_on :: dsi_op where "dcs_set_display_on \<equiv> Dcs [0x29]"
abbreviation (input) dcs_set_tear_on_vhblank :: dsi_op where "dcs_set_tear_on_vhblank \<equiv> Dcs [0x35, 1]"

definition dcs_set_pixel_format :: "u8 \<Rightarrow> dsi_op" where
  "dcs_set_pixel_format f = Dcs [0x3a, f]"

definition dcs_set_display_brightness :: "u16 \<Rightarrow> dsi_op" where
  "dcs_set_display_brightness b = Dcs [0x51, ucast (b AND 0xff), ucast (drop_bit 8 b)]"

section \<open>State and environment\<close>

text \<open>
  The part of a panel's state that every driver has: whether commands go out in low power mode
  (\<^verbatim>\<open>MIPI_DSI_MODE_LPM\<close>), and how often the driver has enabled the \<open>vddio\<close> supply without
  disabling it.
\<close>

record panel_hw =
  pn_lpm :: bool
  pn_vddio :: nat

datatype dsi_flag = Mode_video | Mode_video_hse | Clock_non_continuous

datatype pn_ev =
    Pn_write bool dsi_op
  | Pn_sleep dsi_op
  | Pn_enable string
  | Pn_disable string
  | Pn_reset bool
  | Pn_fsleep int
  | Pn_dcs_read u8
  | Pn_alloc
  | Pn_get string
  | Pn_backlight
  | Pn_config nat "dsi_flag list"
  | Pn_add
  | Pn_attach
  | Pn_detach
  | Pn_remove

text \<open>\<open>pe_ret\<close> answers the calls (a negative value is an error), \<open>pe_ptr\<close> says whether an allocation
  succeeds, \<open>pe_now\<close> is the clock in nanoseconds.\<close>

record pn_env =
  pe_ret :: "pn_ev list \<Rightarrow> pn_ev \<Rightarrow> int"
  pe_ptr :: "pn_ev list \<Rightarrow> pn_ev \<Rightarrow> bool"
  pe_now :: "pn_ev list \<Rightarrow> int"

type_synonym 'h pn_io = "(pn_ev, 'h panel_hw_scheme) io"
type_synonym ('h, 'a) pnm = "('h pn_io, 'a) state"

section \<open>Modes, power mode and the vddio supply\<close>

record drm_display_mode =
  dm_clock :: int
  dm_hdisplay :: int
  dm_hsync_start :: int
  dm_hsync_end :: int
  dm_htotal :: int
  dm_vdisplay :: int
  dm_vsync_start :: int
  dm_vsync_end :: int
  dm_vtotal :: int
  dm_width_mm :: int
  dm_height_mm :: int

definition set_lpm :: "bool \<Rightarrow> ('h, unit) pnm" where
  "set_lpm b = modify (\<lambda>h. h\<lparr>pn_lpm := b\<rparr>)"

text \<open>The supply's use count goes up when \<^verbatim>\<open>regulator_enable\<close> returns 0.\<close>

definition vddio_enable :: "pn_env \<Rightarrow> ('h, int) pnm" where
  "vddio_enable env = do {
     r \<leftarrow> call (pe_ret env) (Pn_enable ''vddio'');
     whenM (r = 0) (modify (\<lambda>h. h\<lparr>pn_vddio := pn_vddio h + 1\<rparr>));
     ret r
   }"

definition vddio_disable :: "('h, unit) pnm" where
  "vddio_disable = do {
     emit (Pn_disable ''vddio'');
     modify (\<lambda>h. h\<lparr>pn_vddio := pn_vddio h - 1\<rparr>)
   }"

text \<open>\<^verbatim>\<open>regulator_enable\<close> returns 0 or a negative error number.\<close>

definition enable_ok :: "pn_env \<Rightarrow> bool" where
  "enable_ok env \<longleftrightarrow> (\<forall>t n. pe_ret env t (Pn_enable n) \<le> 0)"

section \<open>Running a sequence\<close>

fun is_delay :: "dsi_op \<Rightarrow> bool" where
  "is_delay (Msleep _) = True"
| "is_delay (Usleep _ _) = True"
| "is_delay _ = False"

definition dsi_exec :: "pn_env \<Rightarrow> dsi_op \<Rightarrow> ('h, int) pnm" where
  "dsi_exec env op =
     (if is_delay op then do { emit (Pn_sleep op); ret 0 }
      else do { lpm \<leftarrow> gets pn_lpm; call (pe_ret env) (Pn_write lpm op) })"

text \<open>A \<^verbatim>\<open>_multi\<close> function: nothing once an error is recorded, else record a negative result.\<close>

definition dsi_multi :: "pn_env \<Rightarrow> dsi_op \<Rightarrow> int \<Rightarrow> ('h, int) pnm" where
  "dsi_multi env op err =
     (if err \<noteq> 0 then ret err
      else do { r \<leftarrow> dsi_exec env op; ret (if r < 0 then r else 0) })"

fun run_multi :: "pn_env \<Rightarrow> dsi_op list \<Rightarrow> int \<Rightarrow> ('h, int) pnm" where
  "run_multi env [] err = ret err"
| "run_multi env (op # ops) err = do { err \<leftarrow> dsi_multi env op err; run_multi env ops err }"

fun run_early :: "pn_env \<Rightarrow> dsi_op list \<Rightarrow> ('h, int) pnm" where
  "run_early env [] = ret 0"
| "run_early env (op # ops) = do {
     r \<leftarrow> dsi_exec env op;
     if r < 0 then ret r else run_early env ops
   }"

lemma run_multi_err: "err \<noteq> 0 \<Longrightarrow> run_multi env ops err = ret err"
  by (induction ops) (simp_all add: dsi_multi_def)

lemma bind_cong: "(\<And>a. f a = g a) \<Longrightarrow> State_Monad.bind m f = State_Monad.bind m g"
  by presburger

text \<open>Error accumulation and early return are the same.\<close>

lemma run_multi_early: "run_multi env ops 0 = run_early env ops"
proof (induction ops)
  case (Cons op ops)
  show ?case
    by (simp add: dsi_multi_def) (rule bind_cong, auto simp: Cons.IH run_multi_err)
qed simp

text \<open>The events of a sequence, and the number of operations before the first one that fails.\<close>

definition op_ev :: "bool \<Rightarrow> dsi_op \<Rightarrow> pn_ev" where
  "op_ev lpm op = (if is_delay op then Pn_sleep op else Pn_write lpm op)"

definition op_fails :: "pn_env \<Rightarrow> pn_ev list \<Rightarrow> bool \<Rightarrow> dsi_op \<Rightarrow> bool" where
  "op_fails env t lpm op \<longleftrightarrow> \<not> is_delay op \<and> pe_ret env t (Pn_write lpm op) < 0"

fun done_ops :: "pn_env \<Rightarrow> pn_ev list \<Rightarrow> bool \<Rightarrow> dsi_op list \<Rightarrow> nat" where
  "done_ops env t lpm [] = 0"
| "done_ops env t lpm (op # ops) =
     (if op_fails env t lpm op then 0 else Suc (done_ops env (t @ [op_ev lpm op]) lpm ops))"

lemma wp_dsi_exec:
  "wp (dsi_exec env op) Q s =
     Q (if is_delay op then 0 else pe_ret env (io_trace s) (Pn_write (pn_lpm (io_dev s)) op))
       (s\<lparr>io_trace := io_trace s @ [op_ev (pn_lpm (io_dev s)) op]\<rparr>)"
  by (simp add: dsi_exec_def op_ev_def wp_simps)

lemma run_early_stops:
  assumes "n = done_ops env (io_trace s) (pn_lpm (io_dev s)) ops"
  shows "wp (run_early env ops) (\<lambda>r s'. io_dev s' = io_dev s \<and>
     (if n = length ops then r = 0 \<and> io_trace s' = io_trace s @ map (op_ev (pn_lpm (io_dev s))) ops
      else r < 0 \<and> io_trace s' = io_trace s @ map (op_ev (pn_lpm (io_dev s))) (take (n + 1) ops) \<and>
        r = pe_ret env (io_trace s @ map (op_ev (pn_lpm (io_dev s))) (take n ops))
              (Pn_write (pn_lpm (io_dev s)) (ops ! n)))) s"
  using assms
proof (induction ops arbitrary: s n)
  case Nil
  then show ?case by (simp add: wp_simps)
next
  case (Cons op ops)
  let ?lpm = "pn_lpm (io_dev s)"
  let ?s = "s\<lparr>io_trace := io_trace s @ [op_ev ?lpm op]\<rparr>"
  show ?case
  proof (cases "op_fails env (io_trace s) ?lpm op")
    case True
    with Cons.prems show ?thesis
      by (simp add: op_fails_def wp_simps wp_dsi_exec)
  next
    case False
    define m where "m = done_ops env (io_trace ?s) (pn_lpm (io_dev ?s)) ops"
    have n: "n = Suc m" using Cons.prems False by (simp add: m_def)
    have "wp (run_early env (op # ops)) Q s = wp (run_early env ops) Q ?s" for Q
      using False by (auto simp: op_fails_def wp_simps wp_dsi_exec)
    then show ?thesis
      unfolding n by (simp only:) (rule wp_mono [OF Cons.IH [OF m_def]], auto split: if_splits)
  qed
qed

lemma run_early_dev: "wp (run_early env ops) (\<lambda>_ s'. io_dev s' = io_dev s) s"
  by (rule wp_mono [OF run_early_stops [OF refl]]) simp

lemma run_early_result: "wp (run_early env ops) (\<lambda>r _. r \<le> 0) s"
  by (rule wp_mono [OF run_early_stops [OF refl]]) (simp split: if_splits)

section \<open>The vendor's encoding\<close>

text \<open>
  A command of the vendor's device tree: data type, last, virtual channel, acknowledge, wait in
  milliseconds, length (high byte first), payload. \<open>qcom_parse\<close> is \<open>None\<close> for bytes that are
  no sequence of commands.
\<close>

definition qcom_op :: "u8 \<Rightarrow> u8 list \<Rightarrow> dsi_op option" where
  "qcom_op t p =
     (if t = 0x05 \<or> t = 0x15 \<or> t = 0x39 then Some (Dcs p)
      else if t = 0x23 \<or> t = 0x29 then Some (Generic p)
      else None)"

function qcom_parse :: "u8 list \<Rightarrow> dsi_op list option" where
  "qcom_parse [] = Some []"
| "qcom_parse (t # l # vc # ack # w # hi # lo # rest) =
     (let n = 256 * unat hi + unat lo in
      if length rest < n then None
      else do {
        op \<leftarrow> qcom_op t (take n rest);
        ops \<leftarrow> qcom_parse (drop n rest);
        Some (op # (if w = 0 then [] else [Msleep (unat w)]) @ ops)
      })"
| "qcom_parse [a] = None"
| "qcom_parse [a, b] = None"
| "qcom_parse [a, b, c] = None"
| "qcom_parse [a, b, c, d] = None"
| "qcom_parse [a, b, c, d, e] = None"
| "qcom_parse [a, b, c, d, e, f] = None"
  by pat_completeness auto
termination by (relation "measure length") (auto simp: Let_def)

text \<open>One command in the form the theories hold it, and the bytes of a list of commands.\<close>

datatype qcom_cmd = Qcom (qc_type: u8) (qc_wait: u8) (qc_payload: "u8 list")

definition qcom_bytes :: "qcom_cmd \<Rightarrow> u8 list" where
  "qcom_bytes c = [qc_type c, 1, 0, 0, qc_wait c, of_nat (length (qc_payload c) div 256),
     of_nat (length (qc_payload c))] @ qc_payload c"

definition qcom_ops :: "qcom_cmd \<Rightarrow> dsi_op list" where
  "qcom_ops c = the (qcom_op (qc_type c) (qc_payload c)) #
     (if qc_wait c = 0 then [] else [Msleep (unat (qc_wait c))])"

definition qcom_valid :: "qcom_cmd \<Rightarrow> bool" where
  "qcom_valid c \<longleftrightarrow> qc_type c \<in> {0x05, 0x15, 0x39, 0x23, 0x29} \<and> length (qc_payload c) < 256"

lemma qcom_parse_cmd:
  assumes "qcom_valid c" "qcom_parse rest = Some ops"
  shows "qcom_parse (qcom_bytes c @ rest) = Some (qcom_ops c @ ops)"
proof -
  have "length (qc_payload c) < 256" using assms(1) by (simp add: qcom_valid_def)
  then have "256 * unat (of_nat (length (qc_payload c) div 256) :: u8) +
      unat (of_nat (length (qc_payload c)) :: u8) = length (qc_payload c)"
    by (simp add: unat_of_nat)
  moreover obtain op where "qcom_op (qc_type c) (qc_payload c) = Some op"
    using assms(1) by (auto simp: qcom_valid_def qcom_op_def)
  ultimately show ?thesis
    using assms(2) by (simp add: qcom_bytes_def qcom_ops_def Let_def)
qed

lemma qcom_parse_concat:
  "list_all qcom_valid cs \<Longrightarrow>
     qcom_parse (concat (map qcom_bytes cs)) = Some (concat (map qcom_ops cs))"
  by (induction cs) (auto intro: qcom_parse_cmd)

text \<open>A minimal delay in milliseconds, for comparing delays of different precision.\<close>

fun coarse :: "dsi_op \<Rightarrow> dsi_op" where
  "coarse (Usleep lo hi) = Msleep (lo div 1000)"
| "coarse op = op"

end
