(* ===== verification/Panel_Commands.thy ===== *)
theory Panel_Commands
  imports Panel_Dsi
begin

text \<open>
  The command sequences of the six drivers in \<^verbatim>\<open>panel-variants/generated\<close>: for each driver the
  commands and delays of its \<open>on\<close> and \<open>off\<close> function, in order. Commands that the source names by a
  constant of \<^verbatim>\<open>video/mipi_display.h\<close> appear with its value; a long function is split in parts.
\<close>

definition novatek_jdi_on_ops_1 :: "dsi_op list" where
  "novatek_jdi_on_ops_1 = [
     dcs_soft_reset, Usleep 10000 11000, Generic [0xff, 0x01], Generic [0x75, 0x00],
     Generic [0x76, 0x30], Generic [0x77, 0x00], Generic [0x78, 0x43], Generic [0x79, 0x00],
     Generic [0x7a, 0x61], Generic [0x7b, 0x00], Generic [0x7c, 0x7d], Generic [0x7d, 0x00],
     Generic [0x7e, 0x98], Generic [0x7f, 0x00], Generic [0x80, 0xae], Generic [0x81, 0x00],
     Generic [0x82, 0xc0], Generic [0x83, 0x00], Generic [0x84, 0xcd], Generic [0x85, 0x00],
     Generic [0x86, 0xdb], Generic [0x87, 0x01], Generic [0x88, 0x0a], Generic [0x89, 0x01],
     Generic [0x8a, 0x2a], Generic [0x8b, 0x01], Generic [0x8c, 0x66], Generic [0x8d, 0x01],
     Generic [0x8e, 0x95], Generic [0x8f, 0x01], Generic [0x90, 0xd8], Generic [0x91, 0x02],
     Generic [0x92, 0x1a], Generic [0x93, 0x02], Generic [0x94, 0x1c], Generic [0x95, 0x02],
     Generic [0x96, 0x5e], Generic [0x97, 0x02], Generic [0x98, 0x9a], Generic [0x99, 0x02],
     Generic [0x9a, 0xbf], Generic [0x9b, 0x02], Generic [0x9c, 0xed], Generic [0x9d, 0x03],
     Generic [0x9e, 0x0b], Generic [0x9f, 0x03], Generic [0xa0, 0x36], Generic [0xa2, 0x03],
     Generic [0xa3, 0x3b], Generic [0xa4, 0x03], Generic [0xa5, 0x40], Generic [0xa6, 0x03],
     Generic [0xa7, 0x45], Generic [0xa9, 0x03], Generic [0xaa, 0x54], Generic [0xab, 0x03],
     Generic [0xac, 0x70], Generic [0xad, 0x03], Generic [0xae, 0x8e], Generic [0xaf, 0x03],
     Generic [0xb0, 0xb2], Generic [0xb1, 0x03], Generic [0xb2, 0xc9], Generic [0xb3, 0x00],
     Generic [0xb4, 0x30], Generic [0xb5, 0x00], Generic [0xb6, 0x43], Generic [0xb7, 0x00],
     Generic [0xb8, 0x61], Generic [0xb9, 0x00], Generic [0xba, 0x7d], Generic [0xbb, 0x00],
     Generic [0xbc, 0x98], Generic [0xbd, 0x00], Generic [0xbe, 0xae], Generic [0xbf, 0x00],
     Generic [0xc0, 0xc0], Generic [0xc1, 0x00], Generic [0xc2, 0xcd], Generic [0xc3, 0x00],
     Generic [0xc4, 0xdb], Generic [0xc5, 0x01], Generic [0xc6, 0x0a], Generic [0xc7, 0x01],
     Generic [0xc8, 0x2a], Generic [0xc9, 0x01], Generic [0xca, 0x66], Generic [0xcb, 0x01],
     Generic [0xcc, 0x95], Generic [0xcd, 0x01], Generic [0xce, 0xd8], Generic [0xcf, 0x02],
     Generic [0xd0, 0x1a], Generic [0xd1, 0x02], Generic [0xd2, 0x1c], Generic [0xd3, 0x02],
     Generic [0xd4, 0x5e], Generic [0xd5, 0x02], Generic [0xd6, 0x9a], Generic [0xd7, 0x02],
     Generic [0xd8, 0xbf], Generic [0xd9, 0x02], Generic [0xda, 0xed], Generic [0xdb, 0x03],
     Generic [0xdc, 0x0b], Generic [0xdd, 0x03], Generic [0xde, 0x36], Generic [0xdf, 0x03],
     Generic [0xe0, 0x3b], Generic [0xe1, 0x03], Generic [0xe2, 0x40], Generic [0xe3, 0x03],
     Generic [0xe4, 0x45], Generic [0xe5, 0x03], Generic [0xe6, 0x54], Generic [0xe7, 0x03],
     Generic [0xe8, 0x70], Generic [0xe9, 0x03], Generic [0xea, 0x8e], Generic [0xeb, 0x03],
     Generic [0xec, 0xb2], Generic [0xed, 0x03], Generic [0xee, 0xc9], Generic [0xef, 0x00],
     Generic [0xf0, 0x30], Generic [0xf1, 0x00], Generic [0xf2, 0x43], Generic [0xf3, 0x00],
     Generic [0xf4, 0x61], Generic [0xf5, 0x00]]"

definition novatek_jdi_on_ops_2 :: "dsi_op list" where
  "novatek_jdi_on_ops_2 = [
     Generic [0xf6, 0x7d], Generic [0xf7, 0x00], Generic [0xf8, 0x98], Generic [0xf9, 0x00],
     Generic [0xfa, 0xae], Generic [0xfb, 0x01], Generic [0xff, 0x02], Generic [0x00, 0x00],
     Generic [0x01, 0xc0], Generic [0x02, 0x00], Generic [0x03, 0xcd], Generic [0x04, 0x00],
     Generic [0x05, 0xdb], Generic [0x06, 0x01], Generic [0x07, 0x0a], Generic [0x08, 0x01],
     Generic [0x09, 0x2a], Generic [0x0a, 0x01], Generic [0x0b, 0x69], Generic [0x0c, 0x01],
     Generic [0x0d, 0x99], Generic [0x0e, 0x01], Generic [0x0f, 0xde], Generic [0x10, 0x02],
     Generic [0x11, 0x20], Generic [0x12, 0x02], Generic [0x13, 0x22], Generic [0x14, 0x02],
     Generic [0x15, 0x64], Generic [0x16, 0x02], Generic [0x17, 0xa0], Generic [0x18, 0x02],
     Generic [0x19, 0xc4], Generic [0x1a, 0x02], Generic [0x1b, 0xf3], Generic [0x1c, 0x03],
     Generic [0x1d, 0x0f], Generic [0x1e, 0x03], Generic [0x1f, 0x36], Generic [0x20, 0x03],
     Generic [0x21, 0x3b], Generic [0x22, 0x03], Generic [0x23, 0x40], Generic [0x24, 0x03],
     Generic [0x25, 0x45], Generic [0x26, 0x03], Generic [0x27, 0x54], Generic [0x28, 0x03],
     Generic [0x29, 0x70], Generic [0x2a, 0x03], Generic [0x2b, 0x8e], Generic [0x2d, 0x03],
     Generic [0x2f, 0xb2], Generic [0x30, 0x03], Generic [0x31, 0xc9], Generic [0x32, 0x00],
     Generic [0x33, 0x30], Generic [0x34, 0x00], Generic [0x35, 0x43], Generic [0x36, 0x00],
     Generic [0x37, 0x61], Generic [0x38, 0x00], Generic [0x39, 0x7d], Generic [0x3a, 0x00],
     Generic [0x3b, 0x98], Generic [0x3d, 0x00], Generic [0x3f, 0xae], Generic [0x40, 0x00],
     Generic [0x41, 0xc0], Generic [0x42, 0x00], Generic [0x43, 0xcd], Generic [0x44, 0x00],
     Generic [0x45, 0xdb], Generic [0x46, 0x01], Generic [0x47, 0x0a], Generic [0x48, 0x01],
     Generic [0x49, 0x2a], Generic [0x4a, 0x01], Generic [0x4b, 0x69], Generic [0x4c, 0x01],
     Generic [0x4d, 0x99], Generic [0x4e, 0x01], Generic [0x4f, 0xde], Generic [0x50, 0x02],
     Generic [0x51, 0x20], Generic [0x52, 0x02], Generic [0x53, 0x22], Generic [0x54, 0x02],
     Generic [0x55, 0x64], Generic [0x56, 0x02], Generic [0x58, 0xa0], Generic [0x59, 0x02],
     Generic [0x5a, 0xc4], Generic [0x5b, 0x02], Generic [0x5c, 0xf3], Generic [0x5d, 0x03],
     Generic [0x5e, 0x0f], Generic [0x5f, 0x03], Generic [0x60, 0x36], Generic [0x61, 0x03],
     Generic [0x62, 0x3b], Generic [0x63, 0x03], Generic [0x64, 0x40], Generic [0x65, 0x03],
     Generic [0x66, 0x45], Generic [0x67, 0x03], Generic [0x68, 0x54], Generic [0x69, 0x03],
     Generic [0x6a, 0x70], Generic [0x6b, 0x03], Generic [0x6c, 0x8e], Generic [0x6d, 0x03],
     Generic [0x6e, 0xb2], Generic [0x6f, 0x03], Generic [0x70, 0xc9], Generic [0x71, 0x00],
     Generic [0x72, 0x30], Generic [0x73, 0x00], Generic [0x74, 0x43], Generic [0x75, 0x00],
     Generic [0x76, 0x61], Generic [0x77, 0x00], Generic [0x78, 0x7d], Generic [0x79, 0x00],
     Generic [0x7a, 0x98], Generic [0x7b, 0x00], Generic [0x7c, 0xae], Generic [0x7d, 0x00],
     Generic [0x7e, 0xc0], Generic [0x7f, 0x00], Generic [0x80, 0xcd], Generic [0x81, 0x00],
     Generic [0x82, 0xdb], Generic [0x83, 0x01], Generic [0x84, 0x0a]]"

definition novatek_jdi_on_ops_3 :: "dsi_op list" where
  "novatek_jdi_on_ops_3 = [
     Generic [0x85, 0x01], Generic [0x86, 0x2a], Generic [0x87, 0x01], Generic [0x88, 0x63],
     Generic [0x89, 0x01], Generic [0x8a, 0x90], Generic [0x8b, 0x01], Generic [0x8c, 0xd2],
     Generic [0x8d, 0x02], Generic [0x8e, 0x14], Generic [0x8f, 0x02], Generic [0x90, 0x16],
     Generic [0x91, 0x02], Generic [0x92, 0x58], Generic [0x93, 0x02], Generic [0x94, 0x95],
     Generic [0x95, 0x02], Generic [0x96, 0xbc], Generic [0x97, 0x02], Generic [0x98, 0xed],
     Generic [0x99, 0x03], Generic [0x9a, 0x0b], Generic [0x9b, 0x03], Generic [0x9c, 0x36],
     Generic [0x9d, 0x03], Generic [0x9e, 0x3b], Generic [0x9f, 0x03], Generic [0xa0, 0x40],
     Generic [0xa2, 0x03], Generic [0xa3, 0x45], Generic [0xa4, 0x03], Generic [0xa5, 0x54],
     Generic [0xa6, 0x03], Generic [0xa7, 0x70], Generic [0xa9, 0x03], Generic [0xaa, 0x8e],
     Generic [0xab, 0x03], Generic [0xac, 0xb2], Generic [0xad, 0x03], Generic [0xae, 0xc9],
     Generic [0xaf, 0x00], Generic [0xb0, 0x30], Generic [0xb1, 0x00], Generic [0xb2, 0x43],
     Generic [0xb3, 0x00], Generic [0xb4, 0x61], Generic [0xb5, 0x00], Generic [0xb6, 0x7d],
     Generic [0xb7, 0x00], Generic [0xb8, 0x98], Generic [0xb9, 0x00], Generic [0xba, 0xae],
     Generic [0xbb, 0x00], Generic [0xbc, 0xc0], Generic [0xbd, 0x00], Generic [0xbe, 0xcd],
     Generic [0xbf, 0x00], Generic [0xc0, 0xdb], Generic [0xc1, 0x01], Generic [0xc2, 0x0a],
     Generic [0xc3, 0x01], Generic [0xc4, 0x2a], Generic [0xc5, 0x01], Generic [0xc6, 0x63],
     Generic [0xc7, 0x01], Generic [0xc8, 0x90], Generic [0xc9, 0x01], Generic [0xca, 0xd2],
     Generic [0xcb, 0x02], Generic [0xcc, 0x14], Generic [0xcd, 0x02], Generic [0xce, 0x16],
     Generic [0xcf, 0x02], Generic [0xd0, 0x58], Generic [0xd1, 0x02], Generic [0xd2, 0x95],
     Generic [0xd3, 0x02], Generic [0xd4, 0xbc], Generic [0xd5, 0x02], Generic [0xd6, 0xed],
     Generic [0xd7, 0x03], Generic [0xd8, 0x0b], Generic [0xd9, 0x03], Generic [0xda, 0x36],
     Generic [0xdb, 0x03], Generic [0xdc, 0x3b], Generic [0xdd, 0x03], Generic [0xde, 0x40],
     Generic [0xdf, 0x03], Generic [0xe0, 0x45], Generic [0xe1, 0x03], Generic [0xe2, 0x54],
     Generic [0xe3, 0x03], Generic [0xe4, 0x70], Generic [0xe5, 0x03], Generic [0xe6, 0x8e],
     Generic [0xe7, 0x03], Generic [0xe8, 0xb2], Generic [0xe9, 0x03], Generic [0xea, 0xc9],
     Generic [0xfb, 0x01], Generic [0xff, 0x01], Generic [0x0b, 0x4b], Generic [0x0c, 0x4b],
     Generic [0x0e, 0xa1], Generic [0x15, 0x0b], Generic [0x16, 0x0b], Generic [0x1b, 0x1b],
     Generic [0x1c, 0xf5], Generic [0x01, 0x44], Generic [0x5c, 0x82], Generic [0x5e, 0x02],
     Generic [0x60, 0x0f], Generic [0x66, 0x01], Generic [0x69, 0x99], Generic [0x6d, 0x33],
     Generic [0xfb, 0x01], Generic [0xff, 0x05], Generic [0x35, 0x6b], Generic [0x7e, 0x02],
     Generic [0x7f, 0x18], Generic [0x81, 0x05], Generic [0x82, 0x05], Generic [0xa6, 0x04],
     Generic [0x84, 0x03], Generic [0x85, 0x04], Dcs [0xc6, 0x00], Generic [0xfb, 0x01],
     Generic [0xff, 0xff], Generic [0x4f, 0x03], Generic [0xfb, 0x01], Generic [0xff, 0x00],
     Dcs [0xd3, 0x08], Dcs [0xd4, 0x1b], Dcs [0xd5, 0x50]]"

definition novatek_jdi_on_ops_4 :: "dsi_op list" where
  "novatek_jdi_on_ops_4 = [
     Dcs [0xd6, 0x70], dcs_exit_sleep_mode, Msleep 120, dcs_set_display_on]"

definition novatek_jdi_on_ops :: "dsi_op list" where
  "novatek_jdi_on_ops =
     novatek_jdi_on_ops_1 @ novatek_jdi_on_ops_2 @ novatek_jdi_on_ops_3 @ novatek_jdi_on_ops_4"

definition novatek_jdi_off_ops :: "dsi_op list" where
  "novatek_jdi_off_ops = [
     dcs_set_display_off, Msleep 20, dcs_enter_sleep_mode, Msleep 80]"

definition novatek_sharp_on_ops_1 :: "dsi_op list" where
  "novatek_sharp_on_ops_1 = [
     Dcs [0xff, 0x01], Dcs [0xfb, 0x01], Dcs [0x15, 0x14], Dcs [0x16, 0x12], Dcs [0x58, 0x82],
     Dcs [0x59, 0x00], Dcs [0x5a, 0x02], Dcs [0x5b, 0x00], Dcs [0x5c, 0x82], Dcs [0x5d, 0x00],
     Dcs [0x5e, 0x02], Dcs [0x5f, 0x00], Dcs [0x60, 0x0f], Dcs [0x6d, 0x22], Dcs [0xff, 0x05],
     Dcs [0xfb, 0x01], Dcs [0xa6, 0x04], Dcs [0xc4, 0x04], Dcs [0xff, 0x00], Dcs [0xff, 0x01],
     Dcs [0xfb, 0x01], Dcs [0x75, 0x00], Dcs [0x76, 0x21], Dcs [0x77, 0x00], Dcs [0x78, 0x57],
     Dcs [0x79, 0x00], Dcs [0x7a, 0x8a], Dcs [0x7b, 0x00], Dcs [0x7c, 0xa9], Dcs [0x7d, 0x00],
     Dcs [0x7e, 0xc1], Dcs [0x7f, 0x00], Dcs [0x80, 0xd6], Dcs [0x81, 0x00], Dcs [0x82, 0xe4],
     Dcs [0x83, 0x00], Dcs [0x84, 0xf6], Dcs [0x85, 0x01], Dcs [0x86, 0x06], Dcs [0x87, 0x01],
     Dcs [0x88, 0x33], Dcs [0x89, 0x01], Dcs [0x8a, 0x59], Dcs [0x8b, 0x01], Dcs [0x8c, 0x95],
     Dcs [0x8d, 0x01], Dcs [0x8e, 0xc5], Dcs [0x8f, 0x02], Dcs [0x90, 0x11], Dcs [0x91, 0x02],
     Dcs [0x92, 0x4d], Dcs [0x93, 0x02], Dcs [0x94, 0x4f], Dcs [0x95, 0x02], Dcs [0x96, 0x77],
     Dcs [0x97, 0x02], Dcs [0x98, 0xa2], Dcs [0x99, 0x02], Dcs [0x9a, 0xbe], Dcs [0x9b, 0x02],
     Dcs [0x9c, 0xe5], Dcs [0x9d, 0x03], Dcs [0x9e, 0x04], Dcs [0x9f, 0x03], Dcs [0xa0, 0x2c],
     Dcs [0xa2, 0x03], Dcs [0xa3, 0x39], Dcs [0xa4, 0x03], Dcs [0xa5, 0x46], Dcs [0xa6, 0x03],
     Dcs [0xa7, 0x55], Dcs [0xa9, 0x03], Dcs [0xaa, 0x66], Dcs [0xab, 0x03], Dcs [0xac, 0x7b],
     Dcs [0xad, 0x03], Dcs [0xae, 0x95], Dcs [0xaf, 0x03], Dcs [0xb0, 0xb4], Dcs [0xb1, 0x03],
     Dcs [0xb2, 0xbb], Dcs [0xb3, 0x00], Dcs [0xb4, 0x5b], Dcs [0xb5, 0x00], Dcs [0xb6, 0x94],
     Dcs [0xb7, 0x00], Dcs [0xb8, 0xc2], Dcs [0xb9, 0x00], Dcs [0xba, 0xde], Dcs [0xbb, 0x00],
     Dcs [0xbc, 0xf5], Dcs [0xbd, 0x01], Dcs [0xbe, 0x09], Dcs [0xbf, 0x01], Dcs [0xc0, 0x15],
     Dcs [0xc1, 0x01], Dcs [0xc2, 0x26], Dcs [0xc3, 0x01], Dcs [0xc4, 0x34], Dcs [0xc5, 0x01],
     Dcs [0xc6, 0x5c], Dcs [0xc7, 0x01], Dcs [0xc8, 0x7c], Dcs [0xc9, 0x01], Dcs [0xca, 0xac],
     Dcs [0xcb, 0x01], Dcs [0xcc, 0xd2], Dcs [0xcd, 0x02], Dcs [0xce, 0x0d], Dcs [0xcf, 0x02],
     Dcs [0xd0, 0x3b], Dcs [0xd1, 0x02], Dcs [0xd2, 0x3d], Dcs [0xd3, 0x02], Dcs [0xd4, 0x73],
     Dcs [0xd5, 0x02], Dcs [0xd6, 0xad], Dcs [0xd7, 0x02], Dcs [0xd8, 0xcf], Dcs [0xd9, 0x02],
     Dcs [0xda, 0xfe], Dcs [0xdb, 0x03], Dcs [0xdc, 0x1c], Dcs [0xdd, 0x03], Dcs [0xde, 0x44],
     Dcs [0xdf, 0x03], Dcs [0xe0, 0x51], Dcs [0xe1, 0x03], Dcs [0xe2, 0x5e], Dcs [0xe3, 0x03],
     Dcs [0xe4, 0x6e], Dcs [0xe5, 0x03], Dcs [0xe6, 0x7f], Dcs [0xe7, 0x03], Dcs [0xe8, 0x93]]"

definition novatek_sharp_on_ops_2 :: "dsi_op list" where
  "novatek_sharp_on_ops_2 = [
     Dcs [0xe9, 0x03], Dcs [0xea, 0xac], Dcs [0xeb, 0x03], Dcs [0xec, 0xca], Dcs [0xed, 0x03],
     Dcs [0xee, 0xd1], Dcs [0xef, 0x00], Dcs [0xf0, 0x14], Dcs [0xf1, 0x00], Dcs [0xf2, 0x50],
     Dcs [0xf3, 0x00], Dcs [0xf4, 0x84], Dcs [0xf5, 0x00], Dcs [0xf6, 0xa4], Dcs [0xf7, 0x00],
     Dcs [0xf8, 0xb9], Dcs [0xf9, 0x00], Dcs [0xfa, 0xd2], Dcs [0xff, 0x02], Dcs [0xfb, 0x01],
     Dcs [0x00, 0x00], Dcs [0x01, 0xe1], Dcs [0x02, 0x00], Dcs [0x03, 0xf1], Dcs [0x04, 0x01],
     Dcs [0x05, 0x02], Dcs [0x06, 0x01], Dcs [0x07, 0x31], Dcs [0x08, 0x01], Dcs [0x09, 0x56],
     Dcs [0x0a, 0x01], Dcs [0x0b, 0x93], Dcs [0x0c, 0x01], Dcs [0x0d, 0xc4], Dcs [0x0e, 0x02],
     Dcs [0x0f, 0x0f], Dcs [0x10, 0x02], Dcs [0x11, 0x4b], Dcs [0x12, 0x02], Dcs [0x13, 0x4c],
     Dcs [0x14, 0x02], Dcs [0x15, 0x75], Dcs [0x16, 0x02], Dcs [0x17, 0xa0], Dcs [0x18, 0x02],
     Dcs [0x19, 0xbb], Dcs [0x1a, 0x02], Dcs [0x1b, 0xe0], Dcs [0x1c, 0x02], Dcs [0x1d, 0xff],
     Dcs [0x1e, 0x03], Dcs [0x1f, 0x27], Dcs [0x20, 0x03], Dcs [0x21, 0x33], Dcs [0x22, 0x03],
     Dcs [0x23, 0x41], Dcs [0x24, 0x03], Dcs [0x25, 0x50], Dcs [0x26, 0x03], Dcs [0x27, 0x61],
     Dcs [0x28, 0x03], Dcs [0x29, 0x76], Dcs [0x2a, 0x03], Dcs [0x2b, 0x91], Dcs [0x2d, 0x03],
     Dcs [0x2f, 0xb3], Dcs [0x30, 0x03], Dcs [0x31, 0xbb], Dcs [0x32, 0x00], Dcs [0x33, 0x4e],
     Dcs [0x34, 0x00], Dcs [0x35, 0x8f], Dcs [0x36, 0x00], Dcs [0x37, 0xbe], Dcs [0x38, 0x00],
     Dcs [0x39, 0xdb], dcs_set_pixel_format 0x00, Dcs [0x3b, 0xef], Dcs [0x3d, 0x01],
     Dcs [0x3f, 0x06], Dcs [0x40, 0x01], Dcs [0x41, 0x13], Dcs [0x42, 0x01], Dcs [0x43, 0x22],
     Dcs [0x44, 0x01], Dcs [0x45, 0x31], Dcs [0x46, 0x01], Dcs [0x47, 0x5b], Dcs [0x48, 0x01],
     Dcs [0x49, 0x7b], Dcs [0x4a, 0x01], Dcs [0x4b, 0xab], Dcs [0x4c, 0x01], Dcs [0x4d, 0xd1],
     Dcs [0x4e, 0x02], Dcs [0x4f, 0x0b], Dcs [0x50, 0x02], dcs_set_display_brightness 0x0039,
     Dcs [0x52, 0x02], Dcs [0x53, 0x3a], Dcs [0x54, 0x02], Dcs [0x55, 0x71], Dcs [0x56, 0x02],
     Dcs [0x58, 0xaa], Dcs [0x59, 0x02], Dcs [0x5a, 0xcc], Dcs [0x5b, 0x02], Dcs [0x5c, 0xfa],
     Dcs [0x5d, 0x03], Dcs [0x5e, 0x17], Dcs [0x5f, 0x03], Dcs [0x60, 0x3f], Dcs [0x61, 0x03],
     Dcs [0x62, 0x4b], Dcs [0x63, 0x03], Dcs [0x64, 0x59], Dcs [0x65, 0x03], Dcs [0x66, 0x68],
     Dcs [0x67, 0x03], Dcs [0x68, 0x7a], Dcs [0x69, 0x03], Dcs [0x6a, 0x8e], Dcs [0x6b, 0x03]]"

definition novatek_sharp_on_ops_3 :: "dsi_op list" where
  "novatek_sharp_on_ops_3 = [
     Dcs [0x6c, 0xa8], Dcs [0x6d, 0x03], Dcs [0x6e, 0xc9], Dcs [0x6f, 0x03], Dcs [0x70, 0xd1],
     Dcs [0x71, 0x00], Dcs [0x72, 0x00], Dcs [0x73, 0x00], Dcs [0x74, 0x38], Dcs [0x75, 0x00],
     Dcs [0x76, 0x6c], Dcs [0x77, 0x00], Dcs [0x78, 0x8f], Dcs [0x79, 0x00], Dcs [0x7a, 0xaa],
     Dcs [0x7b, 0x00], Dcs [0x7c, 0xbf], Dcs [0x7d, 0x00], Dcs [0x7e, 0xd5], Dcs [0x7f, 0x00],
     Dcs [0x80, 0xe2], Dcs [0x81, 0x00], Dcs [0x82, 0xf3], Dcs [0x83, 0x01], Dcs [0x84, 0x27],
     Dcs [0x85, 0x01], Dcs [0x86, 0x4e], Dcs [0x87, 0x01], Dcs [0x88, 0x8d], Dcs [0x89, 0x01],
     Dcs [0x8a, 0xc0], Dcs [0x8b, 0x02], Dcs [0x8c, 0x0d], Dcs [0x8d, 0x02], Dcs [0x8e, 0x4b],
     Dcs [0x8f, 0x02], Dcs [0x90, 0x4c], Dcs [0x91, 0x02], Dcs [0x92, 0x76], Dcs [0x93, 0x02],
     Dcs [0x94, 0xa1], Dcs [0x95, 0x02], Dcs [0x96, 0xbd], Dcs [0x97, 0x02], Dcs [0x98, 0xe4],
     Dcs [0x99, 0x03], Dcs [0x9a, 0x03], Dcs [0x9b, 0x03], Dcs [0x9c, 0x2d], Dcs [0x9d, 0x03],
     Dcs [0x9e, 0x39], Dcs [0x9f, 0x03], Dcs [0xa0, 0x46], Dcs [0xa2, 0x03], Dcs [0xa3, 0x56],
     Dcs [0xa4, 0x03], Dcs [0xa5, 0x68], Dcs [0xa6, 0x03], Dcs [0xa7, 0x7f], Dcs [0xa9, 0x03],
     Dcs [0xaa, 0x97], Dcs [0xab, 0x03], Dcs [0xac, 0xb5], Dcs [0xad, 0x03], Dcs [0xae, 0xbb],
     Dcs [0xaf, 0x00], Dcs [0xb0, 0x39], Dcs [0xb1, 0x00], Dcs [0xb2, 0x76], Dcs [0xb3, 0x00],
     Dcs [0xb4, 0xa6], Dcs [0xb5, 0x00], Dcs [0xb6, 0xc6], Dcs [0xb7, 0x00], Dcs [0xb8, 0xdf],
     Dcs [0xb9, 0x00], Dcs [0xba, 0xf2], Dcs [0xbb, 0x01], Dcs [0xbc, 0x07], Dcs [0xbd, 0x01],
     Dcs [0xbe, 0x13], Dcs [0xbf, 0x01], Dcs [0xc0, 0x22], Dcs [0xc1, 0x01], Dcs [0xc2, 0x50],
     Dcs [0xc3, 0x01], Dcs [0xc4, 0x72], Dcs [0xc5, 0x01], Dcs [0xc6, 0xa5], Dcs [0xc7, 0x01],
     Dcs [0xc8, 0xcd], Dcs [0xc9, 0x02], Dcs [0xca, 0x09], Dcs [0xcb, 0x02], Dcs [0xcc, 0x39],
     Dcs [0xcd, 0x02], Dcs [0xce, 0x3a], Dcs [0xcf, 0x02], Dcs [0xd0, 0x72], Dcs [0xd1, 0x02],
     Dcs [0xd2, 0xac], Dcs [0xd3, 0x02], Dcs [0xd4, 0xcf], Dcs [0xd5, 0x02], Dcs [0xd6, 0xfe],
     Dcs [0xd7, 0x03], Dcs [0xd8, 0x1c], Dcs [0xd9, 0x03], Dcs [0xda, 0x45], Dcs [0xdb, 0x03],
     Dcs [0xdc, 0x51], Dcs [0xdd, 0x03], Dcs [0xde, 0x5f], Dcs [0xdf, 0x03], Dcs [0xe0, 0x6f],
     Dcs [0xe1, 0x03], Dcs [0xe2, 0x81], Dcs [0xe3, 0x03], Dcs [0xe4, 0x97], Dcs [0xe5, 0x03],
     Dcs [0xe6, 0xae], Dcs [0xe7, 0x03], Dcs [0xe8, 0xcb], Dcs [0xe9, 0x03], Dcs [0xea, 0xd1],
     Dcs [0xff, 0x00], dcs_exit_sleep_mode, Msleep 150, Dcs [0xd3, 0x07]]"

definition novatek_sharp_on_ops_4 :: "dsi_op list" where
  "novatek_sharp_on_ops_4 = [
     Dcs [0xd4, 0x02], dcs_set_display_on]"

definition novatek_sharp_on_ops :: "dsi_op list" where
  "novatek_sharp_on_ops =
     novatek_sharp_on_ops_1 @ novatek_sharp_on_ops_2 @ novatek_sharp_on_ops_3 @ novatek_sharp_on_ops_4"

definition novatek_sharp_off_ops :: "dsi_op list" where
  "novatek_sharp_off_ops = [
     dcs_set_display_off, Msleep 20, dcs_enter_sleep_mode, Msleep 100]"

definition novatek_auo_on_ops :: "dsi_op list" where
  "novatek_auo_on_ops = [
     Dcs [0xff, 0x05], Dcs [0xfb, 0x01], Dcs [0x93, 0x06], Dcs [0x94, 0x30], Dcs [0xff, 0x00],
     Dcs [0xff, 0x01], Dcs [0x01, 0x55], Dcs [0x15, 0x0f], Dcs [0x16, 0x0f], Dcs [0x1b, 0x1b],
     Dcs [0x1c, 0xf7], Dcs [0x60, 0x0f], Dcs [0x58, 0x82], Dcs [0x59, 0x00], Dcs [0x5a, 0x02],
     Dcs [0x5b, 0x00], Dcs [0x5c, 0x82], Dcs [0x5d, 0x80], Dcs [0x5e, 0x02], Dcs [0x5f, 0x00],
     Dcs [0x66, 0x01], Dcs [0xfb, 0x01], Dcs [0xff, 0x05], Dcs [0x54, 0x75], Dcs [0x85, 0x05],
     Dcs [0xa6, 0x04], Dcs [0xfb, 0x01], Dcs [0xff, 0xff], Dcs [0x4f, 0x03], Dcs [0xfb, 0x01],
     Dcs [0xff, 0x00], dcs_set_tear_on_vhblank, Dcs [0xd3, 0x30], Dcs [0xd4, 0x06],
     dcs_exit_sleep_mode, Msleep 100, dcs_set_display_on, Msleep 100]"

definition novatek_auo_off_ops :: "dsi_op list" where
  "novatek_auo_off_ops = [
     dcs_set_display_off, Msleep 20, dcs_enter_sleep_mode, Msleep 100]"

definition renesas_jdi_on_ops :: "dsi_op list" where
  "renesas_jdi_on_ops = [
     dcs_soft_reset, Usleep 5000 6000, Generic [0xb0, 0x00], Generic [0x00, 0x00],
     Generic [0x00, 0x00],
     Generic [0xc7, 0x08, 0x12, 0x1b, 0x24, 0x31, 0x48, 0x40, 0x52, 0x5e, 0x61, 0x6a, 0x76, 0x08, 0x12, 0x1b, 0x24, 0x31, 0x48, 0x40, 0x52, 0x5e, 0x61, 0x6a, 0x76],
     Generic [0xc8, 0x08, 0x12, 0x1b, 0x24, 0x31, 0x49, 0x41, 0x53, 0x5e, 0x61, 0x6a, 0x76, 0x08, 0x12, 0x1b, 0x24, 0x31, 0x49, 0x41, 0x53, 0x5e, 0x61, 0x6a, 0x76],
     Generic [0xc9, 0x08, 0x12, 0x1b, 0x24, 0x31, 0x47, 0x3f, 0x52, 0x5e, 0x61, 0x6a, 0x76, 0x08, 0x12, 0x1b, 0x24, 0x31, 0x47, 0x3f, 0x52, 0x5e, 0x61, 0x6a, 0x76],
     Generic [0xd3, 0x1b, 0x33, 0xbb, 0xcc, 0xc4, 0x33, 0x33, 0x33, 0x00, 0x01, 0x00, 0xa0, 0xd8, 0xa0, 0x06, 0x2b, 0x33, 0x33, 0x22, 0x70, 0x02, 0x2b, 0x43, 0x3d, 0xbf, 0x99],
     Generic [0xd6, 0x01], dcs_exit_sleep_mode, Msleep 120, dcs_set_display_on]"

definition renesas_jdi_off_ops :: "dsi_op list" where
  "renesas_jdi_off_ops = [
     dcs_set_display_off, Msleep 20, dcs_enter_sleep_mode, Msleep 80]"

definition renesas_sharp_on_ops :: "dsi_op list" where
  "renesas_sharp_on_ops = [
     Generic [0xb0, 0x04], Generic [0x00, 0x00], Generic [0x00, 0x00],
     Generic [0xc2, 0x32, 0xf7, 0x80, 0x07, 0x08, 0x00, 0x00], Generic [0xd6, 0x01],
     Generic [0xc0, 0x0f, 0x0f], Generic [0xec, 0x00, 0x10],
     Generic [0xc7, 0x05, 0x19, 0x22, 0x2b, 0x38, 0x51, 0x41, 0x50, 0x5c, 0x64, 0x6b, 0x74, 0x0f, 0x23, 0x2b, 0x32, 0x3f, 0x52, 0x44, 0x55, 0x61, 0x69, 0x70, 0x77],
     Generic [0xc8, 0x03, 0x18, 0x21, 0x2b, 0x38, 0x51, 0x42, 0x4f, 0x5d, 0x65, 0x6c, 0x74, 0x0d, 0x22, 0x2a, 0x32, 0x3e, 0x52, 0x41, 0x54, 0x5d, 0x66, 0x6d, 0x77],
     Generic [0xc9, 0x00, 0x15, 0x1e, 0x28, 0x36, 0x50, 0x42, 0x50, 0x5e, 0x66, 0x6d, 0x74, 0x0a, 0x1f, 0x27, 0x2f, 0x3d, 0x51, 0x41, 0x55, 0x5e, 0x67, 0x6e, 0x77],
     dcs_exit_sleep_mode, dcs_set_display_on]"

definition renesas_sharp_off_ops :: "dsi_op list" where
  "renesas_sharp_off_ops = [
     dcs_set_display_off, Msleep 20, dcs_enter_sleep_mode, Msleep 110]"

definition renesas_auo_on_ops :: "dsi_op list" where
  "renesas_auo_on_ops = [
     dcs_set_tear_on_vhblank, Generic [0xb0, 0x04],
     Generic [0xc2, 0x30, 0xf7, 0x84, 0x1b, 0x0c, 0x00, 0x00], Generic [0xd6, 0x01],
     dcs_set_display_on, dcs_exit_sleep_mode, Msleep 120]"

definition renesas_auo_off_ops :: "dsi_op list" where
  "renesas_auo_off_ops = [
     dcs_set_display_off, dcs_enter_sleep_mode, Msleep 67]"

end
