(* ===== verification/Panel_Vendor.thy ===== *)
theory Panel_Vendor
  imports Panel_Dsi
begin

text \<open>
  The command sequences of the six panels in the vendor's device trees
  (\<^verbatim>\<open>panel-variants/*_1080p_panel.dts\<close>): \<open>init\<close> is \<^verbatim>\<open>somc,mdss-dsi-init-command\<close>, \<open>on\<close> and \<open>off\<close> are
  \<^verbatim>\<open>qcom,mdss-dsi-on-command\<close> and \<^verbatim>\<open>qcom,mdss-dsi-off-command\<close>. A row \<open>Qcom t w p\<close> stands for the bytes
  \<open>qcom_bytes\<close> of it: data type \<open>t\<close>, wait \<open>w\<close>, payload \<open>p\<close>.
\<close>

definition novatek_jdi_vendor_init :: "qcom_cmd list" where
  "novatek_jdi_vendor_init = [
     Qcom 0x05 10 [0x01], Qcom 0x23 0 [0xff, 0x01], Qcom 0x23 0 [0x75, 0x00],
     Qcom 0x23 0 [0x76, 0x30], Qcom 0x23 0 [0x77, 0x00], Qcom 0x23 0 [0x78, 0x43],
     Qcom 0x23 0 [0x79, 0x00], Qcom 0x23 0 [0x7a, 0x61], Qcom 0x23 0 [0x7b, 0x00],
     Qcom 0x23 0 [0x7c, 0x7d], Qcom 0x23 0 [0x7d, 0x00], Qcom 0x23 0 [0x7e, 0x98],
     Qcom 0x23 0 [0x7f, 0x00], Qcom 0x23 0 [0x80, 0xae], Qcom 0x23 0 [0x81, 0x00],
     Qcom 0x23 0 [0x82, 0xc0], Qcom 0x23 0 [0x83, 0x00], Qcom 0x23 0 [0x84, 0xcd],
     Qcom 0x23 0 [0x85, 0x00], Qcom 0x23 0 [0x86, 0xdb], Qcom 0x23 0 [0x87, 0x01],
     Qcom 0x23 0 [0x88, 0x0a], Qcom 0x23 0 [0x89, 0x01], Qcom 0x23 0 [0x8a, 0x2a],
     Qcom 0x23 0 [0x8b, 0x01], Qcom 0x23 0 [0x8c, 0x66], Qcom 0x23 0 [0x8d, 0x01],
     Qcom 0x23 0 [0x8e, 0x95], Qcom 0x23 0 [0x8f, 0x01], Qcom 0x23 0 [0x90, 0xd8],
     Qcom 0x23 0 [0x91, 0x02], Qcom 0x23 0 [0x92, 0x1a], Qcom 0x23 0 [0x93, 0x02],
     Qcom 0x23 0 [0x94, 0x1c], Qcom 0x23 0 [0x95, 0x02], Qcom 0x23 0 [0x96, 0x5e],
     Qcom 0x23 0 [0x97, 0x02], Qcom 0x23 0 [0x98, 0x9a], Qcom 0x23 0 [0x99, 0x02],
     Qcom 0x23 0 [0x9a, 0xbf], Qcom 0x23 0 [0x9b, 0x02], Qcom 0x23 0 [0x9c, 0xed],
     Qcom 0x23 0 [0x9d, 0x03], Qcom 0x23 0 [0x9e, 0x0b], Qcom 0x23 0 [0x9f, 0x03],
     Qcom 0x23 0 [0xa0, 0x36], Qcom 0x23 0 [0xa2, 0x03], Qcom 0x23 0 [0xa3, 0x3b],
     Qcom 0x23 0 [0xa4, 0x03], Qcom 0x23 0 [0xa5, 0x40], Qcom 0x23 0 [0xa6, 0x03],
     Qcom 0x23 0 [0xa7, 0x45], Qcom 0x23 0 [0xa9, 0x03], Qcom 0x23 0 [0xaa, 0x54],
     Qcom 0x23 0 [0xab, 0x03], Qcom 0x23 0 [0xac, 0x70], Qcom 0x23 0 [0xad, 0x03],
     Qcom 0x23 0 [0xae, 0x8e], Qcom 0x23 0 [0xaf, 0x03], Qcom 0x23 0 [0xb0, 0xb2],
     Qcom 0x23 0 [0xb1, 0x03], Qcom 0x23 0 [0xb2, 0xc9], Qcom 0x23 0 [0xb3, 0x00],
     Qcom 0x23 0 [0xb4, 0x30], Qcom 0x23 0 [0xb5, 0x00], Qcom 0x23 0 [0xb6, 0x43],
     Qcom 0x23 0 [0xb7, 0x00], Qcom 0x23 0 [0xb8, 0x61], Qcom 0x23 0 [0xb9, 0x00],
     Qcom 0x23 0 [0xba, 0x7d], Qcom 0x23 0 [0xbb, 0x00], Qcom 0x23 0 [0xbc, 0x98],
     Qcom 0x23 0 [0xbd, 0x00], Qcom 0x23 0 [0xbe, 0xae], Qcom 0x23 0 [0xbf, 0x00],
     Qcom 0x23 0 [0xc0, 0xc0], Qcom 0x23 0 [0xc1, 0x00], Qcom 0x23 0 [0xc2, 0xcd],
     Qcom 0x23 0 [0xc3, 0x00], Qcom 0x23 0 [0xc4, 0xdb], Qcom 0x23 0 [0xc5, 0x01],
     Qcom 0x23 0 [0xc6, 0x0a], Qcom 0x23 0 [0xc7, 0x01], Qcom 0x23 0 [0xc8, 0x2a],
     Qcom 0x23 0 [0xc9, 0x01], Qcom 0x23 0 [0xca, 0x66], Qcom 0x23 0 [0xcb, 0x01],
     Qcom 0x23 0 [0xcc, 0x95], Qcom 0x23 0 [0xcd, 0x01], Qcom 0x23 0 [0xce, 0xd8],
     Qcom 0x23 0 [0xcf, 0x02], Qcom 0x23 0 [0xd0, 0x1a], Qcom 0x23 0 [0xd1, 0x02],
     Qcom 0x23 0 [0xd2, 0x1c], Qcom 0x23 0 [0xd3, 0x02], Qcom 0x23 0 [0xd4, 0x5e],
     Qcom 0x23 0 [0xd5, 0x02], Qcom 0x23 0 [0xd6, 0x9a], Qcom 0x23 0 [0xd7, 0x02],
     Qcom 0x23 0 [0xd8, 0xbf], Qcom 0x23 0 [0xd9, 0x02], Qcom 0x23 0 [0xda, 0xed],
     Qcom 0x23 0 [0xdb, 0x03], Qcom 0x23 0 [0xdc, 0x0b], Qcom 0x23 0 [0xdd, 0x03],
     Qcom 0x23 0 [0xde, 0x36], Qcom 0x23 0 [0xdf, 0x03], Qcom 0x23 0 [0xe0, 0x3b],
     Qcom 0x23 0 [0xe1, 0x03], Qcom 0x23 0 [0xe2, 0x40], Qcom 0x23 0 [0xe3, 0x03],
     Qcom 0x23 0 [0xe4, 0x45], Qcom 0x23 0 [0xe5, 0x03], Qcom 0x23 0 [0xe6, 0x54],
     Qcom 0x23 0 [0xe7, 0x03], Qcom 0x23 0 [0xe8, 0x70], Qcom 0x23 0 [0xe9, 0x03],
     Qcom 0x23 0 [0xea, 0x8e], Qcom 0x23 0 [0xeb, 0x03], Qcom 0x23 0 [0xec, 0xb2],
     Qcom 0x23 0 [0xed, 0x03], Qcom 0x23 0 [0xee, 0xc9], Qcom 0x23 0 [0xef, 0x00],
     Qcom 0x23 0 [0xf0, 0x30], Qcom 0x23 0 [0xf1, 0x00], Qcom 0x23 0 [0xf2, 0x43],
     Qcom 0x23 0 [0xf3, 0x00], Qcom 0x23 0 [0xf4, 0x61], Qcom 0x23 0 [0xf5, 0x00],
     Qcom 0x23 0 [0xf6, 0x7d], Qcom 0x23 0 [0xf7, 0x00], Qcom 0x23 0 [0xf8, 0x98],
     Qcom 0x23 0 [0xf9, 0x00], Qcom 0x23 0 [0xfa, 0xae], Qcom 0x23 0 [0xfb, 0x01],
     Qcom 0x23 0 [0xff, 0x02], Qcom 0x23 0 [0x00, 0x00], Qcom 0x23 0 [0x01, 0xc0],
     Qcom 0x23 0 [0x02, 0x00], Qcom 0x23 0 [0x03, 0xcd], Qcom 0x23 0 [0x04, 0x00],
     Qcom 0x23 0 [0x05, 0xdb], Qcom 0x23 0 [0x06, 0x01], Qcom 0x23 0 [0x07, 0x0a],
     Qcom 0x23 0 [0x08, 0x01], Qcom 0x23 0 [0x09, 0x2a], Qcom 0x23 0 [0x0a, 0x01],
     Qcom 0x23 0 [0x0b, 0x69], Qcom 0x23 0 [0x0c, 0x01], Qcom 0x23 0 [0x0d, 0x99],
     Qcom 0x23 0 [0x0e, 0x01], Qcom 0x23 0 [0x0f, 0xde], Qcom 0x23 0 [0x10, 0x02],
     Qcom 0x23 0 [0x11, 0x20], Qcom 0x23 0 [0x12, 0x02], Qcom 0x23 0 [0x13, 0x22],
     Qcom 0x23 0 [0x14, 0x02], Qcom 0x23 0 [0x15, 0x64], Qcom 0x23 0 [0x16, 0x02],
     Qcom 0x23 0 [0x17, 0xa0], Qcom 0x23 0 [0x18, 0x02], Qcom 0x23 0 [0x19, 0xc4],
     Qcom 0x23 0 [0x1a, 0x02], Qcom 0x23 0 [0x1b, 0xf3], Qcom 0x23 0 [0x1c, 0x03],
     Qcom 0x23 0 [0x1d, 0x0f], Qcom 0x23 0 [0x1e, 0x03], Qcom 0x23 0 [0x1f, 0x36],
     Qcom 0x23 0 [0x20, 0x03], Qcom 0x23 0 [0x21, 0x3b], Qcom 0x23 0 [0x22, 0x03],
     Qcom 0x23 0 [0x23, 0x40], Qcom 0x23 0 [0x24, 0x03], Qcom 0x23 0 [0x25, 0x45],
     Qcom 0x23 0 [0x26, 0x03], Qcom 0x23 0 [0x27, 0x54], Qcom 0x23 0 [0x28, 0x03],
     Qcom 0x23 0 [0x29, 0x70], Qcom 0x23 0 [0x2a, 0x03], Qcom 0x23 0 [0x2b, 0x8e],
     Qcom 0x23 0 [0x2d, 0x03], Qcom 0x23 0 [0x2f, 0xb2], Qcom 0x23 0 [0x30, 0x03],
     Qcom 0x23 0 [0x31, 0xc9], Qcom 0x23 0 [0x32, 0x00], Qcom 0x23 0 [0x33, 0x30],
     Qcom 0x23 0 [0x34, 0x00], Qcom 0x23 0 [0x35, 0x43], Qcom 0x23 0 [0x36, 0x00],
     Qcom 0x23 0 [0x37, 0x61], Qcom 0x23 0 [0x38, 0x00], Qcom 0x23 0 [0x39, 0x7d],
     Qcom 0x23 0 [0x3a, 0x00], Qcom 0x23 0 [0x3b, 0x98], Qcom 0x23 0 [0x3d, 0x00],
     Qcom 0x23 0 [0x3f, 0xae], Qcom 0x23 0 [0x40, 0x00], Qcom 0x23 0 [0x41, 0xc0],
     Qcom 0x23 0 [0x42, 0x00], Qcom 0x23 0 [0x43, 0xcd], Qcom 0x23 0 [0x44, 0x00],
     Qcom 0x23 0 [0x45, 0xdb], Qcom 0x23 0 [0x46, 0x01], Qcom 0x23 0 [0x47, 0x0a],
     Qcom 0x23 0 [0x48, 0x01], Qcom 0x23 0 [0x49, 0x2a], Qcom 0x23 0 [0x4a, 0x01],
     Qcom 0x23 0 [0x4b, 0x69], Qcom 0x23 0 [0x4c, 0x01], Qcom 0x23 0 [0x4d, 0x99],
     Qcom 0x23 0 [0x4e, 0x01], Qcom 0x23 0 [0x4f, 0xde], Qcom 0x23 0 [0x50, 0x02],
     Qcom 0x23 0 [0x51, 0x20], Qcom 0x23 0 [0x52, 0x02], Qcom 0x23 0 [0x53, 0x22],
     Qcom 0x23 0 [0x54, 0x02], Qcom 0x23 0 [0x55, 0x64], Qcom 0x23 0 [0x56, 0x02],
     Qcom 0x23 0 [0x58, 0xa0], Qcom 0x23 0 [0x59, 0x02], Qcom 0x23 0 [0x5a, 0xc4],
     Qcom 0x23 0 [0x5b, 0x02], Qcom 0x23 0 [0x5c, 0xf3], Qcom 0x23 0 [0x5d, 0x03],
     Qcom 0x23 0 [0x5e, 0x0f], Qcom 0x23 0 [0x5f, 0x03], Qcom 0x23 0 [0x60, 0x36],
     Qcom 0x23 0 [0x61, 0x03], Qcom 0x23 0 [0x62, 0x3b], Qcom 0x23 0 [0x63, 0x03],
     Qcom 0x23 0 [0x64, 0x40], Qcom 0x23 0 [0x65, 0x03], Qcom 0x23 0 [0x66, 0x45],
     Qcom 0x23 0 [0x67, 0x03], Qcom 0x23 0 [0x68, 0x54], Qcom 0x23 0 [0x69, 0x03],
     Qcom 0x23 0 [0x6a, 0x70], Qcom 0x23 0 [0x6b, 0x03], Qcom 0x23 0 [0x6c, 0x8e],
     Qcom 0x23 0 [0x6d, 0x03], Qcom 0x23 0 [0x6e, 0xb2], Qcom 0x23 0 [0x6f, 0x03],
     Qcom 0x23 0 [0x70, 0xc9], Qcom 0x23 0 [0x71, 0x00], Qcom 0x23 0 [0x72, 0x30],
     Qcom 0x23 0 [0x73, 0x00], Qcom 0x23 0 [0x74, 0x43], Qcom 0x23 0 [0x75, 0x00],
     Qcom 0x23 0 [0x76, 0x61], Qcom 0x23 0 [0x77, 0x00], Qcom 0x23 0 [0x78, 0x7d],
     Qcom 0x23 0 [0x79, 0x00], Qcom 0x23 0 [0x7a, 0x98], Qcom 0x23 0 [0x7b, 0x00],
     Qcom 0x23 0 [0x7c, 0xae], Qcom 0x23 0 [0x7d, 0x00], Qcom 0x23 0 [0x7e, 0xc0],
     Qcom 0x23 0 [0x7f, 0x00], Qcom 0x23 0 [0x80, 0xcd], Qcom 0x23 0 [0x81, 0x00],
     Qcom 0x23 0 [0x82, 0xdb], Qcom 0x23 0 [0x83, 0x01], Qcom 0x23 0 [0x84, 0x0a],
     Qcom 0x23 0 [0x85, 0x01], Qcom 0x23 0 [0x86, 0x2a], Qcom 0x23 0 [0x87, 0x01],
     Qcom 0x23 0 [0x88, 0x63], Qcom 0x23 0 [0x89, 0x01], Qcom 0x23 0 [0x8a, 0x90],
     Qcom 0x23 0 [0x8b, 0x01], Qcom 0x23 0 [0x8c, 0xd2], Qcom 0x23 0 [0x8d, 0x02],
     Qcom 0x23 0 [0x8e, 0x14], Qcom 0x23 0 [0x8f, 0x02], Qcom 0x23 0 [0x90, 0x16],
     Qcom 0x23 0 [0x91, 0x02], Qcom 0x23 0 [0x92, 0x58], Qcom 0x23 0 [0x93, 0x02],
     Qcom 0x23 0 [0x94, 0x95], Qcom 0x23 0 [0x95, 0x02], Qcom 0x23 0 [0x96, 0xbc],
     Qcom 0x23 0 [0x97, 0x02], Qcom 0x23 0 [0x98, 0xed], Qcom 0x23 0 [0x99, 0x03],
     Qcom 0x23 0 [0x9a, 0x0b], Qcom 0x23 0 [0x9b, 0x03], Qcom 0x23 0 [0x9c, 0x36],
     Qcom 0x23 0 [0x9d, 0x03], Qcom 0x23 0 [0x9e, 0x3b], Qcom 0x23 0 [0x9f, 0x03],
     Qcom 0x23 0 [0xa0, 0x40], Qcom 0x23 0 [0xa2, 0x03], Qcom 0x23 0 [0xa3, 0x45],
     Qcom 0x23 0 [0xa4, 0x03], Qcom 0x23 0 [0xa5, 0x54], Qcom 0x23 0 [0xa6, 0x03],
     Qcom 0x23 0 [0xa7, 0x70], Qcom 0x23 0 [0xa9, 0x03], Qcom 0x23 0 [0xaa, 0x8e],
     Qcom 0x23 0 [0xab, 0x03], Qcom 0x23 0 [0xac, 0xb2], Qcom 0x23 0 [0xad, 0x03],
     Qcom 0x23 0 [0xae, 0xc9], Qcom 0x23 0 [0xaf, 0x00], Qcom 0x23 0 [0xb0, 0x30],
     Qcom 0x23 0 [0xb1, 0x00], Qcom 0x23 0 [0xb2, 0x43], Qcom 0x23 0 [0xb3, 0x00],
     Qcom 0x23 0 [0xb4, 0x61], Qcom 0x23 0 [0xb5, 0x00], Qcom 0x23 0 [0xb6, 0x7d],
     Qcom 0x23 0 [0xb7, 0x00], Qcom 0x23 0 [0xb8, 0x98], Qcom 0x23 0 [0xb9, 0x00],
     Qcom 0x23 0 [0xba, 0xae], Qcom 0x23 0 [0xbb, 0x00], Qcom 0x23 0 [0xbc, 0xc0],
     Qcom 0x23 0 [0xbd, 0x00], Qcom 0x23 0 [0xbe, 0xcd], Qcom 0x23 0 [0xbf, 0x00],
     Qcom 0x23 0 [0xc0, 0xdb], Qcom 0x23 0 [0xc1, 0x01], Qcom 0x23 0 [0xc2, 0x0a],
     Qcom 0x23 0 [0xc3, 0x01], Qcom 0x23 0 [0xc4, 0x2a], Qcom 0x23 0 [0xc5, 0x01],
     Qcom 0x23 0 [0xc6, 0x63], Qcom 0x23 0 [0xc7, 0x01], Qcom 0x23 0 [0xc8, 0x90],
     Qcom 0x23 0 [0xc9, 0x01], Qcom 0x23 0 [0xca, 0xd2], Qcom 0x23 0 [0xcb, 0x02],
     Qcom 0x23 0 [0xcc, 0x14], Qcom 0x23 0 [0xcd, 0x02], Qcom 0x23 0 [0xce, 0x16],
     Qcom 0x23 0 [0xcf, 0x02], Qcom 0x23 0 [0xd0, 0x58], Qcom 0x23 0 [0xd1, 0x02],
     Qcom 0x23 0 [0xd2, 0x95], Qcom 0x23 0 [0xd3, 0x02], Qcom 0x23 0 [0xd4, 0xbc],
     Qcom 0x23 0 [0xd5, 0x02], Qcom 0x23 0 [0xd6, 0xed], Qcom 0x23 0 [0xd7, 0x03],
     Qcom 0x23 0 [0xd8, 0x0b], Qcom 0x23 0 [0xd9, 0x03], Qcom 0x23 0 [0xda, 0x36],
     Qcom 0x23 0 [0xdb, 0x03], Qcom 0x23 0 [0xdc, 0x3b], Qcom 0x23 0 [0xdd, 0x03],
     Qcom 0x23 0 [0xde, 0x40], Qcom 0x23 0 [0xdf, 0x03], Qcom 0x23 0 [0xe0, 0x45],
     Qcom 0x23 0 [0xe1, 0x03], Qcom 0x23 0 [0xe2, 0x54], Qcom 0x23 0 [0xe3, 0x03],
     Qcom 0x23 0 [0xe4, 0x70], Qcom 0x23 0 [0xe5, 0x03], Qcom 0x23 0 [0xe6, 0x8e],
     Qcom 0x23 0 [0xe7, 0x03], Qcom 0x23 0 [0xe8, 0xb2], Qcom 0x23 0 [0xe9, 0x03],
     Qcom 0x23 0 [0xea, 0xc9], Qcom 0x23 0 [0xfb, 0x01], Qcom 0x23 0 [0xff, 0x01],
     Qcom 0x23 0 [0x0b, 0x4b], Qcom 0x23 0 [0x0c, 0x4b], Qcom 0x23 0 [0x0e, 0xa1],
     Qcom 0x23 0 [0x15, 0x0b], Qcom 0x23 0 [0x16, 0x0b], Qcom 0x23 0 [0x1b, 0x1b],
     Qcom 0x23 0 [0x1c, 0xf5], Qcom 0x23 0 [0x01, 0x44], Qcom 0x23 0 [0x5c, 0x82],
     Qcom 0x23 0 [0x5e, 0x02], Qcom 0x23 0 [0x60, 0x0f], Qcom 0x23 0 [0x66, 0x01],
     Qcom 0x23 0 [0x69, 0x99], Qcom 0x23 0 [0x6d, 0x33], Qcom 0x23 0 [0xfb, 0x01],
     Qcom 0x23 0 [0xff, 0x05], Qcom 0x23 0 [0x35, 0x6b], Qcom 0x23 0 [0x7e, 0x02],
     Qcom 0x23 0 [0x7f, 0x18], Qcom 0x23 0 [0x81, 0x05], Qcom 0x23 0 [0x82, 0x05],
     Qcom 0x23 0 [0xa6, 0x04], Qcom 0x23 0 [0x84, 0x03], Qcom 0x23 0 [0x85, 0x04],
     Qcom 0x15 0 [0xc6, 0x00], Qcom 0x23 0 [0xfb, 0x01], Qcom 0x23 0 [0xff, 0xff],
     Qcom 0x23 0 [0x4f, 0x03], Qcom 0x23 0 [0xfb, 0x01], Qcom 0x23 0 [0xff, 0x00],
     Qcom 0x15 0 [0xd3, 0x08], Qcom 0x15 0 [0xd4, 0x1b], Qcom 0x15 0 [0xd5, 0x50],
     Qcom 0x15 0 [0xd6, 0x70]]"

definition novatek_jdi_vendor_on :: "qcom_cmd list" where
  "novatek_jdi_vendor_on = [
     Qcom 0x05 120 [0x11], Qcom 0x05 0 [0x29]]"

definition novatek_jdi_vendor_off :: "qcom_cmd list" where
  "novatek_jdi_vendor_off = [
     Qcom 0x05 20 [0x28], Qcom 0x05 80 [0x10]]"

definition novatek_sharp_vendor_init :: "qcom_cmd list" where
  "novatek_sharp_vendor_init = [
     Qcom 0x15 0 [0xff, 0x01], Qcom 0x15 0 [0xfb, 0x01], Qcom 0x15 0 [0x15, 0x14],
     Qcom 0x15 0 [0x16, 0x12], Qcom 0x15 0 [0x58, 0x82], Qcom 0x15 0 [0x59, 0x00],
     Qcom 0x15 0 [0x5a, 0x02], Qcom 0x15 0 [0x5b, 0x00], Qcom 0x15 0 [0x5c, 0x82],
     Qcom 0x15 0 [0x5d, 0x00], Qcom 0x15 0 [0x5e, 0x02], Qcom 0x15 0 [0x5f, 0x00],
     Qcom 0x15 0 [0x60, 0x0f], Qcom 0x15 0 [0x6d, 0x22], Qcom 0x15 0 [0xff, 0x05],
     Qcom 0x15 0 [0xfb, 0x01], Qcom 0x15 0 [0xa6, 0x04], Qcom 0x15 0 [0xc4, 0x04],
     Qcom 0x15 0 [0xff, 0x00], Qcom 0x15 0 [0xff, 0x01], Qcom 0x15 0 [0xfb, 0x01],
     Qcom 0x15 0 [0x75, 0x00], Qcom 0x15 0 [0x76, 0x21], Qcom 0x15 0 [0x77, 0x00],
     Qcom 0x15 0 [0x78, 0x57], Qcom 0x15 0 [0x79, 0x00], Qcom 0x15 0 [0x7a, 0x8a],
     Qcom 0x15 0 [0x7b, 0x00], Qcom 0x15 0 [0x7c, 0xa9], Qcom 0x15 0 [0x7d, 0x00],
     Qcom 0x15 0 [0x7e, 0xc1], Qcom 0x15 0 [0x7f, 0x00], Qcom 0x15 0 [0x80, 0xd6],
     Qcom 0x15 0 [0x81, 0x00], Qcom 0x15 0 [0x82, 0xe4], Qcom 0x15 0 [0x83, 0x00],
     Qcom 0x15 0 [0x84, 0xf6], Qcom 0x15 0 [0x85, 0x01], Qcom 0x15 0 [0x86, 0x06],
     Qcom 0x15 0 [0x87, 0x01], Qcom 0x15 0 [0x88, 0x33], Qcom 0x15 0 [0x89, 0x01],
     Qcom 0x15 0 [0x8a, 0x59], Qcom 0x15 0 [0x8b, 0x01], Qcom 0x15 0 [0x8c, 0x95],
     Qcom 0x15 0 [0x8d, 0x01], Qcom 0x15 0 [0x8e, 0xc5], Qcom 0x15 0 [0x8f, 0x02],
     Qcom 0x15 0 [0x90, 0x11], Qcom 0x15 0 [0x91, 0x02], Qcom 0x15 0 [0x92, 0x4d],
     Qcom 0x15 0 [0x93, 0x02], Qcom 0x15 0 [0x94, 0x4f], Qcom 0x15 0 [0x95, 0x02],
     Qcom 0x15 0 [0x96, 0x77], Qcom 0x15 0 [0x97, 0x02], Qcom 0x15 0 [0x98, 0xa2],
     Qcom 0x15 0 [0x99, 0x02], Qcom 0x15 0 [0x9a, 0xbe], Qcom 0x15 0 [0x9b, 0x02],
     Qcom 0x15 0 [0x9c, 0xe5], Qcom 0x15 0 [0x9d, 0x03], Qcom 0x15 0 [0x9e, 0x04],
     Qcom 0x15 0 [0x9f, 0x03], Qcom 0x15 0 [0xa0, 0x2c], Qcom 0x15 0 [0xa2, 0x03],
     Qcom 0x15 0 [0xa3, 0x39], Qcom 0x15 0 [0xa4, 0x03], Qcom 0x15 0 [0xa5, 0x46],
     Qcom 0x15 0 [0xa6, 0x03], Qcom 0x15 0 [0xa7, 0x55], Qcom 0x15 0 [0xa9, 0x03],
     Qcom 0x15 0 [0xaa, 0x66], Qcom 0x15 0 [0xab, 0x03], Qcom 0x15 0 [0xac, 0x7b],
     Qcom 0x15 0 [0xad, 0x03], Qcom 0x15 0 [0xae, 0x95], Qcom 0x15 0 [0xaf, 0x03],
     Qcom 0x15 0 [0xb0, 0xb4], Qcom 0x15 0 [0xb1, 0x03], Qcom 0x15 0 [0xb2, 0xbb],
     Qcom 0x15 0 [0xb3, 0x00], Qcom 0x15 0 [0xb4, 0x5b], Qcom 0x15 0 [0xb5, 0x00],
     Qcom 0x15 0 [0xb6, 0x94], Qcom 0x15 0 [0xb7, 0x00], Qcom 0x15 0 [0xb8, 0xc2],
     Qcom 0x15 0 [0xb9, 0x00], Qcom 0x15 0 [0xba, 0xde], Qcom 0x15 0 [0xbb, 0x00],
     Qcom 0x15 0 [0xbc, 0xf5], Qcom 0x15 0 [0xbd, 0x01], Qcom 0x15 0 [0xbe, 0x09],
     Qcom 0x15 0 [0xbf, 0x01], Qcom 0x15 0 [0xc0, 0x15], Qcom 0x15 0 [0xc1, 0x01],
     Qcom 0x15 0 [0xc2, 0x26], Qcom 0x15 0 [0xc3, 0x01], Qcom 0x15 0 [0xc4, 0x34],
     Qcom 0x15 0 [0xc5, 0x01], Qcom 0x15 0 [0xc6, 0x5c], Qcom 0x15 0 [0xc7, 0x01],
     Qcom 0x15 0 [0xc8, 0x7c], Qcom 0x15 0 [0xc9, 0x01], Qcom 0x15 0 [0xca, 0xac],
     Qcom 0x15 0 [0xcb, 0x01], Qcom 0x15 0 [0xcc, 0xd2], Qcom 0x15 0 [0xcd, 0x02],
     Qcom 0x15 0 [0xce, 0x0d], Qcom 0x15 0 [0xcf, 0x02], Qcom 0x15 0 [0xd0, 0x3b],
     Qcom 0x15 0 [0xd1, 0x02], Qcom 0x15 0 [0xd2, 0x3d], Qcom 0x15 0 [0xd3, 0x02],
     Qcom 0x15 0 [0xd4, 0x73], Qcom 0x15 0 [0xd5, 0x02], Qcom 0x15 0 [0xd6, 0xad],
     Qcom 0x15 0 [0xd7, 0x02], Qcom 0x15 0 [0xd8, 0xcf], Qcom 0x15 0 [0xd9, 0x02],
     Qcom 0x15 0 [0xda, 0xfe], Qcom 0x15 0 [0xdb, 0x03], Qcom 0x15 0 [0xdc, 0x1c],
     Qcom 0x15 0 [0xdd, 0x03], Qcom 0x15 0 [0xde, 0x44], Qcom 0x15 0 [0xdf, 0x03],
     Qcom 0x15 0 [0xe0, 0x51], Qcom 0x15 0 [0xe1, 0x03], Qcom 0x15 0 [0xe2, 0x5e],
     Qcom 0x15 0 [0xe3, 0x03], Qcom 0x15 0 [0xe4, 0x6e], Qcom 0x15 0 [0xe5, 0x03],
     Qcom 0x15 0 [0xe6, 0x7f], Qcom 0x15 0 [0xe7, 0x03], Qcom 0x15 0 [0xe8, 0x93],
     Qcom 0x15 0 [0xe9, 0x03], Qcom 0x15 0 [0xea, 0xac], Qcom 0x15 0 [0xeb, 0x03],
     Qcom 0x15 0 [0xec, 0xca], Qcom 0x15 0 [0xed, 0x03], Qcom 0x15 0 [0xee, 0xd1],
     Qcom 0x15 0 [0xef, 0x00], Qcom 0x15 0 [0xf0, 0x14], Qcom 0x15 0 [0xf1, 0x00],
     Qcom 0x15 0 [0xf2, 0x50], Qcom 0x15 0 [0xf3, 0x00], Qcom 0x15 0 [0xf4, 0x84],
     Qcom 0x15 0 [0xf5, 0x00], Qcom 0x15 0 [0xf6, 0xa4], Qcom 0x15 0 [0xf7, 0x00],
     Qcom 0x15 0 [0xf8, 0xb9], Qcom 0x15 0 [0xf9, 0x00], Qcom 0x15 0 [0xfa, 0xd2],
     Qcom 0x15 0 [0xff, 0x02], Qcom 0x15 0 [0xfb, 0x01], Qcom 0x15 0 [0x00, 0x00],
     Qcom 0x15 0 [0x01, 0xe1], Qcom 0x15 0 [0x02, 0x00], Qcom 0x15 0 [0x03, 0xf1],
     Qcom 0x15 0 [0x04, 0x01], Qcom 0x15 0 [0x05, 0x02], Qcom 0x15 0 [0x06, 0x01],
     Qcom 0x15 0 [0x07, 0x31], Qcom 0x15 0 [0x08, 0x01], Qcom 0x15 0 [0x09, 0x56],
     Qcom 0x15 0 [0x0a, 0x01], Qcom 0x15 0 [0x0b, 0x93], Qcom 0x15 0 [0x0c, 0x01],
     Qcom 0x15 0 [0x0d, 0xc4], Qcom 0x15 0 [0x0e, 0x02], Qcom 0x15 0 [0x0f, 0x0f],
     Qcom 0x15 0 [0x10, 0x02], Qcom 0x15 0 [0x11, 0x4b], Qcom 0x15 0 [0x12, 0x02],
     Qcom 0x15 0 [0x13, 0x4c], Qcom 0x15 0 [0x14, 0x02], Qcom 0x15 0 [0x15, 0x75],
     Qcom 0x15 0 [0x16, 0x02], Qcom 0x15 0 [0x17, 0xa0], Qcom 0x15 0 [0x18, 0x02],
     Qcom 0x15 0 [0x19, 0xbb], Qcom 0x15 0 [0x1a, 0x02], Qcom 0x15 0 [0x1b, 0xe0],
     Qcom 0x15 0 [0x1c, 0x02], Qcom 0x15 0 [0x1d, 0xff], Qcom 0x15 0 [0x1e, 0x03],
     Qcom 0x15 0 [0x1f, 0x27], Qcom 0x15 0 [0x20, 0x03], Qcom 0x15 0 [0x21, 0x33],
     Qcom 0x15 0 [0x22, 0x03], Qcom 0x15 0 [0x23, 0x41], Qcom 0x15 0 [0x24, 0x03],
     Qcom 0x15 0 [0x25, 0x50], Qcom 0x15 0 [0x26, 0x03], Qcom 0x15 0 [0x27, 0x61],
     Qcom 0x15 0 [0x28, 0x03], Qcom 0x15 0 [0x29, 0x76], Qcom 0x15 0 [0x2a, 0x03],
     Qcom 0x15 0 [0x2b, 0x91], Qcom 0x15 0 [0x2d, 0x03], Qcom 0x15 0 [0x2f, 0xb3],
     Qcom 0x15 0 [0x30, 0x03], Qcom 0x15 0 [0x31, 0xbb], Qcom 0x15 0 [0x32, 0x00],
     Qcom 0x15 0 [0x33, 0x4e], Qcom 0x15 0 [0x34, 0x00], Qcom 0x15 0 [0x35, 0x8f],
     Qcom 0x15 0 [0x36, 0x00], Qcom 0x15 0 [0x37, 0xbe], Qcom 0x15 0 [0x38, 0x00],
     Qcom 0x15 0 [0x39, 0xdb], Qcom 0x15 0 [0x3a, 0x00], Qcom 0x15 0 [0x3b, 0xef],
     Qcom 0x15 0 [0x3d, 0x01], Qcom 0x15 0 [0x3f, 0x06], Qcom 0x15 0 [0x40, 0x01],
     Qcom 0x15 0 [0x41, 0x13], Qcom 0x15 0 [0x42, 0x01], Qcom 0x15 0 [0x43, 0x22],
     Qcom 0x15 0 [0x44, 0x01], Qcom 0x15 0 [0x45, 0x31], Qcom 0x15 0 [0x46, 0x01],
     Qcom 0x15 0 [0x47, 0x5b], Qcom 0x15 0 [0x48, 0x01], Qcom 0x15 0 [0x49, 0x7b],
     Qcom 0x15 0 [0x4a, 0x01], Qcom 0x15 0 [0x4b, 0xab], Qcom 0x15 0 [0x4c, 0x01],
     Qcom 0x15 0 [0x4d, 0xd1], Qcom 0x15 0 [0x4e, 0x02], Qcom 0x15 0 [0x4f, 0x0b],
     Qcom 0x15 0 [0x50, 0x02], Qcom 0x15 0 [0x51, 0x39], Qcom 0x15 0 [0x52, 0x02],
     Qcom 0x15 0 [0x53, 0x3a], Qcom 0x15 0 [0x54, 0x02], Qcom 0x15 0 [0x55, 0x71],
     Qcom 0x15 0 [0x56, 0x02], Qcom 0x15 0 [0x58, 0xaa], Qcom 0x15 0 [0x59, 0x02],
     Qcom 0x15 0 [0x5a, 0xcc], Qcom 0x15 0 [0x5b, 0x02], Qcom 0x15 0 [0x5c, 0xfa],
     Qcom 0x15 0 [0x5d, 0x03], Qcom 0x15 0 [0x5e, 0x17], Qcom 0x15 0 [0x5f, 0x03],
     Qcom 0x15 0 [0x60, 0x3f], Qcom 0x15 0 [0x61, 0x03], Qcom 0x15 0 [0x62, 0x4b],
     Qcom 0x15 0 [0x63, 0x03], Qcom 0x15 0 [0x64, 0x59], Qcom 0x15 0 [0x65, 0x03],
     Qcom 0x15 0 [0x66, 0x68], Qcom 0x15 0 [0x67, 0x03], Qcom 0x15 0 [0x68, 0x7a],
     Qcom 0x15 0 [0x69, 0x03], Qcom 0x15 0 [0x6a, 0x8e], Qcom 0x15 0 [0x6b, 0x03],
     Qcom 0x15 0 [0x6c, 0xa8], Qcom 0x15 0 [0x6d, 0x03], Qcom 0x15 0 [0x6e, 0xc9],
     Qcom 0x15 0 [0x6f, 0x03], Qcom 0x15 0 [0x70, 0xd1], Qcom 0x15 0 [0x71, 0x00],
     Qcom 0x15 0 [0x72, 0x00], Qcom 0x15 0 [0x73, 0x00], Qcom 0x15 0 [0x74, 0x38],
     Qcom 0x15 0 [0x75, 0x00], Qcom 0x15 0 [0x76, 0x6c], Qcom 0x15 0 [0x77, 0x00],
     Qcom 0x15 0 [0x78, 0x8f], Qcom 0x15 0 [0x79, 0x00], Qcom 0x15 0 [0x7a, 0xaa],
     Qcom 0x15 0 [0x7b, 0x00], Qcom 0x15 0 [0x7c, 0xbf], Qcom 0x15 0 [0x7d, 0x00],
     Qcom 0x15 0 [0x7e, 0xd5], Qcom 0x15 0 [0x7f, 0x00], Qcom 0x15 0 [0x80, 0xe2],
     Qcom 0x15 0 [0x81, 0x00], Qcom 0x15 0 [0x82, 0xf3], Qcom 0x15 0 [0x83, 0x01],
     Qcom 0x15 0 [0x84, 0x27], Qcom 0x15 0 [0x85, 0x01], Qcom 0x15 0 [0x86, 0x4e],
     Qcom 0x15 0 [0x87, 0x01], Qcom 0x15 0 [0x88, 0x8d], Qcom 0x15 0 [0x89, 0x01],
     Qcom 0x15 0 [0x8a, 0xc0], Qcom 0x15 0 [0x8b, 0x02], Qcom 0x15 0 [0x8c, 0x0d],
     Qcom 0x15 0 [0x8d, 0x02], Qcom 0x15 0 [0x8e, 0x4b], Qcom 0x15 0 [0x8f, 0x02],
     Qcom 0x15 0 [0x90, 0x4c], Qcom 0x15 0 [0x91, 0x02], Qcom 0x15 0 [0x92, 0x76],
     Qcom 0x15 0 [0x93, 0x02], Qcom 0x15 0 [0x94, 0xa1], Qcom 0x15 0 [0x95, 0x02],
     Qcom 0x15 0 [0x96, 0xbd], Qcom 0x15 0 [0x97, 0x02], Qcom 0x15 0 [0x98, 0xe4],
     Qcom 0x15 0 [0x99, 0x03], Qcom 0x15 0 [0x9a, 0x03], Qcom 0x15 0 [0x9b, 0x03],
     Qcom 0x15 0 [0x9c, 0x2d], Qcom 0x15 0 [0x9d, 0x03], Qcom 0x15 0 [0x9e, 0x39],
     Qcom 0x15 0 [0x9f, 0x03], Qcom 0x15 0 [0xa0, 0x46], Qcom 0x15 0 [0xa2, 0x03],
     Qcom 0x15 0 [0xa3, 0x56], Qcom 0x15 0 [0xa4, 0x03], Qcom 0x15 0 [0xa5, 0x68],
     Qcom 0x15 0 [0xa6, 0x03], Qcom 0x15 0 [0xa7, 0x7f], Qcom 0x15 0 [0xa9, 0x03],
     Qcom 0x15 0 [0xaa, 0x97], Qcom 0x15 0 [0xab, 0x03], Qcom 0x15 0 [0xac, 0xb5],
     Qcom 0x15 0 [0xad, 0x03], Qcom 0x15 0 [0xae, 0xbb], Qcom 0x15 0 [0xaf, 0x00],
     Qcom 0x15 0 [0xb0, 0x39], Qcom 0x15 0 [0xb1, 0x00], Qcom 0x15 0 [0xb2, 0x76],
     Qcom 0x15 0 [0xb3, 0x00], Qcom 0x15 0 [0xb4, 0xa6], Qcom 0x15 0 [0xb5, 0x00],
     Qcom 0x15 0 [0xb6, 0xc6], Qcom 0x15 0 [0xb7, 0x00], Qcom 0x15 0 [0xb8, 0xdf],
     Qcom 0x15 0 [0xb9, 0x00], Qcom 0x15 0 [0xba, 0xf2], Qcom 0x15 0 [0xbb, 0x01],
     Qcom 0x15 0 [0xbc, 0x07], Qcom 0x15 0 [0xbd, 0x01], Qcom 0x15 0 [0xbe, 0x13],
     Qcom 0x15 0 [0xbf, 0x01], Qcom 0x15 0 [0xc0, 0x22], Qcom 0x15 0 [0xc1, 0x01],
     Qcom 0x15 0 [0xc2, 0x50], Qcom 0x15 0 [0xc3, 0x01], Qcom 0x15 0 [0xc4, 0x72],
     Qcom 0x15 0 [0xc5, 0x01], Qcom 0x15 0 [0xc6, 0xa5], Qcom 0x15 0 [0xc7, 0x01],
     Qcom 0x15 0 [0xc8, 0xcd], Qcom 0x15 0 [0xc9, 0x02], Qcom 0x15 0 [0xca, 0x09],
     Qcom 0x15 0 [0xcb, 0x02], Qcom 0x15 0 [0xcc, 0x39], Qcom 0x15 0 [0xcd, 0x02],
     Qcom 0x15 0 [0xce, 0x3a], Qcom 0x15 0 [0xcf, 0x02], Qcom 0x15 0 [0xd0, 0x72],
     Qcom 0x15 0 [0xd1, 0x02], Qcom 0x15 0 [0xd2, 0xac], Qcom 0x15 0 [0xd3, 0x02],
     Qcom 0x15 0 [0xd4, 0xcf], Qcom 0x15 0 [0xd5, 0x02], Qcom 0x15 0 [0xd6, 0xfe],
     Qcom 0x15 0 [0xd7, 0x03], Qcom 0x15 0 [0xd8, 0x1c], Qcom 0x15 0 [0xd9, 0x03],
     Qcom 0x15 0 [0xda, 0x45], Qcom 0x15 0 [0xdb, 0x03], Qcom 0x15 0 [0xdc, 0x51],
     Qcom 0x15 0 [0xdd, 0x03], Qcom 0x15 0 [0xde, 0x5f], Qcom 0x15 0 [0xdf, 0x03],
     Qcom 0x15 0 [0xe0, 0x6f], Qcom 0x15 0 [0xe1, 0x03], Qcom 0x15 0 [0xe2, 0x81],
     Qcom 0x15 0 [0xe3, 0x03], Qcom 0x15 0 [0xe4, 0x97], Qcom 0x15 0 [0xe5, 0x03],
     Qcom 0x15 0 [0xe6, 0xae], Qcom 0x15 0 [0xe7, 0x03], Qcom 0x15 0 [0xe8, 0xcb],
     Qcom 0x15 0 [0xe9, 0x03], Qcom 0x15 0 [0xea, 0xd1], Qcom 0x15 0 [0xff, 0x00],
     Qcom 0x05 150 [0x11], Qcom 0x15 0 [0xd3, 0x07], Qcom 0x15 0 [0xd4, 0x02]]"

definition novatek_sharp_vendor_on :: "qcom_cmd list" where
  "novatek_sharp_vendor_on = [
     Qcom 0x05 0 [0x29]]"

definition novatek_sharp_vendor_off :: "qcom_cmd list" where
  "novatek_sharp_vendor_off = [
     Qcom 0x05 20 [0x28], Qcom 0x05 100 [0x10]]"

definition novatek_auo_vendor_init :: "qcom_cmd list" where
  "novatek_auo_vendor_init = [
     Qcom 0x15 0 [0xff, 0x05], Qcom 0x15 0 [0xfb, 0x01], Qcom 0x15 0 [0x93, 0x06],
     Qcom 0x15 0 [0x94, 0x30], Qcom 0x15 0 [0xff, 0x00], Qcom 0x15 0 [0xff, 0x01],
     Qcom 0x15 0 [0x01, 0x55], Qcom 0x15 0 [0x15, 0x0f], Qcom 0x15 0 [0x16, 0x0f],
     Qcom 0x15 0 [0x1b, 0x1b], Qcom 0x15 0 [0x1c, 0xf7], Qcom 0x15 0 [0x60, 0x0f],
     Qcom 0x15 0 [0x58, 0x82], Qcom 0x15 0 [0x59, 0x00], Qcom 0x15 0 [0x5a, 0x02],
     Qcom 0x15 0 [0x5b, 0x00], Qcom 0x15 0 [0x5c, 0x82], Qcom 0x15 0 [0x5d, 0x80],
     Qcom 0x15 0 [0x5e, 0x02], Qcom 0x15 0 [0x5f, 0x00], Qcom 0x15 0 [0x66, 0x01],
     Qcom 0x15 0 [0xfb, 0x01], Qcom 0x15 0 [0xff, 0x05], Qcom 0x15 0 [0x54, 0x75],
     Qcom 0x15 0 [0x85, 0x05], Qcom 0x15 0 [0xa6, 0x04], Qcom 0x15 0 [0xfb, 0x01],
     Qcom 0x15 0 [0xff, 0xff], Qcom 0x15 0 [0x4f, 0x03], Qcom 0x15 0 [0xfb, 0x01],
     Qcom 0x15 0 [0xff, 0x00], Qcom 0x15 0 [0x35, 0x01], Qcom 0x15 0 [0xd3, 0x30],
     Qcom 0x15 0 [0xd4, 0x06], Qcom 0x05 100 [0x11]]"

definition novatek_auo_vendor_on :: "qcom_cmd list" where
  "novatek_auo_vendor_on = [
     Qcom 0x05 100 [0x29]]"

definition novatek_auo_vendor_off :: "qcom_cmd list" where
  "novatek_auo_vendor_off = [
     Qcom 0x05 20 [0x28], Qcom 0x05 100 [0x10]]"

definition renesas_jdi_vendor_init :: "qcom_cmd list" where
  "renesas_jdi_vendor_init = [
     Qcom 0x05 5 [0x01], Qcom 0x23 0 [0xb0, 0x00], Qcom 0x23 0 [0x00, 0x00],
     Qcom 0x23 0 [0x00, 0x00],
     Qcom 0x29 0 [0xc7, 0x08, 0x12, 0x1b, 0x24, 0x31, 0x48, 0x40, 0x52, 0x5e, 0x61, 0x6a, 0x76, 0x08, 0x12, 0x1b, 0x24, 0x31, 0x48, 0x40, 0x52, 0x5e, 0x61, 0x6a, 0x76],
     Qcom 0x29 0 [0xc8, 0x08, 0x12, 0x1b, 0x24, 0x31, 0x49, 0x41, 0x53, 0x5e, 0x61, 0x6a, 0x76, 0x08, 0x12, 0x1b, 0x24, 0x31, 0x49, 0x41, 0x53, 0x5e, 0x61, 0x6a, 0x76],
     Qcom 0x29 0 [0xc9, 0x08, 0x12, 0x1b, 0x24, 0x31, 0x47, 0x3f, 0x52, 0x5e, 0x61, 0x6a, 0x76, 0x08, 0x12, 0x1b, 0x24, 0x31, 0x47, 0x3f, 0x52, 0x5e, 0x61, 0x6a, 0x76],
     Qcom 0x29 0 [0xd3, 0x1b, 0x33, 0xbb, 0xcc, 0xc4, 0x33, 0x33, 0x33, 0x00, 0x01, 0x00, 0xa0, 0xd8, 0xa0, 0x06, 0x2b, 0x33, 0x33, 0x22, 0x70, 0x02, 0x2b, 0x43, 0x3d, 0xbf, 0x99],
     Qcom 0x23 0 [0xd6, 0x01]]"

definition renesas_jdi_vendor_on :: "qcom_cmd list" where
  "renesas_jdi_vendor_on = [
     Qcom 0x05 120 [0x11], Qcom 0x05 0 [0x29]]"

definition renesas_jdi_vendor_off :: "qcom_cmd list" where
  "renesas_jdi_vendor_off = [
     Qcom 0x05 20 [0x28], Qcom 0x05 80 [0x10]]"

definition renesas_sharp_vendor_init :: "qcom_cmd list" where
  "renesas_sharp_vendor_init = [
     Qcom 0x23 0 [0xb0, 0x04], Qcom 0x23 0 [0x00, 0x00], Qcom 0x23 0 [0x00, 0x00],
     Qcom 0x29 0 [0xc2, 0x32, 0xf7, 0x80, 0x07, 0x08, 0x00, 0x00], Qcom 0x23 0 [0xd6, 0x01],
     Qcom 0x29 0 [0xc0, 0x0f, 0x0f], Qcom 0x29 0 [0xec, 0x00, 0x10],
     Qcom 0x29 0 [0xc7, 0x05, 0x19, 0x22, 0x2b, 0x38, 0x51, 0x41, 0x50, 0x5c, 0x64, 0x6b, 0x74, 0x0f, 0x23, 0x2b, 0x32, 0x3f, 0x52, 0x44, 0x55, 0x61, 0x69, 0x70, 0x77],
     Qcom 0x29 0 [0xc8, 0x03, 0x18, 0x21, 0x2b, 0x38, 0x51, 0x42, 0x4f, 0x5d, 0x65, 0x6c, 0x74, 0x0d, 0x22, 0x2a, 0x32, 0x3e, 0x52, 0x41, 0x54, 0x5d, 0x66, 0x6d, 0x77],
     Qcom 0x29 0 [0xc9, 0x00, 0x15, 0x1e, 0x28, 0x36, 0x50, 0x42, 0x50, 0x5e, 0x66, 0x6d, 0x74, 0x0a, 0x1f, 0x27, 0x2f, 0x3d, 0x51, 0x41, 0x55, 0x5e, 0x67, 0x6e, 0x77],
     Qcom 0x05 0 [0x11]]"

definition renesas_sharp_vendor_on :: "qcom_cmd list" where
  "renesas_sharp_vendor_on = [
     Qcom 0x05 0 [0x29]]"

definition renesas_sharp_vendor_off :: "qcom_cmd list" where
  "renesas_sharp_vendor_off = [
     Qcom 0x05 20 [0x28], Qcom 0x05 110 [0x10]]"

definition renesas_auo_vendor_init :: "qcom_cmd list" where
  "renesas_auo_vendor_init = [
     Qcom 0x15 0 [0x35, 0x01], Qcom 0x29 0 [0xb0, 0x04],
     Qcom 0x29 0 [0xc2, 0x30, 0xf7, 0x84, 0x1b, 0x0c, 0x00, 0x00], Qcom 0x29 0 [0xd6, 0x01],
     Qcom 0x05 0 [0x29]]"

definition renesas_auo_vendor_on :: "qcom_cmd list" where
  "renesas_auo_vendor_on = [
     Qcom 0x05 120 [0x11]]"

definition renesas_auo_vendor_off :: "qcom_cmd list" where
  "renesas_auo_vendor_off = [
     Qcom 0x05 0 [0x28], Qcom 0x05 67 [0x10]]"

end
