(* ===== verification/Panel_Generated.thy ===== *)
theory Panel_Generated
  imports Panel_Commands Panel_Vendor Power_Seq
begin

text \<open>
  The six drivers of \<^verbatim>\<open>panel-variants/generated\<close>, one per panel. They were written by one generator
  and differ in their commands and their display mode, so the functions of each are an
  instance of the \<open>gen_\<close> functions. \<open>gen_panel\<close> is the driver's struct with its flag \<open>prepared\<close>.
\<close>

section \<open>The generated functions\<close>

record gen_panel = panel_hw +
  gp_prepared :: bool

type_synonym 'a gpm = "((pn_ev, gen_panel) io, 'a) state"

definition gen_on :: "pn_env \<Rightarrow> dsi_op list \<Rightarrow> int gpm" where
  "gen_on env ops = do { set_lpm True; run_early env ops }"

definition gen_off :: "pn_env \<Rightarrow> dsi_op list \<Rightarrow> int gpm" where
  "gen_off env ops = do { set_lpm False; run_early env ops }"

definition set_prepared :: "bool \<Rightarrow> unit gpm" where
  "set_prepared b = modify (\<lambda>h. h\<lparr>gp_prepared := b\<rparr>)"

definition gen_prepare :: "pn_env \<Rightarrow> int gpm \<Rightarrow> int gpm" where
  "gen_prepare env on = do {
     prepared \<leftarrow> gets gp_prepared;
     if prepared then ret 0
     else do {
       r \<leftarrow> vddio_enable env;
       if r < 0 then ret r
       else do {
         r \<leftarrow> on;
         if r < 0 then do { vddio_disable; ret r }
         else do { set_prepared True; ret 0 }
       }
     }
   }"

definition gen_unprepare :: "int gpm \<Rightarrow> int gpm" where
  "gen_unprepare off = do {
     prepared \<leftarrow> gets gp_prepared;
     if \<not> prepared then ret 0
     else do {
       _ \<leftarrow> off;
       vddio_disable;
       set_prepared False;
       ret 0
     }
   }"

definition gen_get_modes :: "pn_env \<Rightarrow> drm_display_mode \<Rightarrow> (int \<times> drm_display_mode option) gpm" where
  "gen_get_modes env mode = do {
     ok \<leftarrow> call (pe_ptr env) Pn_alloc;
     if \<not> ok then ret (- ENOMEM, None) else ret (1, Some mode)
   }"

text \<open>\<open>dsi->mode_flags\<close> is overwritten, so the low power flag is off. The fresh struct is zeroed.\<close>

definition gen_probe :: "pn_env \<Rightarrow> int gpm" where
  "gen_probe env = do {
     ok \<leftarrow> call (pe_ptr env) Pn_alloc;
     if \<not> ok then ret (- ENOMEM)
     else do {
       set_prepared False;
       r \<leftarrow> call (pe_ret env) (Pn_get ''vddio'');
       if r \<noteq> 0 then ret r
       else do {
         emit (Pn_config 4 [Mode_video, Mode_video_hse, Clock_non_continuous]);
         set_lpm False;
         r \<leftarrow> call (pe_ret env) Pn_backlight;
         if r \<noteq> 0 then ret r
         else do {
           emit Pn_add;
           r \<leftarrow> call (pe_ret env) Pn_attach;
           if r < 0 then do { emit Pn_remove; ret r }
           else ret 0
         }
       }
     }
   }"

definition gen_remove :: "pn_env \<Rightarrow> int gpm" where
  "gen_remove env = do {
     _ \<leftarrow> call (pe_ret env) Pn_detach;
     emit Pn_remove;
     ret 0
   }"

section \<open>The six drivers\<close>

text \<open>\<^verbatim>\<open>generated/panel-novatek-jdi.c\<close>\<close>

definition novatek_jdi_mode :: drm_display_mode where
  "novatek_jdi_mode = \<lparr>
     dm_clock = (1080 + 112 + 4 + 76) * (1920 + 27 + 4 + 4) * 60 div 1000,
     dm_hdisplay = 1080, dm_hsync_start = 1080 + 112, dm_hsync_end = 1080 + 112 + 4,
     dm_htotal = 1080 + 112 + 4 + 76,
     dm_vdisplay = 1920, dm_vsync_start = 1920 + 27, dm_vsync_end = 1920 + 27 + 4,
     dm_vtotal = 1920 + 27 + 4 + 4,
     dm_width_mm = 64, dm_height_mm = 114\<rparr>"

definition novatek_jdi_on :: "pn_env \<Rightarrow> int gpm" where
  "novatek_jdi_on env = gen_on env novatek_jdi_on_ops"

definition novatek_jdi_off :: "pn_env \<Rightarrow> int gpm" where
  "novatek_jdi_off env = gen_off env novatek_jdi_off_ops"

definition novatek_jdi_prepare :: "pn_env \<Rightarrow> int gpm" where
  "novatek_jdi_prepare env = gen_prepare env (novatek_jdi_on env)"

definition novatek_jdi_unprepare :: "pn_env \<Rightarrow> int gpm" where
  "novatek_jdi_unprepare env = gen_unprepare (novatek_jdi_off env)"

definition novatek_jdi_get_modes :: "pn_env \<Rightarrow> (int \<times> drm_display_mode option) gpm" where
  "novatek_jdi_get_modes env = gen_get_modes env novatek_jdi_mode"

definition novatek_jdi_probe :: "pn_env \<Rightarrow> int gpm" where
  "novatek_jdi_probe env = gen_probe env"

definition novatek_jdi_remove :: "pn_env \<Rightarrow> int gpm" where
  "novatek_jdi_remove env = gen_remove env"

text \<open>\<^verbatim>\<open>generated/panel-novatek-sharp.c\<close>\<close>

definition novatek_sharp_mode :: drm_display_mode where
  "novatek_sharp_mode = \<lparr>
     dm_clock = (1080 + 128 + 4 + 76) * (1920 + 2 + 2 + 5) * 60 div 1000,
     dm_hdisplay = 1080, dm_hsync_start = 1080 + 128, dm_hsync_end = 1080 + 128 + 4,
     dm_htotal = 1080 + 128 + 4 + 76,
     dm_vdisplay = 1920, dm_vsync_start = 1920 + 2, dm_vsync_end = 1920 + 2 + 2,
     dm_vtotal = 1920 + 2 + 2 + 5,
     dm_width_mm = 64, dm_height_mm = 114\<rparr>"

definition novatek_sharp_on :: "pn_env \<Rightarrow> int gpm" where
  "novatek_sharp_on env = gen_on env novatek_sharp_on_ops"

definition novatek_sharp_off :: "pn_env \<Rightarrow> int gpm" where
  "novatek_sharp_off env = gen_off env novatek_sharp_off_ops"

definition novatek_sharp_prepare :: "pn_env \<Rightarrow> int gpm" where
  "novatek_sharp_prepare env = gen_prepare env (novatek_sharp_on env)"

definition novatek_sharp_unprepare :: "pn_env \<Rightarrow> int gpm" where
  "novatek_sharp_unprepare env = gen_unprepare (novatek_sharp_off env)"

definition novatek_sharp_get_modes :: "pn_env \<Rightarrow> (int \<times> drm_display_mode option) gpm" where
  "novatek_sharp_get_modes env = gen_get_modes env novatek_sharp_mode"

definition novatek_sharp_probe :: "pn_env \<Rightarrow> int gpm" where
  "novatek_sharp_probe env = gen_probe env"

definition novatek_sharp_remove :: "pn_env \<Rightarrow> int gpm" where
  "novatek_sharp_remove env = gen_remove env"

text \<open>\<^verbatim>\<open>generated/panel-novatek-auo.c\<close>\<close>

definition novatek_auo_mode :: drm_display_mode where
  "novatek_auo_mode = \<lparr>
     dm_clock = (1080 + 104 + 20 + 56) * (1920 + 6 + 2 + 46) * 60 div 1000,
     dm_hdisplay = 1080, dm_hsync_start = 1080 + 104, dm_hsync_end = 1080 + 104 + 20,
     dm_htotal = 1080 + 104 + 20 + 56,
     dm_vdisplay = 1920, dm_vsync_start = 1920 + 6, dm_vsync_end = 1920 + 6 + 2,
     dm_vtotal = 1920 + 6 + 2 + 46,
     dm_width_mm = 64, dm_height_mm = 114\<rparr>"

definition novatek_auo_on :: "pn_env \<Rightarrow> int gpm" where
  "novatek_auo_on env = gen_on env novatek_auo_on_ops"

definition novatek_auo_off :: "pn_env \<Rightarrow> int gpm" where
  "novatek_auo_off env = gen_off env novatek_auo_off_ops"

definition novatek_auo_prepare :: "pn_env \<Rightarrow> int gpm" where
  "novatek_auo_prepare env = gen_prepare env (novatek_auo_on env)"

definition novatek_auo_unprepare :: "pn_env \<Rightarrow> int gpm" where
  "novatek_auo_unprepare env = gen_unprepare (novatek_auo_off env)"

definition novatek_auo_get_modes :: "pn_env \<Rightarrow> (int \<times> drm_display_mode option) gpm" where
  "novatek_auo_get_modes env = gen_get_modes env novatek_auo_mode"

definition novatek_auo_probe :: "pn_env \<Rightarrow> int gpm" where
  "novatek_auo_probe env = gen_probe env"

definition novatek_auo_remove :: "pn_env \<Rightarrow> int gpm" where
  "novatek_auo_remove env = gen_remove env"

text \<open>\<^verbatim>\<open>generated/panel-renesas-jdi.c\<close>\<close>

definition renesas_jdi_mode :: drm_display_mode where
  "renesas_jdi_mode = \<lparr>
     dm_clock = (1080 + 112 + 4 + 76) * (1920 + 27 + 4 + 4) * 60 div 1000,
     dm_hdisplay = 1080, dm_hsync_start = 1080 + 112, dm_hsync_end = 1080 + 112 + 4,
     dm_htotal = 1080 + 112 + 4 + 76,
     dm_vdisplay = 1920, dm_vsync_start = 1920 + 27, dm_vsync_end = 1920 + 27 + 4,
     dm_vtotal = 1920 + 27 + 4 + 4,
     dm_width_mm = 64, dm_height_mm = 114\<rparr>"

definition renesas_jdi_on :: "pn_env \<Rightarrow> int gpm" where
  "renesas_jdi_on env = gen_on env renesas_jdi_on_ops"

definition renesas_jdi_off :: "pn_env \<Rightarrow> int gpm" where
  "renesas_jdi_off env = gen_off env renesas_jdi_off_ops"

definition renesas_jdi_prepare :: "pn_env \<Rightarrow> int gpm" where
  "renesas_jdi_prepare env = gen_prepare env (renesas_jdi_on env)"

definition renesas_jdi_unprepare :: "pn_env \<Rightarrow> int gpm" where
  "renesas_jdi_unprepare env = gen_unprepare (renesas_jdi_off env)"

definition renesas_jdi_get_modes :: "pn_env \<Rightarrow> (int \<times> drm_display_mode option) gpm" where
  "renesas_jdi_get_modes env = gen_get_modes env renesas_jdi_mode"

definition renesas_jdi_probe :: "pn_env \<Rightarrow> int gpm" where
  "renesas_jdi_probe env = gen_probe env"

definition renesas_jdi_remove :: "pn_env \<Rightarrow> int gpm" where
  "renesas_jdi_remove env = gen_remove env"

text \<open>\<^verbatim>\<open>generated/panel-renesas-sharp.c\<close>\<close>

definition renesas_sharp_mode :: drm_display_mode where
  "renesas_sharp_mode = \<lparr>
     dm_clock = (1080 + 128 + 4 + 76) * (1920 + 2 + 2 + 5) * 60 div 1000,
     dm_hdisplay = 1080, dm_hsync_start = 1080 + 128, dm_hsync_end = 1080 + 128 + 4,
     dm_htotal = 1080 + 128 + 4 + 76,
     dm_vdisplay = 1920, dm_vsync_start = 1920 + 2, dm_vsync_end = 1920 + 2 + 2,
     dm_vtotal = 1920 + 2 + 2 + 5,
     dm_width_mm = 64, dm_height_mm = 114\<rparr>"

definition renesas_sharp_on :: "pn_env \<Rightarrow> int gpm" where
  "renesas_sharp_on env = gen_on env renesas_sharp_on_ops"

definition renesas_sharp_off :: "pn_env \<Rightarrow> int gpm" where
  "renesas_sharp_off env = gen_off env renesas_sharp_off_ops"

definition renesas_sharp_prepare :: "pn_env \<Rightarrow> int gpm" where
  "renesas_sharp_prepare env = gen_prepare env (renesas_sharp_on env)"

definition renesas_sharp_unprepare :: "pn_env \<Rightarrow> int gpm" where
  "renesas_sharp_unprepare env = gen_unprepare (renesas_sharp_off env)"

definition renesas_sharp_get_modes :: "pn_env \<Rightarrow> (int \<times> drm_display_mode option) gpm" where
  "renesas_sharp_get_modes env = gen_get_modes env renesas_sharp_mode"

definition renesas_sharp_probe :: "pn_env \<Rightarrow> int gpm" where
  "renesas_sharp_probe env = gen_probe env"

definition renesas_sharp_remove :: "pn_env \<Rightarrow> int gpm" where
  "renesas_sharp_remove env = gen_remove env"

text \<open>\<^verbatim>\<open>generated/panel-renesas-auo.c\<close>\<close>

definition renesas_auo_mode :: drm_display_mode where
  "renesas_auo_mode = \<lparr>
     dm_clock = (1080 + 104 + 20 + 56) * (1920 + 24 + 10 + 20) * 60 div 1000,
     dm_hdisplay = 1080, dm_hsync_start = 1080 + 104, dm_hsync_end = 1080 + 104 + 20,
     dm_htotal = 1080 + 104 + 20 + 56,
     dm_vdisplay = 1920, dm_vsync_start = 1920 + 24, dm_vsync_end = 1920 + 24 + 10,
     dm_vtotal = 1920 + 24 + 10 + 20,
     dm_width_mm = 64, dm_height_mm = 114\<rparr>"

definition renesas_auo_on :: "pn_env \<Rightarrow> int gpm" where
  "renesas_auo_on env = gen_on env renesas_auo_on_ops"

definition renesas_auo_off :: "pn_env \<Rightarrow> int gpm" where
  "renesas_auo_off env = gen_off env renesas_auo_off_ops"

definition renesas_auo_prepare :: "pn_env \<Rightarrow> int gpm" where
  "renesas_auo_prepare env = gen_prepare env (renesas_auo_on env)"

definition renesas_auo_unprepare :: "pn_env \<Rightarrow> int gpm" where
  "renesas_auo_unprepare env = gen_unprepare (renesas_auo_off env)"

definition renesas_auo_get_modes :: "pn_env \<Rightarrow> (int \<times> drm_display_mode option) gpm" where
  "renesas_auo_get_modes env = gen_get_modes env renesas_auo_mode"

definition renesas_auo_probe :: "pn_env \<Rightarrow> int gpm" where
  "renesas_auo_probe env = gen_probe env"

definition renesas_auo_remove :: "pn_env \<Rightarrow> int gpm" where
  "renesas_auo_remove env = gen_remove env"

section \<open>The sequences are the vendor's\<close>

text \<open>\<open>follows ops cs\<close>: the vendor's bytes for \<open>cs\<close> decode to the commands and delays of \<open>ops\<close>, delays
  counted in milliseconds.\<close>

definition follows :: "dsi_op list \<Rightarrow> qcom_cmd list \<Rightarrow> bool" where
  "follows ops cs \<longleftrightarrow> qcom_parse (concat (map qcom_bytes cs)) = Some (map coarse ops)"

lemma followsI:
  "list_all qcom_valid cs \<Longrightarrow> map coarse ops = concat (map qcom_ops cs) \<Longrightarrow> follows ops cs"
  by (simp add: follows_def qcom_parse_concat)

lemmas decode_defs = qcom_valid_def qcom_ops_def qcom_op_def

lemmas novatek_jdi_tables =
  novatek_jdi_on_ops_def novatek_jdi_on_ops_1_def novatek_jdi_on_ops_2_def novatek_jdi_on_ops_3_def novatek_jdi_on_ops_4_def
  novatek_jdi_off_ops_def novatek_jdi_vendor_init_def novatek_jdi_vendor_on_def novatek_jdi_vendor_off_def

lemma novatek_jdi_follows:
  "follows novatek_jdi_on_ops (novatek_jdi_vendor_init @ novatek_jdi_vendor_on)"
  "follows novatek_jdi_off_ops novatek_jdi_vendor_off"
  by (rule followsI; simp add: novatek_jdi_tables decode_defs)+

lemmas novatek_sharp_tables =
  novatek_sharp_on_ops_def novatek_sharp_on_ops_1_def novatek_sharp_on_ops_2_def novatek_sharp_on_ops_3_def novatek_sharp_on_ops_4_def
  novatek_sharp_off_ops_def novatek_sharp_vendor_init_def novatek_sharp_vendor_on_def novatek_sharp_vendor_off_def

lemma novatek_sharp_follows:
  "follows (novatek_sharp_on_ops[232 := Dcs [0x51, 0x39]]) (novatek_sharp_vendor_init @ novatek_sharp_vendor_on)"
  "follows novatek_sharp_off_ops novatek_sharp_vendor_off"
  by (rule followsI; simp add: novatek_sharp_tables decode_defs dcs_set_pixel_format_def)+

lemmas novatek_auo_tables =
  novatek_auo_on_ops_def
  novatek_auo_off_ops_def novatek_auo_vendor_init_def novatek_auo_vendor_on_def novatek_auo_vendor_off_def

lemma novatek_auo_follows:
  "follows novatek_auo_on_ops (novatek_auo_vendor_init @ novatek_auo_vendor_on)"
  "follows novatek_auo_off_ops novatek_auo_vendor_off"
  by (rule followsI; simp add: novatek_auo_tables decode_defs)+

lemmas renesas_jdi_tables =
  renesas_jdi_on_ops_def
  renesas_jdi_off_ops_def renesas_jdi_vendor_init_def renesas_jdi_vendor_on_def renesas_jdi_vendor_off_def

lemma renesas_jdi_follows:
  "follows renesas_jdi_on_ops (renesas_jdi_vendor_init @ renesas_jdi_vendor_on)"
  "follows renesas_jdi_off_ops renesas_jdi_vendor_off"
  by (rule followsI; simp add: renesas_jdi_tables decode_defs)+

lemmas renesas_sharp_tables =
  renesas_sharp_on_ops_def
  renesas_sharp_off_ops_def renesas_sharp_vendor_init_def renesas_sharp_vendor_on_def renesas_sharp_vendor_off_def

lemma renesas_sharp_follows:
  "follows renesas_sharp_on_ops (renesas_sharp_vendor_init @ renesas_sharp_vendor_on)"
  "follows renesas_sharp_off_ops renesas_sharp_vendor_off"
  by (rule followsI; simp add: renesas_sharp_tables decode_defs)+

lemmas renesas_auo_tables =
  renesas_auo_on_ops_def
  renesas_auo_off_ops_def renesas_auo_vendor_init_def renesas_auo_vendor_on_def renesas_auo_vendor_off_def

lemma renesas_auo_follows:
  "follows renesas_auo_on_ops (renesas_auo_vendor_init @ renesas_auo_vendor_on)"
  "follows renesas_auo_off_ops renesas_auo_vendor_off"
  by (rule followsI; simp add: renesas_auo_tables decode_defs)+

lemma novatek_sharp_brightness: "novatek_sharp_on_ops ! 232 = Dcs [0x51, 0x39, 0x00]"
  by (simp add: novatek_sharp_tables dcs_set_display_brightness_def)

text \<open>
  C33: what a generated driver sends when its panel is prepared is exactly the vendor's init
  sequence followed by its on sequence, decoded from the bytes of the device tree, and what it
  sends when it is unprepared is the vendor's off sequence: for five of the panels, and for the
  sixth except one command. The Novatek Sharp driver takes a write of 0x39 to the register 0x51
  of a vendor page for the brightness command of the display command set, and sends a zero
  byte more.
\<close>

theorem generated_match_vendor:
  "follows novatek_jdi_on_ops (novatek_jdi_vendor_init @ novatek_jdi_vendor_on) \<and>
   follows novatek_jdi_off_ops novatek_jdi_vendor_off \<and>
   follows novatek_auo_on_ops (novatek_auo_vendor_init @ novatek_auo_vendor_on) \<and>
   follows novatek_auo_off_ops novatek_auo_vendor_off \<and>
   follows renesas_jdi_on_ops (renesas_jdi_vendor_init @ renesas_jdi_vendor_on) \<and>
   follows renesas_jdi_off_ops renesas_jdi_vendor_off \<and>
   follows renesas_sharp_on_ops (renesas_sharp_vendor_init @ renesas_sharp_vendor_on) \<and>
   follows renesas_sharp_off_ops renesas_sharp_vendor_off \<and>
   follows renesas_auo_on_ops (renesas_auo_vendor_init @ renesas_auo_vendor_on) \<and>
   follows renesas_auo_off_ops renesas_auo_vendor_off \<and>
   follows (novatek_sharp_on_ops[232 := Dcs [0x51, 0x39]])
     (novatek_sharp_vendor_init @ novatek_sharp_vendor_on) \<and>
   novatek_sharp_on_ops ! 232 = Dcs [0x51, 0x39, 0x00] \<and>
   follows novatek_sharp_off_ops novatek_sharp_vendor_off"
  by (intro conjI novatek_jdi_follows novatek_auo_follows renesas_jdi_follows renesas_sharp_follows
      renesas_auo_follows novatek_sharp_follows novatek_sharp_brightness)

section \<open>The supply follows the flag\<close>

definition gen_at :: "pn_env \<Rightarrow> bool \<Rightarrow> nat \<Rightarrow> (pn_ev, gen_panel) io \<Rightarrow> bool" where
  "gen_at env p n s \<longleftrightarrow> enable_ok env \<and> gp_prepared (io_dev s) = p \<and> pn_vddio (io_dev s) = n"

lemma vddio_enable_at:
  assumes "gen_at env p n s"
  shows "wp (vddio_enable env) (\<lambda>r s'. gen_at env p (if r < 0 then n else Suc n) s') s"
proof -
  have "pe_ret env (io_trace s) (Pn_enable ''vddio'') \<le> 0"
    using assms by (simp add: gen_at_def enable_ok_def)
  with assms show ?thesis by (auto simp: vddio_enable_def gen_at_def wp_simps)
qed

lemma vddio_disable_at: "gen_at env p (Suc n) s \<Longrightarrow> wp vddio_disable (\<lambda>_. gen_at env p n) s"
  by (simp add: vddio_disable_def gen_at_def wp_simps)

interpretation gen_supply: power_sequenced "gen_at env p (Suc n)" "gen_at env p n"
    "vddio_enable env" vddio_disable "\<lambda>r. r < 0"
  by unfold_locales (auto intro: vddio_disable_at wp_mono [OF vddio_enable_at] split: if_splits)

lemma kept_run_early: "kept (gen_at env p n) (run_early e ops)"
  by (rule keptI, rule wp_mono [OF run_early_dev]) (simp add: gen_at_def)

lemma kept_set_lpm: "kept (gen_at env p n) (set_lpm b)"
  by (rule keptI) (simp add: set_lpm_def gen_at_def wp_simps)

lemma kept_gen_on: "kept (gen_at env p n) (gen_on e ops)"
  unfolding gen_on_def by (intro kept_rules kept_set_lpm kept_run_early)

lemma kept_gen_off: "kept (gen_at env p n) (gen_off e ops)"
  unfolding gen_off_def by (intro kept_rules kept_set_lpm kept_run_early)

definition gen_inv :: "pn_env \<Rightarrow> (pn_ev, gen_panel) io \<Rightarrow> bool" where
  "gen_inv env s \<longleftrightarrow> (\<exists>p. gen_at env p (if p then 1 else 0) s)"

lemma gen_prepare_inv:
  assumes "gen_inv env s" "kept (gen_at env False 1) on"
  shows "wp (gen_prepare env on) (\<lambda>_. gen_inv env) s"
proof -
  obtain p where p: "gen_at env p (if p then 1 else 0) s" using assms(1) by (auto simp: gen_inv_def)
  show ?thesis
  proof (cases p)
    case True
    with p show ?thesis by (auto simp: gen_prepare_def gen_at_def gen_inv_def wp_simps)
  next
    case False
    with p have off: "gen_at env False 0 s" by simp
    have "wp (do { r \<leftarrow> vddio_enable env; if r < 0 then ret r else do {
         r \<leftarrow> on; if r < 0 then do { vddio_disable; ret r } else do { set_prepared True; ret 0 } } })
       (\<lambda>_. gen_inv env) s"
    proof (rule gen_supply.power_on_then [OF off])
      fix t r
      assume "gen_at env False (Suc 0) t"
      with assms(2) show "wp (do { r \<leftarrow> on; if r < 0 then do { vddio_disable; ret r }
          else do { set_prepared True; ret 0 } }) (\<lambda>_. gen_inv env) t"
        unfolding wp_bind
        by (elim kept_wp [OF _ _]) 
          (auto simp: wp_simps set_prepared_def gen_inv_def gen_at_def
            intro!: wp_mono [OF vddio_disable_at])
    qed (auto simp: gen_inv_def)
    with off show ?thesis by (simp add: gen_prepare_def gen_at_def wp_simps)
  qed
qed

lemma gen_unprepare_inv:
  assumes "gen_inv env s" "kept (gen_at env True 1) off"
  shows "wp (gen_unprepare off) (\<lambda>_. gen_inv env) s"
proof -
  obtain p where p: "gen_at env p (if p then 1 else 0) s" using assms(1) by (auto simp: gen_inv_def)
  show ?thesis
  proof (cases p)
    case True
    with p have on: "gen_at env True (Suc 0) s" by simp
    have "wp (do { _ \<leftarrow> off; vddio_disable; set_prepared False; ret (0::int) }) (\<lambda>_. gen_inv env) s"
      unfolding wp_bind
      by (rule kept_wp [OF assms(2)]) 
        (use on in \<open>auto simp: wp_simps set_prepared_def gen_inv_def gen_at_def
          intro!: wp_mono [OF vddio_disable_at]\<close>)
    with on show ?thesis by (simp add: gen_unprepare_def gen_at_def wp_simps)
  qed (use p in \<open>auto simp: gen_unprepare_def gen_at_def gen_inv_def wp_simps\<close>)
qed

definition gen_balanced :: "(pn_ev, gen_panel) io \<Rightarrow> bool" where
  "gen_balanced s \<longleftrightarrow> pn_vddio (io_dev s) = (if gp_prepared (io_dev s) then 1 else 0)"

lemma gen_inv_balanced: "gen_inv env s \<longleftrightarrow> enable_ok env \<and> gen_balanced s"
  by (auto simp: gen_inv_def gen_at_def gen_balanced_def)

definition gen_drivers :: "((pn_env \<Rightarrow> int gpm) \<times> (pn_env \<Rightarrow> int gpm)) list" where
  "gen_drivers =
     [(novatek_jdi_prepare, novatek_jdi_unprepare), (novatek_sharp_prepare, novatek_sharp_unprepare),
      (novatek_auo_prepare, novatek_auo_unprepare), (renesas_jdi_prepare, renesas_jdi_unprepare),
      (renesas_sharp_prepare, renesas_sharp_unprepare), (renesas_auo_prepare, renesas_auo_unprepare)]"

lemmas gen_driver_defs =
  novatek_jdi_prepare_def novatek_jdi_unprepare_def novatek_jdi_on_def novatek_jdi_off_def
  novatek_sharp_prepare_def novatek_sharp_unprepare_def novatek_sharp_on_def novatek_sharp_off_def
  novatek_auo_prepare_def novatek_auo_unprepare_def novatek_auo_on_def novatek_auo_off_def
  renesas_jdi_prepare_def renesas_jdi_unprepare_def renesas_jdi_on_def renesas_jdi_off_def
  renesas_sharp_prepare_def renesas_sharp_unprepare_def renesas_sharp_on_def renesas_sharp_off_def
  renesas_auo_prepare_def renesas_auo_unprepare_def renesas_auo_on_def renesas_auo_off_def

lemma gen_driver_shape:
  assumes "(prep, unprep) \<in> set gen_drivers"
  shows "\<exists>on_ops off_ops. prep = (\<lambda>env. gen_prepare env (gen_on env on_ops)) \<and>
    unprep = (\<lambda>env. gen_unprepare (gen_off env off_ops))"
  using assms by (auto simp: gen_drivers_def gen_driver_defs fun_eq_iff intro!: exI)

text \<open>Any sequence of the two calls, each in an environment of its own.\<close>

inductive gen_use :: "(pn_env \<Rightarrow> int gpm) \<Rightarrow> (pn_env \<Rightarrow> int gpm) \<Rightarrow> (pn_ev, gen_panel) io \<Rightarrow> bool"
  for prep unprep where
  gen_use_start: "gen_use prep unprep
     \<lparr>io_trace = [], io_dev = \<lparr>pn_lpm = False, pn_vddio = 0, gp_prepared = False\<rparr>\<rparr>"
| gen_use_prepare: "gen_use prep unprep s \<Longrightarrow> enable_ok env \<Longrightarrow>
     run_state (prep env) s = (r, s') \<Longrightarrow> gen_use prep unprep s'"
| gen_use_unprepare: "gen_use prep unprep s \<Longrightarrow> enable_ok env \<Longrightarrow>
     run_state (unprep env) s = (r, s') \<Longrightarrow> gen_use prep unprep s'"

text \<open>
  C19: however prepare and unprepare of a generated driver are called, in whatever order, and
  whichever commands and supplies fail, the supply is enabled exactly once while the panel
  counts as prepared and not at all otherwise.
\<close>

theorem generated_supply_balanced:
  assumes "(prep, unprep) \<in> set gen_drivers" "gen_use prep unprep s"
  shows "pn_vddio (io_dev s) = (if gp_prepared (io_dev s) then 1 else 0)"
proof -
  obtain on_ops off_ops where shape: "prep = (\<lambda>env. gen_prepare env (gen_on env on_ops))"
    "unprep = (\<lambda>env. gen_unprepare (gen_off env off_ops))"
    using gen_driver_shape [OF assms(1)] by blast
  from assms(2) have "gen_balanced s"
  proof induction
    case gen_use_start
    then show ?case by (simp add: gen_balanced_def)
  next
    case (gen_use_prepare s env r s')
    then have "gen_inv env s" by (simp add: gen_inv_balanced)
    from wp_run [OF gen_prepare_inv [OF this kept_gen_on] gen_use_prepare(3) [unfolded shape]]
    show ?case by (simp add: gen_inv_balanced)
  next
    case (gen_use_unprepare s env r s')
    then have "gen_inv env s" by (simp add: gen_inv_balanced)
    from wp_run [OF gen_unprepare_inv [OF this kept_gen_off] gen_use_unprepare(3) [unfolded shape]]
    show ?case by (simp add: gen_inv_balanced)
  qed
  then show ?thesis by (simp add: gen_balanced_def)
qed

theorem generated_supply_balanced_witness:
  "\<exists>s. gen_use renesas_auo_prepare renesas_auo_unprepare s \<and> gp_prepared (io_dev s) \<and>
     pn_vddio (io_dev s) = (if gp_prepared (io_dev s) then 1 else 0)"
proof -
  let ?env = "\<lparr>pe_ret = \<lambda>_ _. 0, pe_ptr = \<lambda>_ _. True, pe_now = \<lambda>_. 0\<rparr>"
  let ?init = "\<lparr>io_trace = [], io_dev = \<lparr>pn_lpm = False, pn_vddio = 0, gp_prepared = False\<rparr>\<rparr>"
  let ?s = "snd (run_state (renesas_auo_prepare ?env) ?init)"
  have ok: "enable_ok ?env" by (simp add: enable_ok_def)
  have use: "gen_use renesas_auo_prepare renesas_auo_unprepare ?s"
    by (rule gen_use_prepare [OF gen_use_start ok prod.collapse [symmetric]])
  have mem: "(renesas_auo_prepare, renesas_auo_unprepare) \<in> set gen_drivers"
    by (simp add: gen_drivers_def)
  have "wp (renesas_auo_prepare ?env) (\<lambda>_ s. gp_prepared (io_dev s)) ?init"
    by (simp add: gen_driver_defs gen_prepare_def gen_on_def set_lpm_def vddio_enable_def
        renesas_auo_tables dsi_exec_def set_prepared_def wp_simps)
  then have "gp_prepared (io_dev ?s)" by (simp add: wp_def split: prod.splits)
  with use generated_supply_balanced [OF mem use] show ?thesis by blast
qed

end
