(* ===== verification/Panel_Sirius.thy ===== *)
theory Panel_Sirius
  imports Panel_Generated
begin

text \<open>
  \<^verbatim>\<open>drivers/panel/panel-sony-sirius.c\<close>: the hand-written driver of the Z2's panels. It knows four
  of the six panels and picks one from the panel identification voltage that the bootloader puts
  on the kernel command line. \<open>sirius_panel_desc\<close> and \<open>sirius_panel\<close> are the structs; a
  description's functions are the command sequences they run. A field that the source leaves out
  of an initialiser is zero.
\<close>

section \<open>Descriptions\<close>

datatype sirius_variant =
    SIRIUS_AUTO
  | SIRIUS_RENESAS_SHARP
  | SIRIUS_RENESAS_AUO
  | SIRIUS_RENESAS_JDI
  | SIRIUS_NOVATEK_JDI

record sirius_reset_step =
  rs_release :: bool
  rs_delay_ms :: nat

record sirius_panel_desc =
  sd_id :: string
  sd_name :: string
  sd_lcd_id_adc_min :: u32
  sd_lcd_id_adc_max :: u32
  sd_mode :: drm_display_mode
  sd_init :: "dsi_op list"
  sd_on :: "dsi_op list"
  sd_off :: "dsi_op list"
  sd_vsp_on_pre_ms :: nat
  sd_vsp_on_post_ms :: nat
  sd_reset_on :: "sirius_reset_step list"
  sd_reset_off_pre :: "sirius_reset_step list"
  sd_vsp_off_post_ms :: nat
  sd_reset_off :: "sirius_reset_step list"
  sd_power_down_ms :: int

record sirius_panel = panel_hw +
  sp_vsp :: nat
  sp_reset :: bool
  sp_off_time :: int

type_synonym 'a spm = "((pn_ev, sirius_panel) io, 'a) state"

section \<open>Modes\<close>

definition sirius_jdi_mode :: drm_display_mode where
  "sirius_jdi_mode = \<lparr>
     dm_clock = (1080 + 112 + 4 + 76) * (1920 + 27 + 4 + 4) * 60 div 1000,
     dm_hdisplay = 1080, dm_hsync_start = 1080 + 112, dm_hsync_end = 1080 + 112 + 4,
     dm_htotal = 1080 + 112 + 4 + 76,
     dm_vdisplay = 1920, dm_vsync_start = 1920 + 27, dm_vsync_end = 1920 + 27 + 4,
     dm_vtotal = 1920 + 27 + 4 + 4,
     dm_width_mm = 64, dm_height_mm = 114\<rparr>"

definition sirius_sharp_mode :: drm_display_mode where
  "sirius_sharp_mode = \<lparr>
     dm_clock = (1080 + 128 + 4 + 76) * (1920 + 4 + 2 + 3) * 60 div 1000,
     dm_hdisplay = 1080, dm_hsync_start = 1080 + 128, dm_hsync_end = 1080 + 128 + 4,
     dm_htotal = 1080 + 128 + 4 + 76,
     dm_vdisplay = 1920, dm_vsync_start = 1920 + 4, dm_vsync_end = 1920 + 4 + 2,
     dm_vtotal = 1920 + 4 + 2 + 3,
     dm_width_mm = 64, dm_height_mm = 114\<rparr>"

definition sirius_auo_mode :: drm_display_mode where
  "sirius_auo_mode = \<lparr>
     dm_clock = (1080 + 104 + 20 + 56) * (1920 + 24 + 10 + 20) * 60 div 1000,
     dm_hdisplay = 1080, dm_hsync_start = 1080 + 104, dm_hsync_end = 1080 + 104 + 20,
     dm_htotal = 1080 + 104 + 20 + 56,
     dm_vdisplay = 1920, dm_vsync_start = 1920 + 24, dm_vsync_end = 1920 + 24 + 10,
     dm_vtotal = 1920 + 24 + 10 + 20,
     dm_width_mm = 64, dm_height_mm = 114\<rparr>"

section \<open>Reset sequences\<close>

definition sirius_reset_release_10ms :: "sirius_reset_step list" where
  "sirius_reset_release_10ms = [\<lparr>rs_release = True, rs_delay_ms = 10\<rparr>]"

definition sirius_reset_assert :: "sirius_reset_step list" where
  "sirius_reset_assert = [\<lparr>rs_release = False, rs_delay_ms = 0\<rparr>]"

definition sirius_sharp_reset_on :: "sirius_reset_step list" where
  "sirius_sharp_reset_on =
     [\<lparr>rs_release = False, rs_delay_ms = 60\<rparr>, \<lparr>rs_release = True, rs_delay_ms = 10\<rparr>]"

definition sirius_sharp_reset_off_pre :: "sirius_reset_step list" where
  "sirius_sharp_reset_off_pre = [\<lparr>rs_release = False, rs_delay_ms = 10\<rparr>]"

definition sirius_auo_reset_on :: "sirius_reset_step list" where
  "sirius_auo_reset_on =
     [\<lparr>rs_release = True, rs_delay_ms = 10\<rparr>, \<lparr>rs_release = False, rs_delay_ms = 1\<rparr>,
      \<lparr>rs_release = True, rs_delay_ms = 10\<rparr>]"

section \<open>Command sequences\<close>

record sirius_reg_write =
  rw_reg :: u8
  rw_val :: u8
  rw_dcs :: bool

definition GEN :: "u8 \<Rightarrow> u8 \<Rightarrow> sirius_reg_write" where
  "GEN r v = \<lparr>rw_reg = r, rw_val = v, rw_dcs = False\<rparr>"

definition DCS :: "u8 \<Rightarrow> u8 \<Rightarrow> sirius_reg_write" where
  "DCS r v = \<lparr>rw_reg = r, rw_val = v, rw_dcs = True\<rparr>"

definition sirius_renesas_jdi_gamma_a :: "u8 list" where
  "sirius_renesas_jdi_gamma_a = [
     0xc7, 0x08, 0x12, 0x1b, 0x24, 0x31, 0x48, 0x40, 0x52, 0x5e, 0x61, 0x6a, 0x76, 0x08, 0x12,
     0x1b, 0x24, 0x31, 0x48, 0x40, 0x52, 0x5e, 0x61, 0x6a, 0x76]"

definition sirius_renesas_jdi_gamma_b :: "u8 list" where
  "sirius_renesas_jdi_gamma_b = [
     0xc8, 0x08, 0x12, 0x1b, 0x24, 0x31, 0x49, 0x41, 0x53, 0x5e, 0x61, 0x6a, 0x76, 0x08, 0x12,
     0x1b, 0x24, 0x31, 0x49, 0x41, 0x53, 0x5e, 0x61, 0x6a, 0x76]"

definition sirius_renesas_jdi_gamma_c :: "u8 list" where
  "sirius_renesas_jdi_gamma_c = [
     0xc9, 0x08, 0x12, 0x1b, 0x24, 0x31, 0x47, 0x3f, 0x52, 0x5e, 0x61, 0x6a, 0x76, 0x08, 0x12,
     0x1b, 0x24, 0x31, 0x47, 0x3f, 0x52, 0x5e, 0x61, 0x6a, 0x76]"

definition sirius_renesas_jdi_d3 :: "u8 list" where
  "sirius_renesas_jdi_d3 = [
     0xd3, 0x1b, 0x33, 0xbb, 0xcc, 0xc4, 0x33, 0x33, 0x33, 0x00, 0x01, 0x00, 0xa0, 0xd8, 0xa0,
     0x06, 0x2b, 0x33, 0x33, 0x22, 0x70, 0x02, 0x2b, 0x43, 0x3d, 0xbf, 0x99]"

definition sirius_renesas_sharp_gamma_a :: "u8 list" where
  "sirius_renesas_sharp_gamma_a = [
     0xc7, 0x05, 0x19, 0x22, 0x2b, 0x38, 0x51, 0x41, 0x50, 0x5c, 0x64, 0x6b, 0x74, 0x0f, 0x23,
     0x2b, 0x32, 0x3f, 0x52, 0x44, 0x55, 0x61, 0x69, 0x70, 0x77]"

definition sirius_renesas_sharp_gamma_b :: "u8 list" where
  "sirius_renesas_sharp_gamma_b = [
     0xc8, 0x03, 0x18, 0x21, 0x2b, 0x38, 0x51, 0x42, 0x4f, 0x5d, 0x65, 0x6c, 0x74, 0x0d, 0x22,
     0x2a, 0x32, 0x3e, 0x52, 0x41, 0x54, 0x5d, 0x66, 0x6d, 0x77]"

definition sirius_renesas_sharp_gamma_c :: "u8 list" where
  "sirius_renesas_sharp_gamma_c = [
     0xc9, 0x00, 0x15, 0x1e, 0x28, 0x36, 0x50, 0x42, 0x50, 0x5e, 0x66, 0x6d, 0x74, 0x0a, 0x1f,
     0x27, 0x2f, 0x3d, 0x51, 0x41, 0x55, 0x5e, 0x67, 0x6e, 0x77]"

definition sirius_novatek_jdi_init_regs :: "sirius_reg_write list" where
  "sirius_novatek_jdi_init_regs = [
     GEN 0xff 0x01, GEN 0x75 0x00, GEN 0x76 0x30, GEN 0x77 0x00, GEN 0x78 0x43, GEN 0x79 0x00,
     GEN 0x7a 0x61, GEN 0x7b 0x00, GEN 0x7c 0x7d, GEN 0x7d 0x00, GEN 0x7e 0x98, GEN 0x7f 0x00,
     GEN 0x80 0xae, GEN 0x81 0x00, GEN 0x82 0xc0, GEN 0x83 0x00, GEN 0x84 0xcd, GEN 0x85 0x00,
     GEN 0x86 0xdb, GEN 0x87 0x01, GEN 0x88 0x0a, GEN 0x89 0x01, GEN 0x8a 0x2a, GEN 0x8b 0x01,
     GEN 0x8c 0x66, GEN 0x8d 0x01, GEN 0x8e 0x95, GEN 0x8f 0x01, GEN 0x90 0xd8, GEN 0x91 0x02,
     GEN 0x92 0x1a, GEN 0x93 0x02, GEN 0x94 0x1c, GEN 0x95 0x02, GEN 0x96 0x5e, GEN 0x97 0x02,
     GEN 0x98 0x9a, GEN 0x99 0x02, GEN 0x9a 0xbf, GEN 0x9b 0x02, GEN 0x9c 0xed, GEN 0x9d 0x03,
     GEN 0x9e 0x0b, GEN 0x9f 0x03, GEN 0xa0 0x36, GEN 0xa2 0x03, GEN 0xa3 0x3b, GEN 0xa4 0x03,
     GEN 0xa5 0x40, GEN 0xa6 0x03, GEN 0xa7 0x45, GEN 0xa9 0x03, GEN 0xaa 0x54, GEN 0xab 0x03,
     GEN 0xac 0x70, GEN 0xad 0x03, GEN 0xae 0x8e, GEN 0xaf 0x03, GEN 0xb0 0xb2, GEN 0xb1 0x03,
     GEN 0xb2 0xc9, GEN 0xb3 0x00, GEN 0xb4 0x30, GEN 0xb5 0x00, GEN 0xb6 0x43, GEN 0xb7 0x00,
     GEN 0xb8 0x61, GEN 0xb9 0x00, GEN 0xba 0x7d, GEN 0xbb 0x00, GEN 0xbc 0x98, GEN 0xbd 0x00,
     GEN 0xbe 0xae, GEN 0xbf 0x00, GEN 0xc0 0xc0, GEN 0xc1 0x00, GEN 0xc2 0xcd, GEN 0xc3 0x00,
     GEN 0xc4 0xdb, GEN 0xc5 0x01, GEN 0xc6 0x0a, GEN 0xc7 0x01, GEN 0xc8 0x2a, GEN 0xc9 0x01,
     GEN 0xca 0x66, GEN 0xcb 0x01, GEN 0xcc 0x95, GEN 0xcd 0x01, GEN 0xce 0xd8, GEN 0xcf 0x02,
     GEN 0xd0 0x1a, GEN 0xd1 0x02, GEN 0xd2 0x1c, GEN 0xd3 0x02, GEN 0xd4 0x5e, GEN 0xd5 0x02,
     GEN 0xd6 0x9a, GEN 0xd7 0x02, GEN 0xd8 0xbf, GEN 0xd9 0x02, GEN 0xda 0xed, GEN 0xdb 0x03,
     GEN 0xdc 0x0b, GEN 0xdd 0x03, GEN 0xde 0x36, GEN 0xdf 0x03, GEN 0xe0 0x3b, GEN 0xe1 0x03,
     GEN 0xe2 0x40, GEN 0xe3 0x03, GEN 0xe4 0x45, GEN 0xe5 0x03, GEN 0xe6 0x54, GEN 0xe7 0x03,
     GEN 0xe8 0x70, GEN 0xe9 0x03, GEN 0xea 0x8e, GEN 0xeb 0x03, GEN 0xec 0xb2, GEN 0xed 0x03,
     GEN 0xee 0xc9, GEN 0xef 0x00, GEN 0xf0 0x30, GEN 0xf1 0x00, GEN 0xf2 0x43, GEN 0xf3 0x00,
     GEN 0xf4 0x61, GEN 0xf5 0x00, GEN 0xf6 0x7d, GEN 0xf7 0x00, GEN 0xf8 0x98, GEN 0xf9 0x00,
     GEN 0xfa 0xae, GEN 0xfb 0x01, GEN 0xff 0x02, GEN 0x00 0x00, GEN 0x01 0xc0, GEN 0x02 0x00,
     GEN 0x03 0xcd, GEN 0x04 0x00, GEN 0x05 0xdb, GEN 0x06 0x01, GEN 0x07 0x0a, GEN 0x08 0x01,
     GEN 0x09 0x2a, GEN 0x0a 0x01, GEN 0x0b 0x69, GEN 0x0c 0x01, GEN 0x0d 0x99, GEN 0x0e 0x01,
     GEN 0x0f 0xde, GEN 0x10 0x02, GEN 0x11 0x20, GEN 0x12 0x02, GEN 0x13 0x22, GEN 0x14 0x02,
     GEN 0x15 0x64, GEN 0x16 0x02, GEN 0x17 0xa0, GEN 0x18 0x02, GEN 0x19 0xc4, GEN 0x1a 0x02,
     GEN 0x1b 0xf3, GEN 0x1c 0x03, GEN 0x1d 0x0f, GEN 0x1e 0x03, GEN 0x1f 0x36, GEN 0x20 0x03,
     GEN 0x21 0x3b, GEN 0x22 0x03, GEN 0x23 0x40, GEN 0x24 0x03, GEN 0x25 0x45, GEN 0x26 0x03,
     GEN 0x27 0x54, GEN 0x28 0x03, GEN 0x29 0x70, GEN 0x2a 0x03, GEN 0x2b 0x8e, GEN 0x2d 0x03,
     GEN 0x2f 0xb2, GEN 0x30 0x03, GEN 0x31 0xc9, GEN 0x32 0x00, GEN 0x33 0x30, GEN 0x34 0x00,
     GEN 0x35 0x43, GEN 0x36 0x00, GEN 0x37 0x61, GEN 0x38 0x00, GEN 0x39 0x7d, GEN 0x3a 0x00,
     GEN 0x3b 0x98, GEN 0x3d 0x00, GEN 0x3f 0xae, GEN 0x40 0x00, GEN 0x41 0xc0, GEN 0x42 0x00,
     GEN 0x43 0xcd, GEN 0x44 0x00, GEN 0x45 0xdb, GEN 0x46 0x01, GEN 0x47 0x0a, GEN 0x48 0x01,
     GEN 0x49 0x2a, GEN 0x4a 0x01, GEN 0x4b 0x69, GEN 0x4c 0x01, GEN 0x4d 0x99, GEN 0x4e 0x01,
     GEN 0x4f 0xde, GEN 0x50 0x02, GEN 0x51 0x20, GEN 0x52 0x02, GEN 0x53 0x22, GEN 0x54 0x02,
     GEN 0x55 0x64, GEN 0x56 0x02, GEN 0x58 0xa0, GEN 0x59 0x02, GEN 0x5a 0xc4, GEN 0x5b 0x02,
     GEN 0x5c 0xf3, GEN 0x5d 0x03, GEN 0x5e 0x0f, GEN 0x5f 0x03, GEN 0x60 0x36, GEN 0x61 0x03,
     GEN 0x62 0x3b, GEN 0x63 0x03, GEN 0x64 0x40, GEN 0x65 0x03, GEN 0x66 0x45, GEN 0x67 0x03,
     GEN 0x68 0x54, GEN 0x69 0x03, GEN 0x6a 0x70, GEN 0x6b 0x03, GEN 0x6c 0x8e, GEN 0x6d 0x03,
     GEN 0x6e 0xb2, GEN 0x6f 0x03, GEN 0x70 0xc9, GEN 0x71 0x00, GEN 0x72 0x30, GEN 0x73 0x00,
     GEN 0x74 0x43, GEN 0x75 0x00, GEN 0x76 0x61, GEN 0x77 0x00, GEN 0x78 0x7d, GEN 0x79 0x00,
     GEN 0x7a 0x98, GEN 0x7b 0x00, GEN 0x7c 0xae, GEN 0x7d 0x00, GEN 0x7e 0xc0, GEN 0x7f 0x00,
     GEN 0x80 0xcd, GEN 0x81 0x00, GEN 0x82 0xdb, GEN 0x83 0x01, GEN 0x84 0x0a, GEN 0x85 0x01,
     GEN 0x86 0x2a, GEN 0x87 0x01, GEN 0x88 0x63, GEN 0x89 0x01, GEN 0x8a 0x90, GEN 0x8b 0x01,
     GEN 0x8c 0xd2, GEN 0x8d 0x02, GEN 0x8e 0x14, GEN 0x8f 0x02, GEN 0x90 0x16, GEN 0x91 0x02,
     GEN 0x92 0x58, GEN 0x93 0x02, GEN 0x94 0x95, GEN 0x95 0x02, GEN 0x96 0xbc, GEN 0x97 0x02,
     GEN 0x98 0xed, GEN 0x99 0x03, GEN 0x9a 0x0b, GEN 0x9b 0x03, GEN 0x9c 0x36, GEN 0x9d 0x03,
     GEN 0x9e 0x3b, GEN 0x9f 0x03, GEN 0xa0 0x40, GEN 0xa2 0x03, GEN 0xa3 0x45, GEN 0xa4 0x03,
     GEN 0xa5 0x54, GEN 0xa6 0x03, GEN 0xa7 0x70, GEN 0xa9 0x03, GEN 0xaa 0x8e, GEN 0xab 0x03,
     GEN 0xac 0xb2, GEN 0xad 0x03, GEN 0xae 0xc9, GEN 0xaf 0x00, GEN 0xb0 0x30, GEN 0xb1 0x00,
     GEN 0xb2 0x43, GEN 0xb3 0x00, GEN 0xb4 0x61, GEN 0xb5 0x00, GEN 0xb6 0x7d, GEN 0xb7 0x00,
     GEN 0xb8 0x98, GEN 0xb9 0x00, GEN 0xba 0xae, GEN 0xbb 0x00, GEN 0xbc 0xc0, GEN 0xbd 0x00,
     GEN 0xbe 0xcd, GEN 0xbf 0x00, GEN 0xc0 0xdb, GEN 0xc1 0x01, GEN 0xc2 0x0a, GEN 0xc3 0x01,
     GEN 0xc4 0x2a, GEN 0xc5 0x01, GEN 0xc6 0x63, GEN 0xc7 0x01, GEN 0xc8 0x90, GEN 0xc9 0x01,
     GEN 0xca 0xd2, GEN 0xcb 0x02, GEN 0xcc 0x14, GEN 0xcd 0x02, GEN 0xce 0x16, GEN 0xcf 0x02,
     GEN 0xd0 0x58, GEN 0xd1 0x02, GEN 0xd2 0x95, GEN 0xd3 0x02, GEN 0xd4 0xbc, GEN 0xd5 0x02,
     GEN 0xd6 0xed, GEN 0xd7 0x03, GEN 0xd8 0x0b, GEN 0xd9 0x03, GEN 0xda 0x36, GEN 0xdb 0x03,
     GEN 0xdc 0x3b, GEN 0xdd 0x03, GEN 0xde 0x40, GEN 0xdf 0x03, GEN 0xe0 0x45, GEN 0xe1 0x03,
     GEN 0xe2 0x54, GEN 0xe3 0x03, GEN 0xe4 0x70, GEN 0xe5 0x03, GEN 0xe6 0x8e, GEN 0xe7 0x03,
     GEN 0xe8 0xb2, GEN 0xe9 0x03, GEN 0xea 0xc9, GEN 0xfb 0x01, GEN 0xff 0x01, GEN 0x0b 0x4b,
     GEN 0x0c 0x4b, GEN 0x0e 0xa1, GEN 0x15 0x0b, GEN 0x16 0x0b, GEN 0x1b 0x1b, GEN 0x1c 0xf5,
     GEN 0x01 0x44, GEN 0x5c 0x82, GEN 0x5e 0x02, GEN 0x60 0x0f, GEN 0x66 0x01, GEN 0x69 0x99,
     GEN 0x6d 0x33, GEN 0xfb 0x01, GEN 0xff 0x05, GEN 0x35 0x6b, GEN 0x7e 0x02, GEN 0x7f 0x18,
     GEN 0x81 0x05, GEN 0x82 0x05, GEN 0xa6 0x04, GEN 0x84 0x03, GEN 0x85 0x04, DCS 0xc6 0x00,
     GEN 0xfb 0x01, GEN 0xff 0xff, GEN 0x4f 0x03, GEN 0xfb 0x01, GEN 0xff 0x00, DCS 0xd3 0x08,
     DCS 0xd4 0x1b, DCS 0xd5 0x50, DCS 0xd6 0x70]"

definition sirius_on_exit_sleep_120ms_display_on :: "dsi_op list" where
  "sirius_on_exit_sleep_120ms_display_on =
     [dcs_exit_sleep_mode, Msleep 120, dcs_set_display_on]"

definition sirius_off_20ms_80ms :: "dsi_op list" where
  "sirius_off_20ms_80ms =
     [dcs_set_display_off, Msleep 20, dcs_enter_sleep_mode, Msleep 80]"

definition sirius_renesas_jdi_init :: "dsi_op list" where
  "sirius_renesas_jdi_init =
     [dcs_soft_reset, Msleep 5,
      Generic [0xb0, 0x00], Generic [0x00, 0x00], Generic [0x00, 0x00],
      Generic sirius_renesas_jdi_gamma_a, Generic sirius_renesas_jdi_gamma_b,
      Generic sirius_renesas_jdi_gamma_c, Generic sirius_renesas_jdi_d3,
      Generic [0xd6, 0x01]]"

definition sirius_renesas_sharp_init :: "dsi_op list" where
  "sirius_renesas_sharp_init =
     [Generic [0xb0, 0x04], Generic [0x00, 0x00], Generic [0x00, 0x00],
      Generic [0xd6, 0x01], Generic [0xc0, 0x0f, 0x0f], Generic [0xec, 0x00, 0x10],
      Generic sirius_renesas_sharp_gamma_a, Generic sirius_renesas_sharp_gamma_b,
      Generic sirius_renesas_sharp_gamma_c, dcs_exit_sleep_mode]"

definition sirius_renesas_sharp_on :: "dsi_op list" where
  "sirius_renesas_sharp_on = [Msleep 150, dcs_set_display_on]"

definition sirius_renesas_sharp_off :: "dsi_op list" where
  "sirius_renesas_sharp_off =
     [dcs_set_display_off, Msleep 20, dcs_enter_sleep_mode, Msleep 110]"

definition sirius_renesas_auo_init :: "dsi_op list" where
  "sirius_renesas_auo_init =
     [dcs_set_tear_on_vhblank, Generic [0xb0, 0x04],
      Generic [0xc2, 0x30, 0xf7, 0x84, 0x1b, 0x0c, 0x00, 0x00],
      Generic [0xd6, 0x01], dcs_set_display_on]"

definition sirius_renesas_auo_on :: "dsi_op list" where
  "sirius_renesas_auo_on = [dcs_exit_sleep_mode, Msleep 120]"

definition sirius_renesas_auo_off :: "dsi_op list" where
  "sirius_renesas_auo_off = [dcs_set_display_off, dcs_enter_sleep_mode, Msleep 67]"

definition reg_write_op :: "sirius_reg_write \<Rightarrow> dsi_op" where
  "reg_write_op w =
     (if rw_dcs w then Dcs [rw_reg w, rw_val w] else Generic [rw_reg w, rw_val w])"

definition sirius_novatek_jdi_init :: "dsi_op list" where
  "sirius_novatek_jdi_init =
     [dcs_soft_reset, Msleep 10] @ map reg_write_op sirius_novatek_jdi_init_regs"

section \<open>The table of panels\<close>

text \<open>Entry 0 of the table, for \<open>SIRIUS_AUTO\<close>, is zeroed; nothing reads it.\<close>

fun sirius_panels :: "sirius_variant \<Rightarrow> sirius_panel_desc" where
  "sirius_panels SIRIUS_AUTO = \<lparr>sd_id = [], sd_name = [], sd_lcd_id_adc_min = 0,
     sd_lcd_id_adc_max = 0, sd_mode = \<lparr>dm_clock = 0, dm_hdisplay = 0, dm_hsync_start = 0,
       dm_hsync_end = 0, dm_htotal = 0, dm_vdisplay = 0, dm_vsync_start = 0, dm_vsync_end = 0,
       dm_vtotal = 0, dm_width_mm = 0, dm_height_mm = 0\<rparr>,
     sd_init = [], sd_on = [], sd_off = [], sd_vsp_on_pre_ms = 0, sd_vsp_on_post_ms = 0,
     sd_reset_on = [], sd_reset_off_pre = [], sd_vsp_off_post_ms = 0, sd_reset_off = [],
     sd_power_down_ms = 0\<rparr>"
| "sirius_panels SIRIUS_RENESAS_SHARP = \<lparr>
     sd_id = ''renesas-sharp'',
     sd_name = ''sharp renesas 1080p video'',
     sd_lcd_id_adc_min = 0,
     sd_lcd_id_adc_max = 57000,
     sd_mode = sirius_sharp_mode,
     sd_init = sirius_renesas_sharp_init,
     sd_on = sirius_renesas_sharp_on,
     sd_off = sirius_renesas_sharp_off,
     sd_vsp_on_pre_ms = 25,
     sd_vsp_on_post_ms = 0,
     sd_reset_on = sirius_sharp_reset_on,
     sd_reset_off_pre = sirius_sharp_reset_off_pre,
     sd_vsp_off_post_ms = 50,
     sd_reset_off = [],
     sd_power_down_ms = 0\<rparr>"
| "sirius_panels SIRIUS_RENESAS_AUO = \<lparr>
     sd_id = ''renesas-auo'',
     sd_name = ''auo renesas 1080p video'',
     sd_lcd_id_adc_min = 215000,
     sd_lcd_id_adc_max = 256000,
     sd_mode = sirius_auo_mode,
     sd_init = sirius_renesas_auo_init,
     sd_on = sirius_renesas_auo_on,
     sd_off = sirius_renesas_auo_off,
     sd_vsp_on_pre_ms = 0,
     sd_vsp_on_post_ms = 0,
     sd_reset_on = sirius_auo_reset_on,
     sd_reset_off_pre = [],
     sd_vsp_off_post_ms = 0,
     sd_reset_off = sirius_reset_assert,
     sd_power_down_ms = 0\<rparr>"
| "sirius_panels SIRIUS_RENESAS_JDI = \<lparr>
     sd_id = ''renesas-jdi'',
     sd_name = ''jdi renesas 1080p video'',
     sd_lcd_id_adc_min = 353000,
     sd_lcd_id_adc_max = 414000,
     sd_mode = sirius_jdi_mode,
     sd_init = sirius_renesas_jdi_init,
     sd_on = sirius_on_exit_sleep_120ms_display_on,
     sd_off = sirius_off_20ms_80ms,
     sd_vsp_on_pre_ms = 5,
     sd_vsp_on_post_ms = 15,
     sd_reset_on = sirius_reset_release_10ms,
     sd_reset_off_pre = [],
     sd_vsp_off_post_ms = 70,
     sd_reset_off = sirius_reset_assert,
     sd_power_down_ms = 0\<rparr>"
| "sirius_panels SIRIUS_NOVATEK_JDI = \<lparr>
     sd_id = ''novatek-jdi'',
     sd_name = ''jdi novatek 1080p video'',
     sd_lcd_id_adc_min = 1087000,
     sd_lcd_id_adc_max = 1231000,
     sd_mode = sirius_jdi_mode,
     sd_init = sirius_novatek_jdi_init,
     sd_on = sirius_on_exit_sleep_120ms_display_on,
     sd_off = sirius_off_20ms_80ms,
     sd_vsp_on_pre_ms = 5,
     sd_vsp_on_post_ms = 20,
     sd_reset_on = sirius_reset_release_10ms,
     sd_reset_off_pre = [],
     sd_vsp_off_post_ms = 70,
     sd_reset_off = sirius_reset_assert,
     sd_power_down_ms = 200\<rparr>"

section \<open>Power\<close>

definition set_reset :: "bool \<Rightarrow> unit spm" where
  "set_reset b = do { emit (Pn_reset b); modify (\<lambda>h. h\<lparr>sp_reset := b\<rparr>) }"

definition fsleep_ms :: "nat \<Rightarrow> unit spm" where
  "fsleep_ms ms = whenM (ms \<noteq> 0) (emit (Pn_fsleep (int ms * 1000)))"

definition vsp_enable :: "pn_env \<Rightarrow> int spm" where
  "vsp_enable env = do {
     r \<leftarrow> call (pe_ret env) (Pn_enable ''vsp'');
     whenM (r = 0) (modify (\<lambda>h. h\<lparr>sp_vsp := sp_vsp h + 1\<rparr>));
     ret r
   }"

definition vsp_disable :: "unit spm" where
  "vsp_disable = do {
     emit (Pn_disable ''vsp'');
     modify (\<lambda>h. h\<lparr>sp_vsp := sp_vsp h - 1\<rparr>)
   }"

definition ktime_get :: "pn_env \<Rightarrow> int spm" where
  "ktime_get env = State (\<lambda>s. (pe_now env (io_trace s), s))"

definition ktime_ms_delta :: "int \<Rightarrow> int \<Rightarrow> int" where
  "ktime_ms_delta later earlier =
     (let d = later - earlier in if d < 0 then - ((- d) div 1000000) else d div 1000000)"

definition sirius_panel_run_reset_seq :: "sirius_reset_step list \<Rightarrow> unit spm" where
  "sirius_panel_run_reset_seq seq =
     iterM (\<lambda>st. do { set_reset (\<not> rs_release st); fsleep_ms (rs_delay_ms st) }) seq"

definition wait_power_down :: "pn_env \<Rightarrow> sirius_panel_desc \<Rightarrow> unit spm" where
  "wait_power_down env desc = do {
     off_time \<leftarrow> gets sp_off_time;
     if sd_power_down_ms desc \<noteq> 0 \<and> off_time \<noteq> 0 then do {
       now \<leftarrow> ktime_get env;
       let since_off = ktime_ms_delta now off_time;
       whenM (since_off < sd_power_down_ms desc)
         (emit (Pn_fsleep ((sd_power_down_ms desc - since_off) * 1000)))
     }
     else ret ()
   }"

definition sirius_panel_power_on :: "pn_env \<Rightarrow> sirius_panel_desc \<Rightarrow> int spm" where
  "sirius_panel_power_on env desc = do {
     wait_power_down env desc;
     r \<leftarrow> vddio_enable env;
     if r \<noteq> 0 then ret r
     else do {
       fsleep_ms (sd_vsp_on_pre_ms desc);
       r \<leftarrow> vsp_enable env;
       if r \<noteq> 0 then do { vddio_disable; ret r }
       else do {
         fsleep_ms (sd_vsp_on_post_ms desc);
         sirius_panel_run_reset_seq (sd_reset_on desc);
         ret 0
       }
     }
   }"

definition sirius_panel_power_off :: "pn_env \<Rightarrow> sirius_panel_desc \<Rightarrow> unit spm" where
  "sirius_panel_power_off env desc = do {
     sirius_panel_run_reset_seq (sd_reset_off_pre desc);
     vsp_disable;
     fsleep_ms (sd_vsp_off_post_ms desc);
     sirius_panel_run_reset_seq (sd_reset_off desc);
     vddio_disable;
     now \<leftarrow> ktime_get env;
     modify (\<lambda>h. h\<lparr>sp_off_time := now\<rparr>)
   }"

section \<open>The panel's operations\<close>

fun read_ids :: "pn_env \<Rightarrow> u8 list \<Rightarrow> unit spm" where
  "read_ids env [] = ret ()"
| "read_ids env (r # rs) = do {
     n \<leftarrow> call (pe_ret env) (Pn_dcs_read r);
     if n < 0 then ret () else read_ids env rs
   }"

definition sirius_panel_log_ids :: "pn_env \<Rightarrow> unit spm" where
  "sirius_panel_log_ids env = read_ids env [0xda, 0xdb, 0xdc]"

definition sirius_panel_prepare :: "pn_env \<Rightarrow> sirius_panel_desc \<Rightarrow> int spm" where
  "sirius_panel_prepare env desc = do {
     r \<leftarrow> sirius_panel_power_on env desc;
     if r \<noteq> 0 then ret r
     else do {
       set_lpm True;
       sirius_panel_log_ids env;
       r \<leftarrow> run_multi env (sd_init desc) 0;
       if r \<noteq> 0 then do { sirius_panel_power_off env desc; ret r }
       else ret 0
     }
   }"

definition sirius_panel_enable :: "pn_env \<Rightarrow> sirius_panel_desc \<Rightarrow> int spm" where
  "sirius_panel_enable env desc = do { set_lpm False; run_multi env (sd_on desc) 0 }"

definition sirius_panel_disable :: "pn_env \<Rightarrow> sirius_panel_desc \<Rightarrow> int spm" where
  "sirius_panel_disable env desc = do {
     set_lpm False;
     _ \<leftarrow> run_multi env (sd_off desc) 0;
     ret 0
   }"

definition sirius_panel_unprepare :: "pn_env \<Rightarrow> sirius_panel_desc \<Rightarrow> int spm" where
  "sirius_panel_unprepare env desc = do { sirius_panel_power_off env desc; ret 0 }"

definition sirius_panel_get_modes ::
  "pn_env \<Rightarrow> sirius_panel_desc \<Rightarrow> (int \<times> drm_display_mode option) spm" where
  "sirius_panel_get_modes env desc = do {
     ok \<leftarrow> call (pe_ptr env) Pn_alloc;
     if \<not> ok then ret (- ENOMEM, None) else ret (1, Some (sd_mode desc))
   }"

section \<open>Selection\<close>

text \<open>
  What the device tree and the module parameters say: \<open>bootargs\<close> is \<open>Inl\<close> of an error when there
  is no \<^verbatim>\<open>/chosen\<close> node or no such property. \<open>scan_i\<close> is \<^verbatim>\<open>sscanf\<close> with \<^verbatim>\<open>%i\<close>: the number at the start
  of a string, if there is one.
\<close>

definition sirius_detect_order :: "sirius_variant list" where
  "sirius_detect_order =
     [SIRIUS_RENESAS_SHARP, SIRIUS_RENESAS_AUO, SIRIUS_RENESAS_JDI, SIRIUS_NOVATEK_JDI]"

definition SIRIUS_LCD_ID_ADC_SCALE :: u32 where "SIRIUS_LCD_ID_ADC_SCALE = 3"

fun strip_prefix :: "string \<Rightarrow> string \<Rightarrow> string option" where
  "strip_prefix [] s = Some s"
| "strip_prefix (c # p) [] = None"
| "strip_prefix (c # p) (d # s) = (if c = d then strip_prefix p s else None)"

text \<open>The text after the first occurrence of \<open>p\<close>.\<close>

fun after_strstr :: "string \<Rightarrow> string \<Rightarrow> string option" where
  "after_strstr p [] = strip_prefix p []"
| "after_strstr p (c # s) =
     (case strip_prefix p (c # s) of Some r \<Rightarrow> Some r | None \<Rightarrow> after_strstr p s)"

fun find_variant :: "u32 \<Rightarrow> sirius_variant list \<Rightarrow> sirius_variant option" where
  "find_variant uv [] = None"
| "find_variant uv (v # vs) =
     (if sd_lcd_id_adc_min (sirius_panels v) \<le> uv \<and> uv \<le> sd_lcd_id_adc_max (sirius_panels v)
      then Some v else find_variant uv vs)"

definition sirius_panel_detect ::
  "(string \<Rightarrow> u32 option) \<Rightarrow> (int + string) \<Rightarrow> int + sirius_variant" where
  "sirius_panel_detect scan_i bootargs =
     (case bootargs of
        Inl e \<Rightarrow> Inl e
      | Inr args \<Rightarrow>
          (case Option.bind (after_strstr ''lcdid_adc='' args) scan_i of
             None \<Rightarrow> Inl (- ENODEV)
           | Some adc \<Rightarrow>
               (case find_variant (adc * SIRIUS_LCD_ID_ADC_SCALE) sirius_detect_order of
                  None \<Rightarrow> Inl (- ENODEV)
                | Some v \<Rightarrow> Inr v)))"

fun find_id :: "string \<Rightarrow> sirius_variant list \<Rightarrow> sirius_variant option" where
  "find_id name [] = None"
| "find_id name (v # vs) = (if name = sd_id (sirius_panels v) then Some v else find_id name vs)"

definition sirius_panel_select ::
  "string option \<Rightarrow> sirius_variant \<Rightarrow> (string \<Rightarrow> u32 option) \<Rightarrow> (int + string) \<Rightarrow>
     int + sirius_variant" where
  "sirius_panel_select param match scan_i bootargs =
     (case param of
        Some name \<Rightarrow>
          (case find_id name sirius_detect_order of
             Some v \<Rightarrow> Inr v
           | None \<Rightarrow> Inl (- EINVAL))
      | None \<Rightarrow>
          if match = SIRIUS_AUTO then sirius_panel_detect scan_i bootargs else Inr match)"

section \<open>Probe and remove\<close>

definition sirius_panel_probe ::
  "pn_env \<Rightarrow> (int + sirius_variant) \<Rightarrow> (int + sirius_variant) spm" where
  "sirius_panel_probe env selected = do {
     ok \<leftarrow> call (pe_ptr env) Pn_alloc;
     if \<not> ok then ret (Inl (- ENOMEM))
     else case selected of
       Inl e \<Rightarrow> ret (Inl e)
     | Inr v \<Rightarrow> do {
         r \<leftarrow> call (pe_ret env) (Pn_get ''vddio'');
         if r \<noteq> 0 then ret (Inl r)
         else do {
           r \<leftarrow> call (pe_ret env) (Pn_get ''vsp'');
           if r \<noteq> 0 then ret (Inl r)
           else do {
             r \<leftarrow> call (pe_ret env) (Pn_get ''reset'');
             if r \<noteq> 0 then ret (Inl r)
             else do {
               set_reset True;
               modify (\<lambda>h. h\<lparr>sp_off_time := 0\<rparr>);
               emit (Pn_config 4 [Mode_video, Mode_video_hse, Clock_non_continuous]);
               set_lpm False;
               r \<leftarrow> call (pe_ret env) Pn_backlight;
               if r \<noteq> 0 then ret (Inl r)
               else do {
                 emit Pn_add;
                 r \<leftarrow> call (pe_ret env) Pn_attach;
                 if r < 0 then do { emit Pn_remove; ret (Inl r) }
                 else ret (Inr v)
               }
             }
           }
         }
       }
   }"

definition sirius_panel_remove :: "pn_env \<Rightarrow> unit spm" where
  "sirius_panel_remove env = do {
     _ \<leftarrow> call (pe_ret env) Pn_detach;
     emit Pn_remove
   }"

section \<open>Sequences and modes against the other sources\<close>











section \<open>A sequence that fails\<close>

text \<open>
  the hand-written driver accumulates errors where the generated ones return: for every
  sequence of commands both are the same function. It sends the commands up to the first one
  that fails and returns its error, or sends all of them and returns 0; the struct of the panel
  does not change.
\<close>

theorem sirius_sequences_stop_at_error:
  "run_multi env ops 0 = run_early env ops \<and>
   wp (run_multi env ops 0) (\<lambda>r s'. io_dev s' = io_dev s \<and>
     (let n = done_ops env (io_trace s) (pn_lpm (io_dev s)) ops;
          sent = (\<lambda>k. io_trace s @ map (op_ev (pn_lpm (io_dev s))) (take k ops)) in
      if n = length ops then r = 0 \<and> io_trace s' = sent n
      else r < 0 \<and> io_trace s' = sent (n + 1) \<and>
        r = pe_ret env (sent n) (Pn_write (pn_lpm (io_dev s)) (ops ! n)))) s"
  unfolding run_multi_early
  by (intro conjI refl wp_mono [OF run_early_stops [OF refl]]) (auto simp: Let_def split: if_splits)

section \<open>Identification\<close>

lemma find_variant_ranges:
  "find_variant uv sirius_detect_order =
     (if uv \<le> 57000 then Some SIRIUS_RENESAS_SHARP
      else if 215000 \<le> uv \<and> uv \<le> 256000 then Some SIRIUS_RENESAS_AUO
      else if 353000 \<le> uv \<and> uv \<le> 414000 then Some SIRIUS_RENESAS_JDI
      else if 1087000 \<le> uv \<and> uv \<le> 1231000 then Some SIRIUS_NOVATEK_JDI
      else None)"
  by (simp add: sirius_detect_order_def)

lemma ranges_disjoint:
  fixes uv :: u32
  shows "\<not> (uv \<le> 57000 \<and> 215000 \<le> uv)" "\<not> (uv \<le> 57000 \<and> 353000 \<le> uv)"
    "\<not> (uv \<le> 57000 \<and> 1087000 \<le> uv)" "\<not> (uv \<le> 256000 \<and> 353000 \<le> uv)"
    "\<not> (uv \<le> 256000 \<and> 1087000 \<le> uv)" "\<not> (uv \<le> 414000 \<and> 1087000 \<le> uv)"
  by (simp_all add: word_le_nat_alt)

lemma find_variant_iff:
  "find_variant uv sirius_detect_order = Some v \<longleftrightarrow> v \<noteq> SIRIUS_AUTO \<and>
     sd_lcd_id_adc_min (sirius_panels v) \<le> uv \<and> uv \<le> sd_lcd_id_adc_max (sirius_panels v)"
  using ranges_disjoint [of uv] unfolding find_variant_ranges by (cases v) auto

text \<open>
  without a module parameter and an explicit compatible, the panel is the one whose range
  holds three times the reading on the command line, in 32 bits; the ranges do not overlap, so
  it is the only one. No reading, or one outside of every range, is an error.
\<close>

theorem sirius_select_unique:
  assumes "after_strstr ''lcdid_adc='' args = Some num" "scan_i num = Some adc"
  shows "sirius_panel_select None SIRIUS_AUTO scan_i (Inr args) = Inr v \<longleftrightarrow>
     v \<noteq> SIRIUS_AUTO \<and> sd_lcd_id_adc_min (sirius_panels v) \<le> 3 * adc \<and>
     3 * adc \<le> sd_lcd_id_adc_max (sirius_panels v)"
proof -
  have "sirius_panel_select None SIRIUS_AUTO scan_i (Inr args) = Inr v \<longleftrightarrow>
      find_variant (3 * adc) sirius_detect_order = Some v"
    using assms
    by (simp add: sirius_panel_select_def sirius_panel_detect_def SIRIUS_LCD_ID_ADC_SCALE_def
        mult.commute split: option.splits)
  then show ?thesis by (simp only: find_variant_iff)
qed

text \<open>The reading in the documentation, and one whose product wraps around to 2.\<close>

theorem sirius_select_unique_witness:
  "sirius_panel_select None SIRIUS_AUTO (\<lambda>s. if s = ''384552 quiet'' then Some 384552 else None)
     (Inr ''console=tty0 lcdid_adc=384552 quiet'') = Inr SIRIUS_NOVATEK_JDI \<and>
   sirius_panel_select None SIRIUS_AUTO (\<lambda>s. Some 0x55555556) (Inr ''lcdid_adc=1431655766'') =
     Inr SIRIUS_RENESAS_SHARP"
proof -
  have a: "after_strstr ''lcdid_adc='' ''console=tty0 lcdid_adc=384552 quiet'' = Some ''384552 quiet''"
    and b: "after_strstr ''lcdid_adc='' ''lcdid_adc=1431655766'' = Some ''1431655766''"
    by simp_all
  show ?thesis
    using sirius_select_unique [OF a, where adc = 384552 and v = SIRIUS_NOVATEK_JDI and
        scan_i = "\<lambda>s. if s = ''384552 quiet'' then Some 384552 else None"]
      sirius_select_unique [OF b, where adc = "0x55555556" and v = SIRIUS_RENESAS_SHARP and
        scan_i = "\<lambda>s. Some 0x55555556"]
    by simp
qed

lemma sirius_select_named:
  "v \<noteq> SIRIUS_AUTO \<Longrightarrow>
     sirius_panel_select (Some (sd_id (sirius_panels v))) match scan_i bootargs = Inr v"
  by (cases v) (simp_all add: sirius_panel_select_def sirius_detect_order_def)

section \<open>Supplies and reset\<close>

text \<open>\<open>sirius_at n b\<close>: both supplies are enabled \<open>n\<close> times, the reset line is asserted if \<open>b\<close>.\<close>

definition sirius_at :: "nat \<Rightarrow> bool \<Rightarrow> (pn_ev, sirius_panel) io \<Rightarrow> bool" where
  "sirius_at n b s \<longleftrightarrow> pn_vddio (io_dev s) = n \<and> sp_vsp (io_dev s) = n \<and> sp_reset (io_dev s) = b"

abbreviation (input) sirius_up :: "(pn_ev, sirius_panel) io \<Rightarrow> bool" where
  "sirius_up \<equiv> sirius_at 1 False"

abbreviation (input) sirius_down :: "(pn_ev, sirius_panel) io \<Rightarrow> bool" where
  "sirius_down \<equiv> sirius_at 0 True"

text \<open>Where a reset sequence leaves the line.\<close>

fun reset_after :: "sirius_reset_step list \<Rightarrow> bool \<Rightarrow> bool" where
  "reset_after [] b = b"
| "reset_after (st # sts) b = reset_after sts (\<not> rs_release st)"

lemma wp_fsleep_ms:
  "wp (fsleep_ms ms) Q s =
     Q () (if ms = 0 then s else s\<lparr>io_trace := io_trace s @ [Pn_fsleep (int ms * 1000)]\<rparr>)"
  by (simp add: fsleep_ms_def wp_simps)

lemma wp_set_reset:
  "wp (set_reset b) Q s =
     Q () (s\<lparr>io_trace := io_trace s @ [Pn_reset b], io_dev := (io_dev s)\<lparr>sp_reset := b\<rparr>\<rparr>)"
  by (simp add: set_reset_def wp_simps)

lemma reset_seq_dev:
  "wp (sirius_panel_run_reset_seq seq)
     (\<lambda>_ s'. io_dev s' = (io_dev s)\<lparr>sp_reset := reset_after seq (sp_reset (io_dev s))\<rparr>) s"
proof (induction seq arbitrary: s)
  case Nil
  then show ?case by (simp add: sirius_panel_run_reset_seq_def wp_simps)
next
  case (Cons st seq)
  show ?case
    unfolding sirius_panel_run_reset_seq_def iterM.simps wp_bind wp_set_reset wp_fsleep_ms
    by (rule wp_mono [OF Cons.IH [unfolded sirius_panel_run_reset_seq_def]]) auto
qed

lemma ktime_get_wp: "wp (ktime_get env) Q s = Q (pe_now env (io_trace s)) s"
  by (simp add: ktime_get_def wp_def)

lemma kept_wait: "kept (sirius_at n b) (wait_power_down env desc)"
  by (rule keptI)
    (simp add: wait_power_down_def wp_simps ktime_get_wp sirius_at_def Let_def)

lemma power_on_at:
  assumes "sirius_down s" "\<not> reset_after (sd_reset_on desc) True"
  shows "wp (sirius_panel_power_on env desc) (\<lambda>r s'. if r \<noteq> 0 then sirius_down s' else sirius_up s') s"
  unfolding sirius_panel_power_on_def wp_bind
proof (rule kept_wp [OF kept_wait assms(1)])
  fix u t
  assume t: "sirius_down t"
  have seq: "wp (sirius_panel_run_reset_seq (sd_reset_on desc)) (\<lambda>_. sirius_up) v"
    if "sirius_at 1 True v" for v
    by (rule wp_mono [OF reset_seq_dev]) (use that assms(2) in \<open>simp add: sirius_at_def\<close>)
  show "wp (vddio_enable env) (\<lambda>r. wp (if r \<noteq> 0 then ret r else do {
       fsleep_ms (sd_vsp_on_pre_ms desc);
       r \<leftarrow> vsp_enable env;
       if r \<noteq> 0 then do { vddio_disable; ret r }
       else do {
         fsleep_ms (sd_vsp_on_post_ms desc);
         sirius_panel_run_reset_seq (sd_reset_on desc);
         ret 0 } })
       (\<lambda>r s'. if r \<noteq> 0 then sirius_down s' else sirius_up s')) t"
    using t
    by (auto simp: vddio_enable_def vsp_enable_def vddio_disable_def wp_simps wp_fsleep_ms
        sirius_at_def intro!: wp_mono [OF seq])
qed

lemma power_off_at:
  assumes "sirius_up s" "reset_after (sd_reset_off desc) (reset_after (sd_reset_off_pre desc) False)"
  shows "wp (sirius_panel_power_off env desc) (\<lambda>_. sirius_down) s"
  unfolding sirius_panel_power_off_def wp_bind
proof (rule wp_mono [OF reset_seq_dev])
  fix u and t :: "(pn_ev, sirius_panel) io"
  assume t: "io_dev t = (io_dev s)\<lparr>sp_reset := reset_after (sd_reset_off_pre desc) (sp_reset (io_dev s))\<rparr>"
  have last: "wp (sirius_panel_run_reset_seq (sd_reset_off desc)) Q v"
    if "\<And>w. io_dev w = (io_dev v)\<lparr>sp_reset := reset_after (sd_reset_off desc) (sp_reset (io_dev v))\<rparr> \<Longrightarrow> Q () w"
    for Q v
    by (rule wp_mono [OF reset_seq_dev]) (use that in simp)
  show "wp vsp_disable (\<lambda>_. wp (fsleep_ms (sd_vsp_off_post_ms desc)) (\<lambda>_.
      wp (sirius_panel_run_reset_seq (sd_reset_off desc)) (\<lambda>_. wp vddio_disable (\<lambda>_.
      wp (ktime_get env) (\<lambda>now. wp (modify (\<lambda>h. h\<lparr>sp_off_time := now\<rparr>)) (\<lambda>_. sirius_down)))))) t"
    using assms t
    by (auto simp: vsp_disable_def vddio_disable_def wp_simps wp_fsleep_ms ktime_get_wp
        sirius_at_def intro!: last)
qed

text \<open>Descriptions whose reset sequences end where they should; every entry of the table is one.\<close>

definition resets_ok :: "sirius_panel_desc \<Rightarrow> bool" where
  "resets_ok desc \<longleftrightarrow> \<not> reset_after (sd_reset_on desc) True \<and>
     reset_after (sd_reset_off desc) (reset_after (sd_reset_off_pre desc) False)"

lemma sirius_resets_ok: "v \<noteq> SIRIUS_AUTO \<Longrightarrow> resets_ok (sirius_panels v)"
  by (cases v) (simp_all add: resets_ok_def sirius_reset_release_10ms_def sirius_reset_assert_def
      sirius_sharp_reset_on_def sirius_sharp_reset_off_pre_def sirius_auo_reset_on_def)

interpretation sirius_supply: power_sequenced "\<lambda>s. sirius_up s \<and> resets_ok desc"
    "\<lambda>s. sirius_down s \<and> resets_ok desc" "sirius_panel_power_on env desc"
    "sirius_panel_power_off env desc" "\<lambda>r. r \<noteq> 0"
proof
  fix s
  assume "sirius_down s \<and> resets_ok desc"
  then show "wp (sirius_panel_power_on env desc) (\<lambda>r s'. if r \<noteq> 0 then sirius_down s' \<and> resets_ok desc
      else sirius_up s' \<and> resets_ok desc) s"
    by (auto simp: resets_ok_def intro: wp_mono [OF power_on_at] split: if_splits)
next
  fix s
  assume "sirius_up s \<and> resets_ok desc"
  then show "wp (sirius_panel_power_off env desc) (\<lambda>_ s'. sirius_down s' \<and> resets_ok desc) s"
    by (auto simp: resets_ok_def intro: wp_mono [OF power_off_at])
qed

lemma kept_read_ids: "kept (sirius_at n b) (read_ids env rs)"
proof (rule keptI)
  fix s
  assume "sirius_at n b s"
  then show "wp (read_ids env rs) (\<lambda>_. sirius_at n b) s"
    by (induction rs arbitrary: s) (simp_all add: wp_simps sirius_at_def)
qed

lemma kept_sirius_lpm: "kept (sirius_at n b) (set_lpm l)"
  by (rule keptI) (simp add: set_lpm_def wp_simps sirius_at_def)

lemma kept_sequence: "kept (sirius_at n b) (run_multi env ops 0)"
  unfolding run_multi_early
  by (rule keptI, rule wp_mono [OF run_early_dev]) (simp add: sirius_at_def)

lemmas sirius_kept = kept_rules kept_sirius_lpm kept_sequence kept_read_ids

lemma keptC: "kept G m \<Longrightarrow> kept (\<lambda>s. G s \<and> c) m"
  by (simp add: kept_def wp_def split_beta)

lemma prepare_power:
  assumes "sirius_down s" "resets_ok desc"
  shows "wp (sirius_panel_prepare env desc)
    (\<lambda>r s'. if r \<noteq> 0 then sirius_down s' else sirius_up s') s"
proof -
  let ?init = "do { set_lpm True; sirius_panel_log_ids env; run_multi env (sd_init desc) 0 }"
  have "kept (\<lambda>s. sirius_up s \<and> resets_ok desc) ?init"
    unfolding sirius_panel_log_ids_def by (intro keptC sirius_kept)
  then have "wp (do {
      r \<leftarrow> sirius_panel_power_on env desc;
      if r \<noteq> 0 then ret r
      else do { r \<leftarrow> ?init; if r \<noteq> 0 then do { sirius_panel_power_off env desc; ret r } else ret 0 }
    }) (\<lambda>r s'. if r \<noteq> 0 then sirius_down s' \<and> resets_ok desc else sirius_up s' \<and> resets_ok desc) s"
    using assms by (intro sirius_supply.bring_up) simp_all
  then have "wp (sirius_panel_prepare env desc)
      (\<lambda>r s'. if r \<noteq> 0 then sirius_down s' \<and> resets_ok desc else sirius_up s' \<and> resets_ok desc) s"
    unfolding sirius_panel_prepare_def by (simp only: wp_bind State_Monad.bind_assoc)
  then show ?thesis by (rule wp_mono) (auto split: if_splits)
qed

text \<open>
  Calls in the order the DRM core makes them: enable, disable and unprepare only for a prepared
  panel, prepare only for one that is not; \<open>prepared\<close> is the core's record of it.
\<close>

definition sirius_fresh :: "(pn_ev, sirius_panel) io" where
  "sirius_fresh = \<lparr>io_trace = [], io_dev = \<lparr>pn_lpm = False, pn_vddio = 0, sp_vsp = 0,
     sp_reset = True, sp_off_time = 0\<rparr>\<rparr>"

inductive sirius_use :: "sirius_panel_desc \<Rightarrow> bool \<Rightarrow> (pn_ev, sirius_panel) io \<Rightarrow> bool"
  for desc where
  use_fresh: "sirius_use desc False sirius_fresh"
| use_prepare: "sirius_use desc False s \<Longrightarrow>
     run_state (sirius_panel_prepare env desc) s = (r, s') \<Longrightarrow> sirius_use desc (r = 0) s'"
| use_enable: "sirius_use desc True s \<Longrightarrow>
     run_state (sirius_panel_enable env desc) s = (r, s') \<Longrightarrow> sirius_use desc True s'"
| use_disable: "sirius_use desc True s \<Longrightarrow>
     run_state (sirius_panel_disable env desc) s = (r, s') \<Longrightarrow> sirius_use desc True s'"
| use_unprepare: "sirius_use desc True s \<Longrightarrow>
     run_state (sirius_panel_unprepare env desc) s = (r, s') \<Longrightarrow> sirius_use desc False s'"

lemma sirius_use_power:
  assumes "sirius_use desc p s" "resets_ok desc"
  shows "sirius_at (if p then 1 else 0) (\<not> p) s"
  using assms
proof induction
  case use_fresh
  then show ?case by (simp add: sirius_fresh_def sirius_at_def)
next
  case (use_prepare s env r s')
  then have "sirius_down s" by simp
  from wp_run [OF prepare_power [OF this] use_prepare(2)] use_prepare(4) show ?case
    by (simp split: if_splits)
next
  case (use_enable s env r s')
  have "kept sirius_up (sirius_panel_enable env desc)"
    unfolding sirius_panel_enable_def by (intro sirius_kept)
  from wp_run [OF keptD [OF this] use_enable(2)] use_enable show ?case by simp
next
  case (use_disable s env r s')
  have "kept sirius_up (sirius_panel_disable env desc)"
    unfolding sirius_panel_disable_def by (intro sirius_kept)
  from wp_run [OF keptD [OF this] use_disable(2)] use_disable show ?case by simp
next
  case (use_unprepare s env r s')
  then have up: "sirius_up s" and "resets_ok desc" by simp_all
  from \<open>resets_ok desc\<close> have "wp (sirius_panel_unprepare env desc) (\<lambda>_. sirius_down) s"
    unfolding sirius_panel_unprepare_def resets_ok_def wp_bind wp_return
    by (intro power_off_at [OF up]) simp
  from wp_run [OF this use_unprepare(2)] show ?case by simp
qed

text \<open>
  C10: for each of the four panels, through any number of prepare, enable, disable and unprepare
  calls, with supplies, commands and identification reads failing at will: while the panel is
  prepared both supplies are enabled exactly once and its reset is released, otherwise both are
  off and it is held in reset. A prepare that fails leaves it off.
\<close>

theorem sirius_power_follows_prepare:
  assumes "v \<noteq> SIRIUS_AUTO" "sirius_use (sirius_panels v) prepared s"
  shows "pn_vddio (io_dev s) = (if prepared then 1 else 0) \<and>
    sp_vsp (io_dev s) = (if prepared then 1 else 0) \<and> sp_reset (io_dev s) = (\<not> prepared)"
  using sirius_use_power [OF assms(2) sirius_resets_ok [OF assms(1)]] by (simp add: sirius_at_def)

lemma sirius_demo_prepare:
  "wp (sirius_panel_prepare \<lparr>pe_ret = \<lambda>_ _. 0, pe_ptr = \<lambda>_ _. True, pe_now = \<lambda>_. 0\<rparr>
     (sirius_panels SIRIUS_RENESAS_AUO)) (\<lambda>r _. r = 0) sirius_fresh"
  by (simp add: sirius_panel_prepare_def sirius_panel_power_on_def wait_power_down_def
      vddio_enable_def vsp_enable_def fsleep_ms_def sirius_panel_run_reset_seq_def set_reset_def
      sirius_auo_reset_on_def set_lpm_def sirius_panel_log_ids_def run_multi_early
      sirius_renesas_auo_init_def dsi_exec_def wp_simps)

theorem sirius_power_follows_prepare_witness:
  "\<exists>s. sirius_use (sirius_panels SIRIUS_RENESAS_AUO) True s \<and> pn_vddio (io_dev s) = 1 \<and>
     sp_vsp (io_dev s) = 1 \<and> \<not> sp_reset (io_dev s)"
proof -
  obtain r s where run: "run_state (sirius_panel_prepare
      \<lparr>pe_ret = \<lambda>_ _. 0, pe_ptr = \<lambda>_ _. True, pe_now = \<lambda>_. 0\<rparr> (sirius_panels SIRIUS_RENESAS_AUO))
      sirius_fresh = (r, s)" "r = 0"
    by (rule wp_runE [OF sirius_demo_prepare])
  from use_prepare [OF use_fresh run(1)] run(2)
  have "sirius_use (sirius_panels SIRIUS_RENESAS_AUO) True s" by simp
  then show ?thesis using sirius_power_follows_prepare [of SIRIUS_RENESAS_AUO True s] by auto
qed

end
