(* ===== verification/Krait_L2.thy ===== *)
theory Krait_L2
  imports Prelude
begin

text \<open>
  \<^verbatim>\<open>drivers/cpufreq/krait-l2-cache.c\<close>: the clock of the L2 cache that the four Krait cores share
  follows the fastest online core. \<open>krait_l2\<close> is \<^verbatim>\<open>struct krait_l2\<close> (the table keeps its flat
  layout of pairs; \<^verbatim>\<open>unsigned long\<close> has 32 bits on this processor), \<open>kev\<close> lists the calls the
  driver makes and \<open>krait_env\<close> their answers. The workqueue runs \<open>krait_l2_update\<close> some time
  after a notification scheduled it: \<open>krait_step\<close> interleaves the two.
\<close>

section \<open>State and environment\<close>

record krait_l2 =
  l2_map :: "u32 list"
  l2_map_len :: nat
  l2_khz :: "u32 list"
  l2_cur_hz :: u32

datatype kev =
    Cpufreq_cpu_get nat
  | Cpufreq_cpu_put
  | Devm_kzalloc
  | Count_map_elems
  | Devm_kcalloc_map int
  | Devm_kcalloc_khz
  | Read_map int
  | Opp_set_config
  | Opp_of_add_table
  | Cpufreq_quick_get nat
  | Online_mask
  | Opp_set_rate u32
  | Register_notifier
  | Unregister_notifier
  | Schedule_work
  | Cancel_work_sync

record krait_env =
  ke_policy :: "kev list \<Rightarrow> kev \<Rightarrow> bool"
  ke_alloc :: "kev list \<Rightarrow> kev \<Rightarrow> bool"
  ke_count :: "kev list \<Rightarrow> kev \<Rightarrow> int"
  ke_read :: "kev list \<Rightarrow> kev \<Rightarrow> int \<times> u32 list"
  ke_ret :: "kev list \<Rightarrow> kev \<Rightarrow> int"
  ke_quick :: "kev list \<Rightarrow> kev \<Rightarrow> u32"
  ke_online :: "kev list \<Rightarrow> kev \<Rightarrow> nat list"
  ke_nr_cpus :: nat

type_synonym 'a krait = "((kev, krait_l2) io, 'a) state"

section \<open>Operations\<close>

definition max_khz :: "u32 list \<Rightarrow> nat list \<Rightarrow> u32" where
  "max_khz khz cpus =
     fold (\<lambda>cpu mx. let k = khz ! cpu in if k > mx then k else mx) cpus 0"

definition krait_l2_target_hz :: "krait_l2 \<Rightarrow> nat list \<Rightarrow> u32" where
  "krait_l2_target_hz l2 online =
     (let mx = max_khz (l2_khz l2) online;
          target = fold (\<lambda>i t. if l2_map l2 ! (2 * i) \<le> mx then l2_map l2 ! (2 * i + 1) else t)
                     [0..<l2_map_len l2] (l2_map l2 ! 1)
      in target * 1000)"

definition krait_l2_update :: "krait_env \<Rightarrow> unit krait" where
  "krait_l2_update env = do {
     online \<leftarrow> call (ke_online env) Online_mask;
     hz \<leftarrow> gets (\<lambda>l2. krait_l2_target_hz l2 online);
     cur \<leftarrow> gets l2_cur_hz;
     if hz \<noteq> cur then do {
       r \<leftarrow> call (ke_ret env) (Opp_set_rate hz);
       if r \<noteq> 0 then ret () else modify (l2_cur_hz_update (\<lambda>_. hz))
     } else ret ()
   }"

definition CPUFREQ_POSTCHANGE :: nat where "CPUFREQ_POSTCHANGE = 1"
definition NOTIFY_DONE :: int where "NOTIFY_DONE = 0"
definition NOTIFY_OK :: int where "NOTIFY_OK = 1"

definition krait_l2_cpufreq_notifier :: "nat \<Rightarrow> nat list \<Rightarrow> u32 \<Rightarrow> int krait" where
  "krait_l2_cpufreq_notifier event cpus new = (
     if event \<noteq> CPUFREQ_POSTCHANGE then ret NOTIFY_DONE
     else do {
       modify (l2_khz_update (fold (\<lambda>cpu k. k[cpu := new]) cpus));
       emit Schedule_work;
       ret NOTIFY_OK
     })"



definition krait_l2_remove :: "unit krait" where
  "krait_l2_remove = do {
     emit Unregister_notifier;
     emit Cancel_work_sync
   }"

section \<open>The driver and its workqueue\<close>

record krait_sys =
  ks_io :: "(kev, krait_l2) io"
  ks_pending :: bool

text \<open>
  A cpufreq transition notifies the driver, and a notification that returns \<^verbatim>\<open>NOTIFY_OK\<close> leaves
  work pending; the pending work runs later. The machine starts from a successful probe.
\<close>

inductive krait_step :: "krait_env \<Rightarrow> krait_sys \<Rightarrow> krait_sys \<Rightarrow> bool" for env where
  notify: "run_state (krait_l2_cpufreq_notifier event cpus new) (ks_io s) = (r, io') \<Longrightarrow>
     krait_step env s \<lparr>ks_io = io', ks_pending = (ks_pending s \<or> r = NOTIFY_OK)\<rparr>"
| work: "ks_pending s \<Longrightarrow> run_state (krait_l2_update env) (ks_io s) = (u, io') \<Longrightarrow>
     krait_step env s \<lparr>ks_io = io', ks_pending = False\<rparr>"


inductive_cases krait_stepE: "krait_step env s t"

section \<open>Lemmas\<close>

lemma fold_match_last:
  assumes "k < n" "P k" "\<And>j. k < j \<Longrightarrow> j < n \<Longrightarrow> \<not> P j"
  shows "fold (\<lambda>i t. if P i then f i else t) [0..<n] d = f k"
  using assms
proof (induction n)
  case 0
  then show ?case by simp
next
  case (Suc n)
  then show ?case by (cases "k = n") auto
qed

lemma fold_match_none:
  assumes "\<And>j. j < n \<Longrightarrow> \<not> P j"
  shows "fold (\<lambda>i t. if P i then f i else t) [0..<n] d = d"
  using assms by (induction n) auto

lemma max_khz_fold: "max_khz khz cpus = fold max (map ((!) khz) cpus) 0"
proof -
  have "(\<lambda>cpu mx. let k = khz ! cpu in if k > mx then k else mx) = (\<lambda>c. max (khz ! c))"
    by (auto simp: fun_eq_iff max_def Let_def)
  then show ?thesis by (simp add: max_khz_def fold_map comp_def)
qed

lemma max_khz_Max: "max_khz khz cpus = Max (insert 0 ((\<lambda>c. khz ! c) ` set cpus))"
  by (simp add: max_khz_fold Max.set_eq_fold [symmetric])

lemma max_khz_mono:
  assumes "\<And>c. c \<in> set cpus \<Longrightarrow> khz ! c \<le> khz' ! c"
  shows "max_khz khz cpus \<le> max_khz khz' cpus"
  unfolding max_khz_Max
proof (rule Max.boundedI)
  fix a
  assume "a \<in> insert 0 ((\<lambda>c. khz ! c) ` set cpus)"
  then show "a \<le> Max (insert 0 ((\<lambda>c. khz' ! c) ` set cpus))"
    using assms by (subst Max_ge_iff) auto
qed auto


text \<open>The table entry the driver picks, named for the statements below.\<close>

lemma krait_target_match:
  assumes "k < l2_map_len l2" "l2_map l2 ! (2 * k) \<le> max_khz (l2_khz l2) cpus"
    and "\<And>j. k < j \<Longrightarrow> j < l2_map_len l2 \<Longrightarrow> max_khz (l2_khz l2) cpus < l2_map l2 ! (2 * j)"
  shows "krait_l2_target_hz l2 cpus = l2_map l2 ! (2 * k + 1) * 1000"
  unfolding krait_l2_target_hz_def Let_def
  by (subst fold_match_last [where k = k]) (use assms in \<open>auto simp: not_le\<close>)

lemma krait_target_none:
  assumes "\<And>j. j < l2_map_len l2 \<Longrightarrow> max_khz (l2_khz l2) cpus < l2_map l2 ! (2 * j)"
  shows "krait_l2_target_hz l2 cpus = l2_map l2 ! 1 * 1000"
  unfolding krait_l2_target_hz_def Let_def
  by (subst fold_match_none) (use assms in \<open>auto simp: not_le\<close>)

lemma krait_target_index:
  "\<exists>k. (k < l2_map_len l2 \<or> k = 0) \<and>
     (\<forall>j<l2_map_len l2. l2_map l2 ! (2 * j) \<le> max_khz (l2_khz l2) cpus \<longrightarrow> j \<le> k) \<and>
     (k = 0 \<or> l2_map l2 ! (2 * k) \<le> max_khz (l2_khz l2) cpus) \<and>
     krait_l2_target_hz l2 cpus = l2_map l2 ! (2 * k + 1) * 1000"
proof -
  let ?n = "l2_map_len l2" and ?mx = "max_khz (l2_khz l2) cpus"
  let ?P = "\<lambda>i. l2_map l2 ! (2 * i) \<le> ?mx"
  show ?thesis
  proof (cases "\<exists>j<?n. ?P j")
    case False
    then have "krait_l2_target_hz l2 cpus = l2_map l2 ! 1 * 1000"
      by (intro krait_target_none) (auto simp: not_le)
    with False show ?thesis by (intro exI [of _ 0]) auto
  next
    case True
    define k where "k = Max {j. j < ?n \<and> ?P j}"
    have fin: "finite {j. j < ?n \<and> ?P j}" by simp
    have mem: "k \<in> {j. j < ?n \<and> ?P j}"
      unfolding k_def using True by (intro Max_in fin) auto
    have top: "j \<le> k" if "j < ?n" "?P j" for j
      unfolding k_def using that by (intro Max_ge fin) auto
    have "krait_l2_target_hz l2 cpus = l2_map l2 ! (2 * k + 1) * 1000"
    proof (rule krait_target_match)
      show "k < ?n" "?P k" using mem by auto
      show "?mx < l2_map l2 ! (2 * j)" if "k < j" "j < ?n" for j
        using top [of j] that by (meson not_le)
    qed
    with mem top show ?thesis by (intro exI [of _ k]) auto
  qed
qed

lemma unat_times_1000:
  "unat (w :: u32) * 1000 < 2 ^ 32 \<Longrightarrow> unat (w * 1000) = unat w * 1000"
  by (simp add: unat_word_ariths)

lemma wp_krait_l2_update [wp_simps]:
  "wp (krait_l2_update env) Q s =
     (let t1 = io_trace s @ [Online_mask];
          hz = krait_l2_target_hz (io_dev s) (ke_online env (io_trace s) Online_mask)
      in if hz = l2_cur_hz (io_dev s) then Q () (s\<lparr>io_trace := t1\<rparr>)
         else if ke_ret env t1 (Opp_set_rate hz) \<noteq> 0 then Q () (s\<lparr>io_trace := t1 @ [Opp_set_rate hz]\<rparr>)
         else Q () (s\<lparr>io_trace := t1 @ [Opp_set_rate hz], io_dev := io_dev s\<lparr>l2_cur_hz := hz\<rparr>\<rparr>))"
  by (simp add: krait_l2_update_def wp_simps Let_def)


section \<open>The driver's invariant\<close>




lemma fold_list_update_length [simp]: "length (fold (\<lambda>c ks. ks[c := v]) cs ks) = length ks"
  by (induction cs arbitrary: ks) auto

lemma fold_list_update_nth:
  "c < length ks \<Longrightarrow> fold (\<lambda>c ks. ks[c := v]) cs ks ! c = (if c \<in> set cs then v else ks ! c)"
  by (induction cs arbitrary: ks) auto





lemma krait_target_frame [simp]:
  "krait_l2_target_hz (l2\<lparr>l2_cur_hz := h\<rparr>) cpus = krait_l2_target_hz l2 cpus"
  by (simp add: krait_l2_target_hz_def)




section \<open>A concrete environment for the witnesses\<close>



definition krait_demo_l2 :: krait_l2 where
  "krait_demo_l2 = \<lparr>l2_map = [300000, 345600, 1036800, 729600], l2_map_len = 2,
     l2_khz = [2265600, 2265600], l2_cur_hz = 729600000\<rparr>"






section \<open>Properties\<close>

text \<open>
  C26: the clock follows the table. For a table in ascending order of CPU rate, the cache gets the rate
  of the one entry whose CPU rate the fastest online core reaches while it does not reach the
  next entry's; below the first entry it gets the first entry's rate.
\<close>

theorem krait_target_tracks_table:
  assumes "\<And>i j. i < j \<Longrightarrow> j < l2_map_len l2 \<Longrightarrow> l2_map l2 ! (2 * i) < l2_map l2 ! (2 * j)"
    and "k < l2_map_len l2"
    and "mx = Max (insert 0 ((\<lambda>c. l2_khz l2 ! c) ` set online))"
    and "k = 0 \<or> l2_map l2 ! (2 * k) \<le> mx"
    and "Suc k < l2_map_len l2 \<Longrightarrow> mx < l2_map l2 ! (2 * Suc k)"
  shows "krait_l2_target_hz l2 online = l2_map l2 ! (2 * k + 1) * 1000"
proof -
  have mx: "max_khz (l2_khz l2) online = mx" using assms(3) by (simp add: max_khz_Max)
  have above: "mx < l2_map l2 ! (2 * j)" if "k < j" "j < l2_map_len l2" for j
  proof (cases "j = Suc k")
    case True
    with assms(5) that show ?thesis by simp
  next
    case False
    with that have "Suc k < j" by simp
    with assms(1) [of "Suc k" j] assms(5) that show ?thesis by (meson less_trans)
  qed
  show ?thesis
  proof (cases "l2_map l2 ! (2 * k) \<le> mx")
    case True
    then show ?thesis using assms(2) above by (intro krait_target_match) (auto simp: mx)
  next
    case False
    with assms(4) have "k = 0" by simp
    with False above show ?thesis
      by (intro krait_target_none [THEN trans]) (auto simp: mx not_le, metis gr0I mult_0_right)
  qed
qed

theorem krait_target_tracks_table_witness:
  "krait_l2_target_hz
     \<lparr>l2_map = [300000, 345600, 1036800, 729600], l2_map_len = 2, l2_khz = [300000, 960000],
      l2_cur_hz = 0\<rparr> [0, 1] = 345600000"
proof -
  let ?l2 = "\<lparr>l2_map = [300000, 345600, 1036800, 729600], l2_map_len = 2,
    l2_khz = [300000, 960000], l2_cur_hz = 0\<rparr> :: krait_l2"
  have "krait_l2_target_hz ?l2 [0, 1] = l2_map ?l2 ! (2 * 0 + 1) * 1000"
    by (rule krait_target_tracks_table [where mx = 960000])
      (auto simp: less_2_cases_iff)
  then show ?thesis by simp
qed

text \<open>
  a faster core never gets a slower cache. With both columns of the table ascending and the
  products below \<open>2 ^ 32\<close> (\<^verbatim>\<open>unsigned long\<close> has 32 bits here), raising core rates can only raise the
  target, and the target is always the exact product of a table rate.
\<close>

theorem krait_target_monotone:
  assumes "\<And>i j. i \<le> j \<Longrightarrow> j < l2_map_len l2 \<Longrightarrow> l2_map l2 ! (2 * i + 1) \<le> l2_map l2 ! (2 * j + 1)"
    and "\<And>i. i < l2_map_len l2 \<Longrightarrow> unat (l2_map l2 ! (2 * i + 1)) * 1000 < 2 ^ 32"
    and "0 < l2_map_len l2"
    and "\<And>c. c \<in> set online \<Longrightarrow> l2_khz l2 ! c \<le> khz' ! c"
  shows "krait_l2_target_hz l2 online \<le> krait_l2_target_hz (l2\<lparr>l2_khz := khz'\<rparr>) online \<and>
    (\<exists>i<l2_map_len l2. unat (krait_l2_target_hz l2 online) = unat (l2_map l2 ! (2 * i + 1)) * 1000)"
proof -
  let ?l2' = "l2\<lparr>l2_khz := khz'\<rparr>"
  have le: "max_khz (l2_khz l2) online \<le> max_khz khz' online"
    using assms(4) by (rule max_khz_mono)
  obtain k where k: "k < l2_map_len l2"
      "k = 0 \<or> l2_map l2 ! (2 * k) \<le> max_khz (l2_khz l2) online"
      "krait_l2_target_hz l2 online = l2_map l2 ! (2 * k + 1) * 1000"
    using krait_target_index [of l2 online] assms(3) by auto
  obtain k' where k': "k' < l2_map_len l2"
      "\<And>j. j < l2_map_len l2 \<Longrightarrow> l2_map l2 ! (2 * j) \<le> max_khz khz' online \<Longrightarrow> j \<le> k'"
      "krait_l2_target_hz ?l2' online = l2_map l2 ! (2 * k' + 1) * 1000"
    using krait_target_index [of ?l2' online] assms(3) by auto
  have "k \<le> k'" using k(1,2) k'(2) le by (cases "k = 0") (auto intro: order_trans)
  then have "unat (l2_map l2 ! (2 * k + 1)) \<le> unat (l2_map l2 ! (2 * k' + 1))"
    using assms(1) k'(1) by (simp add: word_le_nat_alt)
  then show ?thesis
    using k k' assms(2) unat_times_1000 by (auto simp: word_le_nat_alt)
qed

theorem krait_target_monotone_witness:
  "krait_l2_target_hz krait_demo_l2 [0, 1] \<le>
   krait_l2_target_hz (krait_demo_l2\<lparr>l2_khz := [2265600, 2400000]\<rparr>) [0, 1]"
proof -
  have "krait_l2_target_hz krait_demo_l2 [0, 1] \<le>
      krait_l2_target_hz (krait_demo_l2\<lparr>l2_khz := [2265600, 2400000]\<rparr>) [0, 1] \<and>
    (\<exists>i<l2_map_len krait_demo_l2. unat (krait_l2_target_hz krait_demo_l2 [0, 1]) =
      unat (l2_map krait_demo_l2 ! (2 * i + 1)) * 1000)"
    by (rule krait_target_monotone) (auto simp: krait_demo_l2_def less_2_cases_iff le_Suc_eq)
  then show ?thesis by simp
qed



end
