(* ===== verification/Pmic_Clkdiv.thy ===== *)
theory Pmic_Clkdiv
  imports Prelude
begin

text \<open>
  \<^verbatim>\<open>drivers/clk/pmic-clkdiv/clk-spmi-pmic-div.c\<close>: the divided clock outputs of the PMIC, one of which
  is the audio codec's master clock. \<open>clkdiv\<close> is \<^verbatim>\<open>struct clkdiv\<close> (base address and reference
  period), \<open>ckev\<close> the register accesses and delays. \<^verbatim>\<open>ilog2\<close> is the kernel's and an argument of
  the model: \<open>ilog2_ok\<close> says what its documentation promises, nothing for 0. A division by zero
  of the source is the result \<open>None\<close>. A failed register read leaves its variable as it was: where
  the source does not initialise that variable, the model takes its content from \<open>ck_junk\<close>.
\<close>

section \<open>State and environment\<close>

record clkdiv =
  cd_base :: u16
  cd_cxo_period_ns :: u32

definition REG_DIV_CTL1 :: u32 where "REG_DIV_CTL1 = 0x43"
definition DIV_CTL1_DIV_FACTOR_MASK :: u32 where "DIV_CTL1_DIV_FACTOR_MASK = 0x07"
definition REG_EN_CTL :: u32 where "REG_EN_CTL = 0x46"
definition REG_EN_MASK :: u32 where "REG_EN_MASK = 0x80"

datatype ckev =
    Ck_read u32
  | Ck_update_bits u32 u32 u32
  | Ck_ndelay u32

record ck_env =
  ck_read :: "ckev list \<Rightarrow> ckev \<Rightarrow> u32 option"
  ck_ret :: "ckev list \<Rightarrow> ckev \<Rightarrow> int"
  ck_junk :: u32

type_synonym 'a clkm = "((ckev, clkdiv) io, 'a) state"

section \<open>Divider arithmetic\<close>

definition div_factor_to_div :: "u32 \<Rightarrow> u32" where
  "div_factor_to_div div_factor =
     (let f = (if div_factor = 0 then 1 else div_factor) in push_bit (unat (f - 1)) 1)"

definition div_to_div_factor :: "(u32 \<Rightarrow> int) \<Rightarrow> u32 \<Rightarrow> u32" where
  "div_to_div_factor ilog2 dv = word_of_int (min (ilog2 dv + 1) 7)"

definition clk_spmi_pmic_div_round_rate :: "(u32 \<Rightarrow> int) \<Rightarrow> u32 \<Rightarrow> u32 \<Rightarrow> u32 option" where
  "clk_spmi_pmic_div_round_rate ilog2 rate parent_rate =
     (if rate = 0 then None
      else let dv = (parent_rate + rate - 1) div rate;
               div_factor = div_to_div_factor ilog2 dv;
               dv = div_factor_to_div div_factor
           in Some (parent_rate div dv))"

section \<open>Register operations\<close>

definition reg :: "u32 \<Rightarrow> clkdiv \<Rightarrow> u32" where
  "reg off cd = ucast (cd_base cd) + off"

definition is_spmi_pmic_clkdiv_enabled :: "ck_env \<Rightarrow> bool clkm" where
  "is_spmi_pmic_clkdiv_enabled env = do {
     a \<leftarrow> gets (reg REG_EN_CTL);
     v \<leftarrow> call (ck_read env) (Ck_read a);
     let val = (case v of None \<Rightarrow> 0 | Some x \<Rightarrow> x);
     ret (val AND REG_EN_MASK \<noteq> 0)
   }"

definition spmi_pmic_clkdiv_set_enable_state_div :: "ck_env \<Rightarrow> bool \<Rightarrow> u32 \<Rightarrow> int clkm" where
  "spmi_pmic_clkdiv_set_enable_state_div env enable div_factor = do {
     ns \<leftarrow> gets cd_cxo_period_ns;
     let dv = div_factor_to_div div_factor;
     a \<leftarrow> gets (reg REG_EN_CTL);
     r \<leftarrow> call (ck_ret env) (Ck_update_bits a REG_EN_MASK (if enable then REG_EN_MASK else 0));
     if r \<noteq> 0 then ret r
     else if enable then do { emit (Ck_ndelay ((2 + 3 * dv) * ns)); ret 0 }
     else do { emit (Ck_ndelay (3 * dv * ns)); ret 0 }
   }"

definition read_div_factor :: "ck_env \<Rightarrow> u32 clkm" where
  "read_div_factor env = do {
     a \<leftarrow> gets (reg REG_DIV_CTL1);
     v \<leftarrow> call (ck_read env) (Ck_read a);
     ret ((case v of None \<Rightarrow> ck_junk env | Some x \<Rightarrow> x) AND DIV_CTL1_DIV_FACTOR_MASK)
   }"

definition spmi_pmic_clkdiv_set_enable_state :: "ck_env \<Rightarrow> bool \<Rightarrow> int clkm" where
  "spmi_pmic_clkdiv_set_enable_state env enable = do {
     div_factor \<leftarrow> read_div_factor env;
     spmi_pmic_clkdiv_set_enable_state_div env enable div_factor
   }"

definition clk_spmi_pmic_div_enable :: "ck_env \<Rightarrow> int clkm" where
  "clk_spmi_pmic_div_enable env = spmi_pmic_clkdiv_set_enable_state env True"

definition clk_spmi_pmic_div_disable :: "ck_env \<Rightarrow> unit clkm" where
  "clk_spmi_pmic_div_disable env = do {
     _ \<leftarrow> spmi_pmic_clkdiv_set_enable_state env False;
     ret ()
   }"

definition clk_spmi_pmic_div_recalc_rate :: "ck_env \<Rightarrow> u32 \<Rightarrow> u32 clkm" where
  "clk_spmi_pmic_div_recalc_rate env parent_rate = do {
     div_factor \<leftarrow> read_div_factor env;
     ret (parent_rate div div_factor_to_div div_factor)
   }"


section \<open>Looking up and registering the outputs\<close>

text \<open>\<^verbatim>\<open>int idx = args[0] - 1\<close>: the unsigned difference read as a signed number.\<close>

definition spmi_pmic_div_clk_hw_get :: "u32 \<Rightarrow> nat \<Rightarrow> int + nat" where
  "spmi_pmic_div_clk_hw_get arg nclks =
     (let idx = sint (arg - 1)
      in if idx < 0 \<or> idx \<ge> int nclks then Inl (- EINVAL) else Inr (nat idx))"

datatype ckpev =
    Ckp_read_reg
  | Ckp_get_regmap
  | Ckp_read_num
  | Ckp_alloc
  | Ckp_clk_get
  | Ckp_clk_get_rate
  | Ckp_clk_put
  | Ckp_read_name nat
  | Ckp_register nat string
  | Ckp_add_provider

record ckp_env =
  ckp_u32 :: "ckpev list \<Rightarrow> ckpev \<Rightarrow> int + u32"
  ckp_ok :: "ckpev list \<Rightarrow> ckpev \<Rightarrow> bool"
  ckp_ret :: "ckpev list \<Rightarrow> ckpev \<Rightarrow> int"
  ckp_name :: "ckpev list \<Rightarrow> ckpev \<Rightarrow> string option"

text \<open>\<^verbatim>\<open>snprintf\<close> of \<^verbatim>\<open>div_clk%d\<close>: the decimal digits of the output's number.\<close>

fun decimal :: "nat \<Rightarrow> string" where
  "decimal n = (if n < 10 then [char_of (48 + n)] else decimal (n div 10) @ [char_of (48 + n mod 10)])"

declare decimal.simps [simp del]

fun register_outputs ::
  "ckp_env \<Rightarrow> u32 \<Rightarrow> u32 \<Rightarrow> nat list \<Rightarrow> ((ckpev, clkdiv list) io, int) state" where
  "register_outputs env start period [] = ret 0"
| "register_outputs env start period (i # is) = do {
     of_name \<leftarrow> call (ckp_name env) (Ckp_read_name i);
     let name = (case of_name of Some n \<Rightarrow> n | None \<Rightarrow> ''div_clk'' @ decimal (i + 1));
     modify (\<lambda>cs. cs @ [\<lparr>cd_base = ucast (start + of_nat i * 0x100), cd_cxo_period_ns = period\<rparr>]);
     r \<leftarrow> call (ckp_ret env) (Ckp_register i name);
     if r \<noteq> 0 then ret r else register_outputs env start period is
   }"

text \<open>\<^verbatim>\<open>NSEC_PER_SEC / cxo_hz\<close>, a signed division that truncates towards zero.\<close>

definition cxo_period :: "u32 \<Rightarrow> u32" where
  "cxo_period cxo_hz =
     word_of_int (if sint cxo_hz < 0 then - (1000000000 div (- sint cxo_hz))
                  else 1000000000 div sint cxo_hz)"

text \<open>The counts and rates are read into an \<^verbatim>\<open>int\<close>; \<open>None\<close> is the division by a zero clock rate.\<close>

definition spmi_pmic_clkdiv_probe :: "ckp_env \<Rightarrow> ((ckpev, clkdiv list) io, int option) state" where
  "spmi_pmic_clkdiv_probe env = do {
     rs \<leftarrow> call (ckp_u32 env) Ckp_read_reg;
     case rs of Inl r \<Rightarrow> ret (Some r) | Inr start \<Rightarrow> do {
     regmap \<leftarrow> call (ckp_ok env) Ckp_get_regmap;
     if \<not> regmap then ret (Some (- EINVAL)) else do {
     rn \<leftarrow> call (ckp_u32 env) Ckp_read_num;
     case rn of Inl r \<Rightarrow> ret (Some r) | Inr nclks \<Rightarrow>
     if nclks = 0 then ret (Some (- EINVAL)) else do {
     mem \<leftarrow> call (ckp_ok env) Ckp_alloc;
     if \<not> mem then ret (Some (- ENOMEM)) else do {
     modify (\<lambda>_. []);
     cxo \<leftarrow> call (ckp_ret env) Ckp_clk_get;
     if cxo < 0 then ret (Some cxo) else do {
     hz \<leftarrow> call (ckp_u32 env) Ckp_clk_get_rate;
     emit Ckp_clk_put;
     let cxo_hz = (case hz of Inl _ \<Rightarrow> 0 | Inr h \<Rightarrow> h);
     if sint nclks > 0 \<and> cxo_hz = 0 then ret None else do {
     r \<leftarrow> register_outputs env start (cxo_period cxo_hz) [0..<nat (sint nclks)];
     if r \<noteq> 0 then ret (Some r) else do {
     r \<leftarrow> call (ckp_ret env) Ckp_add_provider;
     ret (Some r)
   }}}}}}}}"

section \<open>Lemmas\<close>

text \<open>What \<^verbatim>\<open>linux/log2.h\<close> documents: the base 2 logarithm, undefined at 0.\<close>

definition ilog2_ok :: "(u32 \<Rightarrow> int) \<Rightarrow> bool" where
  "ilog2_ok ilog2 \<longleftrightarrow>
     (\<forall>n. n \<noteq> 0 \<longrightarrow> 0 \<le> ilog2 n \<and> 2 ^ nat (ilog2 n) \<le> unat n \<and> unat n < 2 * 2 ^ nat (ilog2 n))"

lemma div_factor_to_div_power:
  assumes "1 \<le> f" "f \<le> 7"
  shows "unat (div_factor_to_div (word_of_nat f)) = 2 ^ (f - 1)"
proof -
  have "f \<in> {1, 2, 3, 4, 5, 6, 7}" using assms by auto
  then show ?thesis by (auto simp: div_factor_to_div_def Let_def push_bit_eq_mult)
qed

lemma div_to_div_factor_log:
  assumes "ilog2_ok il" "n \<noteq> 0"
  obtains k where "2 ^ k \<le> unat n" "unat n < 2 * 2 ^ k"
    "div_to_div_factor il n = word_of_nat (min k 6 + 1)"
proof
  show "2 ^ nat (il n) \<le> unat n" "unat n < 2 * 2 ^ nat (il n)"
    using assms by (auto simp: ilog2_ok_def)
  have "0 \<le> il n" using assms by (auto simp: ilog2_ok_def)
  then have "min (il n + 1) 7 = int (min (nat (il n)) 6 + 1)" by auto
  then show "div_to_div_factor il n = word_of_nat (min (nat (il n)) 6 + 1)"
    unfolding div_to_div_factor_def by (metis of_int_of_nat_eq)
qed


lemma clkdiv_divider:
  assumes "ilog2_ok il" "n \<noteq> 0"
  obtains k where "2 ^ k \<le> unat n" "unat n < 2 * 2 ^ k"
    "unat (div_factor_to_div (div_to_div_factor il n)) = 2 ^ min k 6"
proof -
  obtain k where k: "2 ^ k \<le> unat n" "unat n < 2 * 2 ^ k"
    "div_to_div_factor il n = word_of_nat (min k 6 + 1)"
    using div_to_div_factor_log [OF assms] by metis
  have "unat (div_factor_to_div (word_of_nat (min k 6 + 1))) = 2 ^ min k 6"
    by (subst div_factor_to_div_power) auto
  with k that show thesis by auto
qed






section \<open>The divider is only changed while the output is off\<close>



lemma reg_en_neq_div [simp]:
  "REG_EN_CTL \<noteq> REG_DIV_CTL1" "REG_DIV_CTL1 \<noteq> REG_EN_CTL"
  by (simp_all add: REG_EN_CTL_def REG_DIV_CTL1_def)

lemma wp_set_enable_state_div [wp_simps]:
  "wp (spmi_pmic_clkdiv_set_enable_state_div env en f) Q s =
     (let cd = io_dev s; b = ucast (cd_base cd); d = div_factor_to_div f;
          e = Ck_update_bits (b + REG_EN_CTL) REG_EN_MASK (if en then REG_EN_MASK else 0);
          r = ck_ret env (io_trace s) e
      in if r \<noteq> 0 then Q r (s\<lparr>io_trace := io_trace s @ [e]\<rparr>)
         else Q 0 (s\<lparr>io_trace := io_trace s @
           [e, Ck_ndelay ((if en then 2 + 3 * d else 3 * d) * cd_cxo_period_ns cd)]\<rparr>))"
  by (simp add: spmi_pmic_clkdiv_set_enable_state_div_def wp_simps reg_def Let_def)

lemma wp_read_div_factor [wp_simps]:
  "wp (read_div_factor env) Q s =
     (let e = Ck_read (ucast (cd_base (io_dev s)) + REG_DIV_CTL1)
      in Q ((case ck_read env (io_trace s) e of None \<Rightarrow> ck_junk env | Some x \<Rightarrow> x)
              AND DIV_CTL1_DIV_FACTOR_MASK) (s\<lparr>io_trace := io_trace s @ [e]\<rparr>))"
  by (simp add: read_div_factor_def wp_simps reg_def Let_def)

lemma wp_is_enabled [wp_simps]:
  "wp (is_spmi_pmic_clkdiv_enabled env) Q s =
     (let e = Ck_read (ucast (cd_base (io_dev s)) + REG_EN_CTL)
      in Q ((case ck_read env (io_trace s) e of None \<Rightarrow> 0 | Some x \<Rightarrow> x) AND REG_EN_MASK \<noteq> 0)
           (s\<lparr>io_trace := io_trace s @ [e]\<rparr>))"
  by (simp add: is_spmi_pmic_clkdiv_enabled_def wp_simps reg_def Let_def)




section \<open>A concrete environment for the witnesses\<close>

fun floor_log2 :: "nat \<Rightarrow> nat" where
  "floor_log2 n = (if n < 2 then 0 else Suc (floor_log2 (n div 2)))"

declare floor_log2.simps [simp del]


lemma floor_log2_bounds: "0 < n \<Longrightarrow> 2 ^ floor_log2 n \<le> n \<and> n < 2 * 2 ^ floor_log2 n"
proof (induction n rule: floor_log2.induct)
  case (1 n)
  show ?case
  proof (cases "n < 2")
    case True
    with 1(2) show ?thesis by (simp add: floor_log2.simps [of n])
  next
    case False
    with 1(1) have "2 ^ floor_log2 (n div 2) \<le> n div 2 \<and> n div 2 < 2 * 2 ^ floor_log2 (n div 2)"
      by simp
    with False show ?thesis by (simp add: floor_log2.simps [of n]) linarith
  qed
qed

definition log2_demo :: "u32 \<Rightarrow> int" where
  "log2_demo n = int (floor_log2 (unat n))"

lemma log2_demo_ok: "ilog2_ok log2_demo"
  unfolding ilog2_ok_def log2_demo_def
  by (auto simp: unat_gt_0 floor_log2_bounds)



section \<open>Properties\<close>

text \<open>
  the divider that results from a wanted quotient \<open>n\<close> is the largest power of two that does not
  exceed \<open>n\<close>, capped at 64, the largest the register can express.
\<close>

theorem clkdiv_divider_is_largest_power:
  assumes "ilog2_ok ilog2" and "n \<noteq> 0" and "d = unat (div_factor_to_div (div_to_div_factor ilog2 n))"
  shows "d \<le> unat n \<and> (unat n < 2 * d \<or> d = 64) \<and> (\<exists>k\<le>6. d = 2 ^ k)"
proof -
  obtain k where k: "2 ^ k \<le> unat n" "unat n < 2 * 2 ^ k" "d = 2 ^ min k 6"
    using clkdiv_divider [OF assms(1,2)] assms(3) by metis
  have "(2 :: nat) ^ min k 6 \<le> 2 ^ k" by (rule power_increasing) auto
  with k show ?thesis by (cases "k \<le> 6") (auto simp: min_def intro!: exI [of _ "min k 6"])
qed

theorem clkdiv_divider_is_largest_power_witness:
  "unat (div_factor_to_div (div_to_div_factor log2_demo 5)) \<le> 5"
  using clkdiv_divider_is_largest_power [OF log2_demo_ok _ refl, of 5] by simp





text \<open>
  for a rate close to the top of the 32-bit range (the clock framework asks for its maximum to
  learn the highest rate) the sum in \<^verbatim>\<open>DIV_ROUND_UP\<close> wraps and the quotient is 0, so
  \<^verbatim>\<open>round_rate\<close> takes \<^verbatim>\<open>ilog2(0)\<close>, which is undefined.
\<close>

theorem clkdiv_round_rate_wraps:
  assumes "2 ^ 32 < unat parent + unat rate" and "parent < rate"
  shows "clk_spmi_pmic_div_round_rate ilog2 rate parent =
     Some (parent div div_factor_to_div (div_to_div_factor ilog2 0))"
proof -
  have lt: "unat parent < unat rate" using assms(2) by (simp add: word_less_nat_alt)
  have "unat (parent + rate) = (unat parent + unat rate) mod 2 ^ 32"
    by (simp add: unat_word_ariths)
  also have "\<dots> = unat parent + unat rate - 2 ^ 32"
    using assms(1) u32_less [of parent] u32_less [of rate] by (simp add: le_mod_geq)
  finally have "unat (parent + rate) = unat parent + unat rate - 2 ^ 32" .
  moreover have "unat (parent + rate - 1) = unat (parent + rate) - 1"
    using calculation assms(1) by (intro unat_minus_one) (auto simp: unat_eq_0 [symmetric])
  ultimately have "unat (parent + rate - 1) < unat rate"
    using assms(1) lt u32_less [of parent] by simp
  then have "(parent + rate - 1) div rate = 0"
    by (simp add: word_unat_eq_iff unat_div)
  moreover have "rate \<noteq> 0" using lt by auto
  ultimately show ?thesis by (simp add: clk_spmi_pmic_div_round_rate_def)
qed

theorem clkdiv_round_rate_wraps_witness:
  "clk_spmi_pmic_div_round_rate log2_demo 0xFFFFFFFF 19200000 =
     Some (19200000 div div_factor_to_div (div_to_div_factor log2_demo 0))"
  by (rule clkdiv_round_rate_wraps) simp_all

end
