(* ===== verification/Wcd_Clsh.thy ===== *)
theory Wcd_Clsh
  imports Prelude
begin

text \<open>
  \<^verbatim>\<open>drivers/audio/wcd9320/wcd-clsh.c\<close>: the class H power supply of the codec's headphone and earpiece
  amplifiers (buck converter, charge pump and negative charge pump), switched by a small state
  machine. \<open>clsh_ctrl\<close> is \<^verbatim>\<open>struct wcd_clsh_ctrl\<close>; a \<open>clev\<close> is a masked register update or a settle delay.
  \<open>regs_after\<close> replays the updates on a register file, so that the lemmas can speak of
  the hardware's bits. The two user counts (class H block, charge pump) share one contract, the
  locale \<open>user_count\<close>, which both implement.
\<close>

section \<open>Registers\<close>

definition WCD9320_REG :: "u16 \<Rightarrow> u16 \<Rightarrow> u16" where
  "WCD9320_REG pg r = (push_bit 8 pg OR r) OR 0x800"

abbreviation BUCK_CTRL_CCL_4 :: u16 where "BUCK_CTRL_CCL_4 \<equiv> WCD9320_REG 0x01 0x08C"
abbreviation BUCK_CTRL_CCL_1 :: u16 where "BUCK_CTRL_CCL_1 \<equiv> WCD9320_REG 0x01 0x089"
abbreviation BUCK_CTRL_CCL_3 :: u16 where "BUCK_CTRL_CCL_3 \<equiv> WCD9320_REG 0x01 0x08B"
abbreviation CDC_CLSH_BUCK_NCP_VARS :: u16 where "CDC_CLSH_BUCK_NCP_VARS \<equiv> WCD9320_REG 0x03 0x023"
abbreviation CDC_CLSH_B2_CTL :: u16 where "CDC_CLSH_B2_CTL \<equiv> WCD9320_REG 0x03 0x021"
abbreviation CDC_CLSH_B3_CTL :: u16 where "CDC_CLSH_B3_CTL \<equiv> WCD9320_REG 0x03 0x022"
abbreviation CDC_CLSH_B1_CTL :: u16 where "CDC_CLSH_B1_CTL \<equiv> WCD9320_REG 0x03 0x020"
abbreviation CDC_CLSH_V_PA_HD_EAR :: u16 where "CDC_CLSH_V_PA_HD_EAR \<equiv> WCD9320_REG 0x03 0x02E"
abbreviation CDC_CLSH_V_PA_MIN_EAR :: u16 where "CDC_CLSH_V_PA_MIN_EAR \<equiv> WCD9320_REG 0x03 0x030"
abbreviation CDC_CLSH_IDLE_EAR_THSD :: u16 where "CDC_CLSH_IDLE_EAR_THSD \<equiv> WCD9320_REG 0x03 0x025"
abbreviation CDC_CLSH_FCLKONLY_EAR_THSD :: u16 where "CDC_CLSH_FCLKONLY_EAR_THSD \<equiv> WCD9320_REG 0x03 0x027"
abbreviation CDC_CLSH_I_PA_FACT_EAR_L :: u16 where "CDC_CLSH_I_PA_FACT_EAR_L \<equiv> WCD9320_REG 0x03 0x02C"
abbreviation CDC_CLSH_I_PA_FACT_EAR_U :: u16 where "CDC_CLSH_I_PA_FACT_EAR_U \<equiv> WCD9320_REG 0x03 0x02D"
abbreviation CDC_CLSH_K_ADDR :: u16 where "CDC_CLSH_K_ADDR \<equiv> WCD9320_REG 0x03 0x028"
abbreviation CDC_CLSH_K_DATA :: u16 where "CDC_CLSH_K_DATA \<equiv> WCD9320_REG 0x03 0x029"
abbreviation CDC_CLSH_V_PA_HD_HPH :: u16 where "CDC_CLSH_V_PA_HD_HPH \<equiv> WCD9320_REG 0x03 0x02F"
abbreviation CDC_CLSH_V_PA_MIN_HPH :: u16 where "CDC_CLSH_V_PA_MIN_HPH \<equiv> WCD9320_REG 0x03 0x031"
abbreviation CDC_CLSH_IDLE_HPH_THSD :: u16 where "CDC_CLSH_IDLE_HPH_THSD \<equiv> WCD9320_REG 0x03 0x024"
abbreviation CDC_CLSH_FCLKONLY_HPH_THSD :: u16 where "CDC_CLSH_FCLKONLY_HPH_THSD \<equiv> WCD9320_REG 0x03 0x026"
abbreviation CDC_CLSH_I_PA_FACT_HPH_L :: u16 where "CDC_CLSH_I_PA_FACT_HPH_L \<equiv> WCD9320_REG 0x03 0x02A"
abbreviation CDC_CLSH_I_PA_FACT_HPH_U :: u16 where "CDC_CLSH_I_PA_FACT_HPH_U \<equiv> WCD9320_REG 0x03 0x02B"
abbreviation CDC_CLK_OTHR_CTL :: u16 where "CDC_CLK_OTHR_CTL \<equiv> WCD9320_REG 0x03 0x00C"
abbreviation BUCK_MODE_1 :: u16 where "BUCK_MODE_1 \<equiv> WCD9320_REG 0x01 0x081"
abbreviation BUCK_MODE_3 :: u16 where "BUCK_MODE_3 \<equiv> WCD9320_REG 0x01 0x083"
abbreviation BUCK_MODE_4 :: u16 where "BUCK_MODE_4 \<equiv> WCD9320_REG 0x01 0x084"
abbreviation BUCK_MODE_5 :: u16 where "BUCK_MODE_5 \<equiv> WCD9320_REG 0x01 0x085"
abbreviation NCP_STATIC :: u16 where "NCP_STATIC \<equiv> WCD9320_REG 0x01 0x094"
abbreviation NCP_EN :: u16 where "NCP_EN \<equiv> WCD9320_REG 0x01 0x092"

section \<open>State\<close>

record clsh_ctrl =
  cl_state :: int
  clsh_users :: int
  cp_users :: int

datatype clev = Cl_update u16 u8 u8 | Cl_usleep nat

type_synonym clsh_io = "(clev, clsh_ctrl) io"
type_synonym 'a clsh = "(clsh_io, 'a) state"

definition update_bits :: "u16 \<times> u8 \<times> u8 \<Rightarrow> unit clsh" where
  "update_bits rmv = emit (case rmv of (r, m, v) \<Rightarrow> Cl_update r m v)"

section \<open>Register sequences\<close>

definition clsh_reg_set :: "(u16 \<times> u8 \<times> u8) list" where
  "clsh_reg_set =
    [(BUCK_CTRL_CCL_4, 0x0B, 0x00),
     (BUCK_CTRL_CCL_1, 0xF0, 0x50),
     (BUCK_CTRL_CCL_3, 0x03, 0x00),
     (BUCK_CTRL_CCL_3, 0x0B, 0x00),
     (CDC_CLSH_BUCK_NCP_VARS, 0x03, 0x00),
     (CDC_CLSH_BUCK_NCP_VARS, 0x0C, 0x04),
     (CDC_CLSH_BUCK_NCP_VARS, 0x10, 0x00),
     (CDC_CLSH_B2_CTL, 0x03, 0x01),
     (CDC_CLSH_B2_CTL, 0x0C, 0x04),
     (CDC_CLSH_B2_CTL, 0xF0, 0x30),
     (CDC_CLSH_B3_CTL, 0xF0, 0x30),
     (CDC_CLSH_B3_CTL, 0x0F, 0x0B),
     (CDC_CLSH_B1_CTL, 0x20, 0x20),
     (CDC_CLSH_B1_CTL, 0x02, 0x02)]"

definition clsh_reg_ear :: "(u16 \<times> u8 \<times> u8) list" where
  "clsh_reg_ear =
    [(CDC_CLSH_B1_CTL, 0x80, 0x00),
     (CDC_CLSH_V_PA_HD_EAR, 0x3F, 0x0D),
     (CDC_CLSH_V_PA_MIN_EAR, 0x3F, 0x3A),
     (CDC_CLSH_IDLE_EAR_THSD, 0x3F, 0x26),
     (CDC_CLSH_FCLKONLY_EAR_THSD, 0x3F, 0x2C),
     (CDC_CLSH_I_PA_FACT_EAR_L, 0xFF, 0xA9),
     (CDC_CLSH_I_PA_FACT_EAR_U, 0xFF, 0x07),
     (CDC_CLSH_K_ADDR, 0x80, 0x00),
     (CDC_CLSH_K_ADDR, 0x0F, 0x08),
     (CDC_CLSH_K_DATA, 0xFF, 0x1B),
     (CDC_CLSH_K_DATA, 0xFF, 0x00),
     (CDC_CLSH_K_DATA, 0xFF, 0x2D),
     (CDC_CLSH_K_DATA, 0xFF, 0x00),
     (CDC_CLSH_K_DATA, 0xFF, 0x36),
     (CDC_CLSH_K_DATA, 0xFF, 0x00),
     (CDC_CLSH_K_DATA, 0xFF, 0x37),
     (CDC_CLSH_K_DATA, 0xFF, 0x00)]"

definition clsh_reg_hph :: "(u16 \<times> u8 \<times> u8) list" where
  "clsh_reg_hph =
    [(CDC_CLSH_B1_CTL, 0x40, 0x00),
     (CDC_CLSH_V_PA_HD_HPH, 0x3F, 0x0D),
     (CDC_CLSH_V_PA_MIN_HPH, 0x3F, 0x1D),
     (CDC_CLSH_IDLE_HPH_THSD, 0x3F, 0x13),
     (CDC_CLSH_FCLKONLY_HPH_THSD, 0x1F, 0x19),
     (CDC_CLSH_I_PA_FACT_HPH_L, 0xFF, 0x97),
     (CDC_CLSH_I_PA_FACT_HPH_U, 0xFF, 0x05),
     (CDC_CLSH_K_ADDR, 0x80, 0x00),
     (CDC_CLSH_K_ADDR, 0x0F, 0x00),
     (CDC_CLSH_K_DATA, 0xFF, 0xAE),
     (CDC_CLSH_K_DATA, 0xFF, 0x01),
     (CDC_CLSH_K_DATA, 0xFF, 0x1C),
     (CDC_CLSH_K_DATA, 0xFF, 0x00),
     (CDC_CLSH_K_DATA, 0xFF, 0x24),
     (CDC_CLSH_K_DATA, 0xFF, 0x00),
     (CDC_CLSH_K_DATA, 0xFF, 0x25),
     (CDC_CLSH_K_DATA, 0xFF, 0x00)]"

definition wcd_clsh_common_init :: "bool \<Rightarrow> unit clsh" where
  "wcd_clsh_common_init hph = do {
     iterM update_bits clsh_reg_set;
     if hph then iterM update_bits clsh_reg_hph else iterM update_bits clsh_reg_ear
   }"

text \<open>
  \<^verbatim>\<open>(enable && ++users == 1) || (!enable && --users == 0)\<close>, and a count below 0 is put back to 0.
\<close>

definition wcd_enable_clsh_block :: "bool \<Rightarrow> unit clsh" where
  "wcd_enable_clsh_block enable = do {
     modify (clsh_users_update (\<lambda>n. if enable then n + 1 else n - 1));
     n \<leftarrow> gets clsh_users;
     whenM (if enable then n = 1 else n = 0)
       (update_bits (CDC_CLSH_B1_CTL, 0x01, if enable then 1 else 0));
     whenM (n < 0) (modify (clsh_users_update (\<lambda>_. 0)))
   }"

definition wcd_enable_chargepump :: "bool \<Rightarrow> unit clsh" where
  "wcd_enable_chargepump enable = do {
     modify (cp_users_update (\<lambda>n. if enable then n + 1 else n - 1));
     n \<leftarrow> gets cp_users;
     whenM (if enable then n = 1 else n = 0)
       (update_bits (CDC_CLK_OTHR_CTL, 0x01, if enable then 1 else 0));
     whenM (n < 0) (modify (cp_users_update (\<lambda>_. 0)))
   }"

definition buck_reg_set :: "(u16 \<times> u8 \<times> u8) list" where
  "buck_reg_set =
    [(BUCK_MODE_5, 0x02, 0x03),
     (BUCK_MODE_4, 0xFF, 0xFF),
     (BUCK_MODE_1, 0x04, 0x04),
     (BUCK_MODE_1, 0x08, 0x00),
     (BUCK_MODE_3, 0x04, 0x00),
     (BUCK_MODE_3, 0x08, 0x00),
     (BUCK_MODE_1, 0x80, 0x80)]"

definition wcd_enable_buck_mode :: "unit clsh" where
  "wcd_enable_buck_mode = do {
     iterM update_bits buck_reg_set;
     emit (Cl_usleep 50)
   }"

definition ncp_reg_set :: "(u16 \<times> u8 \<times> u8) list" where
  "ncp_reg_set =
    [(NCP_STATIC, 0x20, 0x20),
     (NCP_EN, 0x01, 0x01)]"

definition wcd_set_fclk_enable_ncp :: "unit clsh" where
  "wcd_set_fclk_enable_ncp = do {
     update_bits (NCP_STATIC, 0x10, 0x00);
     update_bits (NCP_STATIC, 0x0F, 0x08);
     iterM update_bits ncp_reg_set;
     emit (Cl_usleep 50)
   }"

section \<open>The state machine\<close>

abbreviation (input) WCD_CLSH_STATE_IDLE :: int where "WCD_CLSH_STATE_IDLE \<equiv> 0"
abbreviation (input) WCD_CLSH_STATE_EAR :: int where "WCD_CLSH_STATE_EAR \<equiv> 1"
abbreviation (input) WCD_CLSH_STATE_HPHL :: int where "WCD_CLSH_STATE_HPHL \<equiv> 2"
abbreviation (input) WCD_CLSH_STATE_HPHR :: int where "WCD_CLSH_STATE_HPHR \<equiv> 4"
abbreviation (input) WCD_CLSH_STATE_LO :: int where "WCD_CLSH_STATE_LO \<equiv> 8"

datatype clsh_event = WCD_CLSH_EVENT_PRE_DAC | WCD_CLSH_EVENT_POST_PA

definition wcd_clsh_state_lo :: "bool \<Rightarrow> unit clsh" where
  "wcd_clsh_state_lo is_enable = ret ()"

definition wcd_clsh_state_hph_r :: "bool \<Rightarrow> unit clsh" where
  "wcd_clsh_state_hph_r is_enable =
     (if is_enable then do {
        wcd_clsh_common_init True;
        wcd_enable_clsh_block True;
        wcd_enable_chargepump True;
        update_bits (CDC_CLSH_B1_CTL, 0x04, 0x04);
        wcd_enable_buck_mode;
        wcd_set_fclk_enable_ncp
      } else update_bits (CDC_CLSH_B1_CTL, 0x04, 0x00))"

definition wcd_clsh_state_hph_l :: "bool \<Rightarrow> unit clsh" where
  "wcd_clsh_state_hph_l is_enable =
     (if is_enable then do {
        wcd_clsh_common_init True;
        wcd_enable_clsh_block True;
        wcd_enable_chargepump True;
        update_bits (CDC_CLSH_B1_CTL, 0x08, 0x08);
        wcd_enable_buck_mode;
        wcd_set_fclk_enable_ncp
      } else update_bits (CDC_CLSH_B1_CTL, 0x08, 0x00))"

definition wcd_clsh_state_ear :: "bool \<Rightarrow> unit clsh" where
  "wcd_clsh_state_ear is_enable = ret ()"

definition wcd_clsh_ctrl_set_state_raw :: "int \<Rightarrow> bool \<Rightarrow> unit clsh" where
  "wcd_clsh_ctrl_set_state_raw req_state is_enable =
     (if req_state = WCD_CLSH_STATE_EAR then wcd_clsh_state_ear is_enable
      else if req_state = WCD_CLSH_STATE_HPHL then wcd_clsh_state_hph_l is_enable
      else if req_state = WCD_CLSH_STATE_HPHR then wcd_clsh_state_hph_r is_enable
      else if req_state = WCD_CLSH_STATE_LO then wcd_clsh_state_lo is_enable
      else ret ())"

definition wcd_clsh_is_state_valid :: "int \<Rightarrow> bool" where
  "wcd_clsh_is_state_valid state \<longleftrightarrow>
     state \<in> {WCD_CLSH_STATE_IDLE, WCD_CLSH_STATE_EAR, WCD_CLSH_STATE_HPHL, WCD_CLSH_STATE_HPHR,
              WCD_CLSH_STATE_LO}"

definition wcd_clsh_ctrl_set_state :: "clsh_event \<Rightarrow> int \<Rightarrow> int clsh" where
  "wcd_clsh_ctrl_set_state clsh_event nstate = do {
     cur \<leftarrow> gets cl_state;
     if nstate = cur then ret 0
     else if \<not> wcd_clsh_is_state_valid nstate then ret (- EINVAL)
     else do {
       (case clsh_event of
          WCD_CLSH_EVENT_PRE_DAC \<Rightarrow> wcd_clsh_ctrl_set_state_raw nstate True
        | WCD_CLSH_EVENT_POST_PA \<Rightarrow> wcd_clsh_ctrl_set_state_raw nstate False);
       modify (cl_state_update (\<lambda>_. nstate));
       ret 0
     }
   }"

definition wcd_clsh_ctrl_get_state :: "int clsh" where
  "wcd_clsh_ctrl_get_state = gets cl_state"

text \<open>\<^verbatim>\<open>wcd_clsh_ctrl_alloc\<close>: a zeroed structure in the idle state, or \<^verbatim>\<open>-ENOMEM\<close>.\<close>

definition wcd_clsh_ctrl_alloc :: "bool \<Rightarrow> int + clsh_ctrl" where
  "wcd_clsh_ctrl_alloc kzalloc_ok =
     (if \<not> kzalloc_ok then Inl (- ENOMEM)
      else Inr \<lparr>cl_state = WCD_CLSH_STATE_IDLE, clsh_users = 0, cp_users = 0\<rparr>)"


section \<open>A reference counted switch\<close>

text \<open>
  The contract of a user count that drives a switch: while \<open>good\<close> holds the switch is on exactly when
  there are users; taking adds a user, releasing removes one if there is one.
\<close>

fun count_after :: "int \<Rightarrow> bool list \<Rightarrow> int" where
  "count_after n [] = n"
| "count_after n (b # bs) = count_after (if b then n + 1 else max 0 (n - 1)) bs"

locale user_count =
  fixes good :: "'s \<Rightarrow> bool" and users :: "'s \<Rightarrow> int" and on :: "'s \<Rightarrow> bool"
    and switch :: "bool \<Rightarrow> 's \<Rightarrow> 's"
  assumes good_switch: "good s \<Longrightarrow> good (switch b s)"
    and users_take: "good s \<Longrightarrow> users (switch True s) = users s + 1"
    and users_release: "good s \<Longrightarrow> users (switch False s) = max 0 (users s - 1)"
    and on_users: "good s \<Longrightarrow> on s \<longleftrightarrow> 0 < users s"
begin

lemma good_run: "good s \<Longrightarrow> good (fold switch bs s)"
  by (induction bs arbitrary: s) (auto intro: good_switch)

lemma users_run: "good s \<Longrightarrow> users (fold switch bs s) = count_after (users s) bs"
proof (induction bs arbitrary: s)
  case Nil
  then show ?case by simp
next
  case (Cons b bs)
  then show ?case by (cases b) (simp_all add: good_switch users_take users_release)
qed

lemma on_run: "good s \<Longrightarrow> on (fold switch bs s) \<longleftrightarrow> 0 < count_after (users s) bs"
  by (simp add: on_users good_run users_run)

end

section \<open>The register file\<close>

fun regs_step :: "(u16 \<Rightarrow> u8) \<Rightarrow> clev \<Rightarrow> (u16 \<Rightarrow> u8)" where
  "regs_step rs (Cl_update r m v) = rs(r := masked m v (rs r))"
| "regs_step rs (Cl_usleep us) = rs"

definition regs_after :: "(u16 \<Rightarrow> u8) \<Rightarrow> clev list \<Rightarrow> (u16 \<Rightarrow> u8)" where
  "regs_after r0 es = foldl regs_step r0 es"

text \<open>The value the last write to bit \<open>n\<close> of register \<open>r\<close> left there, if the accesses write it at all.\<close>

fun last_write :: "u16 \<Rightarrow> nat \<Rightarrow> clev list \<Rightarrow> bool option" where
  "last_write r n [] = None"
| "last_write r n (Cl_update r' m v # es) =
     (case last_write r n es of Some b \<Rightarrow> Some b
      | None \<Rightarrow> if r' = r \<and> bit m n then Some (bit v n) else None)"
| "last_write r n (Cl_usleep us # es) = last_write r n es"

lemma regs_after_simps [simp]:
  "regs_after r0 [] = r0"
  "regs_after r0 (e # es) = regs_after (regs_step r0 e) es"
  "regs_after r0 (es @ fs) = regs_after (regs_after r0 es) fs"
  by (simp_all add: regs_after_def)

lemma last_write_append:
  "last_write r n (es @ fs) = (case last_write r n fs of Some b \<Rightarrow> Some b | None \<Rightarrow> last_write r n es)"
  by (induction r n es rule: last_write.induct) (auto split: option.splits)

lemma bit_regs_after:
  "bit (regs_after r0 es r) n = (case last_write r n es of Some b \<Rightarrow> b | None \<Rightarrow> bit (r0 r) n)"
proof (induction r n es arbitrary: r0 rule: last_write.induct)
  case (2 r n r' m v es)
  then show ?case by (auto simp: masked_bit split: option.splits)
qed auto

abbreviation cl_event :: "u16 \<times> u8 \<times> u8 \<Rightarrow> clev" where
  "cl_event \<equiv> \<lambda>(r, m, v). Cl_update r m v"

lemma wp_update_bits [wp_simps]:
  "wp (update_bits x) Q s = Q () (s\<lparr>io_trace := io_trace s @ [cl_event x]\<rparr>)"
  by (simp add: update_bits_def wp_simps)

lemma wp_iterM_update_bits [wp_simps]:
  "wp (iterM update_bits xs) Q s = Q () (s\<lparr>io_trace := io_trace s @ map cl_event xs\<rparr>)"
  unfolding update_bits_def by (rule wp_iterM_emit)

section \<open>The two switches implement the contract\<close>

definition block_on :: "(u16 \<Rightarrow> u8) \<Rightarrow> clsh_io \<Rightarrow> bool" where
  "block_on r0 s \<longleftrightarrow> bit (regs_after r0 (io_trace s) CDC_CLSH_B1_CTL) 0"

definition pump_on :: "(u16 \<Rightarrow> u8) \<Rightarrow> clsh_io \<Rightarrow> bool" where
  "pump_on r0 s \<longleftrightarrow> bit (regs_after r0 (io_trace s) CDC_CLK_OTHR_CTL) 0"

definition block_good :: "(u16 \<Rightarrow> u8) \<Rightarrow> clsh_io \<Rightarrow> bool" where
  "block_good r0 s \<longleftrightarrow> 0 \<le> clsh_users (io_dev s) \<and> (block_on r0 s \<longleftrightarrow> 0 < clsh_users (io_dev s))"

definition pump_good :: "(u16 \<Rightarrow> u8) \<Rightarrow> clsh_io \<Rightarrow> bool" where
  "pump_good r0 s \<longleftrightarrow> 0 \<le> cp_users (io_dev s) \<and> (pump_on r0 s \<longleftrightarrow> 0 < cp_users (io_dev s))"

lemmas clsh_good_defs = block_good_def pump_good_def block_on_def pump_on_def

interpretation clsh_block: user_count "block_good r0" "\<lambda>s. clsh_users (io_dev s)" "block_on r0"
    "\<lambda>b s. snd (run_state (wcd_enable_clsh_block b) s)" for r0
  by unfold_locales
    (auto simp: clsh_good_defs wcd_enable_clsh_block_def update_bits_def whenM_def masked_bit)

interpretation charge_pump: user_count "pump_good r0" "\<lambda>s. cp_users (io_dev s)" "pump_on r0"
    "\<lambda>b s. snd (run_state (wcd_enable_chargepump b) s)" for r0
  by unfold_locales
    (auto simp: clsh_good_defs wcd_enable_chargepump_def update_bits_def whenM_def masked_bit)


section \<open>Effect of the sequences on the switches\<close>

lemma clsh_regs_distinct [simp]:
  "CDC_CLSH_B1_CTL \<noteq> CDC_CLK_OTHR_CTL" "CDC_CLK_OTHR_CTL \<noteq> CDC_CLSH_B1_CTL"
  "NCP_STATIC \<noteq> CDC_CLSH_B1_CTL" "NCP_STATIC \<noteq> CDC_CLK_OTHR_CTL"
  by (simp_all add: WCD9320_REG_def)

lemma last_write_tables [simp]:
  "last_write CDC_CLSH_B1_CTL 0 (map cl_event clsh_reg_set) = None"
  "last_write CDC_CLSH_B1_CTL 0 (map cl_event clsh_reg_hph) = None"
  "last_write CDC_CLSH_B1_CTL 0 (map cl_event buck_reg_set) = None"
  "last_write CDC_CLSH_B1_CTL 0 (map cl_event ncp_reg_set) = None"
  "last_write CDC_CLK_OTHR_CTL 0 (map cl_event clsh_reg_set) = None"
  "last_write CDC_CLK_OTHR_CTL 0 (map cl_event clsh_reg_hph) = None"
  "last_write CDC_CLK_OTHR_CTL 0 (map cl_event buck_reg_set) = None"
  "last_write CDC_CLK_OTHR_CTL 0 (map cl_event ncp_reg_set) = None"
  by (simp_all add: clsh_reg_set_def clsh_reg_hph_def buck_reg_set_def ncp_reg_set_def
      WCD9320_REG_def)


text \<open>
  The accesses of a power up, in order: common registers, class H block and charge pump if this is their
  first user, the channel's enable bit, the buck converter, the negative charge pump.
\<close>

definition power_up_events :: "clsh_ctrl \<Rightarrow> u8 \<Rightarrow> clev list" where
  "power_up_events c channel =
     map cl_event clsh_reg_set @ map cl_event clsh_reg_hph @
     (if clsh_users c + 1 = 1 then [Cl_update CDC_CLSH_B1_CTL 0x01 1] else []) @
     (if cp_users c + 1 = 1 then [Cl_update CDC_CLK_OTHR_CTL 0x01 1] else []) @
     [Cl_update CDC_CLSH_B1_CTL channel channel] @ map cl_event buck_reg_set @ [Cl_usleep 50] @
     [Cl_update NCP_STATIC 0x10 0x00, Cl_update NCP_STATIC 0x0F 0x08] @ map cl_event ncp_reg_set @
     [Cl_usleep 50]"

definition power_up_ctrl :: "clsh_ctrl \<Rightarrow> clsh_ctrl" where
  "power_up_ctrl c = c\<lparr>clsh_users := max 0 (clsh_users c + 1), cp_users := max 0 (cp_users c + 1)\<rparr>"

lemma wp_hph_l [wp_simps]:
  "wp (wcd_clsh_state_hph_l b) Q s =
     (if b then Q () (s\<lparr>io_trace := io_trace s @ power_up_events (io_dev s) 0x08,
                        io_dev := power_up_ctrl (io_dev s)\<rparr>)
      else Q () (s\<lparr>io_trace := io_trace s @ [Cl_update CDC_CLSH_B1_CTL 0x08 0x00]\<rparr>))"
  by (cases s; cases "io_dev s") (auto simp: wcd_clsh_state_hph_l_def wcd_clsh_common_init_def
      wcd_enable_clsh_block_def wcd_enable_chargepump_def wcd_enable_buck_mode_def
      wcd_set_fclk_enable_ncp_def power_up_events_def power_up_ctrl_def wp_simps)

lemma wp_hph_r [wp_simps]:
  "wp (wcd_clsh_state_hph_r b) Q s =
     (if b then Q () (s\<lparr>io_trace := io_trace s @ power_up_events (io_dev s) 0x04,
                        io_dev := power_up_ctrl (io_dev s)\<rparr>)
      else Q () (s\<lparr>io_trace := io_trace s @ [Cl_update CDC_CLSH_B1_CTL 0x04 0x00]\<rparr>))"
  by (cases s; cases "io_dev s") (auto simp: wcd_clsh_state_hph_r_def wcd_clsh_common_init_def
      wcd_enable_clsh_block_def wcd_enable_chargepump_def wcd_enable_buck_mode_def
      wcd_set_fclk_enable_ncp_def power_up_events_def power_up_ctrl_def wp_simps)

lemma power_up_bit0:
  assumes "channel = 0x04 \<or> channel = 0x08"
  shows "bit (regs_after r (power_up_events c channel) CDC_CLSH_B1_CTL) 0 \<longleftrightarrow>
      clsh_users c + 1 = 1 \<or> bit (r CDC_CLSH_B1_CTL) 0"
    and "bit (regs_after r (power_up_events c channel) CDC_CLK_OTHR_CTL) 0 \<longleftrightarrow>
      cp_users c + 1 = 1 \<or> bit (r CDC_CLK_OTHR_CTL) 0"
  using assms
  by (auto simp: power_up_events_def bit_regs_after last_write_append
      simp del: regs_after_simps split: if_splits)

text \<open>No request, valid or not, breaks the two counts or lowers them.\<close>

lemma wp_set_state_switches:
  assumes "block_good r0 s" "pump_good r0 s"
  shows "wp (wcd_clsh_ctrl_set_state ev n)
     (\<lambda>_ s'. block_good r0 s' \<and> pump_good r0 s' \<and>
        clsh_users (io_dev s) \<le> clsh_users (io_dev s') \<and>
        cp_users (io_dev s) \<le> cp_users (io_dev s')) s"
  using assms
  by (auto simp: wcd_clsh_ctrl_set_state_def wcd_clsh_ctrl_set_state_raw_def wp_simps
      wcd_clsh_state_ear_def wcd_clsh_state_lo_def clsh_good_defs power_up_bit0 power_up_ctrl_def
      masked_bit split: clsh_event.split)

text \<open>A sequence of requests, and the state right after \<open>wcd_clsh_ctrl_alloc\<close>.\<close>

definition clsh_requests :: "(clsh_event \<times> int) list \<Rightarrow> clsh_io \<Rightarrow> clsh_io" where
  "clsh_requests rs s = fold (\<lambda>(ev, n) s. snd (run_state (wcd_clsh_ctrl_set_state ev n) s)) rs s"

definition clsh_fresh :: "clsh_io" where
  "clsh_fresh = \<lparr>io_trace = [], io_dev = projr (wcd_clsh_ctrl_alloc True)\<rparr>"

lemma clsh_requests_append: "clsh_requests (rs @ qs) s = clsh_requests qs (clsh_requests rs s)"
  by (simp add: clsh_requests_def)

lemma clsh_requests_good:
  assumes "block_good r0 s" "pump_good r0 s"
  shows "block_good r0 (clsh_requests rs s) \<and> pump_good r0 (clsh_requests rs s) \<and>
    clsh_users (io_dev s) \<le> clsh_users (io_dev (clsh_requests rs s)) \<and>
    cp_users (io_dev s) \<le> cp_users (io_dev (clsh_requests rs s))"
  using assms
proof (induction rs arbitrary: s)
  case Nil
  then show ?case by (simp add: clsh_requests_def)
next
  case (Cons q rs)
  obtain ev n where q: "q = (ev, n)" by (cases q)
  define s1 where "s1 = snd (run_state (wcd_clsh_ctrl_set_state ev n) s)"
  have one: "block_good r0 s1 \<and> pump_good r0 s1 \<and>
      clsh_users (io_dev s) \<le> clsh_users (io_dev s1) \<and> cp_users (io_dev s) \<le> cp_users (io_dev s1)"
    using wp_set_state_switches [OF Cons.prems, of ev n]
    by (simp add: wp_def s1_def split: prod.splits)
  have "clsh_requests (q # rs) s = clsh_requests rs s1"
    by (simp add: clsh_requests_def q s1_def)
  then show ?case using one Cons.IH [of s1] by force
qed

lemma clsh_fresh_good:
  assumes "\<not> bit (r0 CDC_CLSH_B1_CTL) 0" "\<not> bit (r0 CDC_CLK_OTHR_CTL) 0"
  shows "block_good r0 clsh_fresh \<and> pump_good r0 clsh_fresh"
  using assms by (simp add: clsh_fresh_def wcd_clsh_ctrl_alloc_def clsh_good_defs)

section \<open>Properties\<close>





text \<open>
  The state machine only ever powers up. Over any sequence of requests to a freshly allocated
  controller with both switches off, the class H block and the charge pump are on exactly when
  their user counts are positive, and once one is on no later request, of either event and for any
  state, valid or not, switches it off.
\<close>

theorem clsh_never_powers_down:
  assumes "\<not> bit (r0 CDC_CLSH_B1_CTL) 0" "\<not> bit (r0 CDC_CLK_OTHR_CTL) 0"
  shows "(block_on r0 (clsh_requests rs clsh_fresh) \<longleftrightarrow>
        0 < clsh_users (io_dev (clsh_requests rs clsh_fresh))) \<and>
     (pump_on r0 (clsh_requests rs clsh_fresh) \<longleftrightarrow>
        0 < cp_users (io_dev (clsh_requests rs clsh_fresh))) \<and>
     (block_on r0 (clsh_requests rs clsh_fresh) \<longrightarrow>
        block_on r0 (clsh_requests (rs @ later) clsh_fresh)) \<and>
     (pump_on r0 (clsh_requests rs clsh_fresh) \<longrightarrow>
        pump_on r0 (clsh_requests (rs @ later) clsh_fresh))"
proof -
  let ?s = "clsh_requests rs clsh_fresh"
  have good: "block_good r0 ?s" "pump_good r0 ?s"
    using clsh_requests_good [of r0 clsh_fresh rs] clsh_fresh_good [OF assms] by auto
  show ?thesis
    using good clsh_requests_good [OF good, of later]
    by (auto simp: clsh_requests_append block_good_def pump_good_def)
qed

theorem clsh_never_powers_down_witness:
  "pump_on (\<lambda>_. 0) (clsh_requests ([(WCD_CLSH_EVENT_PRE_DAC, WCD_CLSH_STATE_HPHL)] @
      [(WCD_CLSH_EVENT_POST_PA, WCD_CLSH_STATE_HPHR), (WCD_CLSH_EVENT_POST_PA, WCD_CLSH_STATE_IDLE)])
    clsh_fresh)"
proof -
  let ?on = "[(WCD_CLSH_EVENT_PRE_DAC, WCD_CLSH_STATE_HPHL)]"
  have "wp (wcd_clsh_ctrl_set_state WCD_CLSH_EVENT_PRE_DAC WCD_CLSH_STATE_HPHL)
      (\<lambda>_ s'. 0 < cp_users (io_dev s')) clsh_fresh"
    by (simp add: clsh_fresh_def wcd_clsh_ctrl_alloc_def wcd_clsh_ctrl_set_state_def
        wcd_clsh_ctrl_set_state_raw_def wp_simps wcd_clsh_is_state_valid_def power_up_ctrl_def)
  then have "0 < cp_users (io_dev (clsh_requests ?on clsh_fresh))"
    by (simp add: clsh_requests_def wp_def split: prod.splits)
  then show ?thesis
    using clsh_never_powers_down [of "\<lambda>_. 0" ?on
        "[(WCD_CLSH_EVENT_POST_PA, WCD_CLSH_STATE_HPHR), (WCD_CLSH_EVENT_POST_PA, WCD_CLSH_STATE_IDLE)]"]
    by simp
qed

text \<open>
  C24: The two reference counts are correct on their own: over any sequence of takes and releases of the
  class H block, starting with its switch agreeing with a count that is not negative, the
  register's enable bit is set exactly when the count (which never goes below 0) is positive; the
  same holds for the charge pump. What \<open>clsh_never_powers_down\<close> shows is that nothing releases them.
\<close>

theorem clsh_user_counts:
  assumes "block_good r0 s" "pump_good r0 s"
  shows "(block_on r0 (fold (\<lambda>b s. snd (run_state (wcd_enable_clsh_block b) s)) bs s) \<longleftrightarrow>
        0 < count_after (clsh_users (io_dev s)) bs) \<and>
     (pump_on r0 (fold (\<lambda>b s. snd (run_state (wcd_enable_chargepump b) s)) bs s) \<longleftrightarrow>
        0 < count_after (cp_users (io_dev s)) bs)"
  using clsh_block.on_run [OF assms(1)] charge_pump.on_run [OF assms(2)] by simp

theorem clsh_user_counts_witness:
  "\<not> block_on (\<lambda>_. 0) (fold (\<lambda>b s. snd (run_state (wcd_enable_clsh_block b) s))
      [False, True, True, False, False] clsh_fresh)"
  using clsh_user_counts [of "\<lambda>_. 0" clsh_fresh "[False, True, True, False, False]"] clsh_fresh_good
  by (simp add: clsh_fresh_def wcd_clsh_ctrl_alloc_def)

end
