(* ===== verification/Voice_Common.thy ===== *)
theory Voice_Common
  imports Prelude "HOL-Library.Multiset"
begin

text \<open>
  \<^verbatim>\<open>drivers/audio/q6voice/q6voice-common.c\<close>: the session layer under the three voice services of the
  DSP (MVM, CVP, CVS). A service (one per APR device) has a table of sessions, one slot per
  voice path; a session is a reference counted object on the heap that sends one command at a time
  and waits for the reply a callback delivers. The state \<open>voice\<close> holds the registry of services,
  the services themselves, the session heap and the voice paths of \<^verbatim>\<open>q6voice.c\<close>; a pointer to a
  session is its index in \<open>vo_heap\<close>, and an access through a pointer that is not (or no longer)
  allocated, or outside an array, raises \<open>vo_fault\<close>.

  The theory has the atomic steps of the code as pure functions (each is one critical
  section or one access), the operations composed from them, the reference counting
  invariant \<open>sess_inv\<close>, and a step relation \<open>vstep\<close> in which any number of callbacks run
  interleaved with the owners of the sessions.
\<close>

section \<open>Messages and state\<close>

text \<open>
  An APR packet as this code fills it in. A payload byte is \<open>None\<close> where the code leaves the stack
  variable uninitialised.
\<close>

record apr_pkt =
  ap_hdr_field :: u16
  ap_pkt_size :: u16
  ap_src_port :: u16
  ap_dest_port :: u16
  ap_token :: u32
  ap_opcode :: u32
  ap_payload :: "u8 option list"

record apr_resp_pkt =
  rp_opcode :: u32
  rp_src_port :: u16
  rp_dest_port :: u16
  rp_payload :: "u8 list"

definition le32 :: "u8 list \<Rightarrow> u32" where
  "le32 bs = ucast (bs ! 0) OR push_bit 8 (ucast (bs ! 1)) OR push_bit 16 (ucast (bs ! 2)) OR
     push_bit 24 (ucast (bs ! 3))"

abbreviation (input) Q6VOICE_SERVICE_MVM :: nat where "Q6VOICE_SERVICE_MVM \<equiv> 0"
abbreviation (input) Q6VOICE_SERVICE_CVP :: nat where "Q6VOICE_SERVICE_CVP \<equiv> 1"
abbreviation (input) Q6VOICE_SERVICE_CVS :: nat where "Q6VOICE_SERVICE_CVS \<equiv> 2"
abbreviation (input) Q6VOICE_SERVICE_COUNT :: nat where "Q6VOICE_SERVICE_COUNT \<equiv> 3"
abbreviation (input) Q6VOICE_PATH_COUNT :: nat where "Q6VOICE_PATH_COUNT \<equiv> 8"

record q6voice_session =
  qs_svc :: nat
  qs_refcount :: nat
  qs_port :: u16
  qs_handle :: u16
  qs_expected_opcode :: u32
  qs_result :: u32

record q6voice_service =
  sv_type :: nat
  sv_sessions :: "nat option list"

record q6voice_path_runtime =
  rt_sessions :: "nat option list"
  rt_started :: u32

record q6voice_path =
  pa_type :: nat
  pa_runtime :: "q6voice_path_runtime option"

record voice =
  vo_services :: "nat option list"
  vo_svcs :: "nat \<Rightarrow> q6voice_service option"
  vo_heap :: "nat \<Rightarrow> q6voice_session option"
  vo_next :: nat
  vo_paths :: "q6voice_path list"
  vo_fault :: bool

text \<open>
  Calls: an allocation, a packet handed to the APR bus, the wait for the reply, and the calls of
  the probe functions into the driver core.
\<close>

datatype vev = Vo_kzalloc | Vo_send nat apr_pkt | Vo_wait | Vo_populate nat | Vo_depopulate nat
  | Vo_add_action | Vo_register

type_synonym voice_io = "(vev, voice) io"
type_synonym 'a vm = "(voice_io, 'a) state"

text \<open>
  The surroundings: whether an allocation succeeds, what \<^verbatim>\<open>apr_send_pkt\<close> returns, which replies
  (with the device they come in on) arrive until the sender looks again, what the driver core
  answers, and the constants of the kernel's APR header this code uses.
\<close>

record venv =
  ve_alloc :: "vev list \<Rightarrow> vev \<Rightarrow> bool"
  ve_send :: "vev list \<Rightarrow> vev \<Rightarrow> int"
  ve_arrivals :: "vev list \<Rightarrow> vev \<Rightarrow> (nat \<times> apr_resp_pkt) list"
  ve_core :: "vev list \<Rightarrow> vev \<Rightarrow> int"
  ve_hdr_field :: u16
  ve_hdr_size :: u16
  ve_basic_rsp_result :: u32

section \<open>Atomic steps\<close>

definition raise_fault :: "voice \<Rightarrow> voice" where
  "raise_fault v = v\<lparr>vo_fault := True\<rparr>"

definition sess_modify :: "nat \<Rightarrow> (q6voice_session \<Rightarrow> q6voice_session) \<Rightarrow> voice \<Rightarrow> voice" where
  "sess_modify s f v =
     (case vo_heap v s of None \<Rightarrow> raise_fault v | Some x \<Rightarrow> v\<lparr>vo_heap := (vo_heap v)(s \<mapsto> f x)\<rparr>)"

definition svc_modify :: "nat \<Rightarrow> (q6voice_service \<Rightarrow> q6voice_service) \<Rightarrow> voice \<Rightarrow> voice" where
  "svc_modify a f v =
     (case vo_svcs v a of None \<Rightarrow> raise_fault v | Some x \<Rightarrow> v\<lparr>vo_svcs := (vo_svcs v)(a \<mapsto> f x)\<rparr>)"

definition no_session :: q6voice_session where
  "no_session = \<lparr>qs_svc = 0, qs_refcount = 0, qs_port = 0, qs_handle = 0, qs_expected_opcode = 0,
     qs_result = 0\<rparr>"

text \<open>Reading through a session pointer.\<close>

definition sess_read :: "nat \<Rightarrow> q6voice_session vm" where
  "sess_read s = do {
     x \<leftarrow> gets (\<lambda>v. vo_heap v s);
     case x of Some y \<Rightarrow> ret y | None \<Rightarrow> do { modify raise_fault; ret no_session }
   }"

definition kref_get :: "nat \<Rightarrow> voice \<Rightarrow> voice" where
  "kref_get s v = sess_modify s (\<lambda>x. x\<lparr>qs_refcount := qs_refcount x + 1\<rparr>) v"

text \<open>\<^verbatim>\<open>kref_put\<close> with \<^verbatim>\<open>q6voice_session_free\<close> as its release function.\<close>

definition q6voice_session_free :: "nat \<Rightarrow> voice \<Rightarrow> voice" where
  "q6voice_session_free s v = v\<lparr>vo_heap := (vo_heap v)(s := None)\<rparr>"

definition kref_put :: "nat \<Rightarrow> voice \<Rightarrow> voice" where
  "kref_put s v =
     (case vo_heap v s of
        None \<Rightarrow> raise_fault v
      | Some x \<Rightarrow>
          if qs_refcount x = 1 then q6voice_session_free s v
          else sess_modify s (\<lambda>x. x\<lparr>qs_refcount := qs_refcount x - 1\<rparr>) v)"

text \<open>
  The critical section of \<^verbatim>\<open>q6voice_session_create\<close>: the slot is taken, or the new object
  is freed again with \<^verbatim>\<open>-EBUSY\<close>. The service's address is the index of its device.
\<close>

definition session_insert :: "nat \<Rightarrow> nat \<Rightarrow> voice \<Rightarrow> voice \<times> (int + nat)" where
  "session_insert a path v =
     (case vo_svcs v a of
        None \<Rightarrow> (raise_fault v, Inl (- ENODEV))
      | Some sv \<Rightarrow>
          if \<not> path < length (sv_sessions sv) then (raise_fault v, Inl (- EBUSY))
          else if sv_sessions sv ! path \<noteq> None then (v, Inl (- EBUSY))
          else
            let s = vo_next v in
            (v\<lparr>vo_heap := (vo_heap v)(s \<mapsto> \<lparr>qs_svc = a, qs_refcount = 1, qs_port = of_nat path,
                  qs_handle = 0, qs_expected_opcode = 0, qs_result = 0\<rparr>),
               vo_next := s + 1,
               vo_svcs := (vo_svcs v)(a \<mapsto> sv\<lparr>sv_sessions := (sv_sessions sv)[path := Some s]\<rparr>)\<rparr>,
             Inr s))"

text \<open>The critical section of \<^verbatim>\<open>q6voice_session_release\<close>.\<close>

definition session_unlink :: "nat \<Rightarrow> voice \<Rightarrow> voice" where
  "session_unlink s v =
     (case vo_heap v s of
        None \<Rightarrow> raise_fault v
      | Some x \<Rightarrow> svc_modify (qs_svc x) (\<lambda>sv.
          if unat (qs_port x) < length (sv_sessions sv) \<and> sv_sessions sv ! unat (qs_port x) = Some s
          then sv\<lparr>sv_sessions := (sv_sessions sv)[unat (qs_port x) := None]\<rparr> else sv) v)"

text \<open>The first critical section of \<^verbatim>\<open>q6voice_common_send\<close>.\<close>

definition send_begin :: "nat \<Rightarrow> u32 \<Rightarrow> voice \<Rightarrow> voice" where
  "send_begin s opcode v =
     sess_modify s (\<lambda>x. x\<lparr>qs_expected_opcode := opcode, qs_result := 0\<rparr>) v"

definition send_timeout :: "nat \<Rightarrow> voice \<Rightarrow> voice" where
  "send_timeout s v = sess_modify s (\<lambda>x. x\<lparr>qs_expected_opcode := 0\<rparr>) v"

text \<open>
  The critical section of \<^verbatim>\<open>q6voice_session_callback\<close> on the session, and the whole function:
  the payload is read as an opcode and a status without a look at its size.
\<close>

definition session_reply :: "u16 \<Rightarrow> u32 \<Rightarrow> u32 \<Rightarrow> q6voice_session \<Rightarrow> q6voice_session" where
  "session_reply src_port opcode status x =
     (if opcode \<noteq> qs_expected_opcode x then x
      else if qs_handle x = 0 then
        x\<lparr>qs_handle := src_port, qs_result := status, qs_expected_opcode := 0\<rparr>
      else if qs_handle x \<noteq> src_port then x
      else x\<lparr>qs_result := status, qs_expected_opcode := 0\<rparr>)"

definition q6voice_session_callback :: "venv \<Rightarrow> nat \<Rightarrow> apr_resp_pkt \<Rightarrow> voice \<Rightarrow> voice" where
  "q6voice_session_callback env s data v =
     (if rp_opcode data \<noteq> ve_basic_rsp_result env then v
      else if length (rp_payload data) < 8 then raise_fault v
      else sess_modify s
        (session_reply (rp_src_port data) (le32 (rp_payload data)) (le32 (drop 4 (rp_payload data)))) v)"

text \<open>
  \<^verbatim>\<open>q6voice_common_callback\<close>: the lookup takes a reference under the service's lock, the session's
  part runs without it, and the reference is put back.
\<close>

definition callback_lookup :: "nat \<Rightarrow> apr_resp_pkt \<Rightarrow> voice \<Rightarrow> voice \<times> nat option" where
  "callback_lookup a data v =
     (if \<not> unat (rp_dest_port data) < Q6VOICE_PATH_COUNT then (v, None)
      else case vo_svcs v a of
        None \<Rightarrow> (raise_fault v, None)
      | Some sv \<Rightarrow>
          case sv_sessions sv ! unat (rp_dest_port data) of
            None \<Rightarrow> (v, None)
          | Some s \<Rightarrow> (kref_get s v, Some s))"

definition q6voice_common_callback :: "venv \<Rightarrow> nat \<Rightarrow> apr_resp_pkt \<Rightarrow> voice \<Rightarrow> voice" where
  "q6voice_common_callback env a data v =
     (case callback_lookup a data v of
        (v', None) \<Rightarrow> v'
      | (v', Some s) \<Rightarrow> kref_put s (q6voice_session_callback env s data v'))"

section \<open>Operations\<close>

definition q6voice_common_probe :: "venv \<Rightarrow> nat \<Rightarrow> nat \<Rightarrow> int vm" where
  "q6voice_common_probe env a type =
     (if Q6VOICE_SERVICE_COUNT \<le> type then ret (- EINVAL)
      else do {
        ok \<leftarrow> call (ve_alloc env) Vo_kzalloc;
        if \<not> ok then ret (- ENOMEM)
        else do {
          modify (\<lambda>v. v\<lparr>vo_svcs := (vo_svcs v)(a \<mapsto>
            \<lparr>sv_type = type, sv_sessions = replicate Q6VOICE_PATH_COUNT None\<rparr>)\<rparr>);
          current_svc \<leftarrow> gets (\<lambda>v. vo_services v ! type);
          whenM (current_svc = None)
            (modify (\<lambda>v. v\<lparr>vo_services := (vo_services v)[type := Some a]\<rparr>));
          ret (if current_svc \<noteq> None then - EEXIST else 0)
        }
      })"

definition q6voice_common_remove :: "nat \<Rightarrow> unit vm" where
  "q6voice_common_remove a = modify (\<lambda>v.
     case vo_svcs v a of
       None \<Rightarrow> raise_fault v
     | Some sv \<Rightarrow>
         if vo_services v ! sv_type sv = Some a
         then v\<lparr>vo_services := (vo_services v)[sv_type sv := None]\<rparr> else v)"

definition q6voice_common_send :: "venv \<Rightarrow> nat \<Rightarrow> apr_pkt \<Rightarrow> int vm" where
  "q6voice_common_send env s hdr = do {
     x \<leftarrow> sess_read s;
     let pkt = hdr\<lparr>ap_hdr_field := ve_hdr_field env, ap_src_port := qs_port x,
                   ap_dest_port := qs_handle x, ap_token := 0\<rparr>;
     modify (send_begin s (ap_opcode hdr));
     rc \<leftarrow> call (ve_send env) (Vo_send (qs_svc x) pkt);
     replies \<leftarrow> call (ve_arrivals env) Vo_wait;
     iterM (\<lambda>(a, data). modify (q6voice_common_callback env a data)) replies;
     if rc < 0 then ret rc
     else do {
       y \<leftarrow> sess_read s;
       if qs_expected_opcode y \<noteq> 0 then do {
         modify (send_timeout s);
         ret (- ETIMEDOUT)
       } else if 0 < qs_result y then ret (- EIO)
       else ret 0
     }
   }"

definition APRV2_IBASIC_CMD_DESTROY_SESSION :: u32 where
  "APRV2_IBASIC_CMD_DESTROY_SESSION = 0x0001003C"

text \<open>A packet that is only a header, and one with a payload, before \<open>q6voice_common_send\<close>.\<close>

definition apr_cmd :: "venv \<Rightarrow> u32 \<Rightarrow> u8 option list \<Rightarrow> apr_pkt" where
  "apr_cmd env opcode payload =
     \<lparr>ap_hdr_field = 0, ap_pkt_size = ve_hdr_size env + of_nat (length payload), ap_src_port = 0,
      ap_dest_port = 0, ap_token = 0, ap_opcode = opcode, ap_payload = payload\<rparr>"

definition q6voice_session_destroy :: "venv \<Rightarrow> nat \<Rightarrow> int vm" where
  "q6voice_session_destroy env s =
     q6voice_common_send env s (apr_cmd env APRV2_IBASIC_CMD_DESTROY_SESSION [])"

definition q6voice_session_release :: "venv \<Rightarrow> nat \<Rightarrow> unit vm" where
  "q6voice_session_release env s = do {
     x \<leftarrow> sess_read s;
     (if qs_handle x \<noteq> 0 then do { _ \<leftarrow> q6voice_session_destroy env s; ret () } else ret ());
     modify (session_unlink s);
     modify (kref_put s)
   }"

definition q6voice_session_create :: "venv \<Rightarrow> nat \<Rightarrow> nat \<Rightarrow> apr_pkt \<Rightarrow> (int + nat) vm" where
  "q6voice_session_create env type path hdr = do {
     svc \<leftarrow> gets (\<lambda>v. vo_services v ! type);
     case svc of
       None \<Rightarrow> ret (Inl (- ENODEV))
     | Some a \<Rightarrow> do {
         ok \<leftarrow> call (ve_alloc env) Vo_kzalloc;
         if \<not> ok then ret (Inl (- ENOMEM))
         else do {
           r \<leftarrow> gets (\<lambda>v. snd (session_insert a path v));
           modify (\<lambda>v. fst (session_insert a path v));
           case r of
             Inl e \<Rightarrow> ret (Inl e)
           | Inr s \<Rightarrow> do {
               rc \<leftarrow> q6voice_common_send env s hdr;
               x \<leftarrow> sess_read s;
               if rc \<noteq> 0 then do { q6voice_session_release env s; ret (Inl rc) }
               else if qs_handle x = 0 then do { q6voice_session_release env s; ret (Inl (- EIO)) }
               else ret (Inr s)
             }
         }
       }
   }"

section \<open>The reference counting invariant\<close>

text \<open>
  \<open>R\<close> is the multiset of all references held (by the owners and by running callbacks), \<open>L\<close> the set of
  sessions that are in their slot. A session is allocated exactly when there is a
  reference, its count is the number of references, and slots and sessions agree.
\<close>

definition slot :: "voice \<Rightarrow> nat \<Rightarrow> nat \<Rightarrow> nat option" where
  "slot v a i = (case vo_svcs v a of None \<Rightarrow> None
     | Some sv \<Rightarrow> if i < length (sv_sessions sv) then sv_sessions sv ! i else None)"

definition live_refs :: "nat multiset \<Rightarrow> voice \<Rightarrow> bool" where
  "live_refs R v \<longleftrightarrow> (\<forall>s. vo_heap v s = None \<longleftrightarrow> s \<notin># R) \<and>
     (\<forall>s x. vo_heap v s = Some x \<longrightarrow> qs_refcount x = count R s)"

definition tables_ok :: "voice \<Rightarrow> bool" where
  "tables_ok v \<longleftrightarrow>
     length (vo_services v) = Q6VOICE_SERVICE_COUNT \<and>
     (\<forall>t<Q6VOICE_SERVICE_COUNT. \<forall>a. vo_services v ! t = Some a \<longrightarrow> vo_svcs v a \<noteq> None) \<and>
     (\<forall>a sv. vo_svcs v a = Some sv \<longrightarrow>
        length (sv_sessions sv) = Q6VOICE_PATH_COUNT \<and> sv_type sv < Q6VOICE_SERVICE_COUNT)"

definition linked :: "nat set \<Rightarrow> voice \<Rightarrow> bool" where
  "linked L v \<longleftrightarrow> (\<forall>a i s. slot v a i = Some s \<longleftrightarrow>
     s \<in> L \<and> (\<exists>x. vo_heap v s = Some x \<and> qs_svc x = a \<and> unat (qs_port x) = i))"

definition sess_inv :: "nat set \<Rightarrow> nat multiset \<Rightarrow> voice \<Rightarrow> bool" where
  "sess_inv L R v \<longleftrightarrow>
     \<not> vo_fault v \<and> live_refs R v \<and> L \<subseteq> set_mset R \<and> tables_ok v \<and> linked L v \<and>
     (\<forall>s x. vo_heap v s = Some x \<longrightarrow>
        vo_svcs v (qs_svc x) \<noteq> None \<and> unat (qs_port x) < Q6VOICE_PATH_COUNT \<and> s < vo_next v)"

lemma live_refsD: "live_refs R v \<Longrightarrow> s \<in># R \<Longrightarrow> \<exists>x. vo_heap v s = Some x \<and> qs_refcount x = count R s"
  unfolding live_refs_def by (metis not_None_eq)

lemma sess_invD:
  assumes "sess_inv L R v" "s \<in># R"
  obtains x where "vo_heap v s = Some x" "qs_refcount x = count R s" "vo_svcs v (qs_svc x) \<noteq> None"
    "unat (qs_port x) < Q6VOICE_PATH_COUNT" "s < vo_next v"
  using assms live_refsD [of R v s] by (auto simp: sess_inv_def)

lemma sess_inv_no_fault: "sess_inv L R v \<Longrightarrow> \<not> vo_fault v"
  by (simp add: sess_inv_def)

lemma slot_session:
  assumes "sess_inv L R v" "slot v a i = Some s"
  shows "s \<in> L" "s \<in># R"
  using assms by (auto simp: sess_inv_def linked_def)

lemma slot_iff:
  "sess_inv L R v \<Longrightarrow> slot v a i = Some s \<longleftrightarrow>
     s \<in> L \<and> (\<exists>x. vo_heap v s = Some x \<and> qs_svc x = a \<and> unat (qs_port x) = i)"
  by (simp add: sess_inv_def linked_def)

text \<open>A change to a session that keeps its service, port and count.\<close>

lemma slot_heap [simp]: "slot (v\<lparr>vo_heap := h\<rparr>) = slot v" "slot (raise_fault v) = slot v"
  by (simp_all add: slot_def fun_eq_iff raise_fault_def)

lemma sess_inv_modify:
  assumes "sess_inv L R v" "s \<in># R"
    and "\<And>x. qs_svc (f x) = qs_svc x" "\<And>x. qs_port (f x) = qs_port x"
    and "\<And>x. qs_refcount (f x) = qs_refcount x"
  shows "sess_inv L R (sess_modify s f v)"
proof -
  obtain x where x: "vo_heap v s = Some x" using assms(1,2) by (rule sess_invD)
  have "linked L (v\<lparr>vo_heap := (vo_heap v)(s \<mapsto> f x)\<rparr>)"
    using assms(1) x unfolding sess_inv_def linked_def slot_heap by (auto simp: assms(3-5))
  then show ?thesis
    using assms(1,2) x
    by (auto simp: sess_inv_def sess_modify_def live_refs_def tables_ok_def assms(3-5)
        split: option.splits if_splits)
qed

lemma sess_inv_kref_get:
  assumes "sess_inv L R v" "s \<in># R"
  shows "sess_inv L (add_mset s R) (kref_get s v)"
proof -
  obtain x where x: "vo_heap v s = Some x" "qs_refcount x = count R s"
    using assms by (rule sess_invD)
  let ?v = "v\<lparr>vo_heap := (vo_heap v)(s \<mapsto> x\<lparr>qs_refcount := qs_refcount x + 1\<rparr>)\<rparr>"
  have "linked L ?v"
    using assms(1) x unfolding sess_inv_def linked_def slot_heap by auto
  moreover have "live_refs (add_mset s R) ?v"
    using assms x by (auto simp: live_refs_def sess_inv_def)
  ultimately show ?thesis
    using assms(1) x by (auto simp: sess_inv_def kref_get_def sess_modify_def tables_ok_def)
qed

lemma sess_inv_kref_put:
  assumes "sess_inv L (add_mset s R) v" "L \<subseteq> set_mset R"
  shows "sess_inv L R (kref_put s v)"
proof -
  obtain x where x: "vo_heap v s = Some x" "qs_refcount x = count R s + 1"
    by (rule sess_invD [OF assms(1), of s]) auto
  let ?v = "kref_put s v"
  have heap: "vo_heap ?v = (vo_heap v)(s := if s \<in># R
      then Some (x\<lparr>qs_refcount := count R s\<rparr>) else None)"
    and rest: "vo_svcs ?v = vo_svcs v" "vo_services ?v = vo_services v" "vo_next ?v = vo_next v"
      "vo_fault ?v = vo_fault v"
    using x by (simp_all add: kref_put_def sess_modify_def q6voice_session_free_def
        flip: count_greater_zero_iff)
  have slots: "slot ?v = slot v" by (simp add: slot_def rest fun_eq_iff)
  have "live_refs R ?v"
    using assms(1) x unfolding live_refs_def sess_inv_def heap by (auto split: if_splits)
  moreover have "linked L ?v"
    using assms x unfolding sess_inv_def linked_def slots heap by (auto split: if_splits)
  ultimately show ?thesis
    using assms x unfolding sess_inv_def tables_ok_def rest heap by (auto split: if_splits)
qed

lemma slot_svcs:
  "slot (v\<lparr>vo_svcs := (vo_svcs v)(a \<mapsto> sv)\<rparr>) b i =
     (if b = a then (if i < length (sv_sessions sv) then sv_sessions sv ! i else None) else slot v b i)"
  by (simp add: slot_def)

lemma sess_inv_insert:
  assumes "sess_inv L R v" "vo_svcs v a \<noteq> None" "path < Q6VOICE_PATH_COUNT"
  shows "case session_insert a path v of
      (v', Inl e) \<Rightarrow> v' = v \<and> e = - EBUSY \<and> slot v a path \<noteq> None
    | (v', Inr s) \<Rightarrow> s \<notin># R \<and> slot v a path = None \<and> sess_inv (insert s L) (add_mset s R) v' \<and>
        vo_heap v' s = Some \<lparr>qs_svc = a, qs_refcount = 1, qs_port = of_nat path, qs_handle = 0,
          qs_expected_opcode = 0, qs_result = 0\<rparr>"
proof -
  obtain sv where sv: "vo_svcs v a = Some sv" using assms(2) by auto
  have len: "length (sv_sessions sv) = Q6VOICE_PATH_COUNT"
    using assms(1) sv by (auto simp: sess_inv_def tables_ok_def)
  have slot: "slot v a path = sv_sessions sv ! path" using sv len assms(3) by (simp add: slot_def)
  show ?thesis
  proof (cases "sv_sessions sv ! path")
    case (Some s)
    then show ?thesis using sv len assms(3) slot by (simp add: session_insert_def)
  next
    case None
    let ?s = "vo_next v"
    have fresh: "vo_heap v ?s = None" "?s \<notin># R" "?s \<notin> L"
    proof -
      show h: "vo_heap v ?s = None"
        using assms(1) by (cases "vo_heap v ?s") (auto simp: sess_inv_def)
      then show r: "?s \<notin># R" using assms(1) by (simp add: sess_inv_def live_refs_def)
      show "?s \<notin> L" using r assms(1) by (auto simp: sess_inv_def)
    qed
    let ?x = "\<lparr>qs_svc = a, qs_refcount = 1, qs_port = of_nat path, qs_handle = 0,
          qs_expected_opcode = 0, qs_result = 0\<rparr>"
    let ?v = "fst (session_insert a path v)"
    have ins: "session_insert a path v = (?v, Inr ?s)"
      using sv len assms(3) None by (simp add: session_insert_def Let_def)
    have f: "vo_heap ?v = (vo_heap v)(?s \<mapsto> ?x)" "vo_next ?v = ?s + 1" "vo_fault ?v = vo_fault v"
      "vo_services ?v = vo_services v"
      "vo_svcs ?v = (vo_svcs v)(a \<mapsto> sv\<lparr>sv_sessions := (sv_sessions sv)[path := Some ?s]\<rparr>)"
      using sv len assms(3) None by (simp_all add: session_insert_def Let_def)
    have port: "unat (of_nat path :: u16) = path" using assms(3) by (simp add: unat_of_nat)
    have sl: "slot ?v b i = (if b = a \<and> i = path then Some ?s else slot v b i)" for b i
      using len assms(3) sv by (auto simp: slot_def f nth_list_update)
    have lk: "linked (insert ?s L) ?v"
      unfolding linked_def
    proof (intro allI)
      fix b i t
      have old: "slot v b i = Some t \<longleftrightarrow>
          t \<in> L \<and> (\<exists>x. vo_heap v t = Some x \<and> qs_svc x = b \<and> unat (qs_port x) = i)"
        using assms(1) by (simp add: sess_inv_def linked_def)
      have no: "\<not> (t \<in> L \<and> (\<exists>x. vo_heap v t = Some x \<and> qs_svc x = a \<and> unat (qs_port x) = path))"
        using slot None unfolding slot_iff [OF assms(1), symmetric] by simp
      show "slot ?v b i = Some t \<longleftrightarrow> t \<in> insert ?s L \<and>
          (\<exists>x. vo_heap ?v t = Some x \<and> qs_svc x = b \<and> unat (qs_port x) = i)"
        using old no fresh by (auto simp: sl f(1) port)
    qed
    have "live_refs (add_mset ?s R) ?v"
      using assms(1) fresh by (auto simp: live_refs_def sess_inv_def f not_in_iff)
    moreover have "tables_ok ?v"
      using assms(1) sv len by (auto simp: tables_ok_def sess_inv_def f split: if_splits)
    ultimately have "sess_inv (insert ?s L) (add_mset ?s R) ?v"
      using assms(1,3) lk sv port unfolding sess_inv_def f by (auto simp: less_Suc_eq)
    then show ?thesis using fresh slot None by (subst ins) (simp add: f(1))
  qed
qed

lemma sess_inv_unlink:
  assumes "sess_inv L R v" "s \<in># R"
  shows "sess_inv (L - {s}) R (session_unlink s v) \<and> vo_heap (session_unlink s v) = vo_heap v"
proof -
  obtain x where x: "vo_heap v s = Some x" "vo_svcs v (qs_svc x) \<noteq> None"
      "unat (qs_port x) < Q6VOICE_PATH_COUNT"
    using assms by (rule sess_invD)
  obtain sv where sv: "vo_svcs v (qs_svc x) = Some sv" using x by auto
  have len: "length (sv_sessions sv) = Q6VOICE_PATH_COUNT"
    using assms(1) sv by (auto simp: sess_inv_def tables_ok_def)
  let ?v = "session_unlink s v" and ?i = "unat (qs_port x)"
  have at: "sv_sessions sv ! ?i = slot v (qs_svc x) ?i" using sv len x by (simp add: slot_def)
  have svcs: "vo_svcs ?v = (vo_svcs v)(qs_svc x \<mapsto> (if slot v (qs_svc x) ?i = Some s
      then sv\<lparr>sv_sessions := (sv_sessions sv)[?i := None]\<rparr> else sv))"
    using x(1,3) sv len by (simp add: session_unlink_def svc_modify_def at)
  have f: "vo_heap ?v = vo_heap v" "vo_next ?v = vo_next v" "vo_fault ?v = vo_fault v"
      "vo_services ?v = vo_services v"
    using x sv by (simp_all add: session_unlink_def svc_modify_def)
  have sl: "slot ?v b i = (if slot v b i = Some s then None else slot v b i)" for b i
  proof (cases "slot v b i = Some s")
    case True
    then have "b = qs_svc x \<and> i = ?i" using assms(1) x(1) by (auto simp: sess_inv_def linked_def)
    then show ?thesis using True x(3) sv len by (simp add: slot_def svcs)
  next
    case False
    show ?thesis
    proof (cases "b = qs_svc x \<and> slot v (qs_svc x) ?i = Some s")
      case True
      then have "i \<noteq> ?i" using False by auto
      then show ?thesis using False True sv by (auto simp: slot_def svcs)
    next
      case False': False
      then have "vo_svcs ?v b = vo_svcs v b" using sv by (auto simp: svcs)
      then show ?thesis using False by (simp add: slot_def)
    qed
  qed
  have "linked (L - {s}) ?v"
    unfolding linked_def sl f
  proof (intro allI)
    fix b i t
    show "(if slot v b i = Some s then None else slot v b i) = Some t \<longleftrightarrow>
        t \<in> L - {s} \<and> (\<exists>x. vo_heap v t = Some x \<and> qs_svc x = b \<and> unat (qs_port x) = i)"
      using slot_iff [OF assms(1), of b i t] by auto
  qed
  moreover have "tables_ok ?v"
    using assms(1) sv len unfolding sess_inv_def tables_ok_def f by (auto simp: svcs split: if_splits)
  moreover have "vo_svcs ?v b = None \<longleftrightarrow> vo_svcs v b = None" for b
    using sv by (auto simp: svcs)
  ultimately show ?thesis
    using assms(1) unfolding sess_inv_def f by (auto simp: live_refs_def f)
qed

section \<open>What an operation leaves alone\<close>

text \<open>
  \<open>frame R v v'\<close>: the paths, the registry and the set of services are the same, and the sessions in
  \<open>R\<close> are still allocated, in the same service and port, with the handle they have if they have one.
\<close>

definition frame :: "nat set \<Rightarrow> voice \<Rightarrow> voice \<Rightarrow> bool" where
  "frame R v v' \<longleftrightarrow> vo_paths v' = vo_paths v \<and> vo_services v' = vo_services v \<and>
     dom (vo_svcs v') = dom (vo_svcs v) \<and>
     (\<forall>s\<in>R. \<forall>x. vo_heap v s = Some x \<longrightarrow> (\<exists>y. vo_heap v' s = Some y \<and> qs_svc y = qs_svc x \<and>
        qs_port y = qs_port x \<and> (qs_handle x \<noteq> 0 \<longrightarrow> qs_handle y = qs_handle x)))"

lemma frame_refl [simp]: "frame R v v"
  by (simp add: frame_def)

lemma frame_trans: "frame R u v \<Longrightarrow> frame R v w \<Longrightarrow> frame R u w"
  unfolding frame_def by (auto, metis)

lemma frame_subset: "frame R u v \<Longrightarrow> S \<subseteq> R \<Longrightarrow> frame S u v"
  by (auto simp: frame_def)

lemma frame_modify:
  assumes "vo_heap v s \<noteq> None" "\<And>x. qs_svc (f x) = qs_svc x" "\<And>x. qs_port (f x) = qs_port x"
    and "\<And>x. qs_handle x \<noteq> 0 \<Longrightarrow> qs_handle (f x) = qs_handle x"
  shows "frame R v (sess_modify s f v)"
  using assms by (auto simp: frame_def sess_modify_def)

lemma frame_kref: "vo_heap v s \<noteq> None \<Longrightarrow> frame R v (kref_get s v)"
  unfolding kref_get_def by (rule frame_modify) auto

lemma frame_put: "vo_heap v s \<noteq> None \<Longrightarrow> s \<notin> R \<or> (\<exists>x. vo_heap v s = Some x \<and> qs_refcount x \<noteq> 1) \<Longrightarrow>
   frame R v (kref_put s v)"
  by (auto simp: frame_def kref_put_def sess_modify_def q6voice_session_free_def split: if_splits)

section \<open>A callback\<close>

lemma session_reply_keeps [simp]:
  "qs_svc (session_reply p o' st x) = qs_svc x" "qs_port (session_reply p o' st x) = qs_port x"
  "qs_refcount (session_reply p o' st x) = qs_refcount x"
  "qs_handle x \<noteq> 0 \<Longrightarrow> qs_handle (session_reply p o' st x) = qs_handle x"
  by (simp_all add: session_reply_def)

definition reply_ok :: "venv \<Rightarrow> apr_resp_pkt \<Rightarrow> bool" where
  "reply_ok env data \<longleftrightarrow>
     (rp_opcode data = ve_basic_rsp_result env \<longrightarrow> 8 \<le> length (rp_payload data))"

lemma session_callback_inv:
  assumes "sess_inv L R v" "s \<in># R" "reply_ok env data"
  shows "sess_inv L R (q6voice_session_callback env s data v) \<and>
    frame (set_mset R) v (q6voice_session_callback env s data v)"
proof -
  have "vo_heap v s \<noteq> None" using assms(1,2) by (auto elim: sess_invD)
  then show ?thesis
    using assms by (auto simp: q6voice_session_callback_def reply_ok_def
        intro!: sess_inv_modify frame_modify)
qed

lemma callback_lookup_inv:
  assumes "sess_inv L R v" "vo_svcs v a \<noteq> None"
  shows "case callback_lookup a data v of
      (v', None) \<Rightarrow> v' = v
    | (v', Some s) \<Rightarrow> s \<in> L \<and> s \<in># R \<and> v' = kref_get s v \<and> sess_inv L (add_mset s R) v'"
proof -
  obtain sv where sv: "vo_svcs v a = Some sv" using assms(2) by auto
  have len: "length (sv_sessions sv) = Q6VOICE_PATH_COUNT"
    using assms(1) sv by (auto simp: sess_inv_def tables_ok_def)
  show ?thesis
  proof (cases "unat (rp_dest_port data) < Q6VOICE_PATH_COUNT")
    case True
    then have at: "sv_sessions sv ! unat (rp_dest_port data) = slot v a (unat (rp_dest_port data))"
      using sv len by (simp add: slot_def)
    show ?thesis
      using True sv slot_session [OF assms(1), of a "unat (rp_dest_port data)"]
        sess_inv_kref_get [OF assms(1)]
      by (auto simp: callback_lookup_def at split: option.splits)
  next
    case False
    then show ?thesis by (simp add: callback_lookup_def)
  qed
qed

lemma callback_inv:
  assumes "sess_inv L R v" "vo_svcs v a \<noteq> None" "reply_ok env data"
  shows "sess_inv L R (q6voice_common_callback env a data v) \<and>
    frame (set_mset R) v (q6voice_common_callback env a data v)"
proof (cases "callback_lookup a data v")
  case (Pair v' o')
  show ?thesis
  proof (cases o')
    case None
    then show ?thesis
      using assms callback_lookup_inv [OF assms(1,2), of data] Pair
      by (simp add: q6voice_common_callback_def)
  next
    case (Some s)
    let ?w = "q6voice_session_callback env s data v'"
    have s: "s \<in># R" and v': "v' = kref_get s v" and inv: "sess_inv L (add_mset s R) v'"
      using callback_lookup_inv [OF assms(1,2), of data] Pair Some by auto
    have w: "sess_inv L (add_mset s R) ?w" "frame (set_mset R) v' ?w"
      using session_callback_inv [OF inv _ assms(3), of s] by (auto elim: frame_subset)
    have L: "L \<subseteq> set_mset R" using assms(1) by (simp add: sess_inv_def)
    obtain y where y: "vo_heap ?w s = Some y" "qs_refcount y = count R s + 1"
      by (rule sess_invD [OF w(1), of s]) auto
    have "frame (set_mset R) v v'"
      unfolding v' using assms(1) s by (intro frame_kref) (auto elim: sess_invD)
    moreover have "frame (set_mset R) ?w (kref_put s ?w)"
      using y s by (intro frame_put) auto
    ultimately have "frame (set_mset R) v (kref_put s ?w)"
      using w(2) by (blast intro: frame_trans)
    then show ?thesis
      using sess_inv_kref_put [OF w(1) L] Pair Some by (simp add: q6voice_common_callback_def)
  qed
qed

section \<open>The contract of the session layer\<close>

text \<open>
  What the code above relies on: with \<open>inv ks s\<close> for "the sessions \<open>ks\<close> are owned, and all is well",
  sending on an owned session and releasing one keep the invariant and leave the other sessions
  alone, whatever the DSP answers.
\<close>

locale session_layer =
  fixes inv :: "'k set \<Rightarrow> 's \<Rightarrow> bool" and keeps :: "'k set \<Rightarrow> 's \<Rightarrow> 's \<Rightarrow> bool"
    and send :: "'k \<Rightarrow> 'c \<Rightarrow> ('s, int) state" and release :: "'k \<Rightarrow> ('s, unit) state"
  assumes keeps_refl: "keeps ks s s"
    and keeps_trans: "keeps ks s t \<Longrightarrow> keeps ks t u \<Longrightarrow> keeps ks s u"
    and keeps_subset: "keeps ks s t \<Longrightarrow> js \<subseteq> ks \<Longrightarrow> keeps js s t"
    and send_inv: "inv ks s \<Longrightarrow> k \<in> ks \<Longrightarrow> wp (send k c) (\<lambda>_ t. inv ks t \<and> keeps ks s t) s"
    and release_inv: "inv ks s \<Longrightarrow> k \<in> ks \<Longrightarrow>
      wp (release k) (\<lambda>_ t. inv (ks - {k}) t \<and> keeps (ks - {k}) s t) s"
begin

text \<open>\<open>steady ks s t\<close>: the state \<open>t\<close>, reached from \<open>s\<close>, is well and \<open>ks\<close> was left alone on the way.\<close>

definition steady :: "'k set \<Rightarrow> 's \<Rightarrow> 's \<Rightarrow> bool" where
  "steady ks s t \<longleftrightarrow> inv ks t \<and> keeps ks s t"

lemma steady_send: "steady ks s t \<Longrightarrow> k \<in> ks \<Longrightarrow> wp (send k c) (\<lambda>_ u. steady ks s u) t"
  unfolding steady_def
  by (rule wp_mono [OF send_inv [of ks t k c]]) (auto intro: keeps_trans)

lemma steady_release:
  "steady ks s t \<Longrightarrow> k \<in> ks \<Longrightarrow> wp (release k) (\<lambda>_ u. steady (ks - {k}) s u) t"
  unfolding steady_def
  by (rule wp_mono [OF release_inv [of ks t k]]) (auto intro: keeps_trans keeps_subset)

text \<open>Sending one command after the other, with the answers ignored.\<close>

lemma steady_sends:
  assumes "steady ks s t" "\<And>k c. (k, c) \<in> set cmds \<Longrightarrow> k \<in> ks"
  shows "wp (iterM (\<lambda>(k, c). State_Monad.bind (send k c) (\<lambda>_. ret ())) cmds) (\<lambda>_. steady ks s) t"
proof (rule wp_iterM)
  show "steady ks s t" by (rule assms(1))
next
  fix x u
  assume "x \<in> set cmds" "steady ks s u"
  then show "wp ((\<lambda>(k, c). State_Monad.bind (send k c) (\<lambda>_. ret ())) x) (\<lambda>_. steady ks s) u"
    using assms(2) steady_send by (auto simp: wp_simps split: prod.split)
qed

text \<open>Releasing all of a list of different sessions.\<close>

lemma steady_release_all:
  assumes "steady ks s t" "distinct xs" "set xs \<subseteq> ks"
  shows "wp (iterM release xs) (\<lambda>_. steady (ks - set xs) s) t"
  using assms
proof (induction xs arbitrary: ks t)
  case Nil
  then show ?case by (simp add: wp_simps)
next
  case (Cons x xs)
  have eq: "ks - {x} - set xs = ks - set (x # xs)" by auto
  have "wp (release x) (\<lambda>_ u. steady (ks - {x}) s u) t"
    using Cons.prems by (intro steady_release) auto
  then have "wp (release x) (\<lambda>_. wp (iterM release xs) (\<lambda>_. steady (ks - set (x # xs)) s)) t"
    by (rule wp_mono) (use Cons.IH [of "ks - {x}"] Cons.prems eq in auto)
  then show ?case by (simp add: wp_simps)
qed

end

section \<open>The session layer keeps its contract\<close>

text \<open>
  Between two operations the references are exactly the owners' (\<open>ks\<close>), and every owned session is in
  its slot; \<open>A\<close> are the bound devices, on which replies may come in.
\<close>

definition quiet :: "nat set \<Rightarrow> nat set \<Rightarrow> voice \<Rightarrow> bool" where
  "quiet A ks v \<longleftrightarrow> finite ks \<and> A \<subseteq> dom (vo_svcs v) \<and> sess_inv ks (mset_set ks) v"

definition env_ok :: "venv \<Rightarrow> nat set \<Rightarrow> bool" where
  "env_ok env A \<longleftrightarrow> (\<forall>tr a data. (a, data) \<in> set (ve_arrivals env tr Vo_wait) \<longrightarrow>
     a \<in> A \<and> reply_ok env data)"

lemma quiet_session:
  assumes "quiet A ks v" "s \<in> ks"
  obtains x where "vo_heap v s = Some x" "qs_refcount x = 1" "vo_svcs v (qs_svc x) \<noteq> None"
    "unat (qs_port x) < Q6VOICE_PATH_COUNT"
  using assms by (auto simp: quiet_def intro: sess_invD [of ks "mset_set ks" v s])

lemma wp_sess_read [wp_simps]:
  "wp (sess_read s) Q \<sigma> = (case vo_heap (io_dev \<sigma>) s of Some x \<Rightarrow> Q x \<sigma>
     | None \<Rightarrow> Q no_session (\<sigma>\<lparr>io_dev := raise_fault (io_dev \<sigma>)\<rparr>))"
  by (simp add: sess_read_def wp_simps split: option.split)

text \<open>\<open>well A ks u v\<close>: in \<open>v\<close>, reached from \<open>u\<close>, all is well and \<open>ks\<close> was left alone.\<close>

definition well :: "nat set \<Rightarrow> nat set \<Rightarrow> voice \<Rightarrow> voice \<Rightarrow> bool" where
  "well A ks u v \<longleftrightarrow> quiet A ks v \<and> frame ks u v"

lemma well_start: "quiet A ks v \<Longrightarrow> well A ks v v"
  by (simp add: well_def)

lemma well_step:
  assumes "well A ks u v" "sess_inv ks (mset_set ks) v'" "frame ks v v'"
  shows "well A ks u v'"
  using assms frame_trans [of ks u v v'] by (auto simp: well_def quiet_def frame_def)

lemma well_session:
  assumes "well A ks u v" "s \<in> ks"
  obtains x where "vo_heap v s = Some x" "qs_refcount x = 1" "vo_svcs v (qs_svc x) \<noteq> None"
    "unat (qs_port x) < Q6VOICE_PATH_COUNT"
  using assms quiet_session unfolding well_def by blast

lemma well_modify:
  assumes "well A ks u v" "s \<in> ks"
    and "\<And>x. qs_svc (f x) = qs_svc x" "\<And>x. qs_port (f x) = qs_port x"
    and "\<And>x. qs_refcount (f x) = qs_refcount x" "\<And>x. qs_handle (f x) = qs_handle x"
  shows "well A ks u (sess_modify s f v)"
proof -
  obtain x where x: "vo_heap v s = Some x" using assms(1,2) by (rule well_session)
  have "sess_inv ks (mset_set ks) v" "finite ks" using assms(1) by (auto simp: well_def quiet_def)
  then have "sess_inv ks (mset_set ks) (sess_modify s f v)"
    using assms by (intro sess_inv_modify) auto
  moreover have "frame ks v (sess_modify s f v)"
    using x assms by (intro frame_modify) auto
  ultimately show ?thesis by (rule well_step [OF assms(1)])
qed

lemma well_send_begin: "well A ks u v \<Longrightarrow> s \<in> ks \<Longrightarrow> well A ks u (send_begin s opc v)"
  unfolding send_begin_def by (rule well_modify) auto

lemma well_send_timeout: "well A ks u v \<Longrightarrow> s \<in> ks \<Longrightarrow> well A ks u (send_timeout s v)"
  unfolding send_timeout_def by (rule well_modify) auto

lemma well_callback:
  assumes "well A ks u v" "a \<in> A" "reply_ok env data"
  shows "well A ks u (q6voice_common_callback env a data v)"
proof -
  have inv: "sess_inv ks (mset_set ks) v" "finite ks" "vo_svcs v a \<noteq> None"
    using assms(1,2) by (auto simp: well_def quiet_def)
  show ?thesis
    using callback_inv [OF inv(1) inv(3) assms(3)] inv(2) by (auto intro: well_step [OF assms(1)])
qed

lemma well_callbacks:
  assumes "env_ok env A" "well A ks u (io_dev \<sigma>)"
  shows "wp (iterM (\<lambda>(a, data). modify (q6voice_common_callback env a data))
      (ve_arrivals env tr Vo_wait)) (\<lambda>_ \<tau>. well A ks u (io_dev \<tau>)) \<sigma>"
proof (rule wp_iterM)
  show "well A ks u (io_dev \<sigma>)" by (rule assms(2))
next
  fix x and \<tau> :: "('b, voice) io"
  assume x: "x \<in> set (ve_arrivals env tr Vo_wait)" and inv: "well A ks u (io_dev \<tau>)"
  obtain a data where ad: "x = (a, data)" by (cases x)
  have "a \<in> A" "reply_ok env data" using assms(1) x ad by (auto simp: env_ok_def)
  then show "wp (case x of (a, data) \<Rightarrow> modify (q6voice_common_callback env a data))
      (\<lambda>_ \<tau>. well A ks u (io_dev \<tau>)) \<tau>"
    using inv by (simp add: ad wp_simps well_callback)
qed

lemma well_send_io:
  assumes "env_ok env A" "well A ks u (io_dev \<sigma>)" "s \<in> ks"
  shows "wp (q6voice_common_send env s hdr) (\<lambda>_ \<tau>. well A ks u (io_dev \<tau>)) \<sigma>"
proof -
  obtain x where x: "vo_heap (io_dev \<sigma>) s = Some x"
    using assms(2,3) by (rule well_session)
  have rest: "wp (if rc < 0 then ret rc else do {
       y \<leftarrow> sess_read s;
       if qs_expected_opcode y \<noteq> 0 then do {
         modify (send_timeout s);
         ret (- ETIMEDOUT)
       } else if 0 < qs_result y then ret (- EIO)
       else ret 0
     }) (\<lambda>_ \<tau>. well A ks u (io_dev \<tau>)) \<tau>"
    if w: "well A ks u (io_dev \<tau>)" for rc and \<tau> :: voice_io
  proof -
    obtain y where y: "vo_heap (io_dev \<tau>) s = Some y" using w assms(3) by (rule well_session)
    show ?thesis using w assms(3) y by (simp add: wp_simps well_send_timeout)
  qed
  show ?thesis
    unfolding q6voice_common_send_def Let_def wp_bind wp_sess_read x option.case wp_call wp_modify
    by (rule wp_mono [OF well_callbacks [OF assms(1), of ks u] rest])
      (simp_all add: well_send_begin assms(2,3))
qed

lemma well_release_io:
  assumes "env_ok env A" "well A ks u (io_dev \<sigma>)" "s \<in> ks"
  shows "wp (q6voice_session_release env s) (\<lambda>_ \<tau>. well A (ks - {s}) u (io_dev \<tau>)) \<sigma>"
proof -
  obtain x where x: "vo_heap (io_dev \<sigma>) s = Some x"
    using assms(2,3) by (rule well_session)
  have rest: "well A (ks - {s}) u (kref_put s (session_unlink s v))" if w: "well A ks u v" for v
  proof -
    let ?v = "session_unlink s v"
    have inv: "sess_inv ks (mset_set ks) v" "finite ks" using w by (auto simp: well_def quiet_def)
    have ms: "mset_set ks = add_mset s (mset_set (ks - {s}))"
      using inv(2) assms(3) by (metis mset_set.remove)
    have un: "sess_inv (ks - {s}) (mset_set ks) ?v" "vo_heap ?v = vo_heap v"
      using sess_inv_unlink [OF inv(1), of s] inv(2) assms(3) by auto
    have put: "sess_inv (ks - {s}) (mset_set (ks - {s})) (kref_put s ?v)"
      using un(1) inv(2) unfolding ms by (intro sess_inv_kref_put) auto
    obtain y where y: "vo_heap v s = Some y" "vo_svcs v (qs_svc y) \<noteq> None"
      using w assms(3) by (rule well_session)
    have f1: "frame ks v ?v"
      using y by (auto simp: frame_def un(2) session_unlink_def svc_modify_def split: if_splits)
    have f2: "frame (ks - {s}) ?v (kref_put s ?v)"
      using y by (intro frame_put) (auto simp: un(2))
    have "frame (ks - {s}) u (kref_put s ?v)"
      using w f1 f2 unfolding well_def by (meson Diff_subset frame_subset frame_trans)
    moreover have "A \<subseteq> dom (vo_svcs (kref_put s ?v))"
      using w f1 f2 by (auto simp: well_def quiet_def frame_def)
    ultimately show ?thesis using put inv(2) by (simp add: well_def quiet_def)
  qed
  show ?thesis
  proof (cases "qs_handle x = 0")
    case True
    then show ?thesis
      using rest assms(2) by (simp add: q6voice_session_release_def wp_simps x)
  next
    case False
    then show ?thesis
      using rest by (auto simp: q6voice_session_release_def wp_simps x q6voice_session_destroy_def
          intro!: wp_mono [OF well_send_io [OF assms]])
  qed
qed

text \<open>The session layer of the code, for every environment that delivers well formed replies.\<close>

interpretation q6voice: session_layer
    "\<lambda>ks \<sigma>. env_ok env A \<and> quiet A ks (io_dev \<sigma>)"
    "\<lambda>ks \<sigma> \<tau>. frame ks (io_dev \<sigma>) (io_dev \<tau>)"
    "q6voice_common_send env" "q6voice_session_release env" for env A
proof
  show "frame ks (io_dev s) (io_dev s)" for ks and s :: voice_io by simp
  show "frame ks (io_dev s) (io_dev t) \<Longrightarrow> frame ks (io_dev t) (io_dev u) \<Longrightarrow>
      frame ks (io_dev s) (io_dev u)" for ks and s t u :: voice_io by (rule frame_trans)
  show "frame ks (io_dev s) (io_dev t) \<Longrightarrow> js \<subseteq> ks \<Longrightarrow> frame js (io_dev s) (io_dev t)"
    for ks js and s t :: voice_io by (rule frame_subset)
  show "env_ok env A \<and> quiet A ks (io_dev s) \<Longrightarrow> k \<in> ks \<Longrightarrow>
      wp (q6voice_common_send env k c)
        (\<lambda>_ t. (env_ok env A \<and> quiet A ks (io_dev t)) \<and> frame ks (io_dev s) (io_dev t)) s"
    for ks s k c
    using wp_mono [OF well_send_io [of env A ks "io_dev s" s k c]] by (auto simp: well_start well_def)
  show "env_ok env A \<and> quiet A ks (io_dev s) \<Longrightarrow> k \<in> ks \<Longrightarrow>
      wp (q6voice_session_release env k)
        (\<lambda>_ t. (env_ok env A \<and> quiet A (ks - {k}) (io_dev t)) \<and>
           frame (ks - {k}) (io_dev s) (io_dev t)) s"
    for ks s k
    using wp_mono [OF well_release_io [of env A ks "io_dev s" s k]] by (auto simp: well_start well_def)
qed

text \<open>Creating a session: a new owned session with a handle, or the same owned sessions as before.\<close>

definition created :: "nat set \<Rightarrow> nat set \<Rightarrow> voice \<Rightarrow> nat \<Rightarrow> nat \<Rightarrow> nat \<Rightarrow> voice \<Rightarrow> bool" where
  "created A ks u type path s v \<longleftrightarrow> s \<notin> ks \<and> quiet A (insert s ks) v \<and> frame ks u v \<and>
     (\<exists>x. vo_heap v s = Some x \<and> qs_handle x \<noteq> 0 \<and> qs_port x = of_nat path \<and>
        vo_services u ! type = Some (qs_svc x))"

lemma insert_steady:
  assumes "well A ks u v" "vo_services v ! type = Some a" "type < Q6VOICE_SERVICE_COUNT"
    and "path < Q6VOICE_PATH_COUNT"
  shows "case session_insert a path v of
      (v', Inl e) \<Rightarrow> v' = v \<and> e = - EBUSY
    | (v', Inr s) \<Rightarrow> s \<notin> ks \<and> quiet A (insert s ks) v' \<and> frame ks u v' \<and>
        vo_heap v' s = Some \<lparr>qs_svc = a, qs_refcount = 1, qs_port = of_nat path, qs_handle = 0,
          qs_expected_opcode = 0, qs_result = 0\<rparr>"
proof -
  have w: "finite ks" "A \<subseteq> dom (vo_svcs v)" "sess_inv ks (mset_set ks) v" "frame ks u v"
    using assms(1) by (auto simp: well_def quiet_def)
  have a: "vo_svcs v a \<noteq> None"
    using w(3) assms(2,3) unfolding sess_inv_def tables_ok_def by blast
  obtain v' r where vr: "session_insert a path v = (v', r)" by fastforce
  show ?thesis
  proof (cases r)
    case (Inl e)
    then show ?thesis using sess_inv_insert [OF w(3) a assms(4)] vr by simp
  next
    case (Inr s)
    have s: "s \<notin> ks" "sess_inv (insert s ks) (add_mset s (mset_set ks)) v'"
      and h: "vo_heap v' s = Some \<lparr>qs_svc = a, qs_refcount = 1, qs_port = of_nat path,
          qs_handle = 0, qs_expected_opcode = 0, qs_result = 0\<rparr>"
      using sess_inv_insert [OF w(3) a assms(4)] vr Inr w(1) by auto
    have f: "frame ks v v' \<and> dom (vo_svcs v') = dom (vo_svcs v)"
      using vr Inr s(1) a
      by (auto simp: session_insert_def frame_def Let_def split: option.splits if_splits)
    then show ?thesis
      using s h vr Inr w by (auto simp: quiet_def mset_set.insert intro: frame_trans)
  qed
qed

lemma create_steady:
  assumes "env_ok env A" "well A ks u (io_dev \<sigma>)"
    and "type < Q6VOICE_SERVICE_COUNT" "path < Q6VOICE_PATH_COUNT"
  shows "wp (q6voice_session_create env type path hdr)
    (\<lambda>r \<tau>. case r of Inl e \<Rightarrow> e \<noteq> 0 \<and> well A ks u (io_dev \<tau>)
       | Inr s \<Rightarrow> created A ks u type path s (io_dev \<tau>)) \<sigma>"
proof (cases "vo_services (io_dev \<sigma>) ! type")
  case None
  then show ?thesis using assms(2) by (simp add: q6voice_session_create_def wp_simps)
next
  case (Some a)
  have services: "vo_services u ! type = Some a"
    using Some assms(2) by (simp add: well_def frame_def)
  obtain v' r where vr: "session_insert a path (io_dev \<sigma>) = (v', r)" by fastforce
  note ins = insert_steady [OF assms(2) Some assms(3,4), unfolded vr]
  show ?thesis
  proof (cases r)
    case (Inl e)
    then show ?thesis
      using ins assms(2) Some vr by (simp add: q6voice_session_create_def wp_simps)
  next
    case (Inr s)
    have start: "well A (insert s ks) v' v'" "s \<notin> ks" "frame ks u v'"
      and h: "vo_heap v' s = Some \<lparr>qs_svc = a, qs_refcount = 1, qs_port = of_nat path,
          qs_handle = 0, qs_expected_opcode = 0, qs_result = 0\<rparr>"
      using ins Inr by (auto intro: well_start)
    have drop: "wp (q6voice_session_release env s) (\<lambda>_ \<tau>. well A ks u (io_dev \<tau>)) \<tau>"
      if "well A (insert s ks) v' (io_dev \<tau>)" for \<tau>
    proof (rule wp_mono [OF well_release_io [OF assms(1) that]])
      fix \<tau> :: voice_io
      assume "well A (insert s ks - {s}) v' (io_dev \<tau>)"
      then show "well A ks u (io_dev \<tau>)" using start by (auto simp: well_def intro: frame_trans)
    qed simp
    have rest: "wp (do {
        x \<leftarrow> sess_read s;
        if rc \<noteq> 0 then do { q6voice_session_release env s; ret (Inl rc) }
        else if qs_handle x = 0 then do { q6voice_session_release env s; ret (Inl (- EIO)) }
        else ret (Inr s)
      }) (\<lambda>r \<tau>. case r of Inl e \<Rightarrow> e \<noteq> 0 \<and> well A ks u (io_dev \<tau>)
          | Inr s \<Rightarrow> created A ks u type path s (io_dev \<tau>)) \<tau>"
      if w: "well A (insert s ks) v' (io_dev \<tau>)" for rc and \<tau> :: voice_io
    proof -
      obtain x where x: "vo_heap (io_dev \<tau>) s = Some x" "qs_svc x = a" "qs_port x = of_nat path"
        using w h by (auto simp: well_def frame_def)
      have "frame ks u (io_dev \<tau>)"
        using w start(3) unfolding well_def by (meson frame_subset frame_trans subset_insertI)
      then have "qs_handle x \<noteq> 0 \<Longrightarrow> created A ks u type path s (io_dev \<tau>)"
        using w x start(2) services by (auto simp: created_def well_def)
      then show ?thesis
        using wp_mono [OF drop [OF w]] by (auto simp: wp_simps x)
    qed
    have "wp (q6voice_common_send env s hdr) (\<lambda>rc. wp (do {
        x \<leftarrow> sess_read s;
        if rc \<noteq> 0 then do { q6voice_session_release env s; ret (Inl rc) }
        else if qs_handle x = 0 then do { q6voice_session_release env s; ret (Inl (- EIO)) }
        else ret (Inr s)
      }) (\<lambda>r \<tau>. case r of Inl e \<Rightarrow> e \<noteq> 0 \<and> well A ks u (io_dev \<tau>)
          | Inr s \<Rightarrow> created A ks u type path s (io_dev \<tau>))) \<tau>"
      if "io_dev \<tau> = v'" for \<tau>
      by (rule wp_mono [OF well_send_io [OF assms(1)] rest]) (use start(1) that in auto)
    then show ?thesis
      using Inr assms(2)
      by (simp add: q6voice_session_create_def wp_bind [symmetric])
        (simp add: wp_simps vr Some)
  qed
qed

section \<open>The replies to a command\<close>

text \<open>
  The effect of a delivered reply on a session in its slot, and the reply that answers a command:
  the first basic result on the session's device and port that names the opcode and comes from
  the session's handle (any handle while it has none).
\<close>

definition reply_effect :: "venv \<Rightarrow> nat \<times> apr_resp_pkt \<Rightarrow> q6voice_session \<Rightarrow> q6voice_session" where
  "reply_effect env r x =
     (if fst r = qs_svc x \<and> rp_dest_port (snd r) = qs_port x \<and>
         rp_opcode (snd r) = ve_basic_rsp_result env
      then session_reply (rp_src_port (snd r)) (le32 (rp_payload (snd r)))
        (le32 (drop 4 (rp_payload (snd r)))) x
      else x)"

definition answers :: "venv \<Rightarrow> q6voice_session \<Rightarrow> u32 \<Rightarrow> nat \<times> apr_resp_pkt \<Rightarrow> bool" where
  "answers env x opcode r \<longleftrightarrow>
     fst r = qs_svc x \<and> rp_dest_port (snd r) = qs_port x \<and>
     rp_opcode (snd r) = ve_basic_rsp_result env \<and> le32 (rp_payload (snd r)) = opcode \<and>
     (qs_handle x = 0 \<or> rp_src_port (snd r) = qs_handle x)"

definition reply_status :: "nat \<times> apr_resp_pkt \<Rightarrow> u32" where
  "reply_status r = le32 (drop 4 (rp_payload (snd r)))"

lemma session_reply_refcount:
  "session_reply p opc st (x\<lparr>qs_refcount := n\<rparr>) = (session_reply p opc st x)\<lparr>qs_refcount := n\<rparr>"
  by (simp add: session_reply_def)

lemma heap_same: "vo_heap v s = Some x \<Longrightarrow> v\<lparr>vo_heap := (vo_heap v)(s \<mapsto> x)\<rparr> = v"
  by (cases v) (simp add: fun_upd_idem)

lemma sess_modify_put_get:
  assumes "vo_heap v s = Some x" "qs_refcount x \<noteq> 0"
    and "\<And>y n. f (y\<lparr>qs_refcount := n\<rparr>) = (f y)\<lparr>qs_refcount := n\<rparr>"
    and "\<And>y. qs_refcount (f y) = qs_refcount y"
  shows "kref_put s (sess_modify s f (kref_get s v)) = sess_modify s f v"
proof -
  have same: "(f x)\<lparr>qs_refcount := qs_refcount x\<rparr> = f x"
    using assms(4) [of x] by (cases "f x") simp
  show ?thesis using assms(1,2) by (simp add: kref_get_def kref_put_def sess_modify_def assms(3,4) same)
qed

lemma put_get:
  assumes "vo_heap v s = Some x" "qs_refcount x \<noteq> 0"
  shows "kref_put s (kref_get s v) = v"
    and "kref_put s (raise_fault (kref_get s v)) = raise_fault v"
  using sess_modify_put_get [OF assms, of "\<lambda>y. y"] heap_same [OF assms(1)] assms
  by (cases v; simp add: sess_modify_def kref_put_def kref_get_def raise_fault_def fun_upd_idem)+

lemma callback_exact:
  assumes "sess_inv L R v" "vo_svcs v a \<noteq> None"
  shows "q6voice_common_callback env a data v =
    (case slot v a (unat (rp_dest_port data)) of None \<Rightarrow> v
     | Some s \<Rightarrow> q6voice_session_callback env s data v)"
proof -
  let ?i = "unat (rp_dest_port data)"
  obtain sv where sv: "vo_svcs v a = Some sv" using assms(2) by auto
  have len: "length (sv_sessions sv) = Q6VOICE_PATH_COUNT"
    using assms(1) sv by (auto simp: sess_inv_def tables_ok_def)
  have lookup: "callback_lookup a data v = (case slot v a ?i of None \<Rightarrow> (v, None)
      | Some s \<Rightarrow> (kref_get s v, Some s))"
    using sv len by (auto simp: callback_lookup_def slot_def split: option.split)
  show ?thesis
  proof (cases "slot v a ?i")
    case None
    then show ?thesis by (simp add: q6voice_common_callback_def lookup)
  next
    case (Some s)
    obtain x where x: "vo_heap v s = Some x"
      using assms(1) slot_session(2) [OF assms(1) Some] by (rule sess_invD)
    have "qs_refcount x \<noteq> 0"
      using x slot_session(2) [OF assms(1) Some] assms(1) by (auto simp: sess_inv_def live_refs_def)
    then have "kref_put s (q6voice_session_callback env s data (kref_get s v)) =
        q6voice_session_callback env s data v"
      using x by (simp add: q6voice_session_callback_def put_get sess_modify_put_get
          session_reply_refcount)
    then show ?thesis by (simp add: q6voice_common_callback_def lookup Some)
  qed
qed

lemma callback_effect:
  assumes "sess_inv L R v" "vo_svcs v a \<noteq> None" "reply_ok env data" "s \<in> L" "vo_heap v s = Some x"
  shows "vo_heap (q6voice_common_callback env a data v) s = Some (reply_effect env (a, data) x)"
proof -
  have sl: "slot v a (unat (rp_dest_port data)) = Some s \<longleftrightarrow>
      a = qs_svc x \<and> rp_dest_port data = qs_port x"
    unfolding slot_iff [OF assms(1)] using assms(4,5) by (auto dest: word_unat_eq_iff [THEN iffD2])
  show ?thesis
    using assms(3,5) sl unfolding callback_exact [OF assms(1,2)]
    by (auto simp: reply_effect_def q6voice_session_callback_def sess_modify_def reply_ok_def
        raise_fault_def split: option.splits)
qed

lemma wp_callbacks_effect:
  assumes "well A ks u (io_dev \<sigma>)" "s \<in> ks" "vo_heap (io_dev \<sigma>) s = Some x"
    and "\<forall>r\<in>set replies. fst r \<in> A \<and> reply_ok env (snd r)"
  shows "wp (iterM (\<lambda>(a, data). modify (q6voice_common_callback env a data)) replies)
    (\<lambda>_ \<tau>. well A ks u (io_dev \<tau>) \<and> vo_heap (io_dev \<tau>) s = Some (fold (reply_effect env) replies x) \<and>
       io_trace \<tau> = io_trace \<sigma>) \<sigma>"
  using assms
proof (induction replies arbitrary: \<sigma> x)
  case Nil
  then show ?case by (simp add: wp_simps)
next
  case (Cons r rs)
  obtain a data where r: "r = (a, data)" by (cases r)
  have ok: "a \<in> A" "reply_ok env data" using Cons.prems(4) r by auto
  have inv: "sess_inv ks (mset_set ks) (io_dev \<sigma>)" "vo_svcs (io_dev \<sigma>) a \<noteq> None"
    using Cons.prems(1) ok by (auto simp: well_def quiet_def)
  let ?v = "q6voice_common_callback env a data (io_dev \<sigma>)"
  have "vo_heap ?v s = Some (reply_effect env (a, data) x)"
    by (rule callback_effect [OF inv ok(2) Cons.prems(2,3)])
  then show ?case
    using Cons.IH [of "\<sigma>\<lparr>io_dev := ?v\<rparr>" "reply_effect env r x"] Cons.prems ok
    by (simp add: wp_simps r well_callback)
qed

text \<open>A run of replies, none of them for opcode 0: the first answer decides.\<close>

lemma reply_effect_keeps [simp]:
  "qs_svc (reply_effect env r x) = qs_svc x" "qs_port (reply_effect env r x) = qs_port x"
  by (simp_all add: reply_effect_def)

lemma replies_done:
  assumes "qs_expected_opcode x = 0" "\<forall>r\<in>set replies. le32 (rp_payload (snd r)) \<noteq> 0"
  shows "fold (reply_effect env) replies x = x"
  using assms by (induction replies) (auto simp: reply_effect_def session_reply_def)

lemma replies_pending:
  assumes "qs_expected_opcode x = opcode" "opcode \<noteq> 0"
    and "\<forall>r\<in>set replies. le32 (rp_payload (snd r)) \<noteq> 0"
  shows "fold (reply_effect env) replies x = (case find (answers env x opcode) replies of
      None \<Rightarrow> x
    | Some r \<Rightarrow> x\<lparr>qs_handle := rp_src_port (snd r), qs_result := reply_status r,
        qs_expected_opcode := 0\<rparr>)"
  using assms
proof (induction replies)
  case Nil
  then show ?case by simp
next
  case (Cons r rs)
  show ?case
  proof (cases "answers env x opcode r")
    case True
    then have "reply_effect env r x = x\<lparr>qs_handle := rp_src_port (snd r),
        qs_result := reply_status r, qs_expected_opcode := 0\<rparr>"
      using Cons.prems(1)
      by (auto simp: answers_def reply_effect_def session_reply_def reply_status_def)
    then show ?thesis using True Cons.prems replies_done [of _ rs env] by simp
  next
    case False
    then have "reply_effect env r x = x"
      using Cons.prems(1) by (auto simp: answers_def reply_effect_def session_reply_def)
    then show ?thesis using False Cons by simp
  qed
qed

definition sent_pkt :: "venv \<Rightarrow> q6voice_session \<Rightarrow> apr_pkt \<Rightarrow> apr_pkt" where
  "sent_pkt env x hdr = hdr\<lparr>ap_hdr_field := ve_hdr_field env, ap_src_port := qs_port x,
     ap_dest_port := qs_handle x, ap_token := 0\<rparr>"

lemma send_outcome:
  fixes \<sigma> :: voice_io
  assumes "env_ok env A" "quiet A ks (io_dev \<sigma>)" "s \<in> ks" "vo_heap (io_dev \<sigma>) s = Some x"
    and "ap_opcode hdr \<noteq> 0"
    and pkt: "pkt = sent_pkt env x hdr"
    and rc: "rc = ve_send env (io_trace \<sigma>) (Vo_send (qs_svc x) pkt)"
    and replies: "replies = ve_arrivals env (io_trace \<sigma> @ [Vo_send (qs_svc x) pkt]) Vo_wait"
    and "\<forall>r\<in>set replies. le32 (rp_payload (snd r)) \<noteq> 0"
  shows "wp (q6voice_common_send env s hdr)
    (\<lambda>r \<tau>. io_trace \<tau> = io_trace \<sigma> @ [Vo_send (qs_svc x) pkt, Vo_wait] \<and>
       r = (if rc < 0 then rc
            else case find (answers env x (ap_opcode hdr)) replies of
              None \<Rightarrow> - ETIMEDOUT
            | Some a \<Rightarrow> if reply_status a = 0 then 0 else - EIO) \<and>
       well A ks (io_dev \<sigma>) (io_dev \<tau>) \<and>
       (\<forall>a. 0 \<le> rc \<longrightarrow> find (answers env x (ap_opcode hdr)) replies = Some a \<longrightarrow>
         (\<exists>y. vo_heap (io_dev \<tau>) s = Some y \<and> qs_handle y = rp_src_port (snd a)))) \<sigma>"
proof -
  let ?v = "send_begin s (ap_opcode hdr) (io_dev \<sigma>)"
  let ?x = "x\<lparr>qs_expected_opcode := ap_opcode hdr, qs_result := 0\<rparr>"
  have start: "well A ks (io_dev \<sigma>) ?v" "vo_heap ?v s = Some ?x"
    using well_send_begin [OF well_start [OF assms(2)] assms(3)] assms(4)
    by (simp_all add: send_begin_def sess_modify_def)
  have ok: "\<forall>r\<in>set replies. fst r \<in> A \<and> reply_ok env (snd r)"
    using assms(1) unfolding replies env_ok_def by fastforce
  have same: "answers env ?x (ap_opcode hdr) = answers env x (ap_opcode hdr)"
    by (simp add: answers_def fun_eq_iff)
  note eff = wp_callbacks_effect [OF _ assms(3) _ ok]
  note fin = replies_pending [of ?x "ap_opcode hdr" replies env, OF _ assms(5,9), unfolded same]
  show ?thesis
    unfolding q6voice_common_send_def Let_def wp_bind wp_sess_read assms(4) option.case wp_call
      wp_modify pkt [unfolded sent_pkt_def, symmetric]
    using start
    by (auto simp: rc [symmetric] replies [symmetric] wp_simps fin assms(3,5) word_gt_0
        intro!: wp_mono [OF eff] well_send_timeout split: option.splits)
qed

section \<open>Any interleaving\<close>

text \<open>
  The session layer as a transition system. The owners of sessions (the voice paths) create, send,
  time out and release; each callback is its own thread of three steps (lookup, session part,
  put). Every step is one of the critical sections above. \<open>vs_owners\<close> are the owners' references, with
  a flag for "already unlinked"; \<open>vs_cbs\<close> are the running callbacks, with a flag for "only
  the put is left".
\<close>

record vsys =
  vs_voice :: voice
  vs_owners :: "(nat \<times> bool) list"
  vs_cbs :: "(nat \<times> apr_resp_pkt \<times> bool) list"

inductive vstep :: "venv \<Rightarrow> vsys \<Rightarrow> vsys \<Rightarrow> bool" for env where
  vs_create: "type < Q6VOICE_SERVICE_COUNT \<Longrightarrow> vo_services (vs_voice y) ! type = Some a \<Longrightarrow>
    path < Q6VOICE_PATH_COUNT \<Longrightarrow> session_insert a path (vs_voice y) = (v, Inr s) \<Longrightarrow>
    vstep env y (y\<lparr>vs_voice := v, vs_owners := (s, False) # vs_owners y\<rparr>)"
| vs_send: "(s, False) \<in> set (vs_owners y) \<Longrightarrow>
    vstep env y (y\<lparr>vs_voice := send_begin s opcode (vs_voice y)\<rparr>)"
| vs_timeout: "(s, False) \<in> set (vs_owners y) \<Longrightarrow>
    vstep env y (y\<lparr>vs_voice := send_timeout s (vs_voice y)\<rparr>)"
| vs_unlink: "(s, False) \<in> set (vs_owners y) \<Longrightarrow>
    vstep env y (y\<lparr>vs_voice := session_unlink s (vs_voice y),
      vs_owners := (s, True) # remove1 (s, False) (vs_owners y)\<rparr>)"
| vs_put: "(s, True) \<in> set (vs_owners y) \<Longrightarrow>
    vstep env y (y\<lparr>vs_voice := kref_put s (vs_voice y),
      vs_owners := remove1 (s, True) (vs_owners y)\<rparr>)"
| vs_lookup: "vo_svcs (vs_voice y) a \<noteq> None \<Longrightarrow>
    callback_lookup a data (vs_voice y) = (v, Some s) \<Longrightarrow> reply_ok env data \<Longrightarrow>
    vstep env y (y\<lparr>vs_voice := v, vs_cbs := (s, data, False) # vs_cbs y\<rparr>)"
| vs_callback: "(s, data, False) \<in> set (vs_cbs y) \<Longrightarrow>
    vstep env y (y\<lparr>vs_voice := q6voice_session_callback env s data (vs_voice y),
      vs_cbs := (s, data, True) # remove1 (s, data, False) (vs_cbs y)\<rparr>)"
| vs_callback_put: "(s, data, True) \<in> set (vs_cbs y) \<Longrightarrow>
    vstep env y (y\<lparr>vs_voice := kref_put s (vs_voice y),
      vs_cbs := remove1 (s, data, True) (vs_cbs y)\<rparr>)"

inductive_cases vstep_cases: "vstep env y z"

inductive vreach :: "venv \<Rightarrow> vsys \<Rightarrow> vsys \<Rightarrow> bool" for env y where
  vreach_refl: "vreach env y y"
| vreach_step: "vreach env y z \<Longrightarrow> vstep env z w \<Longrightarrow> vreach env y w"

definition vs_refs :: "vsys \<Rightarrow> nat multiset" where
  "vs_refs y = mset (map fst (vs_owners y)) + mset (map fst (vs_cbs y))"

definition vs_linked :: "vsys \<Rightarrow> nat set" where
  "vs_linked y = {s. (s, False) \<in> set (vs_owners y)}"

definition vs_inv :: "venv \<Rightarrow> vsys \<Rightarrow> bool" where
  "vs_inv env y \<longleftrightarrow> sess_inv (vs_linked y) (vs_refs y) (vs_voice y) \<and>
     distinct (map fst (vs_owners y)) \<and> (\<forall>c\<in>set (vs_cbs y). reply_ok env (fst (snd c)))"

lemma vs_refs_simps [simp]:
  "vs_refs (y\<lparr>vs_voice := v\<rparr>) = vs_refs y" "vs_linked (y\<lparr>vs_voice := v\<rparr>) = vs_linked y"
  "vs_linked (y\<lparr>vs_cbs := cs\<rparr>) = vs_linked y"
  by (simp_all add: vs_refs_def vs_linked_def)

lemma mset_fst_remove1:
  "x \<in> set xs \<Longrightarrow> mset (map fst xs) = add_mset (fst x) (mset (map fst (remove1 x xs)))"
  by (induction xs) auto

lemma distinct_fst_remove1:
  "distinct (map fst xs) \<Longrightarrow> x \<in> set xs \<Longrightarrow> distinct (map fst (remove1 x xs)) \<and>
     fst x \<notin> set (map fst (remove1 x xs)) \<and> set (remove1 x xs) = set xs - {x}"
  by (induction xs) (auto simp: rev_image_eqI)

lemma owner_ref: "(s, b) \<in> set (vs_owners y) \<Longrightarrow> s \<in># vs_refs y"
  by (force simp: vs_refs_def)

lemma vstep_inv:
  assumes "vstep env y z" "vs_inv env y"
  shows "vs_inv env z"
  using assms
proof (cases rule: vstep.cases)
  case (vs_create type a path v s)
  have inv: "sess_inv (vs_linked y) (vs_refs y) (vs_voice y)" using assms(2) by (simp add: vs_inv_def)
  have "vo_svcs (vs_voice y) a \<noteq> None"
    using inv vs_create(2,3) unfolding sess_inv_def tables_ok_def by blast
  then have new: "s \<notin># vs_refs y" "sess_inv (insert s (vs_linked y)) (add_mset s (vs_refs y)) v"
    using sess_inv_insert [OF inv, of a path] vs_create(4,5) by auto
  have "vs_linked z = insert s (vs_linked y)" "vs_refs z = add_mset s (vs_refs y)"
    by (auto simp: vs_create(1) vs_linked_def vs_refs_def)
  then show ?thesis
    using new assms(2) by (auto simp: vs_inv_def vs_create(1) vs_refs_def)
next
  case (vs_send s opcode)
  then show ?thesis
    using assms(2) by (auto simp: vs_inv_def send_begin_def owner_ref intro!: sess_inv_modify)
next
  case (vs_timeout s)
  then show ?thesis
    using assms(2) by (auto simp: vs_inv_def send_timeout_def owner_ref intro!: sess_inv_modify)
next
  case (vs_unlink s)
  have inv: "sess_inv (vs_linked y) (vs_refs y) (vs_voice y)" "distinct (map fst (vs_owners y))"
    using assms(2) by (auto simp: vs_inv_def)
  note rm = distinct_fst_remove1 [OF inv(2) vs_unlink(2)]
  have "vs_linked z = vs_linked y - {s}"
    using rm by (auto simp: vs_unlink(1) vs_linked_def)
  moreover have "vs_refs z = vs_refs y"
    using mset_fst_remove1 [OF vs_unlink(2)] by (simp add: vs_unlink(1) vs_refs_def)
  ultimately show ?thesis
    using assms(2) rm sess_inv_unlink [OF inv(1) owner_ref [OF vs_unlink(2)]]
    by (auto simp: vs_inv_def vs_unlink(1))
next
  case (vs_put s)
  have inv: "sess_inv (vs_linked y) (vs_refs y) (vs_voice y)" "distinct (map fst (vs_owners y))"
    using assms(2) by (auto simp: vs_inv_def)
  note rm = distinct_fst_remove1 [OF inv(2) vs_put(2)]
  have "vs_linked z = vs_linked y"
    using rm by (auto simp: vs_put(1) vs_linked_def)
  moreover have "vs_refs y = add_mset s (vs_refs z)"
    using mset_fst_remove1 [OF vs_put(2)] by (simp add: vs_put(1) vs_refs_def)
  moreover have "vs_linked z \<subseteq> set_mset (vs_refs z)"
    by (auto simp: vs_linked_def owner_ref)
  ultimately have "sess_inv (vs_linked z) (vs_refs z) (vs_voice z)"
    using sess_inv_kref_put [of "vs_linked z" s "vs_refs z"] inv(1) by (simp add: vs_put(1))
  then show ?thesis using assms(2) rm by (auto simp: vs_inv_def vs_put(1))
next
  case (vs_lookup a data v s)
  have inv: "sess_inv (vs_linked y) (vs_refs y) (vs_voice y)" using assms(2) by (simp add: vs_inv_def)
  have "sess_inv (vs_linked y) (add_mset s (vs_refs y)) v"
    using callback_lookup_inv [OF inv vs_lookup(2), of data] vs_lookup(3) by auto
  moreover have "vs_refs z = add_mset s (vs_refs y)" "vs_linked z = vs_linked y"
    by (simp_all add: vs_lookup(1) vs_refs_def vs_linked_def)
  ultimately show ?thesis using assms(2) vs_lookup(4) by (auto simp: vs_inv_def vs_lookup(1))
next
  case (vs_callback s data)
  have refs: "vs_refs z = vs_refs y" "vs_linked z = vs_linked y"
    using mset_fst_remove1 [OF vs_callback(2)]
    by (simp_all add: vs_callback(1) vs_refs_def vs_linked_def)
  have "s \<in># vs_refs y" "reply_ok env data"
    using vs_callback(2) assms(2) by (force simp: vs_refs_def, force simp: vs_inv_def)
  then have "sess_inv (vs_linked z) (vs_refs z) (vs_voice z)"
    using session_callback_inv [of "vs_linked y" "vs_refs y" "vs_voice y" s env data] assms(2)
    by (simp add: refs vs_inv_def) (simp add: vs_callback(1))
  then show ?thesis
    using assms(2) \<open>reply_ok env data\<close>
    by (auto simp: vs_inv_def vs_callback(1) dest: notin_set_remove1)
next
  case (vs_callback_put s data)
  have refs: "vs_refs y = add_mset s (vs_refs z)" "vs_linked z = vs_linked y"
    using mset_fst_remove1 [OF vs_callback_put(2)]
    by (simp_all add: vs_callback_put(1) vs_refs_def vs_linked_def)
  have "vs_linked z \<subseteq> set_mset (vs_refs z)"
    by (auto simp: vs_linked_def owner_ref)
  then have "sess_inv (vs_linked z) (vs_refs z) (vs_voice z)"
    using sess_inv_kref_put [of "vs_linked z" s "vs_refs z" "vs_voice y"] assms(2)
    by (simp add: vs_inv_def refs) (simp add: vs_callback_put(1))
  then show ?thesis
    using assms(2) by (auto simp: vs_inv_def vs_callback_put(1) dest: notin_set_remove1)
qed

lemma vreach_inv: "vreach env y z \<Longrightarrow> vs_inv env y \<Longrightarrow> vs_inv env z"
  by (induction rule: vreach.induct) (auto intro: vstep_inv)

section \<open>A system with its three services bound\<close>

text \<open>The static data before any probe, and the state after the three services' probes.\<close>

definition voice_empty :: voice where
  "voice_empty = \<lparr>vo_services = replicate Q6VOICE_SERVICE_COUNT None, vo_svcs = (\<lambda>_. None),
     vo_heap = (\<lambda>_. None), vo_next = 0, vo_paths = [], vo_fault = False\<rparr>"

definition voice_bound :: "venv \<Rightarrow> nat \<Rightarrow> nat \<Rightarrow> nat \<Rightarrow> voice" where
  "voice_bound env mvm cvp cvs = io_dev (snd (run_state (do {
     _ \<leftarrow> q6voice_common_probe env mvm Q6VOICE_SERVICE_MVM;
     _ \<leftarrow> q6voice_common_probe env cvp Q6VOICE_SERVICE_CVP;
     q6voice_common_probe env cvs Q6VOICE_SERVICE_CVS
   }) \<lparr>io_trace = [], io_dev = voice_empty\<rparr>))"

lemma voice_bound_eq:
  assumes "\<And>tr e. ve_alloc env tr e" "distinct [mvm, cvp, cvs]"
  shows "voice_bound env mvm cvp cvs = voice_empty
    \<lparr>vo_services := [Some mvm, Some cvp, Some cvs],
     vo_svcs := [mvm \<mapsto> \<lparr>sv_type = 0, sv_sessions = replicate 8 None\<rparr>,
                 cvp \<mapsto> \<lparr>sv_type = 1, sv_sessions = replicate 8 None\<rparr>,
                 cvs \<mapsto> \<lparr>sv_type = 2, sv_sessions = replicate 8 None\<rparr>]\<rparr>"
  using assms
  by (simp add: voice_bound_def q6voice_common_probe_def voice_empty_def whenM_def numeral_3_eq_3)

lemma voice_bound_quiet:
  assumes "\<And>tr e. ve_alloc env tr e" "distinct [mvm, cvp, cvs]"
  shows "quiet {mvm, cvp, cvs} {} (voice_bound env mvm cvp cvs)"
proof -
  have "slot (voice_bound env mvm cvp cvs) a i \<noteq> Some s" for a i s
    using assms by (simp add: voice_bound_eq slot_def)
  then have "linked {} (voice_bound env mvm cvp cvs)"
    by (simp add: linked_def)
  moreover have "tables_ok (voice_bound env mvm cvp cvs)"
    using assms by (auto simp: voice_bound_eq tables_ok_def numeral_3_eq_3 less_Suc_eq nth_Cons')
  ultimately show ?thesis
    using assms by (auto simp: quiet_def sess_inv_def live_refs_def voice_bound_eq voice_empty_def)
qed

section \<open>A DSP that answers\<close>

text \<open>
  A basic result for a packet: the command's opcode and a status, from the handle \<open>h\<close>. A cooperative
  environment has memory, accepts every packet and answers each with one result of status 0, from
  the handle the packet is addressed to, or a new one if it is addressed to none.
\<close>

definition bytes32 :: "u32 \<Rightarrow> u8 list" where
  "bytes32 w = [ucast w, ucast (drop_bit 8 w), ucast (drop_bit 16 w), ucast (drop_bit 24 w)]"

lemma le32_bytes32 [simp]: "le32 (bytes32 w @ bs) = w"
proof (rule bit_word_eqI)
  fix n :: nat
  assume "n < LENGTH(32)"
  then consider "n < 8" | "8 \<le> n" "n < 16" | "16 \<le> n" "n < 24" | "24 \<le> n" "n < 32"
    by fastforce
  then show "bit (le32 (bytes32 w @ bs)) n = bit w n"
    by cases (auto simp: le32_def bytes32_def bit_simps)
qed

lemma le32_bytes32' [simp]: "le32 (bytes32 w) = w"
  using le32_bytes32 [of w "[]"] by simp

lemma length_bytes32 [simp]: "length (bytes32 w) = 4"
  by (simp add: bytes32_def)

definition basic_result :: "venv \<Rightarrow> u16 \<Rightarrow> apr_pkt \<Rightarrow> u32 \<Rightarrow> apr_resp_pkt" where
  "basic_result env h pkt status = \<lparr>rp_opcode = ve_basic_rsp_result env, rp_src_port = h,
     rp_dest_port = ap_src_port pkt, rp_payload = bytes32 (ap_opcode pkt) @ bytes32 status\<rparr>"

definition cooperative :: "venv \<Rightarrow> nat set \<Rightarrow> bool" where
  "cooperative env A \<longleftrightarrow> (\<forall>tr e. ve_alloc env tr e) \<and>
     (\<forall>tr a pkt. a \<in> A \<longrightarrow> 0 \<le> ve_send env tr (Vo_send a pkt) \<and>
        (\<exists>h. h \<noteq> 0 \<and> (ap_dest_port pkt = 0 \<or> h = ap_dest_port pkt) \<and>
           ve_arrivals env (tr @ [Vo_send a pkt]) Vo_wait = [(a, basic_result env h pkt 0)]))"

definition dsp_handle :: "nat \<Rightarrow> apr_pkt \<Rightarrow> u16" where
  "dsp_handle a pkt = (if ap_dest_port pkt = 0 then 0x100 + of_nat a else ap_dest_port pkt)"

text \<open>The devices 10, 20 and 30 as MVM, CVP and CVS of a cooperative DSP.\<close>

definition demo_env :: venv where
  "demo_env = \<lparr>ve_alloc = \<lambda>_ _. True, ve_send = \<lambda>_ _. 0,
     ve_arrivals = \<lambda>tr _. (if tr = [] then [] else (case last tr of
         Vo_send a pkt \<Rightarrow> (if a = 10 \<or> a = 20 \<or> a = 30
           then [(a, \<lparr>rp_opcode = 0x110E8, rp_src_port = dsp_handle a pkt,
             rp_dest_port = ap_src_port pkt, rp_payload = bytes32 (ap_opcode pkt) @ bytes32 0\<rparr>)]
           else [])
       | _ \<Rightarrow> [])),
     ve_core = \<lambda>_ _. 0, ve_hdr_field = 0x0250, ve_hdr_size = 20, ve_basic_rsp_result = 0x110E8\<rparr>"

lemma demo_env_simps [simp]:
  "ve_alloc demo_env tr e" "ve_send demo_env tr e = 0" "ve_core demo_env tr e = 0"
  "ve_basic_rsp_result demo_env = 0x110E8" "ve_hdr_size demo_env = 20"
  "ve_arrivals demo_env [Vo_send a pkt] e = (if a = 10 \<or> a = 20 \<or> a = 30
     then [(a, basic_result demo_env (dsp_handle a pkt) pkt 0)] else [])"
  "ve_arrivals demo_env (tr @ [Vo_send a pkt]) e = (if a = 10 \<or> a = 20 \<or> a = 30
     then [(a, basic_result demo_env (dsp_handle a pkt) pkt 0)] else [])"
  by (simp_all add: demo_env_def basic_result_def)

lemma demo_env_ok: "env_ok demo_env {10, 20, 30}"
  by (auto simp: env_ok_def demo_env_def reply_ok_def split: vev.splits if_splits)

lemma demo_env_cooperative: "cooperative demo_env {10, 20, 30}"
proof -
  have "dsp_handle a pkt \<noteq> 0 \<and> (ap_dest_port pkt = 0 \<or> dsp_handle a pkt = ap_dest_port pkt)"
    if "a \<in> {10, 20, 30}" for a pkt
    using that by (auto simp: dsp_handle_def)
  moreover have "ve_arrivals demo_env (tr @ [Vo_send a pkt]) Vo_wait =
      [(a, basic_result demo_env (dsp_handle a pkt) pkt 0)]" if "a \<in> {10, 20, 30}" for tr a pkt
    using that by auto
  ultimately show ?thesis
    unfolding cooperative_def by (metis demo_env_simps(1,2) order_refl)
qed

abbreviation demo_voice :: voice where
  "demo_voice \<equiv> voice_bound demo_env 10 20 30"

lemma demo_voice_quiet: "quiet {10, 20, 30} {} demo_voice"
  using voice_bound_quiet [of demo_env 10 20 30] by simp

text \<open>The demo system with one MVM session on path 0.\<close>

definition demo_voice1 :: voice where
  "demo_voice1 = fst (session_insert 10 0 demo_voice)"

lemma demo_insert: "session_insert 10 0 demo_voice = (demo_voice1, Inr 0)"
  by (simp add: demo_voice1_def session_insert_def voice_bound_eq voice_empty_def Let_def)

lemma demo_voice1_svcs: "vo_svcs demo_voice1 10 =
    Some \<lparr>sv_type = 0, sv_sessions = (replicate 8 None)[0 := Some 0]\<rparr>"
  by (simp add: demo_voice1_def session_insert_def voice_bound_eq voice_empty_def Let_def)

lemma demo_voice1_quiet: "quiet {10, 20, 30} {0} demo_voice1"
  and demo_voice1_session: "vo_heap demo_voice1 0 = Some \<lparr>qs_svc = 10, qs_refcount = 1, qs_port = 0,
      qs_handle = 0, qs_expected_opcode = 0, qs_result = 0\<rparr>"
  using insert_steady [OF well_start [OF demo_voice_quiet], of 0 10 0] demo_insert
  by (auto simp: voice_bound_eq)

section \<open>Properties\<close>

text \<open>
  C3: No use after free and no leak, under any interleaving. Start with bound services and no
  session; let owners create, send, time out and release sessions and let any number of
  callbacks run, each step of each in any order. Then no access ever goes through a freed session
  or outside a table, a session is allocated exactly as long as an owner or a running
  callback holds it, and its reference count is the number of those.
\<close>

theorem q6voice_no_use_after_free:
  assumes "quiet A {} v" "vreach env \<lparr>vs_voice = v, vs_owners = [], vs_cbs = []\<rparr> y"
  shows "\<not> vo_fault (vs_voice y) \<and>
    (\<forall>s. vo_heap (vs_voice y) s \<noteq> None \<longleftrightarrow>
       s \<in> fst ` set (vs_owners y) \<or> s \<in> fst ` set (vs_cbs y)) \<and>
    (\<forall>s x. vo_heap (vs_voice y) s = Some x \<longrightarrow>
       qs_refcount x = count_list (map fst (vs_owners y)) s + count_list (map fst (vs_cbs y)) s)"
proof -
  have "vs_inv env \<lparr>vs_voice = v, vs_owners = [], vs_cbs = []\<rparr>"
    using assms(1) by (simp add: vs_inv_def vs_linked_def vs_refs_def quiet_def)
  then have "vs_inv env y" using assms(2) vreach_inv by blast
  then have "\<not> vo_fault (vs_voice y)" "live_refs (vs_refs y) (vs_voice y)"
    by (simp_all add: vs_inv_def sess_inv_def)
  then show ?thesis
    by (auto simp: live_refs_def vs_refs_def count_mset count_list_eq_length_filter simp del: mset_map)
qed

theorem q6voice_no_use_after_free_witness:
  "\<exists>y. vreach demo_env \<lparr>vs_voice = demo_voice, vs_owners = [], vs_cbs = []\<rparr> y \<and>
     vs_owners y = [] \<and> vo_heap (vs_voice y) 0 \<noteq> None \<and> \<not> vo_fault (vs_voice y)"
proof -
  let ?y0 = "\<lparr>vs_voice = demo_voice, vs_owners = [], vs_cbs = []\<rparr>"
  let ?d = "basic_result demo_env 5 (apr_cmd demo_env 7 []) 0"
  let ?y4 = "\<lparr>vs_voice = kref_put 0 (session_unlink 0 (kref_get 0 demo_voice1)), vs_owners = [],
    vs_cbs = [(0, ?d, False)]\<rparr>"
  have st1: "vstep demo_env ?y0 \<lparr>vs_voice = demo_voice1, vs_owners = [(0, False)], vs_cbs = []\<rparr>"
    using vs_create [of 0 ?y0 10 0 demo_voice1 0 demo_env] demo_insert by (simp add: voice_bound_eq)
  have st2: "vstep demo_env \<lparr>vs_voice = demo_voice1, vs_owners = [(0, False)], vs_cbs = []\<rparr>
      \<lparr>vs_voice = kref_get 0 demo_voice1, vs_owners = [(0, False)], vs_cbs = [(0, ?d, False)]\<rparr>"
  proof -
    have "callback_lookup 10 ?d demo_voice1 = (kref_get 0 demo_voice1, Some 0)"
      by (simp add: callback_lookup_def demo_voice1_svcs basic_result_def apr_cmd_def)
    then show ?thesis
      using vs_lookup [of "\<lparr>vs_voice = demo_voice1, vs_owners = [(0, False)], vs_cbs = []\<rparr>" 10 ?d
          "kref_get 0 demo_voice1" 0 demo_env]
      by (simp add: demo_voice1_svcs basic_result_def reply_ok_def)
  qed
  have st3: "vstep demo_env
      \<lparr>vs_voice = kref_get 0 demo_voice1, vs_owners = [(0, False)], vs_cbs = [(0, ?d, False)]\<rparr>
      \<lparr>vs_voice = session_unlink 0 (kref_get 0 demo_voice1), vs_owners = [(0, True)],
       vs_cbs = [(0, ?d, False)]\<rparr>"
    using vs_unlink [of 0 "\<lparr>vs_voice = kref_get 0 demo_voice1, vs_owners = [(0, False)],
        vs_cbs = [(0, ?d, False)]\<rparr>" demo_env] by simp
  have st4: "vstep demo_env
      \<lparr>vs_voice = session_unlink 0 (kref_get 0 demo_voice1), vs_owners = [(0, True)],
       vs_cbs = [(0, ?d, False)]\<rparr> ?y4"
    using vs_put [of 0 "\<lparr>vs_voice = session_unlink 0 (kref_get 0 demo_voice1),
        vs_owners = [(0, True)], vs_cbs = [(0, ?d, False)]\<rparr>" demo_env] by simp
  have reach: "vreach demo_env ?y0 ?y4"
    by (rule vreach_step [OF vreach_step [OF vreach_step [OF vreach_step [OF vreach_refl st1] st2] st3] st4])
  have "vo_heap (vs_voice ?y4) 0 \<noteq> None \<and> \<not> vo_fault (vs_voice ?y4)"
    using q6voice_no_use_after_free [OF demo_voice_quiet reach] by simp
  then show ?thesis using reach by (intro exI [of _ ?y4]) simp
qed

text \<open>
  C28: What \<open>q6voice_common_send\<close> answers. With a session owned, the packet carries the session's
  port and handle; if the bus refuses it the bus's error is returned; otherwise the first reply that
  comes in on the session's device and port, names the command's opcode and comes from the session's
  handle decides (success for status 0, \<open>-EIO\<close> for any other), every other reply is ignored,
  and without such a reply the answer is \<open>-ETIMEDOUT\<close>.
\<close>

theorem q6voice_send_classifies:
  fixes \<sigma> :: voice_io
  assumes "env_ok env A" "quiet A ks (io_dev \<sigma>)" "s \<in> ks" "vo_heap (io_dev \<sigma>) s = Some x"
    and "ap_opcode hdr \<noteq> 0"
    and pkt: "pkt = sent_pkt env x hdr"
    and rc: "rc = ve_send env (io_trace \<sigma>) (Vo_send (qs_svc x) pkt)"
    and replies: "replies = ve_arrivals env (io_trace \<sigma> @ [Vo_send (qs_svc x) pkt]) Vo_wait"
    and "\<forall>r\<in>set replies. le32 (rp_payload (snd r)) \<noteq> 0"
  shows "wp (q6voice_common_send env s hdr)
    (\<lambda>r \<tau>. io_trace \<tau> = io_trace \<sigma> @ [Vo_send (qs_svc x) pkt, Vo_wait] \<and>
       r = (if rc < 0 then rc
            else case find (answers env x (ap_opcode hdr)) replies of
              None \<Rightarrow> - ETIMEDOUT
            | Some a \<Rightarrow> if reply_status a = 0 then 0 else - EIO)) \<sigma>"
  by (rule wp_mono [OF send_outcome [OF assms]]) simp

theorem q6voice_send_classifies_witness:
  "wp (q6voice_common_send demo_env 0 (apr_cmd demo_env 0x110FF [])) (\<lambda>r \<tau>. r = 0)
     \<lparr>io_trace = [], io_dev = demo_voice1\<rparr>"
  by (rule wp_mono [OF q6voice_send_classifies [OF demo_env_ok, of "{0}" _ 0, OF _ _ _ _ refl refl refl]])
    (auto simp: demo_voice1_quiet demo_voice1_session apr_cmd_def answers_def basic_result_def
      reply_status_def sent_pkt_def)

text \<open>
  C29: Creating a session is all or nothing, for every behaviour of the allocator, the bus and the
  DSP. On success there is exactly one more session: allocated with reference count 1, in the slot of
  its service and path, with the handle the DSP gave it. On any error, at whatever point it
  happens, the sessions are exactly the ones from before, and they are untouched.
\<close>

theorem q6voice_create_all_or_nothing:
  fixes \<sigma> :: voice_io
  assumes "env_ok env A" "quiet A ks (io_dev \<sigma>)"
    and "type < Q6VOICE_SERVICE_COUNT" "path < Q6VOICE_PATH_COUNT"
  shows "wp (q6voice_session_create env type path hdr)
    (\<lambda>r \<tau>. case r of
       Inl e \<Rightarrow> e \<noteq> 0 \<and> quiet A ks (io_dev \<tau>) \<and> frame ks (io_dev \<sigma>) (io_dev \<tau>)
     | Inr s \<Rightarrow> s \<notin> ks \<and> quiet A (insert s ks) (io_dev \<tau>) \<and> frame ks (io_dev \<sigma>) (io_dev \<tau>) \<and>
         (\<exists>x. vo_heap (io_dev \<tau>) s = Some x \<and> qs_refcount x = 1 \<and> qs_handle x \<noteq> 0 \<and>
            vo_services (io_dev \<sigma>) ! type = Some (qs_svc x) \<and>
            slot (io_dev \<tau>) (qs_svc x) path = Some s)) \<sigma>"
proof (rule wp_mono [OF create_steady [OF assms(1) well_start [OF assms(2)] assms(3,4)]])
  fix r and \<tau> :: voice_io
  assume r: "case r of Inl e \<Rightarrow> e \<noteq> 0 \<and> well A ks (io_dev \<sigma>) (io_dev \<tau>)
    | Inr s \<Rightarrow> created A ks (io_dev \<sigma>) type path s (io_dev \<tau>)"
  have port: "unat (of_nat path :: u16) = path" using assms(4) by (simp add: unat_of_nat)
  have "qs_refcount x = 1 \<and> slot (io_dev \<tau>) (qs_svc x) path = Some s"
    if "quiet A (insert s ks) (io_dev \<tau>)" "vo_heap (io_dev \<tau>) s = Some x" "qs_port x = of_nat path"
    for s x
    using that port by (auto simp: quiet_def sess_inv_def live_refs_def linked_def)
  then show "case r of
       Inl e \<Rightarrow> e \<noteq> 0 \<and> quiet A ks (io_dev \<tau>) \<and> frame ks (io_dev \<sigma>) (io_dev \<tau>)
     | Inr s \<Rightarrow> s \<notin> ks \<and> quiet A (insert s ks) (io_dev \<tau>) \<and> frame ks (io_dev \<sigma>) (io_dev \<tau>) \<and>
         (\<exists>x. vo_heap (io_dev \<tau>) s = Some x \<and> qs_refcount x = 1 \<and> qs_handle x \<noteq> 0 \<and>
            vo_services (io_dev \<sigma>) ! type = Some (qs_svc x) \<and>
            slot (io_dev \<tau>) (qs_svc x) path = Some s)"
    using r by (auto simp: well_def created_def split: sum.splits)
qed

theorem q6voice_create_all_or_nothing_witness:
  "wp (q6voice_session_create demo_env 1 0 (apr_cmd demo_env 0x112BF []))
     (\<lambda>r \<tau>. case r of Inl e \<Rightarrow> quiet {10, 20, 30} {0} (io_dev \<tau>)
        | Inr s \<Rightarrow> s \<noteq> 0 \<and> slot (io_dev \<tau>) 20 0 = Some s)
     \<lparr>io_trace = [], io_dev = demo_voice1\<rparr>"
proof (rule wp_mono [OF q6voice_create_all_or_nothing [OF demo_env_ok, of "{0}"]])
  have "vo_services demo_voice1 ! 1 = Some 20"
    by (simp add: demo_voice1_def session_insert_def voice_bound_eq Let_def voice_empty_def)
  moreover fix r and \<tau> :: voice_io
  assume "case r of
       Inl e \<Rightarrow> e \<noteq> 0 \<and> quiet {10, 20, 30} {0} (io_dev \<tau>) \<and>
         frame {0} (io_dev \<lparr>io_trace = [], io_dev = demo_voice1\<rparr>) (io_dev \<tau>)
     | Inr s \<Rightarrow> s \<notin> {0} \<and> quiet {10, 20, 30} (insert s {0}) (io_dev \<tau>) \<and>
         frame {0} (io_dev \<lparr>io_trace = [], io_dev = demo_voice1\<rparr>) (io_dev \<tau>) \<and>
         (\<exists>x. vo_heap (io_dev \<tau>) s = Some x \<and> qs_refcount x = 1 \<and> qs_handle x \<noteq> 0 \<and>
            vo_services (io_dev \<lparr>io_trace = [], io_dev = demo_voice1\<rparr>) ! 1 = Some (qs_svc x) \<and>
            slot (io_dev \<tau>) (qs_svc x) 0 = Some s)"
  ultimately show "case r of Inl e \<Rightarrow> quiet {10, 20, 30} {0} (io_dev \<tau>)
      | Inr s \<Rightarrow> s \<noteq> 0 \<and> slot (io_dev \<tau>) 20 0 = Some s"
    by (auto split: sum.splits)
qed (simp_all add: demo_voice1_quiet)

end
