(* ===== verification/Voice_Services.thy ===== *)
theory Voice_Services
  imports Voice_Common
begin

text \<open>
  \<^verbatim>\<open>drivers/audio/q6voice/q6mvm.c\<close>, \<^verbatim>\<open>q6cvs.c\<close> and \<^verbatim>\<open>q6cvp.c\<close>: the commands of the voice manager, the voice
  stream and the voice processor. Each builds a packet on the stack and hands it to the session
  layer. The payload is given byte by byte in the layout of the packed structure; bytes the code never
  writes are \<open>None\<close>. The module parameters are the record \<open>vparams\<close>; the code reads them at each
  use, so they are an argument of every operation.
\<close>

record vparams =
  tx_topology :: u32
  rx_topology :: u32
  vocproc_mode :: u32
  attach_stream :: bool
  unmute :: bool
  playback_port :: u32
  tx_port :: u32
  require_both :: bool

text \<open>The values the parameters are initialised with.\<close>

definition default_params :: vparams where
  "default_params = \<lparr>tx_topology = 0x00010F71, rx_topology = 0x00010F77, vocproc_mode = 0x00010F7C,
     attach_stream = False, unmute = True, playback_port = 0, tx_port = 0x4001, require_both = True\<rparr>"

section \<open>Session names\<close>

abbreviation (input) Q6VOICE_PATH_VOICE :: nat where "Q6VOICE_PATH_VOICE \<equiv> 0"
abbreviation (input) Q6VOICE_PATH_VOIP :: nat where "Q6VOICE_PATH_VOIP \<equiv> 1"
abbreviation (input) Q6VOICE_PATH_VOLTE :: nat where "Q6VOICE_PATH_VOLTE \<equiv> 2"
abbreviation (input) Q6VOICE_PATH_VOICE2 :: nat where "Q6VOICE_PATH_VOICE2 \<equiv> 3"
abbreviation (input) Q6VOICE_PATH_QCHAT :: nat where "Q6VOICE_PATH_QCHAT \<equiv> 4"
abbreviation (input) Q6VOICE_PATH_VOWLAN :: nat where "Q6VOICE_PATH_VOWLAN \<equiv> 5"
abbreviation (input) Q6VOICE_PATH_VOICEMMODE1 :: nat where "Q6VOICE_PATH_VOICEMMODE1 \<equiv> 6"
abbreviation (input) Q6VOICE_PATH_VOICEMMODE2 :: nat where "Q6VOICE_PATH_VOICEMMODE2 \<equiv> 7"

definition q6voice_get_session_name :: "nat \<Rightarrow> string option" where
  "q6voice_get_session_name path =
     (if path = Q6VOICE_PATH_VOICE then Some ''default modem voice''
      else if path = Q6VOICE_PATH_VOLTE then Some ''default volte voice''
      else if path = Q6VOICE_PATH_VOICE2 then Some ''10DC1000''
      else if path = Q6VOICE_PATH_QCHAT then Some ''10803000''
      else if path = Q6VOICE_PATH_VOWLAN then Some ''10002000''
      else if path = Q6VOICE_PATH_VOICEMMODE1 then Some ''11C05000''
      else if path = Q6VOICE_PATH_VOICEMMODE2 then Some ''11DC5000''
      else None)"

text \<open>
  \<^verbatim>\<open>strscpy\<close> into an uninitialised buffer of \<open>sz\<close> bytes: at most \<open>sz - 1\<close> characters and a
  terminator; what follows is not written.
\<close>

definition strscpy_fresh :: "nat \<Rightarrow> string \<Rightarrow> u8 option list" where
  "strscpy_fresh sz name =
     (let copied = map of_char (take (sz - 1) name) @ [0]
      in map Some copied @ replicate (sz - length copied) None)"

definition name_field :: "nat \<Rightarrow> u8 option list" where
  "name_field path = (case q6voice_get_session_name path of
     None \<Rightarrow> replicate 20 None | Some name \<Rightarrow> strscpy_fresh 20 name)"

definition bytes16 :: "u16 \<Rightarrow> u8 list" where
  "bytes16 w = [ucast w, ucast (drop_bit 8 w)]"

section \<open>The voice manager: q6mvm.c\<close>

abbreviation (input) VSS_IMVM_CMD_CREATE_PASSIVE_CONTROL_SESSION :: u32
  where "VSS_IMVM_CMD_CREATE_PASSIVE_CONTROL_SESSION \<equiv> 0x000110FF"
abbreviation (input) VSS_IMVM_CMD_SET_POLICY_DUAL_CONTROL :: u32
  where "VSS_IMVM_CMD_SET_POLICY_DUAL_CONTROL \<equiv> 0x00011327"
abbreviation (input) VSS_IMVM_CMD_ATTACH_STREAM :: u32 where "VSS_IMVM_CMD_ATTACH_STREAM \<equiv> 0x0001123C"
abbreviation (input) VSS_IMVM_CMD_DETACH_STREAM :: u32 where "VSS_IMVM_CMD_DETACH_STREAM \<equiv> 0x0001123D"
abbreviation (input) VSS_IMVM_CMD_ATTACH_VOCPROC :: u32 where "VSS_IMVM_CMD_ATTACH_VOCPROC \<equiv> 0x0001123E"
abbreviation (input) VSS_IMVM_CMD_DETACH_VOCPROC :: u32 where "VSS_IMVM_CMD_DETACH_VOCPROC \<equiv> 0x0001123F"
abbreviation (input) VSS_IMVM_CMD_START_VOICE :: u32 where "VSS_IMVM_CMD_START_VOICE \<equiv> 0x00011190"
abbreviation (input) VSS_IMVM_CMD_STOP_VOICE :: u32 where "VSS_IMVM_CMD_STOP_VOICE \<equiv> 0x00011192"

definition q6mvm_set_dual_control :: "venv \<Rightarrow> nat \<Rightarrow> int vm" where
  "q6mvm_set_dual_control env mvm =
     q6voice_common_send env mvm (apr_cmd env VSS_IMVM_CMD_SET_POLICY_DUAL_CONTROL [Some 1])"

definition q6mvm_session_create :: "venv \<Rightarrow> nat \<Rightarrow> (int + nat) vm" where
  "q6mvm_session_create env path =
     q6voice_session_create env Q6VOICE_SERVICE_MVM path
       (apr_cmd env VSS_IMVM_CMD_CREATE_PASSIVE_CONTROL_SESSION (name_field path))"

text \<open>Attaching reads the handle of the other session.\<close>

definition q6mvm_attach :: "venv \<Rightarrow> nat \<Rightarrow> nat \<Rightarrow> bool \<Rightarrow> int vm" where
  "q6mvm_attach env mvm cvp attach = do {
     x \<leftarrow> sess_read cvp;
     q6voice_common_send env mvm
       (apr_cmd env (if attach then VSS_IMVM_CMD_ATTACH_VOCPROC else VSS_IMVM_CMD_DETACH_VOCPROC)
         (map Some (bytes16 (qs_handle x))))
   }"

definition q6mvm_attach_stream :: "venv \<Rightarrow> nat \<Rightarrow> nat \<Rightarrow> bool \<Rightarrow> int vm" where
  "q6mvm_attach_stream env mvm cvs attach = do {
     x \<leftarrow> sess_read cvs;
     q6voice_common_send env mvm
       (apr_cmd env (if attach then VSS_IMVM_CMD_ATTACH_STREAM else VSS_IMVM_CMD_DETACH_STREAM)
         (map Some (bytes16 (qs_handle x))))
   }"

definition q6mvm_start :: "venv \<Rightarrow> nat \<Rightarrow> bool \<Rightarrow> int vm" where
  "q6mvm_start env mvm start =
     q6voice_common_send env mvm
       (apr_cmd env (if start then VSS_IMVM_CMD_START_VOICE else VSS_IMVM_CMD_STOP_VOICE) [])"

definition q6mvm_probe :: "venv \<Rightarrow> nat \<Rightarrow> int vm" where
  "q6mvm_probe env a = do {
     rc \<leftarrow> q6voice_common_probe env a Q6VOICE_SERVICE_MVM;
     if rc \<noteq> 0 then ret rc else call (ve_core env) (Vo_populate a)
   }"

definition q6mvm_remove :: "nat \<Rightarrow> unit vm" where
  "q6mvm_remove a = do { emit (Vo_depopulate a); q6voice_common_remove a }"

section \<open>The voice stream: q6cvs.c\<close>

abbreviation (input) VSS_ISTREAM_CMD_CREATE_PASSIVE_CONTROL_SESSION :: u32
  where "VSS_ISTREAM_CMD_CREATE_PASSIVE_CONTROL_SESSION \<equiv> 0x00011140"
abbreviation (input) VSS_IPLAYBACK_CMD_START :: u32 where "VSS_IPLAYBACK_CMD_START \<equiv> 0x000112BD"
abbreviation (input) VSS_IPLAYBACK_CMD_STOP :: u32 where "VSS_IPLAYBACK_CMD_STOP \<equiv> 0x00011239"

definition q6cvs_session_create :: "venv \<Rightarrow> nat \<Rightarrow> (int + nat) vm" where
  "q6cvs_session_create env path =
     q6voice_session_create env Q6VOICE_SERVICE_CVS path
       (apr_cmd env VSS_ISTREAM_CMD_CREATE_PASSIVE_CONTROL_SESSION (name_field path))"

definition q6cvs_start_playback :: "venv \<Rightarrow> nat \<Rightarrow> u16 \<Rightarrow> int vm" where
  "q6cvs_start_playback env cvs port_id =
     q6voice_common_send env cvs
       (apr_cmd env VSS_IPLAYBACK_CMD_START (map Some (bytes16 port_id)))"

definition q6cvs_stop_playback :: "venv \<Rightarrow> nat \<Rightarrow> int vm" where
  "q6cvs_stop_playback env cvs =
     q6voice_common_send env cvs (apr_cmd env VSS_IPLAYBACK_CMD_STOP [])"

definition q6cvs_probe :: "venv \<Rightarrow> nat \<Rightarrow> int vm" where
  "q6cvs_probe env a = q6voice_common_probe env a Q6VOICE_SERVICE_CVS"

section \<open>The voice processor: q6cvp.c\<close>

abbreviation (input) VSS_IVOCPROC_DIRECTION_RX_TX :: u16 where "VSS_IVOCPROC_DIRECTION_RX_TX \<equiv> 2"
abbreviation (input) VSS_IVOCPROC_PORT_ID_NONE :: u16 where "VSS_IVOCPROC_PORT_ID_NONE \<equiv> 0xFFFF"
abbreviation (input) VSS_ICOMMON_CAL_NETWORK_ID_NONE :: u32
  where "VSS_ICOMMON_CAL_NETWORK_ID_NONE \<equiv> 0x0001135E"
abbreviation (input) VSS_IVOLUME_CMD_MUTE_V2 :: u32 where "VSS_IVOLUME_CMD_MUTE_V2 \<equiv> 0x0001138B"
abbreviation (input) VSS_IVOLUME_CMD_SET_STEP :: u32 where "VSS_IVOLUME_CMD_SET_STEP \<equiv> 0x000112C2"
abbreviation (input) VSS_IVOCPROC_CMD_ENABLE :: u32 where "VSS_IVOCPROC_CMD_ENABLE \<equiv> 0x000100C6"
abbreviation (input) VSS_IVOCPROC_CMD_DISABLE :: u32 where "VSS_IVOCPROC_CMD_DISABLE \<equiv> 0x000110E1"
abbreviation (input) VSS_IVOCPROC_CMD_TOPOLOGY_COMMIT :: u32
  where "VSS_IVOCPROC_CMD_TOPOLOGY_COMMIT \<equiv> 0x00013198"
abbreviation (input) VSS_IVOCPROC_CMD_CREATE_FULL_CONTROL_SESSION_V2 :: u32
  where "VSS_IVOCPROC_CMD_CREATE_FULL_CONTROL_SESSION_V2 \<equiv> 0x000112BF"

text \<open>The payload of the create command; its name is never written.\<close>

definition cvp_create_payload :: "vparams \<Rightarrow> u16 \<Rightarrow> u16 \<Rightarrow> u8 option list" where
  "cvp_create_payload pr tx rx =
     map Some (bytes16 VSS_IVOCPROC_DIRECTION_RX_TX @ bytes16 tx @ bytes32 (tx_topology pr) @
       bytes16 rx @ bytes32 (rx_topology pr) @ bytes32 VSS_ICOMMON_CAL_NETWORK_ID_NONE @
       bytes32 (vocproc_mode pr) @ bytes16 VSS_IVOCPROC_PORT_ID_NONE) @
     replicate 20 None"

definition q6cvp_session_create :: "venv \<Rightarrow> vparams \<Rightarrow> nat \<Rightarrow> u16 \<Rightarrow> u16 \<Rightarrow> (int + nat) vm" where
  "q6cvp_session_create env pr path tx rx =
     q6voice_session_create env Q6VOICE_SERVICE_CVP path
       (apr_cmd env VSS_IVOCPROC_CMD_CREATE_FULL_CONTROL_SESSION_V2 (cvp_create_payload pr tx rx))"

text \<open>Muting: one command per direction, the first that fails ends it.\<close>

fun mute_dirs :: "venv \<Rightarrow> nat \<Rightarrow> bool \<Rightarrow> u16 list \<Rightarrow> int vm" where
  "mute_dirs env cvp mute [] = ret 0"
| "mute_dirs env cvp mute (dir # dirs) = do {
     rc \<leftarrow> q6voice_common_send env cvp (apr_cmd env VSS_IVOLUME_CMD_MUTE_V2
       (map Some (bytes16 dir @ bytes16 (if mute then 1 else 0) @ bytes16 0)));
     if rc \<noteq> 0 then ret rc else mute_dirs env cvp mute dirs
   }"

definition q6cvp_set_mute :: "venv \<Rightarrow> nat \<Rightarrow> bool \<Rightarrow> int vm" where
  "q6cvp_set_mute env cvp mute = mute_dirs env cvp mute [0, 1]"

definition q6cvp_set_volume :: "venv \<Rightarrow> nat \<Rightarrow> u32 \<Rightarrow> int vm" where
  "q6cvp_set_volume env cvp v =
     q6voice_common_send env cvp (apr_cmd env VSS_IVOLUME_CMD_SET_STEP
       (map Some (bytes16 1 @ bytes32 v @ bytes16 0)))"

definition q6cvp_enable :: "venv \<Rightarrow> nat \<Rightarrow> bool \<Rightarrow> int vm" where
  "q6cvp_enable env cvp enable =
     q6voice_common_send env cvp
       (apr_cmd env (if enable then VSS_IVOCPROC_CMD_ENABLE else VSS_IVOCPROC_CMD_DISABLE) [])"

definition q6cvp_send_topology_commit :: "venv \<Rightarrow> nat \<Rightarrow> int vm" where
  "q6cvp_send_topology_commit env cvp =
     q6voice_common_send env cvp (apr_cmd env VSS_IVOCPROC_CMD_TOPOLOGY_COMMIT [])"

definition q6cvp_probe :: "venv \<Rightarrow> nat \<Rightarrow> int vm" where
  "q6cvp_probe env a = q6voice_common_probe env a Q6VOICE_SERVICE_CVP"

section \<open>Properties\<close>

text \<open>
  The session names fit. For every path but VoIP, which has no name, the 20 byte field of
  the create commands is the whole name and its terminator, so the modem finds the session under
  the full name; the two longest names fill the field to the last byte. For VoIP, and after the
  shorter names, the field goes out with bytes the code never wrote.
\<close>

theorem q6voice_names_fit:
  assumes "path < Q6VOICE_PATH_COUNT"
  shows "length (name_field path) = 20 \<and>
    (case q6voice_get_session_name path of
       None \<Rightarrow> path = Q6VOICE_PATH_VOIP \<and> name_field path = replicate 20 None
     | Some name \<Rightarrow> path \<noteq> Q6VOICE_PATH_VOIP \<and> length name < 20 \<and>
         take (length name + 1) (name_field path) = map Some (map of_char name @ [0]) \<and>
         (None \<in> set (name_field path) \<longleftrightarrow> path \<notin> {Q6VOICE_PATH_VOICE, Q6VOICE_PATH_VOLTE}))"
proof -
  have "path = 0 \<or> path = 1 \<or> path = 2 \<or> path = 3 \<or> path = 4 \<or> path = 5 \<or> path = 6 \<or> path = 7"
    using assms by auto
  then show ?thesis
    by (auto simp: name_field_def q6voice_get_session_name_def strscpy_fresh_def Let_def)
qed

theorem q6voice_names_fit_witness:
  "None \<notin> set (name_field Q6VOICE_PATH_VOICE) \<and> None \<in> set (name_field Q6VOICE_PATH_VOICEMMODE2)"
  using q6voice_names_fit [of 0] q6voice_names_fit [of 7]
  by (simp add: q6voice_get_session_name_def)

end
