(* ===== verification/Voice_Path.thy ===== *)
theory Voice_Path
  imports Voice_Services
begin

text \<open>
  \<^verbatim>\<open>drivers/audio/q6voice/q6voice.c\<close> and \<^verbatim>\<open>q6voice-dai.c\<close>: the voice paths. A path runs when both
  directions of its PCM are open (or the playback direction, with \<open>require_both\<close> off); starting it
  creates the voice manager and processor sessions, connects them and starts the voice; stopping
  it undoes this, and the sessions are released when the last direction closes. \<open>path_ok\<close> is the
  invariant that ties the paths to the session layer; the proofs use the layer only through the facts
  of its interpretation \<open>q6voice\<close>.

  The local variable \<^verbatim>\<open>cvs\<close> of \<^verbatim>\<open>q6voice_path_start\<close> is not initialised when \<open>attach_stream\<close> is off; what the
  stack holds there is the argument \<open>junk\<close>. After \<open>vo_fault\<close> is set nothing is claimed.
\<close>

section \<open>Paths\<close>

definition path_runtime :: "nat \<Rightarrow> voice \<Rightarrow> q6voice_path_runtime option" where
  "path_runtime i v = pa_runtime (vo_paths v ! i)"

definition set_runtime :: "nat \<Rightarrow> q6voice_path_runtime option \<Rightarrow> voice \<Rightarrow> voice" where
  "set_runtime i rt v =
     v\<lparr>vo_paths := (vo_paths v)[i := (vo_paths v ! i)\<lparr>pa_runtime := rt\<rparr>]\<rparr>"

definition rt_modify :: "nat \<Rightarrow> (q6voice_path_runtime \<Rightarrow> q6voice_path_runtime) \<Rightarrow> voice \<Rightarrow> voice" where
  "rt_modify i f v = (case path_runtime i v of
     None \<Rightarrow> raise_fault v | Some rt \<Rightarrow> set_runtime i (Some (f rt)) v)"

definition fresh_runtime :: q6voice_path_runtime where
  "fresh_runtime = \<lparr>rt_sessions = replicate Q6VOICE_SERVICE_COUNT None, rt_started = 0\<rparr>"

definition rt_read :: "nat \<Rightarrow> q6voice_path_runtime vm" where
  "rt_read i = do {
     rt \<leftarrow> gets (path_runtime i);
     case rt of Some r \<Rightarrow> ret r | None \<Rightarrow> do { modify raise_fault; ret fresh_runtime }
   }"

definition set_session :: "nat \<Rightarrow> nat \<Rightarrow> nat \<Rightarrow> voice \<Rightarrow> voice" where
  "set_session i t s =
     rt_modify i (\<lambda>rt. rt\<lparr>rt_sessions := (rt_sessions rt)[t := Some s]\<rparr>)"

text \<open>A command through a session pointer that may be \<^verbatim>\<open>NULL\<close>.\<close>

definition nonnull :: "nat option \<Rightarrow> (nat \<Rightarrow> int vm) \<Rightarrow> int vm" where
  "nonnull p f = (case p of Some s \<Rightarrow> f s | None \<Rightarrow> do { modify raise_fault; ret 0 })"

section \<open>Starting\<close>

abbreviation (input) AFE_PORT_ID_QUATERNARY_MI2S_RX :: u16
  where "AFE_PORT_ID_QUATERNARY_MI2S_RX \<equiv> 0x1006"

definition path_start_mvm :: "venv \<Rightarrow> nat \<Rightarrow> (int + nat) vm" where
  "path_start_mvm env i = do {
     rt \<leftarrow> rt_read i;
     type \<leftarrow> gets (\<lambda>v. pa_type (vo_paths v ! i));
     case rt_sessions rt ! Q6VOICE_SERVICE_MVM of
       Some mvm \<Rightarrow> ret (Inr mvm)
     | None \<Rightarrow> do {
         r \<leftarrow> q6mvm_session_create env type;
         case r of
           Inl e \<Rightarrow> ret (Inl e)
         | Inr mvm \<Rightarrow> do {
             rc \<leftarrow> q6mvm_set_dual_control env mvm;
             if rc \<noteq> 0 then do { q6voice_session_release env mvm; ret (Inl rc) }
             else do { modify (set_session i Q6VOICE_SERVICE_MVM mvm); ret (Inr mvm) }
           }
       }
   }"

definition path_start_cvs :: "venv \<Rightarrow> vparams \<Rightarrow> nat option \<Rightarrow> nat \<Rightarrow> nat \<Rightarrow> (int + nat option) vm" where
  "path_start_cvs env pr junk i mvm =
     (if \<not> attach_stream pr then ret (Inr junk)
      else do {
        rt \<leftarrow> rt_read i;
        type \<leftarrow> gets (\<lambda>v. pa_type (vo_paths v ! i));
        r \<leftarrow> (case rt_sessions rt ! Q6VOICE_SERVICE_CVS of
            Some cvs \<Rightarrow> ret (Inr cvs)
          | None \<Rightarrow> do {
              r \<leftarrow> q6cvs_session_create env type;
              case r of
                Inl e \<Rightarrow> ret (Inl e)
              | Inr cvs \<Rightarrow> do { modify (set_session i Q6VOICE_SERVICE_CVS cvs); ret (Inr cvs) }
            });
        case r of
          Inl e \<Rightarrow> ret (Inl e)
        | Inr cvs \<Rightarrow> do {
            rc \<leftarrow> q6mvm_attach_stream env mvm cvs True;
            if rc \<noteq> 0 then ret (Inl rc) else ret (Inr (Some cvs))
          }
      })"

definition path_start_cvp :: "venv \<Rightarrow> vparams \<Rightarrow> nat \<Rightarrow> (int + nat) vm" where
  "path_start_cvp env pr i = do {
     rt \<leftarrow> rt_read i;
     type \<leftarrow> gets (\<lambda>v. pa_type (vo_paths v ! i));
     case rt_sessions rt ! Q6VOICE_SERVICE_CVP of
       Some cvp \<Rightarrow> ret (Inr cvp)
     | None \<Rightarrow> do {
         r \<leftarrow> q6cvp_session_create env pr type (ucast (tx_port pr)) AFE_PORT_ID_QUATERNARY_MI2S_RX;
         case r of
           Inl e \<Rightarrow> ret (Inl e)
         | Inr cvp \<Rightarrow> do { modify (set_session i Q6VOICE_SERVICE_CVP cvp); ret (Inr cvp) }
       }
   }"

text \<open>Enable, attach, start, with the \<^verbatim>\<open>goto\<close> chain that undoes them.\<close>

definition path_connect :: "venv \<Rightarrow> nat \<Rightarrow> nat \<Rightarrow> int vm" where
  "path_connect env mvm cvp = do {
     rc \<leftarrow> q6cvp_enable env cvp True;
     if rc \<noteq> 0 then do {
       _ \<leftarrow> q6cvp_enable env cvp False;
       ret rc
     } else do {
       rc \<leftarrow> q6mvm_attach env mvm cvp True;
       if rc \<noteq> 0 then do {
         _ \<leftarrow> q6mvm_attach env mvm cvp False;
         _ \<leftarrow> q6cvp_enable env cvp False;
         ret rc
       } else do {
         rc \<leftarrow> q6mvm_start env mvm True;
         if rc \<noteq> 0 then do {
           _ \<leftarrow> q6mvm_start env mvm False;
           _ \<leftarrow> q6mvm_attach env mvm cvp False;
           _ \<leftarrow> q6cvp_enable env cvp False;
           ret rc
         } else ret 0
       }
     }
   }"

definition q6voice_path_start :: "venv \<Rightarrow> vparams \<Rightarrow> nat option \<Rightarrow> nat \<Rightarrow> int vm" where
  "q6voice_path_start env pr junk i = do {
     r \<leftarrow> path_start_mvm env i;
     case r of
       Inl e \<Rightarrow> ret e
     | Inr mvm \<Rightarrow> do {
         r \<leftarrow> path_start_cvs env pr junk i mvm;
         case r of
           Inl e \<Rightarrow> ret e
         | Inr cvs \<Rightarrow> do {
             r \<leftarrow> path_start_cvp env pr i;
             case r of
               Inl e \<Rightarrow> ret e
             | Inr cvp \<Rightarrow> do {
                 rc \<leftarrow> path_connect env mvm cvp;
                 if rc \<noteq> 0 then ret rc
                 else do {
                   (if unmute pr then do { _ \<leftarrow> q6cvp_set_mute env cvp False; ret () } else ret ());
                   (case cvs of
                      None \<Rightarrow> ret ()
                    | Some c \<Rightarrow>
                        if playback_port pr \<noteq> 0
                        then do { _ \<leftarrow> q6cvs_start_playback env c (ucast (playback_port pr)); ret () }
                        else ret ());
                   ret 0
                 }
               }
           }
       }
   }"

text \<open>\<^verbatim>\<open>BIT(capture)\<close>: bit 0 is playback, bit 1 is capture.\<close>

definition dir_bit :: "bool \<Rightarrow> u32" where
  "dir_bit capture = (if capture then 2 else 1)"

definition q6voice_start :: "venv \<Rightarrow> vparams \<Rightarrow> nat option \<Rightarrow> int \<Rightarrow> bool \<Rightarrow> int vm" where
  "q6voice_start env pr junk path capture =
     (if path < 0 \<or> 8 \<le> path then do { modify raise_fault; ret 0 }
      else let i = nat path in do {
        rt \<leftarrow> gets (path_runtime i);
        ok \<leftarrow> (case rt of
            Some _ \<Rightarrow> ret True
          | None \<Rightarrow> do {
              ok \<leftarrow> call (ve_alloc env) Vo_kzalloc;
              whenM ok (modify (set_runtime i (Some fresh_runtime)));
              ret ok
            });
        if \<not> ok then ret (- ENOMEM)
        else do {
          rt \<leftarrow> rt_read i;
          if rt_started rt AND dir_bit capture \<noteq> 0 then ret (- EALREADY)
          else do {
            modify (rt_modify i (\<lambda>rt. rt\<lparr>rt_started := rt_started rt OR dir_bit capture\<rparr>));
            rt \<leftarrow> rt_read i;
            if (if require_both pr then rt_started rt \<noteq> 3 else rt_started rt AND 1 = 0) then ret 0
            else do {
              rc \<leftarrow> q6voice_path_start env pr junk i;
              whenM (rc \<noteq> 0) (modify (rt_modify i
                (\<lambda>rt. rt\<lparr>rt_started := rt_started rt AND NOT (dir_bit capture)\<rparr>)));
              ret rc
            }
          }
        }
      })"

section \<open>Stopping\<close>

definition q6voice_path_stop :: "venv \<Rightarrow> vparams \<Rightarrow> nat \<Rightarrow> unit vm" where
  "q6voice_path_stop env pr i = do {
     rt \<leftarrow> rt_read i;
     let mvm = rt_sessions rt ! Q6VOICE_SERVICE_MVM;
     let cvs = rt_sessions rt ! Q6VOICE_SERVICE_CVS;
     let cvp = rt_sessions rt ! Q6VOICE_SERVICE_CVP;
     _ \<leftarrow> (case cvs of
         Some c \<Rightarrow> if playback_port pr \<noteq> 0 then q6cvs_stop_playback env c else ret 0
       | None \<Rightarrow> ret 0);
     _ \<leftarrow> nonnull mvm (\<lambda>m. q6mvm_start env m False);
     _ \<leftarrow> nonnull mvm (\<lambda>m. nonnull cvp (\<lambda>p. q6mvm_attach env m p False));
     _ \<leftarrow> nonnull cvp (\<lambda>p. q6cvp_enable env p False);
     _ \<leftarrow> (case cvs of
         Some c \<Rightarrow> nonnull mvm (\<lambda>m. q6mvm_attach_stream env m c False)
       | None \<Rightarrow> ret 0);
     ret ()
   }"

definition q6voice_path_destroy :: "venv \<Rightarrow> nat \<Rightarrow> unit vm" where
  "q6voice_path_destroy env i = do {
     rt \<leftarrow> rt_read i;
     iterM (q6voice_session_release env) (List.map_filter id (rt_sessions rt));
     modify (set_runtime i None)
   }"

definition q6voice_stop :: "venv \<Rightarrow> vparams \<Rightarrow> int \<Rightarrow> bool \<Rightarrow> int vm" where
  "q6voice_stop env pr path capture =
     (if path < 0 \<or> 8 \<le> path then do { modify raise_fault; ret 0 }
      else let i = nat path in do {
        rt \<leftarrow> gets (path_runtime i);
        case rt of
          None \<Rightarrow> ret 0
        | Some rt \<Rightarrow>
            if rt_started rt AND dir_bit capture = 0 then ret 0
            else do {
              whenM (if require_both pr then rt_started rt = 3 else rt_started rt AND 1 \<noteq> 0)
                (q6voice_path_stop env pr i);
              modify (rt_modify i
                (\<lambda>rt. rt\<lparr>rt_started := rt_started rt AND NOT (dir_bit capture)\<rparr>));
              rt \<leftarrow> rt_read i;
              whenM (rt_started rt = 0) (q6voice_path_destroy env i);
              ret 0
            }
      })"

definition q6voice_free_path :: "venv \<Rightarrow> vparams \<Rightarrow> nat \<Rightarrow> unit vm" where
  "q6voice_free_path env pr i = do {
     rt \<leftarrow> gets (path_runtime i);
     case rt of
       None \<Rightarrow> ret ()
     | Some rt \<Rightarrow> do {
         whenM (rt_started rt = 3) (q6voice_path_stop env pr i);
         q6voice_path_destroy env i
       }
   }"

definition q6voice_free :: "venv \<Rightarrow> vparams \<Rightarrow> unit vm" where
  "q6voice_free env pr = iterM (q6voice_free_path env pr) [0..<8]"

definition q6voice_create :: "venv \<Rightarrow> int vm" where
  "q6voice_create env = do {
     ok \<leftarrow> call (ve_alloc env) Vo_kzalloc;
     if \<not> ok then ret (- ENOMEM)
     else do {
       modify (\<lambda>v. v\<lparr>vo_paths := map (\<lambda>i. \<lparr>pa_type = i, pa_runtime = None\<rparr>) [0..<8]\<rparr>);
       call (ve_core env) Vo_add_action
     }
   }"

section \<open>The DAI: q6voice-dai.c\<close>

definition q6voice_dai_prepare :: "venv \<Rightarrow> vparams \<Rightarrow> nat option \<Rightarrow> int \<Rightarrow> bool \<Rightarrow> int vm" where
  "q6voice_dai_prepare env pr junk voice_path capture = do {
     rc \<leftarrow> q6voice_start env pr junk voice_path capture;
     if rc = - EALREADY then ret 0 else ret rc
   }"

definition q6voice_dai_shutdown :: "venv \<Rightarrow> vparams \<Rightarrow> int \<Rightarrow> bool \<Rightarrow> unit vm" where
  "q6voice_dai_shutdown env pr voice_path capture = do {
     _ \<leftarrow> q6voice_stop env pr voice_path capture;
     ret ()
   }"

definition q6voice_dai_probe :: "venv \<Rightarrow> int vm" where
  "q6voice_dai_probe env = do {
     rc \<leftarrow> q6voice_create env;
     if rc \<noteq> 0 then ret rc else call (ve_core env) Vo_register
   }"

section \<open>The invariant of the paths\<close>

definition held :: "q6voice_path list \<Rightarrow> nat \<Rightarrow> nat \<Rightarrow> nat option" where
  "held ps i t = (if i < length ps then
     (case pa_runtime (ps ! i) of None \<Rightarrow> None
      | Some rt \<Rightarrow> if t < length (rt_sessions rt) then rt_sessions rt ! t else None) else None)"

definition owners :: "q6voice_path list \<Rightarrow> nat set" where
  "owners ps = {s. \<exists>i t. held ps i t = Some s}"

definition paths_shape :: "q6voice_path list \<Rightarrow> bool" where
  "paths_shape ps \<longleftrightarrow> length ps = 8 \<and> (\<forall>i<8. pa_type (ps ! i) = i) \<and>
     (\<forall>i<8. \<forall>rt. pa_runtime (ps ! i) = Some rt \<longrightarrow> length (rt_sessions rt) = 3)"

definition one_holder :: "q6voice_path list \<Rightarrow> bool" where
  "one_holder ps \<longleftrightarrow>
     (\<forall>i t j u s. held ps i t = Some s \<longrightarrow> held ps j u = Some s \<longrightarrow> i = j \<and> t = u)"

text \<open>
  \<open>own A ps E \<sigma>\<close>: the paths are \<open>ps\<close>, and the allocated sessions are those the paths hold and those
  in \<open>E\<close>, which a function is about to store or release.
\<close>

definition own :: "nat set \<Rightarrow> q6voice_path list \<Rightarrow> nat set \<Rightarrow> voice_io \<Rightarrow> bool" where
  "own A ps E \<sigma> \<longleftrightarrow> vo_paths (io_dev \<sigma>) = ps \<and> paths_shape ps \<and> one_holder ps \<and> E \<inter> owners ps = {} \<and>
     quiet A (owners ps \<union> E) (io_dev \<sigma>)"

lemma slot_paths [simp]: "slot (v\<lparr>vo_paths := ps\<rparr>) = slot v"
  by (simp add: slot_def fun_eq_iff)

lemma quiet_paths [simp]: "quiet A ks (v\<lparr>vo_paths := ps\<rparr>) = quiet A ks v"
  by (simp add: quiet_def sess_inv_def live_refs_def tables_ok_def linked_def)

lemma own_send:
  assumes "env_ok env A" "own A ps E \<sigma>" "k \<in> owners ps \<union> E"
  shows "wp (q6voice_common_send env k c) (\<lambda>_. own A ps E) \<sigma>"
  by (rule wp_mono [OF q6voice.send_inv [of env A "owners ps \<union> E" \<sigma> k c]])
    (use assms in \<open>auto simp: own_def frame_def\<close>)

lemma own_create:
  assumes "env_ok env A" "own A ps {} \<sigma>" "type < Q6VOICE_SERVICE_COUNT" "path < Q6VOICE_PATH_COUNT"
  shows "wp (q6voice_session_create env type path hdr)
    (\<lambda>r \<tau>. case r of Inl e \<Rightarrow> e \<noteq> 0 \<and> own A ps {} \<tau> | Inr s \<Rightarrow> own A ps {s} \<tau>) \<sigma>"
proof -
  have "well A (owners ps) (io_dev \<sigma>) (io_dev \<sigma>)"
    using assms(2) by (simp add: own_def well_start)
  from create_steady [OF assms(1) this assms(3,4)] show ?thesis
    by (rule wp_mono)
      (use assms(2) in \<open>auto simp: own_def well_def created_def frame_def split: sum.splits\<close>)
qed

lemma own_create_then:
  assumes "env_ok env A" "own A ps {} \<sigma>" "type < Q6VOICE_SERVICE_COUNT" "path < Q6VOICE_PATH_COUNT"
    and "\<And>e \<tau>. e \<noteq> 0 \<Longrightarrow> own A ps {} \<tau> \<Longrightarrow> wp (f (Inl e)) Q \<tau>"
    and "\<And>s \<tau>. own A ps {s} \<tau> \<Longrightarrow> wp (f (Inr s)) Q \<tau>"
  shows "wp (q6voice_session_create env type path hdr) (\<lambda>r. wp (f r) Q) \<sigma>"
  by (rule wp_mono [OF own_create [OF assms(1-4)]]) (auto split: sum.splits intro: assms(5,6))

lemma own_release:
  assumes "env_ok env A" "own A ps {s} \<sigma>"
  shows "wp (q6voice_session_release env s) (\<lambda>_. own A ps {}) \<sigma>"
proof -
  have "owners ps \<union> {s} - {s} = owners ps" using assms(2) by (auto simp: own_def)
  then show ?thesis
    using wp_mono [OF q6voice.release_inv [of env A "owners ps \<union> {s}" \<sigma> s]] assms
    by (auto simp: own_def frame_def)
qed

section \<open>Storing a session\<close>

definition with_rt :: "q6voice_path list \<Rightarrow> nat \<Rightarrow> q6voice_path_runtime option \<Rightarrow> q6voice_path list" where
  "with_rt ps i rt = ps[i := (ps ! i)\<lparr>pa_runtime := rt\<rparr>]"

lemma with_rt_simps [simp]:
  "length (with_rt ps i rt) = length ps"
  "i < length ps \<Longrightarrow> with_rt ps i rt ! i = (ps ! i)\<lparr>pa_runtime := rt\<rparr>"
  "i < length ps \<Longrightarrow> with_rt (with_rt ps i rt) i rt' = with_rt ps i rt'"
  "i < length ps \<Longrightarrow> pa_runtime (ps ! i) = rt \<Longrightarrow> with_rt ps i rt = ps"
  "j \<noteq> i \<Longrightarrow> with_rt ps i rt ! j = ps ! j"
  by (auto simp: with_rt_def)

lemma held_with_rt:
  "i < length ps \<Longrightarrow> held (with_rt ps i rt) j t = (if j = i then
     (case rt of None \<Rightarrow> None
      | Some r \<Rightarrow> if t < length (rt_sessions r) then rt_sessions r ! t else None)
   else held ps j t)"
  by (cases "j = i") (auto simp: held_def)

lemma paths_shape_with_rt:
  assumes "paths_shape ps" "\<And>r. rt = Some r \<Longrightarrow> length (rt_sessions r) = 3"
  shows "paths_shape (with_rt ps i rt)"
  using assms unfolding paths_shape_def with_rt_def
  by (cases "i < length ps") (auto simp: nth_list_update)

lemma one_holder_less:
  assumes "one_holder ps" "\<And>j t. held qs j t = held ps j t \<or> held qs j t = None"
  shows "one_holder qs"
  unfolding one_holder_def by (metis assms one_holder_def option.distinct(1))

lemma one_holder_more:
  assumes "one_holder ps" "s \<notin> owners ps" "\<And>j u. held qs j u = (if j = i \<and> u = t then Some s else held ps j u)"
  shows "one_holder qs"
proof -
  have "held ps j u \<noteq> Some s" for j u using assms(2) by (auto simp: owners_def)
  then show ?thesis using assms(1) unfolding one_holder_def assms(3) by auto
qed

definition keep_session :: "q6voice_path_runtime \<Rightarrow> nat \<Rightarrow> nat \<Rightarrow> q6voice_path_runtime" where
  "keep_session rt t s = rt\<lparr>rt_sessions := (rt_sessions rt)[t := Some s]\<rparr>"

lemma own_set_session:
  assumes "own A (with_rt ps i (Some rt)) {s} \<sigma>" "i < 8" "t < 3" "rt_sessions rt ! t = None"
    and "length ps = 8"
  shows "own A (with_rt ps i (Some (keep_session rt t s))) {}
    (\<sigma>\<lparr>io_dev := set_session i t s (io_dev \<sigma>)\<rparr>)"
proof -
  let ?ps = "with_rt ps i (Some rt)" and ?qs = "with_rt ps i (Some (keep_session rt t s))"
  have shape: "paths_shape ?ps" "one_holder ?ps" and fresh: "s \<notin> owners ?ps"
    and q: "quiet A (owners ?ps \<union> {s}) (io_dev \<sigma>)" and vp: "vo_paths (io_dev \<sigma>) = ?ps"
    using assms(1) by (auto simp: own_def)
  have len: "length (rt_sessions rt) = 3"
    using shape(1) assms(2,5) by (auto simp: paths_shape_def)
  have held: "held ?qs j u = (if j = i \<and> u = t then Some s else held ?ps j u)" for j u
    using assms(2,3,5) len by (auto simp: held_with_rt keep_session_def nth_list_update)
  have none: "held ?ps i t = None" using assms(2-5) len by (simp add: held_with_rt)
  have own: "owners ?qs = owners ?ps \<union> {s}"
  proof (rule set_eqI)
    fix x
    have "held ?ps j u = Some x \<Longrightarrow> held ?qs j u = Some x" for j u
      using none by (auto simp: held)
    moreover have "held ?qs i t = Some s" by (simp add: held)
    moreover have "held ?qs j u = Some x \<Longrightarrow> x = s \<or> held ?ps j u = Some x" for j u
      by (auto simp: held split: if_splits)
    ultimately show "x \<in> owners ?qs \<longleftrightarrow> x \<in> owners ?ps \<union> {s}"
      unfolding owners_def by blast
  qed
  have qs: "?qs = with_rt ?ps i (Some (keep_session rt t s))" using assms(2,5) by simp
  have "paths_shape ?qs"
    unfolding qs by (rule paths_shape_with_rt [OF shape(1)]) (auto simp: keep_session_def len)
  moreover have "one_holder ?qs" by (rule one_holder_more [OF shape(2) fresh held])
  moreover have "vo_paths (set_session i t s (io_dev \<sigma>)) = ?qs"
    using vp assms(2,5)
    by (simp add: set_session_def rt_modify_def path_runtime_def set_runtime_def keep_session_def
        with_rt_def)
  moreover have "quiet A ks (set_session i t s (io_dev \<sigma>)) = quiet A ks (io_dev \<sigma>)" for ks
    using vp assms(2,5)
    by (simp add: set_session_def rt_modify_def path_runtime_def set_runtime_def)
  ultimately show ?thesis using q by (simp add: own_def own)
qed

section \<open>Starting keeps the invariant\<close>

lemma wp_rt_read [wp_simps]:
  "wp (rt_read i) Q \<sigma> = (case path_runtime i (io_dev \<sigma>) of Some r \<Rightarrow> Q r \<sigma>
     | None \<Rightarrow> Q fresh_runtime (\<sigma>\<lparr>io_dev := raise_fault (io_dev \<sigma>)\<rparr>))"
  by (simp add: rt_read_def wp_simps split: option.split)

lemma own_rt:
  assumes "own A (with_rt ps i (Some rt)) E \<sigma>" "i < 8" "length ps = 8"
  shows "path_runtime i (io_dev \<sigma>) = Some rt" "pa_type (vo_paths (io_dev \<sigma>) ! i) = i"
    "length (rt_sessions rt) = 3"
  using assms by (auto simp: own_def path_runtime_def paths_shape_def)

lemma own_held:
  assumes "own A (with_rt ps i (Some rt)) E \<sigma>" "i < 8" "length ps = 8"
    and "t < 3" "rt_sessions rt ! t = Some s"
  shows "s \<in> owners (with_rt ps i (Some rt))"
proof -
  have "held (with_rt ps i (Some rt)) i t = Some s"
    using assms own_rt(3) [OF assms(1-3)] by (simp add: held_with_rt)
  then show ?thesis unfolding owners_def by blast
qed

text \<open>A runtime with the same direction bits and no session lost.\<close>

definition grows :: "q6voice_path_runtime \<Rightarrow> q6voice_path_runtime \<Rightarrow> bool" where
  "grows rt rt' \<longleftrightarrow> rt_started rt' = rt_started rt \<and>
     (\<forall>t<3. \<forall>s. rt_sessions rt ! t = Some s \<longrightarrow> rt_sessions rt' ! t = Some s)"

lemma grows_refl [simp]: "grows rt rt"
  by (simp add: grows_def)

lemma grows_trans: "grows r s \<Longrightarrow> grows s t \<Longrightarrow> grows r t"
  by (auto simp: grows_def)

lemma grows_keep: "rt_sessions rt ! t = None \<Longrightarrow> grows rt (keep_session rt t s)"
  by (auto simp: grows_def keep_session_def nth_list_update_neq, metis nth_list_update_neq option.distinct(1))

lemma keep_session_nth: "length (rt_sessions rt) = 3 \<Longrightarrow> t < 3 \<Longrightarrow>
    rt_sessions (keep_session rt t s) ! t = Some s"
  by (simp add: keep_session_def)

definition grown :: "nat set \<Rightarrow> q6voice_path list \<Rightarrow> nat \<Rightarrow> q6voice_path_runtime \<Rightarrow>
    q6voice_path_runtime \<Rightarrow> voice_io \<Rightarrow> bool" where
  "grown A ps i rt rt' \<sigma> \<longleftrightarrow> own A (with_rt ps i (Some rt')) {} \<sigma> \<and> grows rt rt'"

lemma start_mvm:
  assumes "env_ok env A" "grown A ps i rt0 rt \<sigma>" "i < 8" "length ps = 8"
  shows "wp (path_start_mvm env i)
    (\<lambda>r \<tau>. \<exists>rt'. grown A ps i rt0 rt' \<tau> \<and>
       (case r of Inl e \<Rightarrow> e \<noteq> 0 | Inr m \<Rightarrow> rt_sessions rt' ! 0 = Some m)) \<sigma>"
    (is "wp _ ?Q _")
proof -
  let ?ps = "with_rt ps i (Some rt)"
  have own: "own A ?ps {} \<sigma>" and gr: "grows rt0 rt" using assms(2) by (auto simp: grown_def)
  note rt = own_rt [OF own assms(3,4)]
  show ?thesis
  proof (cases "rt_sessions rt ! 0")
    case (Some m)
    then show ?thesis using assms(2) by (auto simp: path_start_mvm_def wp_simps rt)
  next
    case None
    have keep: "grown A ps i rt0 (keep_session rt 0 m) (\<tau>\<lparr>io_dev := set_session i 0 m (io_dev \<tau>)\<rparr>)"
      if "own A ?ps {m} \<tau>" for m \<tau>
      using own_set_session [OF that assms(3) _ None assms(4)] gr grows_keep [OF None]
      by (auto simp: grown_def intro: grows_trans)
    have dual: "wp (do {
        rc \<leftarrow> q6mvm_set_dual_control env m;
        if rc \<noteq> 0 then do { q6voice_session_release env m; ret (Inl rc) }
        else do { modify (set_session i 0 m); ret (Inr m) }
      }) ?Q \<tau>" if "own A ?ps {m} \<tau>" for m \<tau>
      unfolding q6mvm_set_dual_control_def wp_bind
    proof (rule wp_mono [OF own_send [OF assms(1) that]])
      fix rc and \<tau> :: voice_io
      assume o: "own A ?ps {m} \<tau>"
      have "wp (q6voice_session_release env m) (\<lambda>_ \<tau>. grown A ps i rt0 rt \<tau>) \<tau>"
        using wp_mono [OF own_release [OF assms(1) o]] gr by (simp add: grown_def)
      then have "wp (q6voice_session_release env m) (\<lambda>_ \<tau>. \<exists>rt'. grown A ps i rt0 rt' \<tau>) \<tau>"
        by (rule wp_mono) auto
      then show "wp (if rc \<noteq> 0 then do { q6voice_session_release env m; ret (Inl rc) }
          else do { modify (set_session i 0 m); ret (Inr m) }) ?Q \<tau>"
        using keep [OF o] keep_session_nth [OF rt(3)] by (auto simp: wp_simps)
    qed simp
    have "wp (q6mvm_session_create env i) (\<lambda>r. wp (case r of
        Inl e \<Rightarrow> ret (Inl e)
      | Inr m \<Rightarrow> do {
          rc \<leftarrow> q6mvm_set_dual_control env m;
          if rc \<noteq> 0 then do { q6voice_session_release env m; ret (Inl rc) }
          else do { modify (set_session i 0 m); ret (Inr m) }
        }) ?Q) \<sigma>"
      unfolding q6mvm_session_create_def
      by (rule own_create_then [OF assms(1) own])
        (use assms(3) gr dual in \<open>auto simp: wp_return grown_def\<close>)
    then show ?thesis by (simp add: path_start_mvm_def wp_simps rt None)
  qed
qed

lemma grown_held:
  assumes "grown A ps i rt0 rt \<sigma>" "i < 8" "length ps = 8" "t < 3" "rt_sessions rt ! t = Some s"
  shows "s \<in> owners (with_rt ps i (Some rt))"
  using own_held [of A ps i rt "{}" \<sigma> t s] assms by (auto simp: grown_def)

lemma grown_send:
  assumes "env_ok env A" "grown A ps i rt0 rt \<sigma>" "i < 8" "length ps = 8"
    and "t < 3" "rt_sessions rt ! t = Some s"
  shows "wp (q6voice_common_send env s c) (\<lambda>_. grown A ps i rt0 rt) \<sigma>"
  by (rule wp_mono [OF own_send [OF assms(1), of "with_rt ps i (Some rt)" "{}" \<sigma>]])
    (use assms grown_held [OF assms(2-6)] in \<open>auto simp: grown_def\<close>)

lemma grown_read:
  assumes "grown A ps i rt0 rt \<sigma>" "i < 8" "length ps = 8" "t < 3" "rt_sessions rt ! t = Some s"
  obtains x where "vo_heap (io_dev \<sigma>) s = Some x"
  using grown_held [OF assms] assms(1)
  by (auto simp: grown_def own_def elim: quiet_session [of A _ "io_dev \<sigma>" s])

lemma grown_keep:
  assumes "own A (with_rt ps i (Some rt)) {s} \<sigma>" "grows rt0 rt" "i < 8" "length ps = 8" "t < 3"
    and "rt_sessions rt ! t = None"
  shows "grown A ps i rt0 (keep_session rt t s) (\<sigma>\<lparr>io_dev := set_session i t s (io_dev \<sigma>)\<rparr>) \<and>
    grows rt (keep_session rt t s) \<and> rt_sessions (keep_session rt t s) ! t = Some s"
  using own_set_session [OF assms(1,3,5,6,4)] grows_keep [OF assms(6)] assms(2)
    keep_session_nth [OF own_rt(3) [OF assms(1,3,4)] assms(5)]
  by (auto simp: grown_def intro: grows_trans)

lemma start_cvp:
  assumes "env_ok env A" "grown A ps i rt0 rt \<sigma>" "i < 8" "length ps = 8"
  shows "wp (path_start_cvp env pr i)
    (\<lambda>r \<tau>. \<exists>rt'. grown A ps i rt0 rt' \<tau> \<and> grows rt rt' \<and>
       (case r of Inl e \<Rightarrow> e \<noteq> 0 | Inr c \<Rightarrow> rt_sessions rt' ! 1 = Some c)) \<sigma>"
    (is "wp _ ?Q _")
proof -
  have own: "own A (with_rt ps i (Some rt)) {} \<sigma>" and gr: "grows rt0 rt"
    using assms(2) by (auto simp: grown_def)
  note rt = own_rt [OF own assms(3,4)]
  show ?thesis
  proof (cases "rt_sessions rt ! 1")
    case (Some m)
    then show ?thesis using assms(2) by (auto simp: path_start_cvp_def wp_simps rt)
  next
    case None
    have "wp (q6cvp_session_create env pr i (ucast (tx_port pr)) AFE_PORT_ID_QUATERNARY_MI2S_RX)
      (\<lambda>r. wp (case r of Inl e \<Rightarrow> ret (Inl e)
         | Inr c \<Rightarrow> do { modify (set_session i 1 c); ret (Inr c) }) ?Q) \<sigma>"
      unfolding q6cvp_session_create_def
    proof (rule own_create_then [OF assms(1) own])
      fix s and \<tau> :: voice_io
      assume "own A (with_rt ps i (Some rt)) {s} \<tau>"
      from grown_keep [OF this gr assms(3,4) _ None]
      show "wp (case Inr s of Inl e \<Rightarrow> ret (Inl e)
         | Inr c \<Rightarrow> do { modify (set_session i 1 c); ret (Inr c) }) ?Q \<tau>"
        by (auto simp: wp_simps)
    qed (use assms(3) gr in \<open>auto simp: wp_return grown_def\<close>)
    then show ?thesis using None by (simp add: path_start_cvp_def wp_simps rt del: One_nat_def)
  qed
qed

text \<open>With \<open>attach_stream\<close> off the pointer is whatever the stack holds, otherwise the held stream.\<close>

definition stream_ok :: "vparams \<Rightarrow> nat option \<Rightarrow> q6voice_path_runtime \<Rightarrow> nat option \<Rightarrow> bool" where
  "stream_ok pr junk rt cvs \<longleftrightarrow>
     (if attach_stream pr then cvs \<noteq> None \<and> rt_sessions rt ! 2 = cvs else cvs = junk)"

lemma start_cvs:
  assumes "env_ok env A" "grown A ps i rt0 rt \<sigma>" "i < 8" "length ps = 8"
    and "rt_sessions rt ! 0 = Some mvm"
  shows "wp (path_start_cvs env pr junk i mvm)
    (\<lambda>r \<tau>. \<exists>rt'. grown A ps i rt0 rt' \<tau> \<and> grows rt rt' \<and>
       (case r of Inl e \<Rightarrow> e \<noteq> 0 | Inr c \<Rightarrow> stream_ok pr junk rt' c)) \<sigma>"
    (is "wp _ ?Q _")
proof (cases "attach_stream pr")
  case False
  then show ?thesis using assms(2) by (auto simp: path_start_cvs_def wp_simps stream_ok_def)
next
  case True
  have own: "own A (with_rt ps i (Some rt)) {} \<sigma>" and gr: "grows rt0 rt"
    using assms(2) by (auto simp: grown_def)
  note rt = own_rt [OF own assms(3,4)]
  have attach: "wp (do {
        rc \<leftarrow> q6mvm_attach_stream env mvm c True;
        if rc \<noteq> 0 then ret (Inl rc) else ret (Inr (Some c))
      }) ?Q \<tau>"
    if g: "grown A ps i rt0 rt' \<tau>" "grows rt rt'" "rt_sessions rt' ! 2 = Some c" for c rt' \<tau>
  proof -
    have m: "rt_sessions rt' ! 0 = Some mvm" using g(2) assms(5) by (simp add: grows_def)
    obtain x where x: "vo_heap (io_dev \<tau>) c = Some x"
      using g(3) by (auto intro: grown_read [OF g(1) assms(3,4), of 2 c])
    have "wp (q6voice_common_send env mvm cmd) (\<lambda>rc. wp (if rc \<noteq> 0 then ret (Inl rc)
        else ret (Inr (Some c))) ?Q) \<tau>" for cmd
      by (rule wp_mono [OF grown_send [OF assms(1) g(1) assms(3,4), of 0]])
        (use m g in \<open>auto simp: wp_simps stream_ok_def True\<close>)
    then show ?thesis by (simp add: q6mvm_attach_stream_def wp_bind wp_sess_read x)
  qed
  show ?thesis
  proof (cases "rt_sessions rt ! 2")
    case (Some c)
    then show ?thesis
      using attach [OF assms(2) grows_refl Some] True
      by (simp add: path_start_cvs_def wp_bind wp_return wp_gets wp_rt_read rt)
  next
    case None
    have "wp (q6cvs_session_create env i) (\<lambda>r. wp (case r of Inl e \<Rightarrow> ret (Inl e)
         | Inr c \<Rightarrow> do { modify (set_session i 2 c); ret (Inr c) })
        (\<lambda>r. wp (case r of Inl e \<Rightarrow> ret (Inl e)
          | Inr cvs \<Rightarrow> do {
              rc \<leftarrow> q6mvm_attach_stream env mvm cvs True;
              if rc \<noteq> 0 then ret (Inl rc) else ret (Inr (Some cvs))
            }) ?Q)) \<sigma>"
      unfolding q6cvs_session_create_def
    proof (rule own_create_then [OF assms(1) own])
      fix s and \<tau> :: voice_io
      assume o: "own A (with_rt ps i (Some rt)) {s} \<tau>"
      have k: "grown A ps i rt0 (keep_session rt 2 s) (\<tau>\<lparr>io_dev := set_session i 2 s (io_dev \<tau>)\<rparr>)"
        "grows rt (keep_session rt 2 s)" "rt_sessions (keep_session rt 2 s) ! 2 = Some s"
        using grown_keep [OF o gr assms(3,4) _ None] by auto
      show "wp (case Inr s of Inl e \<Rightarrow> ret (Inl e)
           | Inr c \<Rightarrow> do { modify (set_session i 2 c); ret (Inr c) })
          (\<lambda>r. wp (case r of Inl e \<Rightarrow> ret (Inl e)
            | Inr cvs \<Rightarrow> do {
                rc \<leftarrow> q6mvm_attach_stream env mvm cvs True;
                if rc \<noteq> 0 then ret (Inl rc) else ret (Inr (Some cvs))
              }) ?Q) \<tau>"
        using attach [OF k] by (simp add: wp_modify wp_return wp_bind)
    qed (use assms(3) gr in \<open>auto simp: wp_return grown_def\<close>)
    then show ?thesis
      using True None by (simp add: path_start_cvs_def wp_bind wp_return wp_gets wp_rt_read rt)
  qed
qed

text \<open>Commands between held sessions keep the invariant.\<close>

lemma kept_send:
  assumes "env_ok env A" "i < 8" "length ps = 8" "t < 3" "rt_sessions rt ! t = Some s"
  shows "kept (grown A ps i rt0 rt) (q6voice_common_send env s c)"
  by (rule keptI) (rule grown_send [OF assms(1) _ assms(2-5)])

lemma kept_read:
  assumes "i < 8" "length ps = 8" "t < 3" "rt_sessions rt ! t = Some s"
    and "\<And>x. kept (grown A ps i rt0 rt) (f x)"
  shows "kept (grown A ps i rt0 rt) (State_Monad.bind (sess_read s) f)"
proof (rule keptI)
  fix \<sigma> :: voice_io
  assume g: "grown A ps i rt0 rt \<sigma>"
  obtain x where "vo_heap (io_dev \<sigma>) s = Some x" by (rule grown_read [OF g assms(1-4)])
  then show "wp (State_Monad.bind (sess_read s) f) (\<lambda>_. grown A ps i rt0 rt) \<sigma>"
    using keptD [OF assms(5) g] by (simp add: wp_bind wp_sess_read)
qed

lemma kept_commands:
  assumes "env_ok env A" "i < 8" "length ps = 8"
  shows "rt_sessions rt ! 0 = Some m \<Longrightarrow> kept (grown A ps i rt0 rt) (q6mvm_start env m b)"
    and "rt_sessions rt ! 0 = Some m \<Longrightarrow> rt_sessions rt ! 1 = Some p \<Longrightarrow>
      kept (grown A ps i rt0 rt) (q6mvm_attach env m p b)"
    and "rt_sessions rt ! 0 = Some m \<Longrightarrow> rt_sessions rt ! 2 = Some c \<Longrightarrow>
      kept (grown A ps i rt0 rt) (q6mvm_attach_stream env m c b)"
    and "rt_sessions rt ! 1 = Some p \<Longrightarrow> kept (grown A ps i rt0 rt) (q6cvp_enable env p b)"
    and "rt_sessions rt ! 1 = Some p \<Longrightarrow> kept (grown A ps i rt0 rt) (q6cvp_set_mute env p b)"
    and "rt_sessions rt ! 2 = Some c \<Longrightarrow> kept (grown A ps i rt0 rt) (q6cvs_start_playback env c port)"
    and "rt_sessions rt ! 2 = Some c \<Longrightarrow> kept (grown A ps i rt0 rt) (q6cvs_stop_playback env c)"
  unfolding q6mvm_start_def q6mvm_attach_def q6mvm_attach_stream_def q6cvp_enable_def
    q6cvp_set_mute_def q6cvs_start_playback_def q6cvs_stop_playback_def mute_dirs.simps
  by (rule kept_send [OF assms, of 0] kept_send [OF assms, of 1] kept_send [OF assms, of 2]
      kept_read [OF assms(2,3), of 1] kept_read [OF assms(2,3), of 2] kept_rules
      | assumption | simp)+

lemma kept_connect:
  assumes "env_ok env A" "i < 8" "length ps = 8"
    and "rt_sessions rt ! 0 = Some m" "rt_sessions rt ! 1 = Some p"
  shows "kept (grown A ps i rt0 rt) (path_connect env m p)"
  unfolding path_connect_def
  by (intro kept_rules kept_commands assms)

text \<open>What the stack may hold for in-call playback to be harmless.\<close>

definition stack_ok :: "vparams \<Rightarrow> nat option \<Rightarrow> bool" where
  "stack_ok pr junk \<longleftrightarrow> attach_stream pr \<or> playback_port pr = 0 \<or> junk = None"

definition connected :: "q6voice_path_runtime \<Rightarrow> bool" where
  "connected rt \<longleftrightarrow> rt_sessions rt ! 0 \<noteq> None \<and> rt_sessions rt ! 1 \<noteq> None"

lemma start_extras:
  assumes "env_ok env A" "i < 8" "length ps = 8" "stack_ok pr junk" "stream_ok pr junk rt cvs"
    and "rt_sessions rt ! 1 = Some cvp"
  shows "kept (grown A ps i rt0 rt) (do {
     (if unmute pr then do { _ \<leftarrow> q6cvp_set_mute env cvp False; ret () } else ret ());
     (case cvs of
        None \<Rightarrow> ret ()
      | Some c \<Rightarrow>
          if playback_port pr \<noteq> 0
          then do { _ \<leftarrow> q6cvs_start_playback env c (ucast (playback_port pr)); ret () }
          else ret ());
     ret (0 :: int)
   })"
proof -
  have "rt_sessions rt ! 2 = Some c" if "cvs = Some c" "playback_port pr \<noteq> 0" for c
    using assms(4,5) that by (auto simp: stack_ok_def stream_ok_def split: if_splits)
  then show ?thesis
    by (intro kept_rules kept_commands assms) auto
qed

lemma path_start_grown:
  assumes "env_ok env A" "grown A ps i rt rt \<sigma>" "i < 8" "length ps = 8" "stack_ok pr junk"
  shows "wp (q6voice_path_start env pr junk i)
    (\<lambda>r \<tau>. \<exists>rt'. grown A ps i rt rt' \<tau> \<and> (r = 0 \<longrightarrow> connected rt')) \<sigma>"
    (is "wp _ ?Q _")
proof -
  have finish: "wp (do {
       rc \<leftarrow> path_connect env m p;
       if rc \<noteq> 0 then ret rc
       else do {
         (if unmute pr then do { _ \<leftarrow> q6cvp_set_mute env p False; ret () } else ret ());
         (case cvs of
            None \<Rightarrow> ret ()
          | Some c \<Rightarrow>
              if playback_port pr \<noteq> 0
              then do { _ \<leftarrow> q6cvs_start_playback env c (ucast (playback_port pr)); ret () }
              else ret ());
         ret 0
       }
     }) ?Q \<tau>"
    if g: "grown A ps i rt rt' \<tau>" and m: "rt_sessions rt' ! 0 = Some m"
      and p: "rt_sessions rt' ! 1 = Some p" and c: "stream_ok pr junk rt' cvs" for m p cvs rt' \<tau>
  proof -
    have "kept (grown A ps i rt rt') (do {
       rc \<leftarrow> path_connect env m p;
       if rc \<noteq> 0 then ret rc
       else do {
         (if unmute pr then do { _ \<leftarrow> q6cvp_set_mute env p False; ret () } else ret ());
         (case cvs of
            None \<Rightarrow> ret ()
          | Some c \<Rightarrow>
              if playback_port pr \<noteq> 0
              then do { _ \<leftarrow> q6cvs_start_playback env c (ucast (playback_port pr)); ret () }
              else ret ());
         ret 0
       }
     })"
      by (rule kept_bind [OF kept_connect [OF assms(1,3,4) m p]])
        (rule kept_if [OF kept_return start_extras [OF assms(1,3,4,5) c p]])
    then show ?thesis
      by (rule kept_wp [where G = "grown A ps i rt rt'"]) (use g m p in \<open>auto simp: connected_def\<close>)
  qed
  show ?thesis
    unfolding q6voice_path_start_def wp_bind
  proof (rule wp_mono [OF start_mvm [OF assms(1-4)]], goal_cases)
    case (1 r \<tau>)
    then obtain rt1 where g1: "grown A ps i rt rt1 \<tau>"
      and r1: "case r of Inl e \<Rightarrow> e \<noteq> 0 | Inr m \<Rightarrow> rt_sessions rt1 ! 0 = Some m" by blast
    show ?case
    proof (cases r)
      case (Inl e)
      then show ?thesis using g1 r1 by (auto simp: wp_return)
    next
      case (Inr m)
      have m: "rt_sessions rt1 ! 0 = Some m" using r1 Inr by simp
      show ?thesis
        unfolding Inr sum.case wp_bind
      proof (rule wp_mono [OF start_cvs [OF assms(1) g1 assms(3,4) m]], goal_cases)
        case (1 r \<tau>)
        then obtain rt2 where g2: "grown A ps i rt rt2 \<tau>" "grows rt1 rt2"
          and r2: "case r of Inl e \<Rightarrow> e \<noteq> 0 | Inr c \<Rightarrow> stream_ok pr junk rt2 c" by blast
        show ?case
        proof (cases r)
          case (Inl e)
          then show ?thesis using g2 r2 by (auto simp: wp_return)
        next
          case (Inr c)
          show ?thesis
            unfolding Inr sum.case wp_bind
          proof (rule wp_mono [OF start_cvp [OF assms(1) g2(1) assms(3,4)]], goal_cases)
            case (1 r \<tau>)
            then obtain rt3 where g3: "grown A ps i rt rt3 \<tau>" "grows rt2 rt3"
              and r3: "case r of Inl e \<Rightarrow> e \<noteq> 0 | Inr p \<Rightarrow> rt_sessions rt3 ! 1 = Some p" by blast
            have "rt_sessions rt3 ! 0 = Some m" "stream_ok pr junk rt3 c"
              using m g2(2) g3(2) r2 Inr by (auto simp: grows_def stream_ok_def)
            note fin = finish [OF g3(1) this(1) _ this(2)]
            show ?case
            proof (cases r)
              case (Inl e)
              then show ?thesis using g3 r3 by (auto simp: wp_return)
            next
              case (Inr p)
              then show ?thesis unfolding Inr sum.case using r3 Inr by (intro fin) simp
            qed
          qed
        qed
      qed
    qed
  qed
qed

section \<open>The invariant between calls\<close>

text \<open>
  A runtime is active when the voice is supposed to run; then its two sessions exist. With
  \<open>path_ok\<close> the allocated sessions are exactly those the paths hold.
\<close>

definition active :: "bool \<Rightarrow> q6voice_path_runtime \<Rightarrow> bool" where
  "active both rt \<longleftrightarrow> (if both then rt_started rt = 3 else rt_started rt AND 1 \<noteq> 0)"

definition ready :: "bool \<Rightarrow> q6voice_path_runtime option \<Rightarrow> bool" where
  "ready both r \<longleftrightarrow> (\<forall>rt. r = Some rt \<longrightarrow> active both rt \<longrightarrow> connected rt)"

lemma ready_None [simp]: "ready both None"
  by (simp add: ready_def)

definition path_ok :: "nat set \<Rightarrow> bool \<Rightarrow> voice_io \<Rightarrow> bool" where
  "path_ok A both \<sigma> \<longleftrightarrow> own A (vo_paths (io_dev \<sigma>)) {} \<sigma> \<and>
     (\<forall>j<8. ready both (pa_runtime (vo_paths (io_dev \<sigma>) ! j)))"

definition others_ok :: "bool \<Rightarrow> q6voice_path list \<Rightarrow> nat \<Rightarrow> bool" where
  "others_ok both ps i \<longleftrightarrow> length ps = 8 \<and> (\<forall>j<8. j \<noteq> i \<longrightarrow> ready both (pa_runtime (ps ! j)))"

lemma path_okI:
  assumes "own A (with_rt ps i r) {} \<sigma>" "others_ok both ps i" "i < 8" "ready both r"
  shows "path_ok A both \<sigma>"
proof -
  have "vo_paths (io_dev \<sigma>) = with_rt ps i r" using assms(1) by (simp add: own_def)
  moreover have "ready both (pa_runtime (with_rt ps i r ! j))" if "j < 8" for j
    using assms(2-4) that by (cases "j = i") (auto simp: others_ok_def)
  ultimately show ?thesis using assms(1) by (simp add: path_ok_def)
qed

lemma own_set_runtime:
  assumes "own A (with_rt ps i r) {} \<sigma>" "length ps = 8" "i < 8"
    and "\<And>j t. held (with_rt ps i r') j t = held (with_rt ps i r) j t"
    and "\<And>rt. r' = Some rt \<Longrightarrow> length (rt_sessions rt) = 3"
  shows "own A (with_rt ps i r') {} (\<sigma>\<lparr>io_dev := set_runtime i r' (io_dev \<sigma>)\<rparr>)"
proof -
  have vp: "vo_paths (io_dev \<sigma>) = with_rt ps i r" using assms(1) by (simp add: own_def)
  have qs: "with_rt ps i r' = with_rt (with_rt ps i r) i r'" using assms(2,3) by simp
  have "paths_shape (with_rt ps i r')"
    unfolding qs by (rule paths_shape_with_rt) (use assms(1,5) in \<open>auto simp: own_def\<close>)
  moreover have "one_holder (with_rt ps i r')"
    by (rule one_holder_less [of "with_rt ps i r"]) (use assms(1,4) in \<open>simp_all add: own_def\<close>)
  moreover have "owners (with_rt ps i r') = owners (with_rt ps i r)"
    using assms(4) by (simp add: owners_def)
  moreover have "vo_paths (set_runtime i r' (io_dev \<sigma>)) = with_rt ps i r'"
    using vp assms(2,3) by (simp add: set_runtime_def) (simp add: with_rt_def)
  ultimately show ?thesis
    using assms(1) by (simp add: own_def) (simp add: set_runtime_def)
qed

lemma own_set_started:
  assumes "own A (with_rt ps i (Some rt)) {} \<sigma>" "length ps = 8" "i < 8"
  shows "own A (with_rt ps i (Some (rt\<lparr>rt_started := n\<rparr>))) {}
    (\<sigma>\<lparr>io_dev := rt_modify i (\<lambda>rt. rt\<lparr>rt_started := n\<rparr>) (io_dev \<sigma>)\<rparr>)"
  using own_set_runtime [OF assms, of "Some (rt\<lparr>rt_started := n\<rparr>)"] own_rt [OF assms(1,3,2)] assms
  by (simp add: rt_modify_def held_with_rt)

lemma rt_modify_eq:
  "path_runtime i v = Some rt \<Longrightarrow> f rt = g rt \<Longrightarrow> rt_modify i f v = rt_modify i g v"
  by (simp add: rt_modify_def)

lemma take_bit_back: "s AND b = 0 \<Longrightarrow> (s OR b) AND NOT b = (s :: u32)"
proof (rule bit_eqI)
  fix n
  assume "s AND b = 0"
  then have "\<not> (bit s n \<and> bit b n)" by (metis bit_0_eq bit_and_iff bot_apply bot_bool_def)
  then show "bit ((s OR b) AND NOT b) n = bit s n"
    by (auto simp: bit_simps dest: bit_imp_le_length)
qed

lemma own_set_started_io:
  assumes "own A (with_rt ps i (Some rt)) {} \<sigma>" "length ps = 8" "i < 8" "f rt = rt\<lparr>rt_started := n\<rparr>"
  shows "own A (with_rt ps i (Some (rt\<lparr>rt_started := n\<rparr>))) {} (\<sigma>\<lparr>io_dev := rt_modify i f (io_dev \<sigma>)\<rparr>)"
  using own_set_started [OF assms(1-3), of n]
    rt_modify_eq [OF own_rt(1) [OF assms(1,3,2)], of f "\<lambda>rt. rt\<lparr>rt_started := n\<rparr>"] assms(4)
  by simp

lemma start_runtime:
  assumes "env_ok env A" "own A (with_rt ps i (Some rt)) {} \<sigma>" "others_ok (require_both pr) ps i"
    and "i < 8" "ready (require_both pr) (Some rt)" "stack_ok pr junk"
  shows "wp (do {
      rt \<leftarrow> rt_read i;
      if rt_started rt AND dir_bit capture \<noteq> 0 then ret (- EALREADY)
      else do {
        modify (rt_modify i (\<lambda>rt. rt\<lparr>rt_started := rt_started rt OR dir_bit capture\<rparr>));
        rt \<leftarrow> rt_read i;
        if (if require_both pr then rt_started rt \<noteq> 3 else rt_started rt AND 1 = 0) then ret 0
        else do {
          rc \<leftarrow> q6voice_path_start env pr junk i;
          whenM (rc \<noteq> 0) (modify (rt_modify i
            (\<lambda>rt. rt\<lparr>rt_started := rt_started rt AND NOT (dir_bit capture)\<rparr>)));
          ret rc
        }
      }
    }) (\<lambda>_. path_ok A (require_both pr)) \<sigma>"
    (is "wp _ ?Q _")
proof -
  have len: "length ps = 8" using assms(3) by (simp add: others_ok_def)
  note rt = own_rt [OF assms(2,4) len]
  show ?thesis
  proof (cases "rt_started rt AND dir_bit capture \<noteq> 0")
    case True
    then show ?thesis using path_okI [OF assms(2-5)] by (simp add: wp_simps rt)
  next
    case False
    define rt1 where "rt1 = rt\<lparr>rt_started := rt_started rt OR dir_bit capture\<rparr>"
    define \<sigma>1 where "\<sigma>1 = \<sigma>\<lparr>io_dev := rt_modify i
      (\<lambda>rt. rt\<lparr>rt_started := rt_started rt OR dir_bit capture\<rparr>) (io_dev \<sigma>)\<rparr>"
    have own1: "own A (with_rt ps i (Some rt1)) {} \<sigma>1"
      unfolding rt1_def \<sigma>1_def by (rule own_set_started_io [OF assms(2) len assms(4)]) simp
    note r1 = own_rt [OF own1 assms(4) len]
    have restore: "own A (with_rt ps i (Some rt')) {} \<tau> \<Longrightarrow> grows rt1 rt' \<Longrightarrow>
        path_ok A (require_both pr) (\<tau>\<lparr>io_dev := rt_modify i
          (\<lambda>rt. rt\<lparr>rt_started := rt_started rt AND NOT (dir_bit capture)\<rparr>) (io_dev \<tau>)\<rparr>)"
      for rt' \<tau>
    proof -
      assume o: "own A (with_rt ps i (Some rt')) {} \<tau>" and g: "grows rt1 rt'"
      have st: "rt_started rt' AND NOT (dir_bit capture) = rt_started rt"
        using g False take_bit_back by (simp add: grows_def rt1_def)
      have "connected rt \<Longrightarrow> connected (rt'\<lparr>rt_started := rt_started rt\<rparr>)"
        using g by (auto simp: grows_def rt1_def connected_def)
      then have "ready (require_both pr) (Some (rt'\<lparr>rt_started := rt_started rt\<rparr>))"
        using assms(5) by (auto simp: ready_def active_def split: if_splits)
      then show ?thesis
        by (rule path_okI [OF own_set_started_io [OF o len assms(4)] assms(3,4), rotated])
          (simp add: st)
    qed
    show ?thesis
    proof (cases "active (require_both pr) rt1")
      case False': False
      then have "path_ok A (require_both pr) \<sigma>1"
        by (intro path_okI [OF own1 assms(3,4)]) (simp add: ready_def)
      then show ?thesis
        using False False' r1 unfolding active_def
        by (auto simp: wp_simps rt \<sigma>1_def [symmetric] split: if_splits)
    next
      case True
      have "wp (do {
          rc \<leftarrow> q6voice_path_start env pr junk i;
          whenM (rc \<noteq> 0) (modify (rt_modify i
            (\<lambda>rt. rt\<lparr>rt_started := rt_started rt AND NOT (dir_bit capture)\<rparr>)));
          ret rc
        }) ?Q \<sigma>1"
        unfolding wp_bind
      proof (rule wp_mono [OF path_start_grown [OF assms(1) _ assms(4) len assms(6), of rt1]], goal_cases)
        case 1
        then show ?case using own1 by (simp add: grown_def)
      next
        case (2 r \<tau>)
        then obtain rt' where g: "own A (with_rt ps i (Some rt')) {} \<tau>" "grows rt1 rt'"
          and c: "r = 0 \<longrightarrow> connected rt'" by (auto simp: grown_def)
        have "r = 0 \<Longrightarrow> path_ok A (require_both pr) \<tau>"
          using c by (intro path_okI [OF g(1) assms(3,4)]) (simp add: ready_def)
        then show ?case using restore [OF g] by (auto simp: wp_simps)
      qed
      then show ?thesis
        using False True r1 unfolding active_def
        by (auto simp: wp_simps rt \<sigma>1_def [symmetric] split: if_splits)
    qed
  qed
qed

lemma path_ok_other:
  assumes "path_ok A both \<sigma>" "i < 8"
  shows "others_ok both (vo_paths (io_dev \<sigma>)) i"
    and "with_rt (vo_paths (io_dev \<sigma>)) i (path_runtime i (io_dev \<sigma>)) = vo_paths (io_dev \<sigma>)"
  using assms by (auto simp: path_ok_def own_def paths_shape_def others_ok_def path_runtime_def)

lemma start_ok:
  assumes "env_ok env A" "path_ok A (require_both pr) \<sigma>" "0 \<le> path" "path < 8" "stack_ok pr junk"
  shows "wp (q6voice_start env pr junk path capture) (\<lambda>_. path_ok A (require_both pr)) \<sigma>"
proof -
  let ?ps = "vo_paths (io_dev \<sigma>)" and ?i = "nat path"
  have i: "?i < 8" using assms(3,4) by simp
  note o = path_ok_other [OF assms(2) i]
  have own: "own A ?ps {} \<sigma>" using assms(2) by (simp add: path_ok_def)
  have len: "length ?ps = 8" using o(1) by (simp add: others_ok_def)
  show ?thesis
  proof (cases "path_runtime ?i (io_dev \<sigma>)")
    case None
    have f: "own A (with_rt ?ps ?i (Some fresh_runtime)) {}
        (\<sigma>\<lparr>io_dev := set_runtime ?i (Some fresh_runtime) (io_dev \<sigma>)\<rparr>)"
    proof (rule own_set_runtime [where r = None])
      show "own A (with_rt ?ps ?i None) {} \<sigma>" using own o(2) None by simp
      show "held (with_rt ?ps ?i (Some fresh_runtime)) j t = held (with_rt ?ps ?i None) j t" for j t
        using len i by (simp add: held_with_rt fresh_runtime_def)
    qed (use len i in \<open>auto simp: fresh_runtime_def\<close>)
    have r: "ready (require_both pr) (Some fresh_runtime)"
      by (simp add: ready_def active_def fresh_runtime_def)
    have same: "own A ps E \<tau> = own A ps E \<tau>'" if "io_dev \<tau> = io_dev \<tau>'" for ps E \<tau> \<tau>'
      using that by (simp add: own_def)
    have ok: "path_ok A (require_both pr) (\<sigma>\<lparr>io_trace := tr\<rparr>)" for tr
      using assms(2) same [of "\<sigma>\<lparr>io_trace := tr\<rparr>" \<sigma>] by (simp add: path_ok_def)
    have f': "own A (with_rt ?ps ?i (Some fresh_runtime)) {} \<tau>"
      if "io_dev \<tau> = set_runtime ?i (Some fresh_runtime) (io_dev \<sigma>)" for \<tau>
      using f same [of \<tau> "\<sigma>\<lparr>io_dev := set_runtime ?i (Some fresh_runtime) (io_dev \<sigma>)\<rparr>"] that by simp
    note run = start_runtime [OF assms(1) f' o(1) i r assms(5), of _ capture]
    show ?thesis
      unfolding q6voice_start_def Let_def using assms(3,4) ok
      by (simp add: wp_bind wp_gets None wp_call wp_whenM wp_modify wp_return
          run [unfolded wp_bind])
  next
    case (Some rt)
    have own': "own A (with_rt ?ps ?i (Some rt)) {} \<sigma>" using own o(2) Some by simp
    have "ready (require_both pr) (Some rt)"
      using assms(2) i Some unfolding path_ok_def path_runtime_def by metis
    from start_runtime [OF assms(1) own' o(1) i this assms(5)] show ?thesis
      unfolding q6voice_start_def Let_def using assms(3,4)
      by (simp add: wp_bind wp_gets Some wp_return)
  qed
qed

section \<open>Stopping keeps the invariant\<close>

lemma kept_nonnull [kept_rules]:
  "p = Some s \<Longrightarrow> kept G (f s) \<Longrightarrow> kept G (nonnull p f)"
  by (simp add: nonnull_def)

lemma path_stop_grown:
  assumes "env_ok env A" "own A (with_rt ps i (Some rt)) {} \<sigma>" "i < 8" "length ps = 8" "connected rt"
  shows "wp (q6voice_path_stop env pr i) (\<lambda>_. own A (with_rt ps i (Some rt)) {}) \<sigma>"
proof -
  obtain m p where m: "rt_sessions rt ! 0 = Some m" "rt_sessions rt ! 1 = Some p"
    using assms(5) by (auto simp: connected_def)
  note rt = own_rt [OF assms(2,3,4)]
  have body: "kept (grown A ps i rt rt) (do {
     _ \<leftarrow> (case rt_sessions rt ! 2 of
         Some c \<Rightarrow> if playback_port pr \<noteq> 0 then q6cvs_stop_playback env c else ret 0
       | None \<Rightarrow> ret 0);
     _ \<leftarrow> nonnull (rt_sessions rt ! 0) (\<lambda>m. q6mvm_start env m False);
     _ \<leftarrow> nonnull (rt_sessions rt ! 0) (\<lambda>m. nonnull (rt_sessions rt ! 1)
       (\<lambda>p. q6mvm_attach env m p False));
     _ \<leftarrow> nonnull (rt_sessions rt ! 1) (\<lambda>p. q6cvp_enable env p False);
     _ \<leftarrow> (case rt_sessions rt ! 2 of
         Some c \<Rightarrow> nonnull (rt_sessions rt ! 0) (\<lambda>m. q6mvm_attach_stream env m c False)
       | None \<Rightarrow> ret 0);
     ret ()
   })"
    unfolding nonnull_def m option.case by (intro kept_rules kept_commands assms m)
  have "grown A ps i rt rt \<sigma>" using assms(2) by (simp add: grown_def)
  from kept_wp [OF body this, of "\<lambda>_. own A (with_rt ps i (Some rt)) {}"] show ?thesis
    unfolding q6voice_path_stop_def Let_def wp_bind wp_rt_read rt(1) option.case
    by (simp add: grown_def)
qed

lemma three: "length xs = 3 \<Longrightarrow> \<exists>a b c. xs = [a, b, c]"
  by (auto simp: numeral_3_eq_3 length_Suc_conv)

lemma owners_drop:
  assumes "one_holder (with_rt ps i (Some rt))" "length ps = 8" "i < 8" "length (rt_sessions rt) = 3"
  shows "distinct (List.map_filter id (rt_sessions rt))"
    and "set (List.map_filter id (rt_sessions rt)) \<subseteq> owners (with_rt ps i (Some rt))"
    and "owners (with_rt ps i None) =
      owners (with_rt ps i (Some rt)) - set (List.map_filter id (rt_sessions rt))"
proof -
  let ?ps = "with_rt ps i (Some rt)" and ?L = "List.map_filter id (rt_sessions rt)"
  obtain a b c where L: "rt_sessions rt = [a, b, c]" using three [OF assms(4)] by blast
  have held: "held ?ps i t = (if t < 3 then rt_sessions rt ! t else None)" for t
    using assms(2-4) by (simp add: held_with_rt)
  have one: "held ?ps j t = Some s \<Longrightarrow> held ?ps k u = Some s \<Longrightarrow> j = k \<and> t = u" for j t k u s
    using assms(1) by (auto simp: one_holder_def)
  have inL: "s \<in> set ?L \<longleftrightarrow> (\<exists>t. held ?ps i t = Some s)" for s
  proof -
    have "s \<in> set ?L \<longleftrightarrow> held ?ps i 0 = Some s \<or> held ?ps i 1 = Some s \<or> held ?ps i 2 = Some s"
      by (auto simp: held L List.map_filter_def split: option.splits if_splits)
    moreover have "held ?ps i t = Some s \<Longrightarrow> t = 0 \<or> t = 1 \<or> t = 2" for t
      by (auto simp: held split: if_splits)
    ultimately show ?thesis by blast
  qed
  show "distinct ?L"
    using one [of i 0 _ i 1] one [of i 0 _ i 2] one [of i 1 _ i 2]
    by (auto simp: held L List.map_filter_def split: option.splits)
  show "set ?L \<subseteq> owners ?ps" using inL by (auto simp: owners_def)
  have "held (with_rt ps i None) j t = (if j = i then None else held ?ps j t)" for j t
    using assms(2,3) by (simp add: held_with_rt)
  then show "owners (with_rt ps i None) = owners ?ps - set ?L"
    unfolding owners_def inL set_diff_eq mem_Collect_eq
    by (intro Collect_cong) (metis one option.distinct(1))
qed

lemma steadyD:
  "q6voice.steady env A ks \<sigma> \<tau> \<Longrightarrow>
     quiet A ks (io_dev \<tau>) \<and> vo_paths (io_dev \<tau>) = vo_paths (io_dev \<sigma>)"
  unfolding q6voice.steady_def by (simp add: frame_def)

lemma path_destroy_own:
  assumes "env_ok env A" "own A (with_rt ps i (Some rt)) {} \<sigma>" "i < 8" "length ps = 8"
  shows "wp (q6voice_path_destroy env i) (\<lambda>_. own A (with_rt ps i None) {}) \<sigma>"
proof -
  let ?ps = "with_rt ps i (Some rt)" and ?L = "List.map_filter id (rt_sessions rt)"
  note rt = own_rt [OF assms(2,3,4)]
  have one: "one_holder ?ps" "paths_shape ?ps" using assms(2) by (auto simp: own_def)
  note drop = owners_drop [OF one(1) assms(4,3) rt(3)]
  have "q6voice.steady env A (owners ?ps) \<sigma> \<sigma>"
    unfolding q6voice.steady_def using assms(1,2) by (simp add: own_def)
  from q6voice.steady_release_all [OF this drop(1,2)]
  have "wp (iterM (q6voice_session_release env) ?L)
      (\<lambda>_ \<tau>. quiet A (owners (with_rt ps i None)) (io_dev \<tau>) \<and> vo_paths (io_dev \<tau>) = ?ps) \<sigma>"
    by (rule wp_mono) (use assms(2) in \<open>auto simp: drop(3) own_def dest!: steadyD\<close>)
  moreover have "own A (with_rt ps i None) {} (\<tau>\<lparr>io_dev := set_runtime i None (io_dev \<tau>)\<rparr>)"
    if "quiet A (owners (with_rt ps i None)) (io_dev \<tau>) \<and> vo_paths (io_dev \<tau>) = ?ps" for \<tau>
  proof -
    have qs: "with_rt ps i None = with_rt ?ps i None" using assms(3,4) by simp
    have "paths_shape (with_rt ps i None)"
      unfolding qs by (rule paths_shape_with_rt) (use one in auto)
    moreover have "one_holder (with_rt ps i None)"
      by (rule one_holder_less [OF one(1)]) (use assms(3,4) in \<open>simp add: held_with_rt\<close>)
    moreover have "vo_paths (set_runtime i None (io_dev \<tau>)) = with_rt ps i None"
      using that assms(3,4) by (simp add: set_runtime_def) (simp add: with_rt_def)
    ultimately show ?thesis
      using that by (simp add: own_def) (simp add: set_runtime_def)
  qed
  ultimately show ?thesis
    unfolding q6voice_path_destroy_def wp_bind wp_rt_read rt(1) option.case
    by (auto intro: wp_mono simp: wp_modify)
qed

lemma dir_bit_simps: "dir_bit True = 2" "dir_bit False = 1"
  by (simp_all add: dir_bit_def)

lemma and_not_ne3: "x AND NOT (dir_bit capture) \<noteq> 3"
proof
  assume a: "x AND NOT (dir_bit capture) = 3"
  have "bit (x AND NOT (dir_bit capture)) (if capture then 1 else 0) = False"
    by (cases capture) (simp_all add: dir_bit_simps bit_simps bit_numeral_rec)
  then show False unfolding a by (cases capture) (simp_all add: bit_numeral_rec)
qed

lemma and_not_and1: "(x AND NOT (dir_bit capture)) AND 1 \<noteq> 0 \<Longrightarrow> x AND 1 \<noteq> 0"
proof -
  assume a: "(x AND NOT (dir_bit capture)) AND 1 \<noteq> 0"
  have "(x AND NOT (dir_bit capture)) AND 1 = (x AND 1) AND NOT (dir_bit capture)"
    by (simp add: ac_simps)
  then show "x AND 1 \<noteq> 0" using a by auto
qed

lemma stop_ok:
  assumes "env_ok env A" "path_ok A (require_both pr) \<sigma>" "0 \<le> path" "path < 8"
  shows "wp (q6voice_stop env pr path capture) (\<lambda>_. path_ok A (require_both pr)) \<sigma>"
proof -
  let ?ps = "vo_paths (io_dev \<sigma>)" and ?i = "nat path"
  have i: "?i < 8" using assms(3,4) by simp
  note o = path_ok_other [OF assms(2) i]
  have len: "length ?ps = 8" using o(1) by (simp add: others_ok_def)
  show ?thesis
  proof (cases "path_runtime ?i (io_dev \<sigma>)")
    case None
    then show ?thesis using assms by (simp add: q6voice_stop_def Let_def wp_simps)
  next
    case (Some rt)
    have own: "own A (with_rt ?ps ?i (Some rt)) {} \<sigma>"
      using assms(2) o(2) Some by (simp add: path_ok_def)
    have ready: "ready (require_both pr) (Some rt)"
      using assms(2) i Some unfolding path_ok_def path_runtime_def by metis
    define rt2 where "rt2 = rt\<lparr>rt_started := rt_started rt AND NOT (dir_bit capture)\<rparr>"
    have ready2: "ready (require_both pr) (Some rt2)"
      using ready and_not_ne3 and_not_and1
      by (auto simp: ready_def active_def rt2_def connected_def split: if_splits)
    have rest: "wp (do {
        modify (rt_modify ?i
          (\<lambda>rt. rt\<lparr>rt_started := rt_started rt AND NOT (dir_bit capture)\<rparr>));
        rt \<leftarrow> rt_read ?i;
        whenM (rt_started rt = 0) (q6voice_path_destroy env ?i);
        ret (0 :: int)
      }) (\<lambda>_. path_ok A (require_both pr)) \<tau>" if w: "own A (with_rt ?ps ?i (Some rt)) {} \<tau>" for \<tau>
    proof -
      let ?t = "\<tau>\<lparr>io_dev := rt_modify ?i
          (\<lambda>rt. rt\<lparr>rt_started := rt_started rt AND NOT (dir_bit capture)\<rparr>) (io_dev \<tau>)\<rparr>"
      have o2: "own A (with_rt ?ps ?i (Some rt2)) {} ?t"
        unfolding rt2_def by (rule own_set_started_io [OF w len i]) simp
      have gone: "wp (q6voice_path_destroy env ?i) (\<lambda>_. path_ok A (require_both pr)) ?t"
        by (rule wp_mono [OF path_destroy_own [OF assms(1) o2 i len]])
          (rule path_okI [OF _ o(1) i ready_None])
      have ok: "path_ok A (require_both pr) ?t" by (rule path_okI [OF o2 o(1) i ready2])
      show ?thesis
        using gone ok own_rt(1) [OF o2 i len] by (simp add: wp_simps)
    qed
    have pre: "wp (whenM (if require_both pr then rt_started rt = 3 else rt_started rt AND 1 \<noteq> 0)
        (q6voice_path_stop env pr ?i)) (\<lambda>_. own A (with_rt ?ps ?i (Some rt)) {}) \<sigma>"
    proof (cases "active (require_both pr) rt")
      case True
      then have "connected rt" using ready by (simp add: ready_def)
      then show ?thesis
        using path_stop_grown [OF assms(1) own i len] own by (simp add: wp_whenM)
    next
      case False
      then show ?thesis using own by (simp add: wp_whenM active_def split: if_splits)
    qed
    have ok: "path_ok A (require_both pr) \<sigma>" by (rule assms(2))
    have "wp (do {
        whenM (if require_both pr then rt_started rt = 3 else rt_started rt AND 1 \<noteq> 0)
          (q6voice_path_stop env pr ?i);
        modify (rt_modify ?i
          (\<lambda>rt. rt\<lparr>rt_started := rt_started rt AND NOT (dir_bit capture)\<rparr>));
        rt \<leftarrow> rt_read ?i;
        whenM (rt_started rt = 0) (q6voice_path_destroy env ?i);
        ret (0 :: int)
      }) (\<lambda>_. path_ok A (require_both pr)) \<sigma>"
      by (subst wp_bind) (rule wp_mono [OF pre rest])
    then show ?thesis
      unfolding q6voice_stop_def Let_def using assms(3,4) ok
      by (simp add: wp_bind wp_gets Some wp_return)
  qed
qed

definition all_idle :: "nat set \<Rightarrow> voice_io \<Rightarrow> bool" where
  "all_idle D \<sigma> \<longleftrightarrow> (\<forall>j\<in>D. path_runtime j (io_dev \<sigma>) = None)"

lemma free_path_ok:
  assumes "env_ok env A" "path_ok A (require_both pr) \<sigma>" "i < 8" "all_idle D \<sigma>" "D \<subseteq> {..<8}"
  shows "wp (q6voice_free_path env pr i)
    (\<lambda>_ \<tau>. path_ok A (require_both pr) \<tau> \<and> all_idle (insert i D) \<tau>) \<sigma>"
proof -
  let ?ps = "vo_paths (io_dev \<sigma>)"
  note o = path_ok_other [OF assms(2,3)]
  have len: "length ?ps = 8" using o(1) by (simp add: others_ok_def)
  show ?thesis
  proof (cases "path_runtime i (io_dev \<sigma>)")
    case None
    then show ?thesis using assms by (simp add: q6voice_free_path_def wp_simps all_idle_def)
  next
    case (Some rt)
    have own: "own A (with_rt ?ps i (Some rt)) {} \<sigma>"
      using assms(2) o(2) Some by (simp add: path_ok_def)
    have ready: "ready (require_both pr) (Some rt)"
      using assms(2,3) Some unfolding path_ok_def path_runtime_def by metis
    have three: "rt_started rt = 3 \<Longrightarrow> connected rt"
      using ready by (simp add: ready_def active_def split: if_splits)
    have fin: "wp (q6voice_path_destroy env i)
        (\<lambda>_ \<tau>. path_ok A (require_both pr) \<tau> \<and> all_idle (insert i D) \<tau>) \<tau>"
      if w: "own A (with_rt ?ps i (Some rt)) {} \<tau>" for \<tau>
    proof (rule wp_mono [OF path_destroy_own [OF assms(1) w assms(3) len]])
      fix \<tau> :: voice_io
      assume n: "own A (with_rt ?ps i None) {} \<tau>"
      have "path_runtime j (io_dev \<tau>) = None" if "j \<in> insert i D" for j
        using n that assms(3,4,5) len
        by (cases "j = i") (auto simp: own_def path_runtime_def all_idle_def)
      then show "path_ok A (require_both pr) \<tau> \<and> all_idle (insert i D) \<tau>"
        using path_okI [OF n o(1) assms(3)] by (auto simp: all_idle_def ready_def)
    qed
    have "wp (whenM (rt_started rt = 3) (q6voice_path_stop env pr i))
        (\<lambda>_. own A (with_rt ?ps i (Some rt)) {}) \<sigma>"
      using own path_stop_grown [OF assms(1) own assms(3) len three] by (simp add: wp_whenM)
    from wp_mono [OF this fin] show ?thesis
      unfolding q6voice_free_path_def by (simp add: wp_bind wp_gets Some)
  qed
qed

lemma free_ok:
  assumes "env_ok env A" "path_ok A (require_both pr) \<sigma>" "all_idle D \<sigma>" "D \<subseteq> {..<8}" "set xs \<subseteq> {..<8}"
  shows "wp (iterM (q6voice_free_path env pr) xs)
    (\<lambda>_ \<tau>. path_ok A (require_both pr) \<tau> \<and> all_idle (D \<union> set xs) \<tau>) \<sigma>"
  using assms
proof (induction xs arbitrary: D \<sigma>)
  case Nil
  then show ?case by (simp add: wp_simps)
next
  case (Cons x xs)
  have "wp (q6voice_free_path env pr x) (\<lambda>_. wp (iterM (q6voice_free_path env pr) xs)
      (\<lambda>_ \<tau>. path_ok A (require_both pr) \<tau> \<and> all_idle (D \<union> set (x # xs)) \<tau>)) \<sigma>"
  proof (rule wp_mono [OF free_path_ok [OF Cons.prems(1,2) _ Cons.prems(3,4), of x]])
    show "x < 8" using Cons.prems(5) by simp
    fix \<tau>
    assume "path_ok A (require_both pr) \<tau> \<and> all_idle (insert x D) \<tau>"
    then show "wp (iterM (q6voice_free_path env pr) xs)
      (\<lambda>_ \<tau>. path_ok A (require_both pr) \<tau> \<and> all_idle (D \<union> set (x # xs)) \<tau>) \<tau>"
      using Cons.IH [of \<tau> "insert x D"] Cons.prems by simp
  qed
  then show ?case by (simp add: wp_bind)
qed

section \<open>The commands that are sent\<close>

definition opcodes :: "vev list \<Rightarrow> u32 list" where
  "opcodes tr = List.map_filter
     (\<lambda>e. case e of Vo_send a pkt \<Rightarrow> Some (ap_opcode pkt) | _ \<Rightarrow> None) tr"

lemma opcodes_simps [simp]:
  "opcodes [] = []"
  "opcodes (tr @ ts) = opcodes tr @ opcodes ts"
  "opcodes (Vo_send a pkt # tr) = ap_opcode pkt # opcodes tr"
  "opcodes (Vo_wait # tr) = opcodes tr"
  "opcodes (Vo_kzalloc # tr) = opcodes tr"
  by (simp_all add: opcodes_def List.map_filter_def)

lemma vo_paths_steps [simp]:
  "vo_paths (raise_fault v) = vo_paths v"
  "vo_paths (sess_modify k f v) = vo_paths v"
  "vo_paths (send_begin k c v) = vo_paths v"
  "vo_paths (send_timeout k v) = vo_paths v"
  "vo_paths (kref_put k v) = vo_paths v"
  by (simp_all add: raise_fault_def sess_modify_def send_begin_def send_timeout_def kref_put_def
      q6voice_session_free_def split: option.split)

lemma vo_paths_callback [simp]: "vo_paths (q6voice_common_callback env a data v) = vo_paths v"
  by (auto simp: q6voice_common_callback_def callback_lookup_def q6voice_session_callback_def
      kref_get_def split: option.split prod.split)

text \<open>The commands sent so far and the paths: what a send changes and what it does not.\<close>

definition sent :: "u32 list \<Rightarrow> q6voice_path list \<Rightarrow> voice_io \<Rightarrow> bool" where
  "sent ops ps \<sigma> \<longleftrightarrow> opcodes (io_trace \<sigma>) = ops \<and> vo_paths (io_dev \<sigma>) = ps"

lemma wp_callbacks_sent:
  "sent ops ps \<sigma> \<Longrightarrow>
   wp (iterM (\<lambda>(a, data). modify (q6voice_common_callback env a data)) rs) (\<lambda>_. sent ops ps) \<sigma>"
  by (rule wp_iterM) (auto simp: wp_simps sent_def split: prod.split)

text \<open>Whatever happens, a send hands the bus its one command and leaves the paths alone.\<close>

lemma wp_send_opcode:
  assumes "sent ops ps \<sigma>" "\<And>r \<tau>. sent (ops @ [ap_opcode hdr]) ps \<tau> \<Longrightarrow> Q r \<tau>"
  shows "wp (q6voice_common_send env s hdr) Q \<sigma>"
proof -
  have fin: "wp (if rc < 0 then ret rc
     else do {
       y \<leftarrow> sess_read s;
       if qs_expected_opcode y \<noteq> 0 then do {
         modify (send_timeout s);
         ret (- ETIMEDOUT)
       } else if 0 < qs_result y then ret (- EIO)
       else ret 0
     }) Q \<tau>" if "sent (ops @ [ap_opcode hdr]) ps \<tau>" for rc \<tau>
    using that by (auto simp: wp_simps sent_def intro!: assms(2) split: option.split)
  show ?thesis
  proof (cases "vo_heap (io_dev \<sigma>) s")
    case None
    show ?thesis
      unfolding q6voice_common_send_def wp_bind wp_sess_read None option.case wp_call wp_modify Let_def
      by (rule wp_mono [OF wp_callbacks_sent fin]) (use assms(1) in \<open>simp_all add: sent_def\<close>)
  next
    case (Some x)
    show ?thesis
      unfolding q6voice_common_send_def wp_bind wp_sess_read Some option.case wp_call wp_modify Let_def
      by (rule wp_mono [OF wp_callbacks_sent fin]) (use assms(1) in \<open>simp_all add: sent_def\<close>)
  qed
qed

lemma wp_commands_opcode:
  assumes "sent ops ps \<sigma>" "\<And>r \<tau>. sent (ops @ [c]) ps \<tau> \<Longrightarrow> Q r \<tau>"
  shows "c = (if b then 0x00011190 else 0x00011192) \<Longrightarrow> wp (q6mvm_start env m b) Q \<sigma>"
    and "c = (if b then 0x0001123E else 0x0001123F) \<Longrightarrow> wp (q6mvm_attach env m p b) Q \<sigma>"
    and "c = (if b then 0x000100C6 else 0x000110E1) \<Longrightarrow> wp (q6cvp_enable env p b) Q \<sigma>"
proof -
  have "sent ops ps (\<sigma>\<lparr>io_dev := raise_fault (io_dev \<sigma>)\<rparr>)" using assms(1) by (simp add: sent_def)
  then show "c = (if b then 0x00011190 else 0x00011192) \<Longrightarrow> wp (q6mvm_start env m b) Q \<sigma>"
    and "c = (if b then 0x0001123E else 0x0001123F) \<Longrightarrow> wp (q6mvm_attach env m p b) Q \<sigma>"
    and "c = (if b then 0x000100C6 else 0x000110E1) \<Longrightarrow> wp (q6cvp_enable env p b) Q \<sigma>"
    using assms
    by (auto simp: q6mvm_start_def q6mvm_attach_def q6cvp_enable_def wp_bind wp_sess_read apr_cmd_def
        intro!: wp_send_opcode split: option.split)
qed

text \<open>The commands of a start, and the command that undoes each.\<close>

definition connect_cmds :: "u32 list" where
  "connect_cmds = [0x000100C6, 0x0001123E, 0x00011190]"

definition undo_cmd :: "u32 \<Rightarrow> u32" where
  "undo_cmd c = (if c = 0x000100C6 then 0x000110E1 else if c = 0x0001123E then 0x0001123F
     else if c = 0x00011190 then 0x00011192 else c)"


lemma stop_sent:
  assumes "sent ops ps \<sigma>" "path_runtime i (io_dev \<sigma>) = Some rt"
    and "rt_sessions rt = [Some m, Some p, None]"
  shows "wp (q6voice_path_stop env pr i)
    (\<lambda>_. sent (ops @ map undo_cmd (rev connect_cmds)) ps) \<sigma>"
  using assms unfolding q6voice_path_stop_def connect_cmds_def undo_cmd_def nonnull_def Let_def
  by (auto simp: wp_simps elim!: wp_commands_opcode [OF _ _ refl])

section \<open>A start with a DSP that answers\<close>

text \<open>
  \<open>coop A B ps E ops svs \<sigma>\<close>: as \<open>own\<close>, and the sessions are on devices in \<open>B\<close>, the registry is \<open>svs\<close>
  and the commands sent are \<open>ops\<close>.
\<close>

definition coop :: "nat set \<Rightarrow> nat set \<Rightarrow> q6voice_path list \<Rightarrow> nat set \<Rightarrow> u32 list \<Rightarrow> nat option list \<Rightarrow>
    voice_io \<Rightarrow> bool" where
  "coop A B ps E ops svs \<sigma> \<longleftrightarrow> own A ps E \<sigma> \<and> opcodes (io_trace \<sigma>) = ops \<and>
     vo_services (io_dev \<sigma>) = svs \<and>
     (\<forall>s\<in>owners ps \<union> E. \<exists>x. vo_heap (io_dev \<sigma>) s = Some x \<and> qs_svc x \<in> B)"

lemma basic_result_simps:
  "reply_status (a, basic_result env h pkt st) = st" "rp_src_port (basic_result env h pkt st) = h"
  by (simp_all add: reply_status_def basic_result_def)

lemma coop_send_handle:
  assumes "env_ok env A" "cooperative env A" "coop A B ps E ops svs \<sigma>" "k \<in> owners ps \<union> E"
    and "B \<subseteq> A" "ap_opcode hdr \<noteq> 0"
  shows "wp (q6voice_common_send env k hdr)
    (\<lambda>r \<tau>. r = 0 \<and> coop A B ps E (ops @ [ap_opcode hdr]) svs \<tau> \<and>
       (\<exists>y. vo_heap (io_dev \<tau>) k = Some y \<and> qs_handle y \<noteq> 0)) \<sigma>"
proof -
  let ?ks = "owners ps \<union> E"
  have own: "own A ps E \<sigma>" and q: "quiet A ?ks (io_dev \<sigma>)"
    using assms(3) by (auto simp: coop_def own_def)
  obtain x where x: "vo_heap (io_dev \<sigma>) k = Some x" "qs_svc x \<in> A"
    using assms(3,4,5) unfolding coop_def by blast
  let ?pkt = "sent_pkt env x hdr"
  obtain h where rc: "0 \<le> ve_send env (io_trace \<sigma>) (Vo_send (qs_svc x) ?pkt)"
    and h: "h \<noteq> 0" "ap_dest_port ?pkt = 0 \<or> h = ap_dest_port ?pkt"
    and rep: "ve_arrivals env (io_trace \<sigma> @ [Vo_send (qs_svc x) ?pkt]) Vo_wait =
        [(qs_svc x, basic_result env h ?pkt 0)]"
    using assms(2) x(2) unfolding cooperative_def by blast
  have ans: "answers env x (ap_opcode hdr) (qs_svc x, basic_result env h ?pkt 0)"
    using h by (simp add: answers_def basic_result_def sent_pkt_def)
  show ?thesis
  proof (rule wp_mono [OF send_outcome [OF assms(1) q assms(4) x(1) assms(6) refl refl refl]], goal_cases)
    case 1
    then show ?case using assms(6) unfolding rep by (simp add: basic_result_def sent_pkt_def)
  next
    case (2 r \<tau>)
    then have t: "io_trace \<tau> = io_trace \<sigma> @ [Vo_send (qs_svc x) ?pkt, Vo_wait]" "r = 0"
      "well A ?ks (io_dev \<sigma>) (io_dev \<tau>)" "\<exists>y. vo_heap (io_dev \<tau>) k = Some y \<and> qs_handle y = h"
      using rc by (auto simp: rep ans basic_result_simps)
    have "own A ps E \<tau>" using own t(3) by (auto simp: own_def well_def frame_def)
    moreover have "\<exists>y. vo_heap (io_dev \<tau>) s = Some y \<and> qs_svc y \<in> B" if "s \<in> ?ks" for s
      using t(3) that assms(3) unfolding well_def frame_def coop_def by metis
    moreover have "vo_services (io_dev \<tau>) = svs"
      using t(3) assms(3) by (simp add: well_def frame_def coop_def)
    moreover have "opcodes (io_trace \<tau>) = ops @ [ap_opcode hdr]"
      using assms(3) by (simp add: t(1) coop_def sent_pkt_def)
    ultimately show ?case using t(2,4) h(1) by (auto simp: coop_def)
  qed
qed

lemma coop_send:
  assumes "env_ok env A" "cooperative env A" "coop A B ps E ops svs \<sigma>" "k \<in> owners ps \<union> E"
    and "B \<subseteq> A" "ap_opcode hdr \<noteq> 0"
  shows "wp (q6voice_common_send env k hdr)
    (\<lambda>r \<tau>. r = 0 \<and> coop A B ps E (ops @ [ap_opcode hdr]) svs \<tau>) \<sigma>"
  by (rule wp_mono [OF coop_send_handle [OF assms]]) simp

lemma coop_create:
  assumes "env_ok env A" "cooperative env A" "coop A B ps {} ops svs \<sigma>" "B \<subseteq> A"
    and "type < Q6VOICE_SERVICE_COUNT" "path < Q6VOICE_PATH_COUNT" "svs ! type = Some a"
    and "a \<in> A" "a \<notin> B" "ap_opcode hdr \<noteq> 0"
  shows "wp (q6voice_session_create env type path hdr)
    (\<lambda>r \<tau>. \<exists>s. r = Inr s \<and> coop A (insert a B) ps {s} (ops @ [ap_opcode hdr]) svs \<tau>) \<sigma>"
proof -
  let ?v = "io_dev \<sigma>"
  have own: "own A ps {} \<sigma>" using assms(3) by (simp add: coop_def)
  have inv: "sess_inv (owners ps) (mset_set (owners ps)) ?v" "quiet A (owners ps) ?v"
    using own by (auto simp: own_def quiet_def)
  have free: "slot ?v a path = None"
  proof (rule ccontr)
    assume "slot ?v a path \<noteq> None"
    then obtain s where "slot ?v a path = Some s" by auto
    then have "s \<in> owners ps" "\<exists>x. vo_heap ?v s = Some x \<and> qs_svc x = a"
      using slot_iff [OF inv(1)] by auto
    then show False using assms(3,9) by (auto simp: coop_def)
  qed
  have alloc: "ve_alloc env tr e" for tr e using assms(2) by (simp add: cooperative_def)
  have svs: "vo_services ?v ! type = Some a" using assms(3,7) by (simp add: coop_def)
  have a: "vo_svcs ?v a \<noteq> None" using inv(2) assms(8) by (auto simp: quiet_def)
  obtain v' r where vr: "session_insert a path ?v = (v', r)" by fastforce
  obtain s where r: "r = Inr s"
    using sess_inv_insert [OF inv(1) a assms(6)] vr free by (cases r) auto
  have new: "s \<notin> owners ps" "quiet A (insert s (owners ps)) v'" "frame (owners ps) ?v v'"
    and h: "vo_heap v' s = Some \<lparr>qs_svc = a, qs_refcount = 1, qs_port = of_nat path,
        qs_handle = 0, qs_expected_opcode = 0, qs_result = 0\<rparr>"
    using insert_steady [OF well_start [OF inv(2)] svs assms(5,6)] vr r by auto
  have start: "coop A (insert a B) ps {s} ops svs \<tau>"
    if "io_dev \<tau> = v'" "opcodes (io_trace \<tau>) = ops" for \<tau>
  proof -
    have "own A ps {s} \<tau>"
      using own new that by (auto simp: own_def frame_def)
    moreover have "\<exists>x. vo_heap v' t = Some x \<and> qs_svc x \<in> insert a B" if "t \<in> owners ps \<union> {s}" for t
      using that h new(3) assms(3) unfolding frame_def coop_def by (cases "t = s") (auto, metis)
    ultimately show ?thesis
      using that new(3) assms(3) by (auto simp: coop_def frame_def)
  qed
  have sub: "insert a B \<subseteq> A" using assms(4,8) by simp
  have "wp (do {
      rc \<leftarrow> q6voice_common_send env s hdr;
      x \<leftarrow> sess_read s;
      if rc \<noteq> 0 then do { q6voice_session_release env s; ret (Inl rc) }
      else if qs_handle x = 0 then do { q6voice_session_release env s; ret (Inl (- EIO)) }
      else ret (Inr s)
    }) (\<lambda>r \<tau>. \<exists>s. r = Inr s \<and> coop A (insert a B) ps {s} (ops @ [ap_opcode hdr]) svs \<tau>) \<tau>"
    if "io_dev \<tau> = v'" "opcodes (io_trace \<tau>) = ops" for \<tau>
    unfolding wp_bind
    by (rule wp_mono [OF coop_send_handle [OF assms(1,2) start [OF that] _ sub assms(10)]])
      (auto simp: wp_sess_read wp_return)
  moreover have "opcodes (io_trace \<sigma>) = ops" using assms(3) by (simp add: coop_def)
  ultimately show ?thesis
    unfolding q6voice_session_create_def
    by (simp add: wp_bind wp_gets wp_call wp_modify svs alloc vr r)
qed

lemma owners_keep:
  assumes "own A (with_rt ps i (Some rt)) E \<sigma>" "i < 8" "t < 3" "length ps = 8"
  shows "owners (with_rt ps i (Some (keep_session rt t s))) \<subseteq> owners (with_rt ps i (Some rt)) \<union> {s}"
proof -
  have "held (with_rt ps i (Some (keep_session rt t s))) j u =
      (if j = i \<and> u = t then Some s else held (with_rt ps i (Some rt)) j u)" for j u
    using assms own_rt(3) [OF assms(1,2,4)]
    by (auto simp: held_with_rt keep_session_def nth_list_update)
  then show ?thesis unfolding owners_def by (auto split: if_splits)
qed

lemma coop_set_session:
  assumes "coop A B (with_rt ps i (Some rt)) {s} ops svs \<sigma>" "i < 8" "t < 3"
    and "rt_sessions rt ! t = None" "length ps = 8"
  shows "coop A B (with_rt ps i (Some (keep_session rt t s))) {} ops svs
    (\<sigma>\<lparr>io_dev := set_session i t s (io_dev \<sigma>)\<rparr>)"
proof -
  have own: "own A (with_rt ps i (Some rt)) {s} \<sigma>" using assms(1) by (simp add: coop_def)
  have "vo_heap (set_session i t s (io_dev \<sigma>)) = vo_heap (io_dev \<sigma>)"
    "vo_services (set_session i t s (io_dev \<sigma>)) = vo_services (io_dev \<sigma>)"
    using own_rt(1) [OF own assms(2,5)]
    by (simp_all add: set_session_def rt_modify_def set_runtime_def)
  then show ?thesis
    using own_set_session [OF own assms(2-5)] owners_keep [OF own assms(2,3,5), of s] assms(1)
    by (auto simp: coop_def)
qed

lemma coop_held:
  assumes "coop A B (with_rt ps i (Some rt)) E ops svs \<sigma>" "i < 8" "length ps = 8" "t < 3"
    and "rt_sessions rt ! t = Some s"
  shows "s \<in> owners (with_rt ps i (Some rt)) \<union> E"
  using own_held [of A ps i rt E \<sigma> t s] assms by (simp add: coop_def)

lemma coop_mvm:
  assumes "env_ok env A" "cooperative env A" "coop A B (with_rt ps i (Some rt)) {} ops svs \<sigma>"
    and "B \<subseteq> A" "i < 8" "length ps = 8" "rt_sessions rt ! 0 = None"
    and "svs ! 0 = Some a" "a \<in> A" "a \<notin> B"
  shows "wp (path_start_mvm env i) (\<lambda>r \<tau>. \<exists>m. r = Inr m \<and>
    coop A (insert a B) (with_rt ps i (Some (keep_session rt 0 m))) {}
      (ops @ [0x000110FF, 0x00011327]) svs \<tau>) \<sigma>"
proof -
  let ?ps = "with_rt ps i (Some rt)"
  have own: "own A ?ps {} \<sigma>" using assms(3) by (simp add: coop_def)
  note rt = own_rt [OF own assms(5,6)]
  have sub: "insert a B \<subseteq> A" using assms(4,9) by simp
  have dual: "wp (q6mvm_set_dual_control env m)
      (\<lambda>r \<tau>. r = 0 \<and> coop A (insert a B) ?ps {m} (ops @ [0x000110FF, 0x00011327]) svs \<tau>) \<tau>"
    if "coop A (insert a B) ?ps {m} (ops @ [0x000110FF]) svs \<tau>" for m \<tau>
    unfolding q6mvm_set_dual_control_def
    by (rule wp_mono [OF coop_send [OF assms(1,2) that _ sub]]) (auto simp: apr_cmd_def)
  have "wp (q6mvm_session_create env i)
      (\<lambda>r \<tau>. \<exists>s. r = Inr s \<and> coop A (insert a B) ?ps {s} (ops @ [0x000110FF]) svs \<tau>) \<sigma>"
    unfolding q6mvm_session_create_def
    by (rule wp_mono [OF coop_create [OF assms(1-4) _ assms(5) assms(8-10)]])
      (auto simp: apr_cmd_def)
  then have "wp (q6mvm_session_create env i) (\<lambda>r. wp (case r of
        Inl e \<Rightarrow> ret (Inl e)
      | Inr m \<Rightarrow> do {
          rc \<leftarrow> q6mvm_set_dual_control env m;
          if rc \<noteq> 0 then do { q6voice_session_release env m; ret (Inl rc) }
          else do { modify (set_session i 0 m); ret (Inr m) }
        }) (\<lambda>r \<tau>. \<exists>m. r = Inr m \<and>
      coop A (insert a B) (with_rt ps i (Some (keep_session rt 0 m))) {}
        (ops @ [0x000110FF, 0x00011327]) svs \<tau>)) \<sigma>"
  proof (rule wp_mono, goal_cases)
    case (1 r \<tau>)
    then obtain m where r: "r = Inr m"
      and c: "coop A (insert a B) ?ps {m} (ops @ [0x000110FF]) svs \<tau>" by blast
    show ?case
      unfolding r sum.case wp_bind
      by (rule wp_mono [OF dual [OF c]])
        (use coop_set_session [OF _ assms(5) _ assms(7,6)] in \<open>auto simp: wp_simps\<close>)
  qed
  then show ?thesis by (simp add: path_start_mvm_def wp_simps rt assms(7))
qed

lemma coop_cvp:
  assumes "env_ok env A" "cooperative env A" "coop A B (with_rt ps i (Some rt)) {} ops svs \<sigma>"
    and "B \<subseteq> A" "i < 8" "length ps = 8" "rt_sessions rt ! 1 = None"
    and "svs ! 1 = Some a" "a \<in> A" "a \<notin> B"
  shows "wp (path_start_cvp env pr i) (\<lambda>r \<tau>. \<exists>p. r = Inr p \<and>
    coop A (insert a B) (with_rt ps i (Some (keep_session rt 1 p))) {}
      (ops @ [0x000112BF]) svs \<tau>) \<sigma>"
proof -
  let ?ps = "with_rt ps i (Some rt)"
  have own: "own A ?ps {} \<sigma>" using assms(3) by (simp add: coop_def)
  note rt = own_rt [OF own assms(5,6)]
  have "wp (q6cvp_session_create env pr i (ucast (tx_port pr)) AFE_PORT_ID_QUATERNARY_MI2S_RX)
      (\<lambda>r \<tau>. \<exists>s. r = Inr s \<and> coop A (insert a B) ?ps {s} (ops @ [0x000112BF]) svs \<tau>) \<sigma>"
    unfolding q6cvp_session_create_def
    by (rule wp_mono [OF coop_create [OF assms(1-4) _ assms(5) assms(8-10)]])
      (auto simp: apr_cmd_def)
  then have "wp (q6cvp_session_create env pr i (ucast (tx_port pr)) AFE_PORT_ID_QUATERNARY_MI2S_RX)
      (\<lambda>r. wp (case r of Inl e \<Rightarrow> ret (Inl e)
         | Inr c \<Rightarrow> do { modify (set_session i 1 c); ret (Inr c) })
      (\<lambda>r \<tau>. \<exists>p. r = Inr p \<and>
        coop A (insert a B) (with_rt ps i (Some (keep_session rt 1 p))) {}
          (ops @ [0x000112BF]) svs \<tau>)) \<sigma>"
    by (rule wp_mono)
      (use coop_set_session [OF _ assms(5) _ assms(7,6)] in \<open>auto simp: wp_simps simp del: One_nat_def\<close>)
  then show ?thesis
    by (simp add: path_start_cvp_def wp_simps rt assms(7) del: One_nat_def)
qed

lemma coop_commands:
  assumes "env_ok env A" "cooperative env A" "B \<subseteq> A" "coop A B qs {} ops svs \<tau>" "m \<in> owners qs"
    and "p \<in> owners qs"
  shows "wp (q6cvp_enable env p True) (\<lambda>r \<tau>. r = 0 \<and> coop A B qs {} (ops @ [0x000100C6]) svs \<tau>) \<tau>"
    and "wp (q6mvm_attach env m p True) (\<lambda>r \<tau>. r = 0 \<and> coop A B qs {} (ops @ [0x0001123E]) svs \<tau>) \<tau>"
    and "wp (q6mvm_start env m True) (\<lambda>r \<tau>. r = 0 \<and> coop A B qs {} (ops @ [0x00011190]) svs \<tau>) \<tau>"
    and "c \<noteq> 0 \<Longrightarrow> wp (q6voice_common_send env p (apr_cmd env c pl))
      (\<lambda>r \<tau>. r = 0 \<and> coop A B qs {} (ops @ [c]) svs \<tau>) \<tau>"
proof -
  have m': "m \<in> owners qs \<union> {}" and p': "p \<in> owners qs \<union> {}" using assms(5,6) by auto
  show "wp (q6cvp_enable env p True) (\<lambda>r \<tau>. r = 0 \<and> coop A B qs {} (ops @ [0x000100C6]) svs \<tau>) \<tau>"
    unfolding q6cvp_enable_def
    by (rule wp_mono [OF coop_send [OF assms(1,2,4) p' assms(3)]]) (auto simp: apr_cmd_def)
  obtain x where x: "vo_heap (io_dev \<tau>) p = Some x"
    using assms(4,6) unfolding coop_def by blast
  show "wp (q6mvm_attach env m p True)
      (\<lambda>r \<tau>. r = 0 \<and> coop A B qs {} (ops @ [0x0001123E]) svs \<tau>) \<tau>"
    unfolding q6mvm_attach_def wp_bind wp_sess_read x option.case
    by (rule wp_mono [OF coop_send [OF assms(1,2,4) m' assms(3)]]) (auto simp: apr_cmd_def)
  show "wp (q6mvm_start env m True) (\<lambda>r \<tau>. r = 0 \<and> coop A B qs {} (ops @ [0x00011190]) svs \<tau>) \<tau>"
    unfolding q6mvm_start_def
    by (rule wp_mono [OF coop_send [OF assms(1,2,4) m' assms(3)]]) (auto simp: apr_cmd_def)
  show "wp (q6voice_common_send env p (apr_cmd env c pl))
      (\<lambda>r \<tau>. r = 0 \<and> coop A B qs {} (ops @ [c]) svs \<tau>) \<tau>" if "c \<noteq> 0"
    by (rule wp_mono [OF coop_send [OF assms(1,2,4) p' assms(3)]]) (use that in \<open>auto simp: apr_cmd_def\<close>)
qed

lemma wp_then_ok:
  assumes "wp m (\<lambda>r \<tau>. r = (0 :: int) \<and> P \<tau>) \<sigma>" "\<And>\<tau>. P \<tau> \<Longrightarrow> wp (f 0) Q \<tau>"
  shows "wp (State_Monad.bind m f) Q \<sigma>"
  unfolding wp_bind by (rule wp_mono [OF assms(1)]) (use assms(2) in auto)

lemma coop_connect:
  assumes "env_ok env A" "cooperative env A" "B \<subseteq> A" "coop A B qs {} ops svs \<tau>" "m \<in> owners qs"
    and "p \<in> owners qs"
  shows "wp (path_connect env m p) (\<lambda>r \<tau>. r = 0 \<and>
    coop A B qs {} (ops @ [0x000100C6, 0x0001123E, 0x00011190]) svs \<tau>) \<tau>"
  unfolding path_connect_def
  by (rule wp_then_ok [OF coop_commands(1) [OF assms]], simp,
      rule wp_then_ok [OF coop_commands(2) [OF assms(1-3) _ assms(5,6)]], assumption, simp,
      rule wp_then_ok [OF coop_commands(3) [OF assms(1-3) _ assms(5,6)]], assumption,
      simp add: wp_return)

lemma coop_mute:
  assumes "env_ok env A" "cooperative env A" "B \<subseteq> A" "coop A B qs {} ops svs \<tau>" "p \<in> owners qs"
  shows "wp (q6cvp_set_mute env p mute) (\<lambda>r \<tau>. r = 0 \<and>
    coop A B qs {} (ops @ [0x0001138B, 0x0001138B]) svs \<tau>) \<tau>"
  unfolding q6cvp_set_mute_def mute_dirs.simps
proof (rule wp_then_ok [OF coop_commands(4) [OF assms(1-4) assms(5) assms(5)]], goal_cases)
  case (2 \<tau>)
  have "wp (do {
      rc \<leftarrow> q6voice_common_send env p (apr_cmd env 0x0001138B pl);
      if rc \<noteq> 0 then ret rc else ret 0
    }) (\<lambda>r \<tau>. r = 0 \<and> coop A B qs {} (ops @ [0x0001138B, 0x0001138B]) svs \<tau>) \<tau>" for pl
    by (rule wp_then_ok [OF coop_commands(4) [OF assms(1-3) 2 assms(5) assms(5)]])
      (simp_all add: wp_return)
  then show ?case by simp
qed simp

lemma coop_path_start:
  assumes "env_ok env A" "cooperative env A" "coop A {} (with_rt ps i (Some rt)) {} ops svs \<sigma>"
    and "i < 8" "length ps = 8" "rt_sessions rt ! 0 = None" "rt_sessions rt ! 1 = None"
    and "svs ! 0 = Some a" "svs ! 1 = Some b" "a \<noteq> b" "a \<in> A" "b \<in> A"
    and "\<not> attach_stream pr" "stack_ok pr junk"
  shows "wp (q6voice_path_start env pr junk i) (\<lambda>r \<tau>. r = 0 \<and> opcodes (io_trace \<tau>) = ops @
    [0x000110FF, 0x00011327, 0x000112BF, 0x000100C6, 0x0001123E, 0x00011190] @
    (if unmute pr then [0x0001138B, 0x0001138B] else [])) \<sigma>"
proof -
  have len: "length (rt_sessions rt) = 3"
    using own_rt(3) [of A ps i rt "{}" \<sigma>] assms(3-5) by (simp add: coop_def)
  have junk: "playback_port pr = 0 \<or> junk = None" using assms(13,14) by (simp add: stack_ok_def)
  have finish: "wp (do {
       rc \<leftarrow> path_connect env m p;
       if rc \<noteq> 0 then ret rc
       else do {
         (if unmute pr then do { _ \<leftarrow> q6cvp_set_mute env p False; ret () } else ret ());
         (case junk of
            None \<Rightarrow> ret ()
          | Some c \<Rightarrow>
              if playback_port pr \<noteq> 0
              then do { _ \<leftarrow> q6cvs_start_playback env c (ucast (playback_port pr)); ret () }
              else ret ());
         ret 0
       }
     }) (\<lambda>r \<tau>. r = 0 \<and> opcodes (io_trace \<tau>) = o' @ [0x000100C6, 0x0001123E, 0x00011190] @
        (if unmute pr then [0x0001138B, 0x0001138B] else [])) \<tau>"
    if c: "coop A {a, b} qs {} o' svs \<tau>" and m: "m \<in> owners qs" and p: "p \<in> owners qs" for m p qs o' \<tau>
  proof -
    have sub: "{a, b} \<subseteq> A" using assms(11,12) by simp
    have play: "(case junk of
            None \<Rightarrow> ret ()
          | Some c \<Rightarrow>
              if playback_port pr \<noteq> 0
              then do { _ \<leftarrow> q6cvs_start_playback env c (ucast (playback_port pr)); ret () }
              else ret ()) = ret ()"
      using junk by (auto split: option.split)
    have mute: "wp (q6cvp_set_mute env p False) (\<lambda>r \<tau>. opcodes (io_trace \<tau>) =
        o' @ [0x000100C6, 0x0001123E, 0x00011190, 0x0001138B, 0x0001138B]) \<tau>"
      if "coop A {a, b} qs {} (o' @ [0x000100C6, 0x0001123E, 0x00011190]) svs \<tau>" for \<tau>
      by (rule wp_mono [OF coop_mute [OF assms(1,2) sub that p]]) (simp add: coop_def)
    show ?thesis
      by (rule wp_then_ok [OF coop_connect [OF assms(1,2) sub c m p]])
        (auto simp: play wp_bind wp_return mute coop_def)
  qed
  show ?thesis
    unfolding q6voice_path_start_def wp_bind
  proof (rule wp_mono [OF coop_mvm [OF assms(1-3) _ assms(4-6,8,11)]], goal_cases)
    case (3 r \<tau>)
    then obtain m where r: "r = Inr m" and
      c1: "coop A {a} (with_rt ps i (Some (keep_session rt 0 m))) {} (ops @ [0x110FF, 0x11327]) svs \<tau>"
      by auto
    let ?rt1 = "keep_session rt 0 m"
    have n1: "rt_sessions ?rt1 ! 1 = None" using assms(7) by (simp add: keep_session_def)
    have "wp (path_start_cvp env pr i) (\<lambda>r \<tau>. \<exists>p. r = Inr p \<and>
        coop A {a, b} (with_rt ps i (Some (keep_session ?rt1 1 p))) {}
          (ops @ [0x110FF, 0x11327, 0x000112BF]) svs \<tau>) \<tau>"
      by (rule wp_mono [OF coop_cvp [OF assms(1,2) c1 _ assms(4,5) n1 assms(9,12)]])
        (use assms(10,11) in \<open>auto simp: insert_commute\<close>)
    note cvp = this
    have cvs: "wp (path_start_cvs env pr junk i m) Q \<tau> = Q (Inr junk) \<tau>" for Q
      using assms(13) by (simp add: path_start_cvs_def wp_return)
    show ?case
      unfolding r sum.case wp_bind cvs
    proof (rule wp_mono [OF cvp], goal_cases)
      case (1 r \<tau>)
      then obtain p where r: "r = Inr p" and
        c2: "coop A {a, b} (with_rt ps i (Some (keep_session ?rt1 1 p))) {}
          (ops @ [0x110FF, 0x11327, 0x000112BF]) svs \<tau>" by auto
      have len1: "length (rt_sessions ?rt1) = 3" using len by (simp add: keep_session_def)
      have "rt_sessions (keep_session ?rt1 1 p) ! 0 = Some m" "rt_sessions (keep_session ?rt1 1 p) ! 1 = Some p"
        using len by (simp_all add: keep_session_def)
      then have "m \<in> owners (with_rt ps i (Some (keep_session ?rt1 1 p)))"
        "p \<in> owners (with_rt ps i (Some (keep_session ?rt1 1 p)))"
        using coop_held [OF c2 assms(4,5), of 0 m] coop_held [OF c2 assms(4,5), of 1 p] by auto
      from finish [OF c2 this] show ?case unfolding r sum.case by (simp add: wp_bind)
    qed
  qed simp_all
qed

section \<open>Sequences of calls\<close>

text \<open>What ALSA calls: prepare and shutdown of either direction, on the path \<open>voice_path\<close> names then.\<close>

datatype voice_call = Vc_prepare "nat option" int bool | Vc_shutdown int bool

fun run_call :: "venv \<Rightarrow> vparams \<Rightarrow> voice_call \<Rightarrow> unit vm" where
  "run_call env pr (Vc_prepare junk path capture) =
     do { _ \<leftarrow> q6voice_dai_prepare env pr junk path capture; ret () }"
| "run_call env pr (Vc_shutdown path capture) = q6voice_dai_shutdown env pr path capture"

fun call_ok :: "vparams \<Rightarrow> voice_call \<Rightarrow> bool" where
  "call_ok pr (Vc_prepare junk path capture) \<longleftrightarrow> 0 \<le> path \<and> path < 8 \<and> stack_ok pr junk"
| "call_ok pr (Vc_shutdown path capture) \<longleftrightarrow> 0 \<le> path \<and> path < 8"

lemma run_call_ok:
  assumes "env_ok env A" "path_ok A (require_both pr) \<sigma>" "call_ok pr c"
  shows "wp (run_call env pr c) (\<lambda>_. path_ok A (require_both pr)) \<sigma>"
proof (cases c)
  case (Vc_prepare junk path capture)
  have "wp (q6voice_start env pr junk path capture)
      (\<lambda>rc. wp (if rc = - EALREADY then ret 0 else ret rc) (\<lambda>_. path_ok A (require_both pr))) \<sigma>"
    by (rule wp_mono [OF start_ok [OF assms(1,2)]]) (use assms(3) Vc_prepare in \<open>auto simp: wp_return\<close>)
  then show ?thesis by (simp add: Vc_prepare q6voice_dai_prepare_def wp_bind wp_return)
next
  case (Vc_shutdown path capture)
  then show ?thesis
    using stop_ok [OF assms(1,2), of path capture] assms(3)
    by (simp add: q6voice_dai_shutdown_def wp_bind wp_return)
qed

lemma run_calls_ok:
  assumes "env_ok env A" "path_ok A (require_both pr) \<sigma>" "\<forall>c\<in>set cs. call_ok pr c"
  shows "wp (iterM (run_call env pr) cs) (\<lambda>_. path_ok A (require_both pr)) \<sigma>"
  by (rule wp_iterM [where Inv = "path_ok A (require_both pr)"])
    (use assms(2,3) run_call_ok [OF assms(1)] in auto)

lemma path_ok_heap:
  assumes "path_ok A both \<sigma>"
  shows "\<not> vo_fault (io_dev \<sigma>)"
    and "vo_heap (io_dev \<sigma>) s \<noteq> None \<longleftrightarrow> (\<exists>i t. held (vo_paths (io_dev \<sigma>)) i t = Some s)"
proof -
  let ?ks = "owners (vo_paths (io_dev \<sigma>))"
  have q: "finite ?ks" "sess_inv ?ks (mset_set ?ks) (io_dev \<sigma>)"
    using assms by (auto simp: path_ok_def own_def quiet_def)
  show "\<not> vo_fault (io_dev \<sigma>)" using q(2) by (simp add: sess_inv_def)
  show "vo_heap (io_dev \<sigma>) s \<noteq> None \<longleftrightarrow> (\<exists>i t. held (vo_paths (io_dev \<sigma>)) i t = Some s)"
    using q unfolding sess_inv_def live_refs_def by (simp add: owners_def)
qed

lemma idle_heap:
  assumes "path_ok A both \<sigma>" "all_idle {..<8} \<sigma>"
  shows "vo_heap (io_dev \<sigma>) s = None"
proof -
  have "length (vo_paths (io_dev \<sigma>)) = 8"
    using assms(1) by (simp add: path_ok_def own_def paths_shape_def)
  then have "held (vo_paths (io_dev \<sigma>)) i t = None" for i t
    using assms(2) by (auto simp: held_def all_idle_def path_runtime_def)
  then show ?thesis using path_ok_heap(2) [OF assms(1), of s] by auto
qed

text \<open>The demonstration system with its paths, before any call.\<close>

definition demo_sys :: voice_io where
  "demo_sys = \<lparr>io_trace = [],
     io_dev = io_dev (snd (run_state (q6voice_create demo_env)
       \<lparr>io_trace = [], io_dev = demo_voice\<rparr>))\<rparr>"

lemma demo_sys_dev: "io_dev demo_sys =
    demo_voice\<lparr>vo_paths := map (\<lambda>i. \<lparr>pa_type = i, pa_runtime = None\<rparr>) [0..<8]\<rparr>"
  by (simp add: demo_sys_def q6voice_create_def)

lemma demo_sys_idle: "j < 8 \<Longrightarrow> path_runtime j (io_dev demo_sys) = None"
  by (simp add: path_runtime_def demo_sys_dev)

lemma demo_sys_ok: "path_ok {10, 20, 30} both demo_sys"
proof -
  let ?ps = "map (\<lambda>i. \<lparr>pa_type = i, pa_runtime = None\<rparr>) [0..<8]"
  have "held ?ps i t = None" for i t by (simp add: held_def)
  then have "owners ?ps = {}" "one_holder ?ps" by (simp_all add: owners_def one_holder_def)
  then show ?thesis
    using demo_voice_quiet by (simp add: path_ok_def own_def paths_shape_def demo_sys_dev)
qed

text \<open>The demonstration system with path 0 open in both directions.\<close>

definition demo_open :: voice_io where
  "demo_open = demo_sys\<lparr>io_dev := set_runtime 0
     (Some \<lparr>rt_sessions = [Some 0, Some 1, None], rt_started = 3\<rparr>) (io_dev demo_sys)\<rparr>"

section \<open>Properties\<close>


text \<open>
  C1: The driver is safe for any sequence of calls. With well formed replies, a fixed setting of
  \<open>require_both\<close>, path numbers in range and (unless the driver owns the stream) nothing on the stack
  where \<open>cvs\<close> is read, any sequence of prepare and shutdown calls of any paths and directions,
  whatever fails on the way, never goes through a null or freed session pointer, and the sessions
  allocated are exactly those the paths hold; removing the driver then frees all of them.
\<close>

theorem q6voice_calls_safe:
  assumes "env_ok env A" "path_ok A (require_both pr) \<sigma>" "\<forall>c\<in>set cs. call_ok pr c"
  shows "wp (iterM (run_call env pr) cs) (\<lambda>_ \<tau>. \<not> vo_fault (io_dev \<tau>) \<and>
       (\<forall>s. vo_heap (io_dev \<tau>) s \<noteq> None \<longleftrightarrow> (\<exists>i t. held (vo_paths (io_dev \<tau>)) i t = Some s))) \<sigma> \<and>
     wp (do { iterM (run_call env pr) cs; q6voice_free env pr })
       (\<lambda>_ \<tau>. \<not> vo_fault (io_dev \<tau>) \<and> (\<forall>s. vo_heap (io_dev \<tau>) s = None)) \<sigma>"
proof
  show "wp (iterM (run_call env pr) cs) (\<lambda>_ \<tau>. \<not> vo_fault (io_dev \<tau>) \<and>
       (\<forall>s. vo_heap (io_dev \<tau>) s \<noteq> None \<longleftrightarrow> (\<exists>i t. held (vo_paths (io_dev \<tau>)) i t = Some s))) \<sigma>"
    by (rule wp_mono [OF run_calls_ok [OF assms]]) (use path_ok_heap in blast)
  have "wp (q6voice_free env pr) (\<lambda>_ \<tau>. \<not> vo_fault (io_dev \<tau>) \<and> (\<forall>s. vo_heap (io_dev \<tau>) s = None)) \<tau>"
    if "path_ok A (require_both pr) \<tau>" for \<tau>
    unfolding q6voice_free_def
  proof (rule wp_mono [OF free_ok [OF assms(1) that, of "{}" "[0..<8]"]])
    show "all_idle {} \<tau>" by (simp add: all_idle_def)
    fix \<tau>' :: voice_io
    assume "path_ok A (require_both pr) \<tau>' \<and> all_idle ({} \<union> set [0..<8]) \<tau>'"
    then show "\<not> vo_fault (io_dev \<tau>') \<and> (\<forall>s. vo_heap (io_dev \<tau>') s = None)"
      using path_ok_heap(1) idle_heap by (metis atLeast_upt sup_bot_left)
  qed auto
  then show "wp (do { iterM (run_call env pr) cs; q6voice_free env pr })
       (\<lambda>_ \<tau>. \<not> vo_fault (io_dev \<tau>) \<and> (\<forall>s. vo_heap (io_dev \<tau>) s = None)) \<sigma>"
    unfolding wp_bind by (rule wp_mono [OF run_calls_ok [OF assms]])
qed

theorem q6voice_calls_safe_witness:
  "wp (do { iterM (run_call demo_env default_params) [Vc_prepare None 0 False, Vc_prepare (Some 99) 0 True,
       Vc_shutdown 0 False]; q6voice_free demo_env default_params })
     (\<lambda>_ \<tau>. \<not> vo_fault (io_dev \<tau>) \<and> (\<forall>s. vo_heap (io_dev \<tau>) s = None)) demo_sys"
  using q6voice_calls_safe [OF demo_env_ok demo_sys_ok, where pr = default_params and
      cs = "[Vc_prepare None 0 False, Vc_prepare (Some 99) 0 True, Vc_shutdown 0 False]"]
  by (simp add: stack_ok_def default_params_def)

text \<open>
  C22: A call starts with the right commands in the right order. On an idle driver with the voice
  manager and processor bound, and a DSP that answers, opening playback sends nothing and opening
  capture sends exactly: create the voice manager session (0x110FF), dual control (0x11327), create
  the voice processor session (0x112BF), enable it (0x100C6), attach it (0x1123E), start the voice
  (0x11190), and an unmute per direction (0x1138B) if \<open>unmute\<close> is set; both calls return 0.
\<close>

theorem q6voice_start_sequence:
  assumes "env_ok env A" "cooperative env A" "path_ok A (require_both pr) \<sigma>"
    and "\<And>j. j < 8 \<Longrightarrow> path_runtime j (io_dev \<sigma>) = None" "0 \<le> path" "path < 8"
    and "vo_services (io_dev \<sigma>) ! Q6VOICE_SERVICE_MVM = Some a" "a \<in> A"
    and "vo_services (io_dev \<sigma>) ! Q6VOICE_SERVICE_CVP = Some b" "b \<in> A" "a \<noteq> b"
    and "\<not> attach_stream pr" "require_both pr" "stack_ok pr junk"
  shows "wp (do {
       r0 \<leftarrow> q6voice_start env pr junk path False;
       r1 \<leftarrow> q6voice_start env pr junk path True;
       ret (r0, r1)
     }) (\<lambda>r \<tau>. r = (0, 0) \<and> opcodes (io_trace \<tau>) = opcodes (io_trace \<sigma>) @
       [0x000110FF, 0x00011327, 0x000112BF, 0x000100C6, 0x0001123E, 0x00011190] @
       (if unmute pr then [0x0001138B, 0x0001138B] else [])) \<sigma>"
proof -
  let ?i = "nat path" and ?ps = "vo_paths (io_dev \<sigma>)" and ?rt = "fresh_runtime\<lparr>rt_started := 3\<rparr>"
  have i: "?i < 8" using assms(5,6) by simp
  have idle: "path_runtime ?i (io_dev \<sigma>) = None" using assms(4) i by simp
  have own: "own A ?ps {} \<sigma>" using assms(3) by (simp add: path_ok_def)
  have len: "length ?ps = 8" using own by (simp add: own_def paths_shape_def)
  have held: "held ?ps j t = None" for j t
    using assms(4) len by (auto simp: held_def path_runtime_def)
  have alloc: "ve_alloc env tr e" for tr e using assms(2) by (simp add: cooperative_def)
  have same: "with_rt ?ps ?i None = ?ps"
    using idle len i by (simp add: path_runtime_def)
  have "own A (with_rt ?ps ?i (Some ?rt)) {} (\<sigma>\<lparr>io_dev := set_runtime ?i (Some ?rt) (io_dev \<sigma>)\<rparr>)"
    by (rule own_set_runtime [where r = None])
      (use own same len i in \<open>auto simp: held_with_rt held fresh_runtime_def\<close>)
  moreover have "held (with_rt ?ps ?i (Some ?rt)) j t = None" for j t
    using len i held by (simp add: held_with_rt fresh_runtime_def)
  ultimately have c: "coop A {} (with_rt ?ps ?i (Some ?rt)) {} (opcodes (io_trace \<tau>))
      (vo_services (io_dev \<sigma>)) \<tau>" if "io_dev \<tau> = set_runtime ?i (Some ?rt) (io_dev \<sigma>)" for \<tau>
    using that by (simp add: coop_def own_def owners_def set_runtime_def)
  have main: "wp (q6voice_path_start env pr junk ?i) (\<lambda>r \<tau>. r = 0 \<and> opcodes (io_trace \<tau>) =
      opcodes (io_trace \<tau>0) @
      [0x000110FF, 0x00011327, 0x000112BF, 0x000100C6, 0x0001123E, 0x00011190] @
      (if unmute pr then [0x0001138B, 0x0001138B] else [])) \<tau>0"
    if "io_dev \<tau>0 = set_runtime ?i (Some ?rt) (io_dev \<sigma>)" for \<tau>0
    by (rule coop_path_start [OF assms(1,2) c [OF that] i len, where a = a and b = b])
      (use assms in \<open>auto simp: fresh_runtime_def\<close>)
  let ?s1 = "set_runtime ?i (Some (fresh_runtime\<lparr>rt_started := 1\<rparr>)) (io_dev \<sigma>)"
  have rd: "path_runtime ?i (set_runtime ?i r v) = r" "set_runtime ?i r (set_runtime ?i r' v) =
      set_runtime ?i r v" if "length (vo_paths v) = 8" for r r' v
    using that i by (simp_all add: path_runtime_def set_runtime_def)
  have first: "wp (q6voice_start env pr junk path False)
      (\<lambda>r \<tau>. r = 0 \<and> io_dev \<tau> = ?s1 \<and> opcodes (io_trace \<tau>) = opcodes (io_trace \<sigma>)) \<sigma>"
    using assms(5,6,13) len
    by (simp add: q6voice_start_def Let_def wp_simps idle alloc rd rt_modify_def dir_bit_def
        fresh_runtime_def)
  have second: "wp (q6voice_start env pr junk path True)
      (\<lambda>r \<tau>. r = 0 \<and> opcodes (io_trace \<tau>) = opcodes (io_trace \<tau>0) @
        [0x000110FF, 0x00011327, 0x000112BF, 0x000100C6, 0x0001123E, 0x00011190] @
        (if unmute pr then [0x0001138B, 0x0001138B] else [])) \<tau>0"
    if "io_dev \<tau>0 = ?s1" for \<tau>0
  proof -
    have "wp (q6voice_path_start env pr junk ?i) (\<lambda>r. wp (do {
        whenM (r \<noteq> 0) (modify (rt_modify ?i
          (\<lambda>rt. rt\<lparr>rt_started := rt_started rt AND NOT (dir_bit True)\<rparr>)));
        ret r }) (\<lambda>r \<tau>. r = 0 \<and> opcodes (io_trace \<tau>) = opcodes (io_trace \<tau>0) @
        [0x000110FF, 0x00011327, 0x000112BF, 0x000100C6, 0x0001123E, 0x00011190] @
        (if unmute pr then [0x0001138B, 0x0001138B] else [])))
        (\<tau>0\<lparr>io_dev := set_runtime ?i (Some ?rt) (io_dev \<sigma>)\<rparr>)"
      by (rule wp_mono [OF main]) (auto simp: wp_simps)
    then show ?thesis
      using assms(5,6,13) len that
      by (simp add: q6voice_start_def Let_def wp_simps rd rt_modify_def dir_bit_def fresh_runtime_def)
  qed
  show ?thesis
    unfolding wp_bind by (rule wp_mono [OF first])
      (use second in \<open>force simp: wp_bind wp_return intro: wp_mono\<close>)
qed

theorem q6voice_start_sequence_witness:
  "wp (do {
       r0 \<leftarrow> q6voice_start demo_env default_params (Some 99) 0 False;
       r1 \<leftarrow> q6voice_start demo_env default_params (Some 99) 0 True;
       ret (r0, r1)
     }) (\<lambda>r \<tau>. r = (0, 0) \<and> opcodes (io_trace \<tau>) = [0x000110FF, 0x00011327, 0x000112BF,
       0x000100C6, 0x0001123E, 0x00011190, 0x0001138B, 0x0001138B]) demo_sys"
proof -
  have svs: "vo_services (io_dev demo_sys) = [Some 10, Some 20, Some 30]"
    by (simp add: demo_sys_dev voice_bound_eq)
  show ?thesis
    by (rule wp_mono [OF q6voice_start_sequence [OF demo_env_ok demo_env_cooperative demo_sys_ok
          demo_sys_idle, where a = 10 and b = 20]])
      (simp_all add: svs default_params_def stack_ok_def, simp add: demo_sys_def)
qed

text \<open>
  Opening the same direction twice is harmless: \<open>prepare\<close> on a direction that is already open (ALSA
  repeats it after an underrun) returns 0, sends nothing and changes nothing.
\<close>

theorem q6voice_prepare_again:
  assumes "0 \<le> path" "path < 8" "path_runtime (nat path) (io_dev \<sigma>) = Some rt"
    and "rt_started rt AND dir_bit capture \<noteq> 0"
  shows "run_state (q6voice_dai_prepare env pr junk path capture) \<sigma> = (0, \<sigma>)"
  using assms by (simp add: q6voice_dai_prepare_def q6voice_start_def rt_read_def Let_def)

theorem q6voice_prepare_again_witness:
  "run_state (q6voice_dai_prepare demo_env default_params None 0 True) demo_open = (0, demo_open)"
  by (rule q6voice_prepare_again [where
        rt = "\<lparr>rt_sessions = [Some 0, Some 1, None], rt_started = 3\<rparr>"])
    (simp_all add: demo_open_def demo_sys_dev set_runtime_def path_runtime_def dir_bit_def)

text \<open>
  With \<open>require_both\<close> off, closing the capture direction stops a call whose playback is still open:
  the last commands sent are those of a stop (stop, detach, disable), while the playback direction
  stays marked as started and keeps its sessions.
\<close>

theorem q6voice_capture_close_stops_call:
  assumes "0 \<le> path" "path < 8" "length (vo_paths (io_dev \<sigma>)) = 8"
    and "path_runtime (nat path) (io_dev \<sigma>) = Some rt"
    and "rt_started rt = 3" "\<not> require_both pr" "rt_sessions rt = [Some m, Some p, None]"
  shows "wp (q6voice_stop env pr path True) (\<lambda>r \<tau>. r = 0 \<and>
     opcodes (io_trace \<tau>) = opcodes (io_trace \<sigma>) @ map undo_cmd (rev connect_cmds) \<and>
     path_runtime (nat path) (io_dev \<tau>) = Some (rt\<lparr>rt_started := 1\<rparr>)) \<sigma>"
proof -
  let ?i = "nat path" and ?ps = "vo_paths (io_dev \<sigma>)"
  have i: "?i < 8" using assms(1,2) by simp
  have "sent (opcodes (io_trace \<sigma>)) ?ps \<sigma>" by (simp add: sent_def)
  note stop = stop_sent [OF this assms(4,7), of env pr]
  have "wp (q6voice_path_stop env pr ?i) (\<lambda>_. wp (do {
      modify (rt_modify ?i (\<lambda>rt. rt\<lparr>rt_started := rt_started rt AND NOT (dir_bit True)\<rparr>));
      rt \<leftarrow> rt_read ?i;
      whenM (rt_started rt = 0) (q6voice_path_destroy env ?i);
      ret (0 :: int)
    }) (\<lambda>r \<tau>. r = 0 \<and>
     opcodes (io_trace \<tau>) = opcodes (io_trace \<sigma>) @ map undo_cmd (rev connect_cmds) \<and>
     path_runtime ?i (io_dev \<tau>) = Some (rt\<lparr>rt_started := 1\<rparr>))) \<sigma>"
  proof (rule wp_mono [OF stop])
    fix \<tau>
    assume "sent (opcodes (io_trace \<sigma>) @ map undo_cmd (rev connect_cmds)) ?ps \<tau>"
    then show "wp (do {
      modify (rt_modify ?i (\<lambda>rt. rt\<lparr>rt_started := rt_started rt AND NOT (dir_bit True)\<rparr>));
      rt \<leftarrow> rt_read ?i;
      whenM (rt_started rt = 0) (q6voice_path_destroy env ?i);
      ret (0 :: int)
    }) (\<lambda>r \<tau>. r = 0 \<and>
     opcodes (io_trace \<tau>) = opcodes (io_trace \<sigma>) @ map undo_cmd (rev connect_cmds) \<and>
     path_runtime ?i (io_dev \<tau>) = Some (rt\<lparr>rt_started := 1\<rparr>)) \<tau>"
      using i assms(3-5)
      by (simp add: wp_simps sent_def rt_modify_def path_runtime_def set_runtime_def dir_bit_def)
  qed
  then show ?thesis
    using assms(1,2,4-6) by (simp add: q6voice_stop_def Let_def wp_simps dir_bit_def)
qed

theorem q6voice_capture_close_stops_call_witness:
  "wp (q6voice_stop demo_env (default_params\<lparr>require_both := False\<rparr>) 0 True)
     (\<lambda>r \<tau>. opcodes (io_trace \<tau>) = [0x00011192, 0x0001123F, 0x000110E1] \<and>
       path_runtime 0 (io_dev \<tau>) = Some \<lparr>rt_sessions = [Some 0, Some 1, None], rt_started = 1\<rparr>)
     demo_open"
  by (rule wp_mono [OF q6voice_capture_close_stops_call [where m = 0 and p = 1 and
        rt = "\<lparr>rt_sessions = [Some 0, Some 1, None], rt_started = 3\<rparr>"]])
    (auto simp: demo_open_def demo_sys_dev set_runtime_def path_runtime_def connect_cmds_def
      undo_cmd_def, simp_all add: demo_sys_def)

end
